(* ===== verification/Prelude.thy ===== *)
theory Prelude
  imports Complex_Main "HOL-Library.Word" "HOL-Library.State_Monad" "HOL-Library.Product_Lexorder"
    "HOL-Library.List_Lexorder" "HOL-Library.Char_ord"
begin

section \<open>Shared vocabulary of the development\<close>

text \<open>
  This theory holds what every component of the grid model shares: the named collections of
  rewrite rules, the state monad in which the Go code's effects are written, the list
  operations that stand for SQL's \<^verbatim>\<open>UPDATE ... WHERE\<close> and \<^verbatim>\<open>ORDER BY ... LIMIT\<close>, Go's truncating
  integer division, and their lemmas.
\<close>

named_theorems effect_simps "how one effectful call acts on the world"
named_theorems store_defs "definitions of the persistence operations"
named_theorems handler_defs "definitions of the request handlers"

subsection \<open>The state monad\<close>

text \<open>
  A Go function that reads or changes shared state is a value of \<^typ>\<open>('s, 'a) state\<close>; its
  error results are values of a sum type, so that every \<^verbatim>\<open>if err != nil\<close> of the source is a case
  distinction of the model.
\<close>

abbreviation ret :: "'a \<Rightarrow> ('s, 'a) state" where
  "ret \<equiv> State_Monad.return"

definition gets :: "('s \<Rightarrow> 'a) \<Rightarrow> ('s, 'a) state" where
  "gets f = State (\<lambda>s. (f s, s))"

definition modify :: "('s \<Rightarrow> 's) \<Rightarrow> ('s, unit) state" where
  "modify f = State (\<lambda>s. ((), f s))"

abbreviation exec :: "('s, 'a) state \<Rightarrow> 's \<Rightarrow> 's" where
  "exec m s \<equiv> snd (run_state m s)"

abbreviation result :: "('s, 'a) state \<Rightarrow> 's \<Rightarrow> 'a" where
  "result m s \<equiv> fst (run_state m s)"

lemma run_state_gets [simp]: "run_state (gets f) s = (f s, s)"
  by (simp add: gets_def)

lemma run_state_modify [simp]: "run_state (modify f) s = ((), f s)"
  by (simp add: modify_def)

text \<open>A Go \<^verbatim>\<open>for range\<close> loop whose body acts on the state: the elements are visited in order.\<close>

primrec for_each :: "'a list \<Rightarrow> ('a \<Rightarrow> ('s, unit) state) \<Rightarrow> ('s, unit) state" where
  "for_each [] body = ret ()"
| "for_each (x # xs) body = do { body x; for_each xs body }"

lemma exec_for_each_Nil [simp]: "exec (for_each [] body) s = s"
  by simp

lemma exec_for_each_Cons [simp]:
  "exec (for_each (x # xs) body) s = exec (for_each xs body) (exec (body x) s)"
  by (simp split: prod.splits)

lemma run_state_for_each: "run_state (for_each xs body) s = ((), exec (for_each xs body) s)"
  by (cases "run_state (for_each xs body) s") simp

subsection \<open>Tables\<close>

text \<open>\<open>update_where P f rows\<close> is \<^verbatim>\<open>UPDATE\<close>: every row that satisfies the condition is changed.\<close>

definition update_where :: "('r \<Rightarrow> bool) \<Rightarrow> ('r \<Rightarrow> 'r) \<Rightarrow> 'r list \<Rightarrow> 'r list" where
  "update_where P f rows = map (\<lambda>r. if P r then f r else r) rows"

text \<open>The number of rows an \<^verbatim>\<open>UPDATE\<close> reports as affected.\<close>

definition rows_affected :: "('r \<Rightarrow> bool) \<Rightarrow> 'r list \<Rightarrow> nat" where
  "rows_affected P rows = length (filter P rows)"

text \<open>
  \<open>order_by key rows\<close> is \<^verbatim>\<open>ORDER BY\<close>, ascending in the key. SQL leaves the order of rows with
  equal keys open; the model keeps their order in the table.
\<close>

definition order_by :: "('r \<Rightarrow> 'k::linorder) \<Rightarrow> 'r list \<Rightarrow> 'r list" where
  "order_by key rows = sort_key key rows"

text \<open>\<^verbatim>\<open>LIMIT 1\<close> on a sorted query: the first row, or no row.\<close>

definition limit1 :: "'r list \<Rightarrow> 'r option" where
  "limit1 rows = (case rows of [] \<Rightarrow> None | r # _ \<Rightarrow> Some r)"

text \<open>\<^verbatim>\<open>LIMIT l OFFSET o\<close>.\<close>

definition page :: "nat \<Rightarrow> nat \<Rightarrow> 'r list \<Rightarrow> 'r list" where
  "page l off rows = take l (drop off rows)"

lemma update_where_Nil [simp]: "update_where P f [] = []"
  by (simp add: update_where_def)

lemma update_where_Cons [simp]:
  "update_where P f (r # rs) = (if P r then f r else r) # update_where P f rs"
  by (simp add: update_where_def)

lemma length_update_where [simp]: "length (update_where P f rows) = length rows"
  by (simp add: update_where_def)

lemma nth_update_where:
  "i < length rows \<Longrightarrow>
     update_where P f rows ! i = (if P (rows ! i) then f (rows ! i) else rows ! i)"
  by (simp add: update_where_def)

lemma set_update_where:
  "set (update_where P f rows) = f ` {r \<in> set rows. P r} \<union> {r \<in> set rows. \<not> P r}"
  by (auto simp: update_where_def)

lemma map_update_where [simp]:
  "(\<And>r. P r \<Longrightarrow> g (f r) = g r) \<Longrightarrow> map g (update_where P f rows) = map g rows"
  by (induction rows) auto

lemma filter_update_where:
  "(\<And>r. P r \<Longrightarrow> Q (f r) = Q r) \<Longrightarrow>
     filter Q (update_where P f rows) = update_where P f (filter Q rows)"
  by (induction rows) auto

lemma rows_affected_0_iff: "rows_affected P rows = 0 \<longleftrightarrow> (\<forall>r \<in> set rows. \<not> P r)"
  by (simp add: rows_affected_def filter_empty_conv)

lemma update_where_unaffected: "rows_affected P rows = 0 \<Longrightarrow> update_where P f rows = rows"
  by (induction rows) (auto simp: rows_affected_def split: if_splits)

lemma set_order_by [simp]: "set (order_by key rows) = set rows"
  by (simp add: order_by_def)

lemma length_order_by [simp]: "length (order_by key rows) = length rows"
  by (simp add: order_by_def)

lemma order_by_Nil [simp]: "order_by key [] = []"
  by (simp add: order_by_def)

lemma order_by_Nil_iff [simp]: "order_by key rows = [] \<longleftrightarrow> rows = []"
  by (metis length_order_by length_0_conv)

lemma limit1_None_iff [simp]: "limit1 rows = None \<longleftrightarrow> rows = []"
  by (simp add: limit1_def split: list.splits)

lemma limit1_Some_in: "limit1 rows = Some r \<Longrightarrow> r \<in> set rows"
  by (auto simp: limit1_def split: list.splits)

lemma limit1_order_by_Some:
  assumes "limit1 (order_by key rows) = Some r"
  shows "r \<in> set rows \<and> (\<forall>s \<in> set rows. key r \<le> key s)"
proof -
  obtain rs where rs: "sort_key key rows = r # rs"
    using assms by (auto simp: limit1_def order_by_def split: list.splits)
  have sorted: "sorted (map key (r # rs))"
    using sorted_sort_key [of key rows] rs by simp
  have set: "set rows = insert r (set rs)"
    using rs by (metis list.simps(15) set_sort)
  show ?thesis
    using sorted set by auto
qed

lemma limit1_rev_order_by_Some:
  assumes "limit1 (rev (order_by key rows)) = Some r"
  shows "r \<in> set rows \<and> (\<forall>s \<in> set rows. key s \<le> key r)"
proof -
  obtain rs where rs: "sort_key key rows = rs @ [r]"
    using assms by (cases "sort_key key rows" rule: rev_cases) (auto simp: limit1_def order_by_def)
  have sorted: "sorted (map key (rs @ [r]))"
    using sorted_sort_key [of key rows] rs by simp
  have set: "set rows = insert r (set rs)"
    using arg_cong [OF rs, of set] by simp
  show ?thesis
    using sorted set by (auto simp: sorted_append)
qed

lemma set_page_subset: "set (page l off rows) \<subseteq> set rows"
  by (auto simp: page_def dest: in_set_takeD in_set_dropD)

lemma length_page_le: "length (page l off rows) \<le> l"
  by (simp add: page_def)

text \<open>The first row that satisfies a condition (a query by key).\<close>

lemma find_SomeD: "find P xs = Some x \<Longrightarrow> P x \<and> x \<in> set xs"
  by (metis (no_types) find_Some_iff nth_mem)

lemma find_update_where_same_key:
  assumes "\<And>r. key (f r) = key r"
  shows "find (\<lambda>r. key r = k) (update_where P f rows) =
    map_option (\<lambda>r. if P r then f r else r) (find (\<lambda>r. key r = k) rows)"
  using assms by (induction rows) auto

lemma update_where_key:
  assumes "distinct (map key rows)" "i < length rows"
  shows "update_where (\<lambda>r. key r = key (rows ! i)) f rows = rows[i := f (rows ! i)]"
proof (rule nth_equalityI)
  fix j assume "j < length (update_where (\<lambda>r. key r = key (rows ! i)) f rows)"
  then have j: "j < length rows" by simp
  have "key (rows ! j) = key (rows ! i) \<longleftrightarrow> j = i"
    using assms j nth_eq_iff_index_eq [of "map key rows" j i] by simp
  with j show "update_where (\<lambda>r. key r = key (rows ! i)) f rows ! j = rows[i := f (rows ! i)] ! j"
    by (simp add: nth_update_where nth_list_update)
qed simp

subsection \<open>Go arithmetic\<close>

text \<open>Go's \<^verbatim>\<open>/\<close> on integers truncates towards zero.\<close>

definition go_div :: "int \<Rightarrow> int \<Rightarrow> int" where
  "go_div a b = sgn a * sgn b * (\<bar>a\<bar> div \<bar>b\<bar>)"

lemma go_div_nonneg: "0 \<le> a \<Longrightarrow> 0 < b \<Longrightarrow> go_div a b = a div b"
  by (cases "a = 0") (auto simp: go_div_def)

lemma go_div_abs_le:
  assumes "0 < b"
  shows "\<bar>go_div a b\<bar> \<le> \<bar>a\<bar>"
proof -
  have "0 \<le> \<bar>a\<bar> div b" and le: "\<bar>a\<bar> div b \<le> \<bar>a\<bar>"
    using assms zdiv_mono2 [of "\<bar>a\<bar>" 1 b] by (auto simp: pos_imp_zdiv_nonneg_iff)
  then have "\<bar>go_div a b\<bar> \<le> \<bar>a\<bar> div b"
    using assms by (simp add: go_div_def abs_mult sgn_if)
  with le show ?thesis by simp
qed

text \<open>The columns of SQL type \<^verbatim>\<open>INT\<close> hold 32-bit signed integers; the driver refuses other values.\<close>

definition fits_int4 :: "int \<Rightarrow> bool" where
  "fits_int4 i \<longleftrightarrow> - (2 ^ 31) \<le> i \<and> i < 2 ^ 31"

subsection \<open>Relations kept by effectful code\<close>

text \<open>
  A property of the form ``this code never does that to the state'' is a reflexive and
  transitive relation between the state before and the state after. The locale gives the
  closure rules once; the components instantiate it with their own relations.
\<close>

locale kept_relation =
  fixes R :: "'s \<Rightarrow> 's \<Rightarrow> bool"
  assumes R_refl: "R s s"
    and R_trans: "R s t \<Longrightarrow> R t u \<Longrightarrow> R s u"
begin

definition keeps :: "('s, 'a) state \<Rightarrow> bool" where
  "keeps m \<longleftrightarrow> (\<forall>s. R s (exec m s))"

lemma keepsI: "(\<And>s. R s (exec m s)) \<Longrightarrow> keeps m"
  by (simp add: keeps_def)

lemma keepsD: "keeps m \<Longrightarrow> R s (exec m s)"
  by (simp add: keeps_def)

lemma keeps_ret: "keeps (ret x)"
  by (simp add: keeps_def R_refl)

lemma keeps_gets: "keeps (gets f)"
  by (simp add: keeps_def R_refl)

lemma keeps_modify: "(\<And>s. R s (f s)) \<Longrightarrow> keeps (modify f)"
  by (simp add: keeps_def)

lemma keeps_bind:
  assumes "keeps m" and "\<And>x. keeps (f x)"
  shows "keeps (State_Monad.bind m f)"
proof (rule keepsI)
  fix s
  obtain x t where xt: "run_state m s = (x, t)" by fastforce
  have "R s t" using keepsD [OF assms(1), of s] xt by simp
  moreover have "R t (exec (f x) t)" by (rule keepsD [OF assms(2)])
  ultimately show "R s (exec (State_Monad.bind m f) s)"
    using xt by (simp add: R_trans)
qed

lemma keeps_if: "(b \<Longrightarrow> keeps m) \<Longrightarrow> (\<not> b \<Longrightarrow> keeps n) \<Longrightarrow> keeps (if b then m else n)"
  by simp

lemma keeps_case_sum:
  "(\<And>e. keeps (f e)) \<Longrightarrow> (\<And>x. keeps (g x)) \<Longrightarrow> keeps (case r of Inl e \<Rightarrow> f e | Inr x \<Rightarrow> g x)"
  by (cases r) simp_all

lemma keeps_case_option:
  "keeps m \<Longrightarrow> (\<And>x. keeps (g x)) \<Longrightarrow> keeps (case r of None \<Rightarrow> m | Some x \<Rightarrow> g x)"
  by (cases r) simp_all

lemma keeps_case_prod: "(\<And>x y. keeps (f x y)) \<Longrightarrow> keeps (case p of (x, y) \<Rightarrow> f x y)"
  by (cases p) simp

lemma keeps_Let: "(\<And>x. keeps (f x)) \<Longrightarrow> keeps (let x = a in f x)"
  by (simp add: Let_def)

lemma keeps_for_each: "(\<And>x. keeps (body x)) \<Longrightarrow> keeps (for_each xs body)"
  by (induction xs) (simp_all add: keeps_ret keeps_bind)

lemmas keeps_intros =
  keeps_ret keeps_gets keeps_bind keeps_if keeps_case_sum keeps_case_option keeps_case_prod
  keeps_Let keeps_for_each

end

end
