(* ===== verification/Go_Lib.thy ===== *)
theory Go_Lib
  imports Prelude
begin

section \<open>The parts of Go's standard library the code computes with\<close>

text \<open>
  A Go string is its bytes, and so is an Isabelle \<^typ>\<open>string\<close>. The functions of \<^verbatim>\<open>strings\<close>,
  \<^verbatim>\<open>strconv\<close>, \<^verbatim>\<open>encoding/hex\<close>, \<^verbatim>\<open>encoding/base64\<close> and \<^verbatim>\<open>encoding/binary\<close> that the repository calls,
  on the arguments it gives them (single-byte separators).
\<close>

type_synonym byte = "8 word"

definition bytes_of :: "string \<Rightarrow> byte list" where
  "bytes_of s = map (\<lambda>c. of_nat (of_char c)) s"

subsection \<open>strings\<close>

definition HasPrefix :: "string \<Rightarrow> string \<Rightarrow> bool" where
  "HasPrefix s p \<longleftrightarrow> take (length p) s = p"

definition TrimPrefix :: "string \<Rightarrow> string \<Rightarrow> string" where
  "TrimPrefix s p = (if HasPrefix s p then drop (length p) s else s)"

definition HasSuffix :: "string \<Rightarrow> string \<Rightarrow> bool" where
  "HasSuffix s p \<longleftrightarrow> length p \<le> length s \<and> drop (length s - length p) s = p"

fun Contains :: "string \<Rightarrow> string \<Rightarrow> bool" where
  "Contains [] p = (p = [])"
| "Contains (c # s) p = (HasPrefix (c # s) p \<or> Contains s p)"

text \<open>\<^verbatim>\<open>strings.Split(s, sep)\<close> for a one-byte separator: always at least one part.\<close>

fun Split :: "char \<Rightarrow> string \<Rightarrow> string list" where
  "Split sep [] = [[]]"
| "Split sep (c # s) =
     (if c = sep then [] # Split sep s
      else case Split sep s of [] \<Rightarrow> [[c]] | p # ps \<Rightarrow> (c # p) # ps)"

text \<open>\<^verbatim>\<open>strings.SplitN(s, sep, 2)\<close>.\<close>

fun SplitN2 :: "char \<Rightarrow> string \<Rightarrow> string list" where
  "SplitN2 sep [] = [[]]"
| "SplitN2 sep (c # s) =
     (if c = sep then [[], s]
      else case SplitN2 sep s of [] \<Rightarrow> [[c]] | p # ps \<Rightarrow> (c # p) # ps)"

definition Join :: "string \<Rightarrow> string list \<Rightarrow> string" where
  "Join sep parts = (case parts of [] \<Rightarrow> [] | p # ps \<Rightarrow> p @ concat (map (\<lambda>q. sep @ q) ps))"

text \<open>\<^verbatim>\<open>strings.Trim(s, cutset)\<close> for a one-byte cutset, and \<^verbatim>\<open>strings.TrimSpace\<close> on ASCII space.\<close>

definition Trim :: "char \<Rightarrow> string \<Rightarrow> string" where
  "Trim c s = rev (dropWhile (\<lambda>x. x = c) (rev (dropWhile (\<lambda>x. x = c) s)))"

definition is_space :: "char \<Rightarrow> bool" where
  "is_space c \<longleftrightarrow> c = CHR '' '' \<or> c = CHR 0x09 \<or> c = CHR 0x0A \<or> c = CHR 0x0B \<or> c = CHR 0x0C \<or> c = CHR 0x0D"

definition TrimSpace :: "string \<Rightarrow> string" where
  "TrimSpace s = rev (dropWhile is_space (rev (dropWhile is_space s)))"

text \<open>\<^verbatim>\<open>strings.Fields\<close>: the maximal runs of non-space bytes.\<close>

fun Fields_acc :: "string \<Rightarrow> string \<Rightarrow> string list" where
  "Fields_acc cur [] = (if cur = [] then [] else [rev cur])"
| "Fields_acc cur (c # s) =
     (if is_space c then (if cur = [] then Fields_acc [] s else rev cur # Fields_acc [] s)
      else Fields_acc (c # cur) s)"

definition Fields :: "string \<Rightarrow> string list" where
  "Fields s = Fields_acc [] s"

text \<open>\<^verbatim>\<open>strings.EqualFold\<close> on ASCII letters.\<close>

definition lower :: "char \<Rightarrow> char" where
  "lower c = (if CHR ''A'' \<le> c \<and> c \<le> CHR ''Z'' then char_of (of_char c + 32 :: nat) else c)"

definition EqualFold :: "string \<Rightarrow> string \<Rightarrow> bool" where
  "EqualFold s t \<longleftrightarrow> map lower s = map lower t"

text \<open>\<^verbatim>\<open>strings.ReplaceAll(s, old, new)\<close> for a one-byte \<^verbatim>\<open>old\<close>.\<close>

definition ReplaceAll :: "char \<Rightarrow> string \<Rightarrow> string \<Rightarrow> string" where
  "ReplaceAll old new s = concat (map (\<lambda>c. if c = old then new else [c]) s)"

text \<open>\<^verbatim>\<open>s[:strings.LastIndex(s, sep)]\<close> for a one-byte separator, \<^verbatim>\<open>None\<close> where the index is -1.\<close>

definition before_last :: "char \<Rightarrow> string \<Rightarrow> string option" where
  "before_last sep s =
     (case dropWhile (\<lambda>c. c \<noteq> sep) (rev s) of [] \<Rightarrow> None | _ # r \<Rightarrow> Some (rev r))"

subsection \<open>strconv\<close>

fun digits :: "nat \<Rightarrow> string" where
  "digits n = (if n < 10 then [char_of (48 + n)] else digits (n div 10) @ [char_of (48 + n mod 10)])"

declare digits.simps [simp del]

definition Itoa :: "int \<Rightarrow> string" where
  "Itoa i = (if i < 0 then CHR ''-'' # digits (nat (- i)) else digits (nat i))"

definition is_digit :: "char \<Rightarrow> bool" where
  "is_digit c \<longleftrightarrow> CHR ''0'' \<le> c \<and> c \<le> CHR ''9''"

definition digit_val :: "char \<Rightarrow> int" where
  "digit_val c = int (of_char c) - 48"

definition digits_val :: "string \<Rightarrow> int" where
  "digits_val s = foldl (\<lambda>n c. n * 10 + digit_val c) 0 s"

text \<open>\<^verbatim>\<open>strconv.Atoi\<close>: an optional sign, then decimal digits, within 64 bits.\<close>

definition Atoi :: "string \<Rightarrow> int option" where
  "Atoi s =
     (let neg = (s \<noteq> [] \<and> hd s = CHR ''-'');
          body = (if s \<noteq> [] \<and> (hd s = CHR ''-'' \<or> hd s = CHR ''+'') then tl s else s);
          n = digits_val body; v = (if neg then - n else n)
      in if body \<noteq> [] \<and> list_all is_digit body \<and> - (2 ^ 63) \<le> v \<and> v < 2 ^ 63
         then Some v else None)"

subsection \<open>encoding/hex\<close>

definition hex_digit :: "nat \<Rightarrow> char" where
  "hex_digit n = (if n < 10 then char_of (48 + n) else char_of (87 + n))"

definition hex_val :: "char \<Rightarrow> nat option" where
  "hex_val c =
     (let n = of_char c in
      if 48 \<le> n \<and> n \<le> 57 then Some (n - 48)
      else if 97 \<le> n \<and> n \<le> 102 then Some (n - 87)
      else if 65 \<le> n \<and> n \<le> 70 then Some (n - 55)
      else None)"

primrec hex_encode :: "byte list \<Rightarrow> string" where
  "hex_encode [] = []"
| "hex_encode (b # bs) = hex_digit (unat b div 16) # hex_digit (unat b mod 16) # hex_encode bs"

fun hex_decode :: "string \<Rightarrow> byte list option" where
  "hex_decode [] = Some []"
| "hex_decode [c] = None"
| "hex_decode (c # d # s) =
     (case hex_val c of None \<Rightarrow> None
      | Some h \<Rightarrow> case hex_val d of None \<Rightarrow> None
        | Some l \<Rightarrow> map_option (\<lambda>bs. of_nat (16 * h + l) # bs) (hex_decode s))"

lemma byte_unat_less: "unat (b :: byte) < 256"
  using unsigned_less [of b] by simp

lemma byte_nibbles: "unat (b :: byte) div 16 < 16" "unat (b :: byte) mod 16 < 16"
  using byte_unat_less [of b] by auto

lemma hex_val_digit: "n < 16 \<Longrightarrow> hex_val (hex_digit n) = Some n"
  by (auto simp: hex_val_def hex_digit_def Let_def of_char_of)

lemma hex_decode_encode [simp]: "hex_decode (hex_encode bs) = Some bs"
proof (induction bs)
  case (Cons b bs)
  then show ?case by (simp add: hex_val_digit byte_nibbles)
qed simp

lemma hex_encode_inj: "hex_encode xs = hex_encode ys \<longleftrightarrow> xs = ys"
  by (metis hex_decode_encode option.inject)

lemma length_hex_encode [simp]: "length (hex_encode bs) = 2 * length bs"
  by (induction bs) simp_all

lemma hex_digit_ne_dollar: "n < 16 \<Longrightarrow> hex_digit n \<noteq> CHR ''$''"
  by (auto simp: hex_digit_def char_of_eq_iff take_bit_eq_mod)

lemma hex_encode_no_dollar: "CHR ''$'' \<notin> set (hex_encode bs)"
proof (induction bs)
  case (Cons b bs)
  then show ?case using hex_digit_ne_dollar [OF byte_nibbles(1) [of b]]
      hex_digit_ne_dollar [OF byte_nibbles(2) [of b]] by auto
qed simp

subsection \<open>encoding/base64, the raw URL alphabet\<close>

definition b64_char :: "nat \<Rightarrow> char" where
  "b64_char n =
     (if n < 26 then char_of (65 + n)
      else if n < 52 then char_of (71 + n)
      else if n < 62 then char_of (n - 4)
      else if n = 62 then CHR ''-'' else CHR ''_'')"

fun b64_encode :: "byte list \<Rightarrow> string" where
  "b64_encode [] = []"
| "b64_encode [a] = [b64_char (unat a div 4), b64_char (unat a mod 4 * 16)]"
| "b64_encode [a, b] = [b64_char (unat a div 4), b64_char (unat a mod 4 * 16 + unat b div 16),
     b64_char (unat b mod 16 * 4)]"
| "b64_encode (a # b # c # s) =
     b64_char (unat a div 4) # b64_char (unat a mod 4 * 16 + unat b div 16) #
     b64_char (unat b mod 16 * 4 + unat c div 64) # b64_char (unat c mod 64) # b64_encode s"

lemma length_b64_encode: "length (b64_encode bs) = (4 * length bs + 2) div 3"
  by (induction bs rule: b64_encode.induct) auto

subsection \<open>encoding/binary, big endian 32-bit\<close>

definition be32 :: "32 word \<Rightarrow> byte list" where
  "be32 n = [ucast (drop_bit 24 n), ucast (drop_bit 16 n), ucast (drop_bit 8 n), ucast n]"

fun read_be32 :: "byte list \<Rightarrow> (32 word \<times> byte list) option" where
  "read_be32 (a # b # c # d # rest) =
     Some (word_of_nat (((unat a * 256 + unat b) * 256 + unat c) * 256 + unat d), rest)"
| "read_be32 _ = None"

lemma unat_ucast_drop_bit:
  "unat (ucast (drop_bit k (n :: 32 word)) :: byte) = unat n div 2 ^ k mod 256"
proof -
  have "unat n < 2 ^ 32" using unsigned_less [of n] by simp
  then have "take_bit 32 (unat n) = unat n" by (rule take_bit_nat_eq_self)
  then show ?thesis
    by (simp add: unsigned_ucast_eq unsigned_drop_bit_eq take_bit_eq_mod [of 8] flip: drop_bit_eq_div)
qed

lemma base256_digits:
  fixes x :: nat
  assumes "x < 2 ^ 32"
  shows "((x div 2 ^ 24 mod 256 * 256 + x div 2 ^ 16 mod 256) * 256 + x div 2 ^ 8 mod 256) * 256
    + x mod 256 = x"
proof -
  let ?a = "x div 256" and ?b = "x div 256 div 256" and ?c = "x div 256 div 256 div 256"
  have div: "x div 2 ^ 24 = ?c" "x div 2 ^ 16 = ?b" "x div 2 ^ 8 = ?a"
    by (simp_all flip: div_mult2_eq)
  have "?c < 256" using assms by (simp add: less_mult_imp_div_less)
  then have "?c mod 256 * 256 + ?b mod 256 = ?b"
    by (metis div_mult_mod_eq mod_less)
  moreover have "?b * 256 + ?a mod 256 = ?a" and "?a * 256 + x mod 256 = x"
    by (rule div_mult_mod_eq)+
  ultimately show ?thesis by (simp only: div)
qed

lemma read_be32_be32 [simp]: "read_be32 (be32 n @ rest) = Some (n, rest)"
proof -
  have "unat n < 2 ^ 32" using unsigned_less [of n] by simp
  note digits = base256_digits [OF this]
  show ?thesis
    using unat_ucast_drop_bit [of 24 n] unat_ucast_drop_bit [of 16 n] unat_ucast_drop_bit [of 8 n]
      unat_ucast_drop_bit [of 0 n] digits
    by (simp add: be32_def)
qed

subsection \<open>Strings: lemmas\<close>

lemma HasPrefix_append [simp]: "HasPrefix (p @ s) p"
  by (simp add: HasPrefix_def)

lemma HasPrefix_iff: "HasPrefix s p \<longleftrightarrow> (\<exists>r. s = p @ r)"
  by (metis HasPrefix_append HasPrefix_def append_take_drop_id)

lemma Split_nonempty [simp]: "Split sep s \<noteq> []"
  by (induction s) (auto split: list.splits)

lemma Split_no_sep: "sep \<notin> set s \<Longrightarrow> Split sep s = [s]"
  by (induction s) auto

lemma Split_parts_no_sep: "p \<in> set (Split sep s) \<Longrightarrow> sep \<notin> set p"
  by (induction s arbitrary: p) (auto split: if_splits list.splits)

lemma Join_Split: "Join [sep] (Split sep s) = s"
proof (induction s)
  case (Cons c s)
  then show ?case
    by (cases "Split sep s") (auto simp: Join_def)
qed (simp add: Join_def)

end
