(* ===== verification/Domain.thy ===== *)
theory Domain
  imports Go_Lib
begin

section \<open>The domain types of the control plane\<close>

text \<open>
  The structs and enumerations of \<^verbatim>\<open>internal/domain/types.go\<close>. A UUID is its 128 bits; an
  instant is the number of microseconds since the Unix epoch (the resolution of PostgreSQL's
  \<^verbatim>\<open>TIMESTAMPTZ\<close>); a pointer field that may be nil is an option; the free-form documents
  (\<^verbatim>\<open>map[string]any\<close>) are maps from keys to JSON values. Go's string-typed enumerations admit
  any string, so the task state has a constructor for the others.
\<close>

type_synonym uuid = "128 word"
type_synonym time = int

text \<open>A finite float64 is a rational number; JSON has no other numbers.\<close>

type_synonym float64 = rat

datatype json =
    JNull
  | JBool bool
  | JNum float64
  | JStr string
  | JArr "json list"
  | JObj "(string \<times> json) list"

type_synonym jsonmap = "string \<rightharpoonup> json"

text \<open>Durations, in microseconds.\<close>

definition Second :: time where
  "Second = 1000000"

definition Minute :: time where
  "Minute = 60 * Second"

definition Hour :: time where
  "Hour = 60 * Minute"

subsection \<open>Enumerations\<close>

datatype WorkerState =
    WorkerStateIdle
  | WorkerStateBusy
  | WorkerStatePaused
  | WorkerStateOffline

datatype TaskState =
    TaskStateQueued
  | TaskStateAssigned
  | TaskStateRunning
  | TaskStateCompleted
  | TaskStateFailed
  | TaskStateCancelled
  | TaskStateOther string

text \<open>The conversion \<^verbatim>\<open>domain.TaskState(s)\<close> of a string, and \<^verbatim>\<open>string(state)\<close> back.\<close>

definition TaskState_of_string :: "string \<Rightarrow> TaskState" where
  "TaskState_of_string s =
     (if s = ''queued'' then TaskStateQueued
      else if s = ''assigned'' then TaskStateAssigned
      else if s = ''running'' then TaskStateRunning
      else if s = ''completed'' then TaskStateCompleted
      else if s = ''failed'' then TaskStateFailed
      else if s = ''cancelled'' then TaskStateCancelled
      else TaskStateOther s)"

primrec string_of_TaskState :: "TaskState \<Rightarrow> string" where
  "string_of_TaskState TaskStateQueued = ''queued''"
| "string_of_TaskState TaskStateAssigned = ''assigned''"
| "string_of_TaskState TaskStateRunning = ''running''"
| "string_of_TaskState TaskStateCompleted = ''completed''"
| "string_of_TaskState TaskStateFailed = ''failed''"
| "string_of_TaskState TaskStateCancelled = ''cancelled''"
| "string_of_TaskState (TaskStateOther s) = s"

lemma string_of_TaskState_of_string [simp]: "string_of_TaskState (TaskState_of_string s) = s"
  by (simp add: TaskState_of_string_def)

type_synonym TaskType = string

datatype ReviewStatus =
    ReviewStatusPending
  | ReviewStatusApproved
  | ReviewStatusRejected
  | ReviewStatusChangesRequested
  | ReviewStatusOther string

definition ReviewStatus_of_string :: "string \<Rightarrow> ReviewStatus" where
  "ReviewStatus_of_string s =
     (if s = ''pending'' then ReviewStatusPending
      else if s = ''approved'' then ReviewStatusApproved
      else if s = ''rejected'' then ReviewStatusRejected
      else if s = ''changes_requested'' then ReviewStatusChangesRequested
      else ReviewStatusOther s)"

datatype ActorType = ActorTypeAPIKey | ActorTypeSystem

subsection \<open>Entities\<close>

record OrgUnit =
  org_ID :: uuid
  org_Name :: string
  org_PlanTier :: string
  org_Policy :: jsonmap
  org_CreatedAt :: time
  org_UpdatedAt :: time

record Worker =
  wk_ID :: uuid
  wk_OrgUnitID :: uuid
  wk_HostnameHash :: string
  wk_Agents :: "string list"
  wk_State :: WorkerState
  wk_LastHeartbeatAt :: "time option"
  wk_CapacityScore :: int
  wk_CreatedAt :: time

record Task =
  t_ID :: uuid
  t_OrgUnitID :: uuid
  t_SubmitterID :: "uuid option"
  t_Title :: string
  t_Description :: string
  t_TaskType :: TaskType
  t_Priority :: int
  t_AIAgent :: string
  t_State :: TaskState
  t_AssignedWorkerID :: "uuid option"
  t_QueuedAt :: time
  t_AssignedAt :: "time option"
  t_StartedAt :: "time option"
  t_CompletedAt :: "time option"
  t_FailedAt :: "time option"
  t_ErrorMessage :: string
  t_RetryCount :: int
  t_MaxRetries :: int
  t_Options :: jsonmap

record APIKey =
  k_ID :: uuid
  k_OrgUnitID :: uuid
  k_WorkerID :: "uuid option"
  k_KeyHash :: string
  k_KeyPrefix :: string
  k_Name :: string
  k_Scopes :: "string list"
  k_CreatedAt :: time
  k_ExpiresAt :: "time option"
  k_RevokedAt :: "time option"
  k_LastUsedAt :: "time option"

record AuditEvent =
  ev_ID :: uuid
  ev_OrgUnitID :: uuid
  ev_ActorType :: ActorType
  ev_ActorID :: string
  ev_Action :: string
  ev_ResourceType :: string
  ev_ResourceID :: "string option"
  ev_Details :: jsonmap
  ev_IPAddress :: string
  ev_OccurredAt :: time

record ArtifactMeta =
  am_RelPath :: string
  am_SHA256 :: string
  am_Size :: int

record OutputPackage =
  o_ID :: uuid
  o_TaskID :: uuid
  o_WorkerID :: uuid
  o_HMACSha256 :: string
  o_Artifacts :: "ArtifactMeta list"
  o_Metadata :: jsonmap
  o_ReviewStatus :: ReviewStatus
  o_ReviewerID :: "uuid option"
  o_SubmittedAt :: time
  o_ReviewedAt :: "time option"

record BrownieEvent =
  be_ID :: uuid
  be_WorkerID :: uuid
  be_OrgUnitID :: uuid
  be_Points :: int
  be_Reason :: string
  be_ReferenceID :: "uuid option"
  be_CreatedAt :: time

record TimeWindow =
  tw_DayOfWeek :: "int list"
  tw_StartHour :: int
  tw_EndHour :: int
  tw_Timezone :: string

record OrgPolicy =
  op_ExecutionWindows :: "TimeWindow list"
  op_MaxConcurrentJobs :: int
  op_AllowedAgents :: "string list"
  op_AutoMerge :: bool
  op_RequireReview :: bool
  op_MaxRetries :: int

text \<open>One row of the brownie leaderboard (\<^verbatim>\<open>internal/brownie/ledger.go\<close>).\<close>

record LeaderboardEntry =
  le_WorkerID :: uuid
  le_OrgUnitID :: uuid
  le_TotalPoints :: int
  le_EventCount :: nat

end
