(* ===== verification/Hub.thy ===== *)
theory Hub
  imports Domain "HOL-Library.Multiset"
begin

section \<open>The hub of server-sent events\<close>

text \<open>
  \<^verbatim>\<open>internal/dashboard/hub.go\<close>: the registered clients per organisation, their bounded channels, and
  the operations that register, unregister and broadcast. The inner maps of the two-level map are
  shared by reference (\<open>Broadcast\<close> keeps one after releasing the lock), so they live in a store of
  their own and the outer map holds references. A send on a closed channel panics, which is the
  result \<^verbatim>\<open>None\<close> here.
\<close>

record Event =
  he_ID :: string
  he_Type :: string
  he_Data :: json

datatype chan = NoChan | Open "Event list" | Closed

record hub =
  h_orgs :: "(uuid \<times> nat) list"
  h_inner :: "nat \<Rightarrow> uuid list"
  h_next :: nat
  h_chans :: "uuid \<Rightarrow> chan"
  h_max :: int

definition chan_capacity :: nat where
  "chan_capacity = 32"

definition NewHub :: "int \<Rightarrow> hub" where
  "NewHub maxClients = \<lparr>h_orgs = [], h_inner = (\<lambda>_. []), h_next = 0, h_chans = (\<lambda>_. NoChan),
     h_max = maxClients\<rparr>"

definition total_clients :: "hub \<Rightarrow> nat" where
  "total_clients h = sum_list (map (\<lambda>(og, rf). length (h_inner h rf)) (h_orgs h))"

definition clients_of :: "hub \<Rightarrow> uuid \<Rightarrow> uuid list" where
  "clients_of h orgID = (case map_of (h_orgs h) orgID of None \<Rightarrow> [] | Some rf \<Rightarrow> h_inner h rf)"

text \<open>\<open>cid\<close> is the fresh id of the new client. The result is \<^verbatim>\<open>None\<close> at the limit.\<close>

definition hub_Register :: "uuid \<Rightarrow> uuid \<Rightarrow> hub \<Rightarrow> uuid option \<times> hub" where
  "hub_Register orgID cid h =
     (if h_max h \<le> int (total_clients h) then (None, h)
      else (Some cid,
        case map_of (h_orgs h) orgID of
          Some rf \<Rightarrow> h\<lparr>h_inner := (h_inner h)(rf := h_inner h rf @ [cid]),
            h_chans := (h_chans h)(cid := Open [])\<rparr>
        | None \<Rightarrow> h\<lparr>h_orgs := h_orgs h @ [(orgID, h_next h)],
            h_inner := (h_inner h)(h_next h := [cid]), h_next := Suc (h_next h),
            h_chans := (h_chans h)(cid := Open [])\<rparr>))"

definition hub_delete :: "uuid \<Rightarrow> uuid \<Rightarrow> hub \<Rightarrow> hub" where
  "hub_delete orgID cid h = (case map_of (h_orgs h) orgID of
     None \<Rightarrow> h
   | Some rf \<Rightarrow>
       let rest = filter (\<lambda>c. c \<noteq> cid) (h_inner h rf) in
       h\<lparr>h_inner := (h_inner h)(rf := rest),
         h_orgs := (if rest = [] then filter (\<lambda>(og, _). og \<noteq> orgID) (h_orgs h) else h_orgs h)\<rparr>)"

text \<open>Closing a closed channel panics as well.\<close>

definition hub_Unregister :: "uuid \<Rightarrow> uuid \<Rightarrow> hub \<Rightarrow> hub option" where
  "hub_Unregister orgID cid h = (case h_chans h cid of
     Open buf \<Rightarrow> Some ((hub_delete orgID cid h)\<lparr>h_chans := (h_chans h)(cid := Closed)\<rparr>)
   | _ \<Rightarrow> None)"

text \<open>The \<^verbatim>\<open>select\<close> with a default: a full buffer drops the event.\<close>

definition try_send :: "Event \<Rightarrow> uuid \<Rightarrow> hub \<Rightarrow> hub option" where
  "try_send ev cid h = (case h_chans h cid of
     Open buf \<Rightarrow> Some (if length buf < chan_capacity
       then h\<lparr>h_chans := (h_chans h)(cid := Open (buf @ [ev]))\<rparr> else h)
   | _ \<Rightarrow> None)"

primrec send_each :: "Event \<Rightarrow> uuid list \<Rightarrow> hub \<Rightarrow> hub option" where
  "send_each ev [] h = Some h"
| "send_each ev (c # cs) h = (case try_send ev c h of None \<Rightarrow> None | Some h' \<Rightarrow> send_each ev cs h')"

text \<open>\<open>Broadcast\<close> when nothing runs in between, and \<open>BroadcastAll\<close>, which holds the lock.\<close>

definition Broadcast :: "uuid \<Rightarrow> Event \<Rightarrow> hub \<Rightarrow> hub option" where
  "Broadcast orgID ev h = send_each ev (clients_of h orgID) h"

definition BroadcastAll :: "Event \<Rightarrow> hub \<Rightarrow> hub option" where
  "BroadcastAll ev h = send_each ev (concat (map (\<lambda>(og, rf). h_inner h rf) (h_orgs h))) h"

text \<open>The connection's loop takes the oldest event from its channel.\<close>

definition receive :: "uuid \<Rightarrow> hub \<Rightarrow> (Event \<times> hub) option" where
  "receive cid h = (case h_chans h cid of
     Open (ev # buf) \<Rightarrow> Some (ev, h\<lparr>h_chans := (h_chans h)(cid := Open buf)\<rparr>)
   | _ \<Rightarrow> None)"

text \<open>What \<open>writeSSEEvent\<close> writes; the JSON text of the data is given.\<close>

definition sse_text :: "(json \<Rightarrow> string option) \<Rightarrow> Event \<Rightarrow> string" where
  "sse_text marshal ev = (case marshal (he_Data ev) of
     None \<Rightarrow> []
   | Some dataBytes \<Rightarrow>
       (if he_ID ev \<noteq> [] then ''id: '' @ he_ID ev @ [CHR 0x0A] else []) @
       ''event: '' @ he_Type ev @ [CHR 0x0A] @ ''data: '' @ dataBytes @ [CHR 0x0A, CHR 0x0A])"

subsection \<open>Interleaved execution\<close>

text \<open>
  One broadcast runs beside the connections. It takes its reference to the inner map under the
  lock and iterates without it: each round takes a client of the map as it is then, and sends in
  a step of its own. \<open>panicked\<close> is the state after a panic.
\<close>

datatype bcast =
    Idle
  | Iterating Event nat "uuid list"
  | Sending Event nat "uuid list" uuid
  | Panicked

inductive hub_step :: "hub \<times> bcast \<Rightarrow> hub \<times> bcast \<Rightarrow> bool" where
  Connect: "h_chans h cid = NoChan \<Longrightarrow> hub_Register orgID cid h = (Some cid, h') \<Longrightarrow>
    hub_step (h, b) (h', b)"
| Disconnect: "cid \<in> set (clients_of h orgID) \<Longrightarrow> hub_Unregister orgID cid h = Some h' \<Longrightarrow>
    hub_step (h, b) (h', b)"
| Receive: "receive cid h = Some (ev, h') \<Longrightarrow> hub_step (h, b) (h', b)"
| Start: "map_of (h_orgs h) orgID = Some rf \<Longrightarrow> hub_step (h, Idle) (h, Iterating ev rf [])"
| Take: "c \<in> set (h_inner h rf) \<Longrightarrow> c \<notin> set seen \<Longrightarrow>
    hub_step (h, Iterating ev rf seen) (h, Sending ev rf seen c)"
| Send: "try_send ev c h = Some h' \<Longrightarrow>
    hub_step (h, Sending ev rf seen c) (h', Iterating ev rf (c # seen))"
| Panic: "try_send ev c h = None \<Longrightarrow> hub_step (h, Sending ev rf seen c) (h, Panicked)"
| Finish: "set (h_inner h rf) \<subseteq> set seen \<Longrightarrow> hub_step (h, Iterating ev rf seen) (h, Idle)"
| All: "BroadcastAll ev h = Some h' \<Longrightarrow> hub_step (h, b) (h', b)"
| AllPanic: "BroadcastAll ev h = None \<Longrightarrow> hub_step (h, b) (h, Panicked)"

subsection \<open>The invariant\<close>

definition live_clients :: "hub \<Rightarrow> uuid list" where
  "live_clients h = concat (map (\<lambda>(og, rf). h_inner h rf) (h_orgs h))"

definition is_open :: "chan \<Rightarrow> bool" where
  "is_open c = (case c of Open buf \<Rightarrow> length buf \<le> chan_capacity | _ \<Rightarrow> False)"

definition hub_ok :: "hub \<Rightarrow> bool" where
  "hub_ok h \<longleftrightarrow> distinct (map fst (h_orgs h)) \<and> distinct (map snd (h_orgs h))
     \<and> (\<forall>rf \<in> set (map snd (h_orgs h)). rf < h_next h)
     \<and> distinct (live_clients h)
     \<and> (\<forall>c \<in> set (live_clients h). is_open (h_chans h c))
     \<and> (live_clients h = [] \<or> int (length (live_clients h)) \<le> h_max h)"

lemma total_clients_live: "total_clients h = length (live_clients h)"
proof -
  have "sum_list (map (\<lambda>(og, rf). length (f rf)) xs) = length (concat (map (\<lambda>(og, rf). f rf) xs))"
    for f :: "nat \<Rightarrow> uuid list" and xs :: "(uuid \<times> nat) list"
    by (induction xs) auto
  then show ?thesis by (simp add: total_clients_def live_clients_def)
qed

lemma hub_ok_NewHub: "hub_ok (NewHub m)"
  by (simp add: hub_ok_def NewHub_def live_clients_def)

lemma clients_of_live:
  assumes "c \<in> set (clients_of h orgID)"
  shows "c \<in> set (live_clients h)"
proof -
  from assms obtain rf where rf: "map_of (h_orgs h) orgID = Some rf" "c \<in> set (h_inner h rf)"
    by (cases "map_of (h_orgs h) orgID") (simp_all add: clients_of_def)
  from map_of_SomeD [OF rf(1)] rf(2) show ?thesis
    unfolding live_clients_def set_concat set_map by blast
qed

text \<open>The ids kept by a list of references into the store of inner maps.\<close>

definition held :: "(nat \<Rightarrow> uuid list) \<Rightarrow> (uuid \<times> nat) list \<Rightarrow> uuid list" where
  "held f xs = concat (map (\<lambda>(og, rf). f rf) xs)"

lemma live_held: "live_clients h = held (h_inner h) (h_orgs h)"
  by (simp add: live_clients_def held_def)

lemma held_simps [simp]:
  "held f [] = []" "held f ((og, rf) # xs) = f rf @ held f xs" "held f (xs @ ys) = held f xs @ held f ys"
  by (simp_all add: held_def)

lemma held_fresh: "rf \<notin> set (map snd xs) \<Longrightarrow> held (f(rf := cs)) xs = held f xs"
  by (induction xs) auto

lemma held_extend:
  "rf \<in> set (map snd xs) \<Longrightarrow> distinct (map snd xs) \<Longrightarrow>
     mset (held (f(rf := f rf @ [c])) xs) = add_mset c (mset (held f xs))"
proof (induction xs)
  case (Cons x xs)
  obtain og r where x: "x = (og, r)" by (cases x)
  show ?case
  proof (cases "r = rf")
    case True
    with Cons.prems x have "rf \<notin> set (map snd xs)" by auto
    then have "held (f(rf := f rf @ [c])) xs = held f xs" by (rule held_fresh)
    with x True show ?thesis by (simp del: fun_upd_apply add: fun_upd_same)
  next
    case False
    with Cons.prems x have "rf \<in> set (map snd xs)" by auto
    with Cons x False show ?thesis by (simp del: fun_upd_apply add: fun_upd_other)
  qed
qed simp

lemma held_member: "rf \<in> set (map snd xs) \<Longrightarrow> c \<in> set (f rf) \<Longrightarrow> c \<in> set (held f xs)"
proof -
  assume "rf \<in> set (map snd xs)" and c: "c \<in> set (f rf)"
  then obtain og where "(og, rf) \<in> set xs" by auto
  then have "f rf \<in> set (map (\<lambda>(og, rf). f rf) xs)" by force
  with c show ?thesis unfolding held_def set_concat by blast
qed

lemma held_delete:
  "rf \<in> set (map snd xs) \<Longrightarrow> distinct (map snd xs) \<Longrightarrow> c \<in> set (f rf) \<Longrightarrow> distinct (held f xs) \<Longrightarrow>
     held (f(rf := filter (\<lambda>d. d \<noteq> c) (f rf))) xs = filter (\<lambda>d. d \<noteq> c) (held f xs)"
proof (induction xs)
  case (Cons x xs)
  obtain og r where x: "x = (og, r)" by (cases x)
  show ?case
  proof (cases "r = rf")
    case True
    with Cons.prems x have "rf \<notin> set (map snd xs)" and "c \<notin> set (held f xs)" by auto
    then have "held (f(rf := filter (\<lambda>d. d \<noteq> c) (f rf))) xs = filter (\<lambda>d. d \<noteq> c) (held f xs)"
      using held_fresh [of rf xs f] filter_True [of "held f xs" "\<lambda>d. d \<noteq> c"] by fastforce
    then show ?thesis using x True by (simp del: fun_upd_apply add: fun_upd_same)
  next
    case False
    with Cons.prems x have rf: "rf \<in> set (map snd xs)" by auto
    then have "c \<in> set (held f xs)" using Cons.prems(3) by (rule held_member)
    then have "c \<notin> set (f r)" using Cons.prems(4) x by auto
    then have "filter (\<lambda>d. d \<noteq> c) (f r) = f r" by (auto simp: filter_id_conv)
    moreover have "held (f(rf := filter (\<lambda>d. d \<noteq> c) (f rf))) xs = filter (\<lambda>d. d \<noteq> c) (held f xs)"
      by (rule Cons.IH [OF rf]) (use Cons.prems x in simp_all)
    ultimately show ?thesis using x False by (simp del: fun_upd_apply add: fun_upd_other)
  qed
qed simp

lemma held_drop_empty:
  "distinct (map fst xs) \<Longrightarrow> map_of xs og = Some rf \<Longrightarrow> f rf = [] \<Longrightarrow>
     held f (filter (\<lambda>(a, _). a \<noteq> og) xs) = held f xs"
proof (induction xs)
  case (Cons x xs)
  obtain a r where x: "x = (a, r)" by (cases x)
  show ?case
  proof (cases "a = og")
    case True
    with Cons.prems x have "\<forall>y \<in> set xs. fst y \<noteq> og" by force
    then have "filter (\<lambda>(a, _). a \<noteq> og) xs = xs" by (auto simp: filter_id_conv)
    then show ?thesis using Cons.prems x True by simp
  qed (use Cons x in auto)
qed simp

lemma live_Register:
  assumes "hub_ok h" "hub_Register og cid h = (Some cid, h')"
  shows "mset (live_clients h') = add_mset cid (mset (live_clients h))
    \<and> int (length (live_clients h)) < h_max h \<and> h_max h' = h_max h"
proof (cases "map_of (h_orgs h) og")
  case None
  have "h_next h \<notin> set (map snd (h_orgs h))" using assms(1) by (auto simp: hub_ok_def)
  with None assms show ?thesis
    by (auto simp: hub_Register_def live_held total_clients_live held_fresh split: if_splits)
next
  case (Some rf)
  then have "rf \<in> set (map snd (h_orgs h))" by (force dest: map_of_SomeD)
  from held_extend [OF this] Some assms show ?thesis
    by (auto simp: hub_Register_def live_held total_clients_live hub_ok_def split: if_splits)
qed

lemma hub_ok_Register:
  assumes ok: "hub_ok h" and reg: "hub_Register og cid h = (Some cid, h')"
    and fresh: "h_chans h cid = NoChan"
  shows "hub_ok h'"
proof -
  note live = live_Register [OF ok reg]
  then have set: "set (live_clients h') = insert cid (set (live_clients h))"
    by (metis set_mset_add_mset_insert set_mset_mset)
  have new: "cid \<notin> set (live_clients h)" using ok fresh by (auto simp: hub_ok_def is_open_def)
  have "distinct (live_clients h')"
    using live new ok by (metis distinct.simps(2) hub_ok_def mset.simps(2) mset_eq_imp_distinct_iff)
  moreover have "h_chans h' = (h_chans h)(cid := Open [])"
    using reg by (auto simp: hub_Register_def split: if_splits option.splits)
  then have "\<forall>c \<in> set (live_clients h'). is_open (h_chans h' c)"
    using ok by (auto simp: set hub_ok_def is_open_def)
  moreover have "int (length (live_clients h')) \<le> h_max h'"
    using live by (metis Suc_eq_plus1 add.commute add1_zle_eq length_Cons mset.simps(2) mset_eq_length of_nat_Suc)
  moreover have "distinct (map fst (h_orgs h')) \<and> distinct (map snd (h_orgs h'))
     \<and> (\<forall>rf \<in> set (map snd (h_orgs h')). rf < h_next h')"
  proof (cases "map_of (h_orgs h) og")
    case None
    then have "og \<notin> set (map fst (h_orgs h))" by (simp add: map_of_eq_None_iff)
    moreover have "h_next h \<notin> set (map snd (h_orgs h))" using ok by (auto simp: hub_ok_def)
    moreover have "h_orgs h' = h_orgs h @ [(og, h_next h)]" "h_next h' = Suc (h_next h)"
      using reg None by (auto simp: hub_Register_def split: if_splits)
    ultimately show ?thesis using ok by (auto simp: hub_ok_def less_SucI)
  next
    case (Some rf)
    then have "h_orgs h' = h_orgs h" "h_next h' = h_next h"
      using reg by (auto simp: hub_Register_def split: if_splits)
    then show ?thesis using ok by (simp add: hub_ok_def)
  qed
  ultimately show ?thesis by (simp add: hub_ok_def)
qed

lemma live_delete:
  assumes ok: "hub_ok h" and c: "cid \<in> set (clients_of h og)"
  shows "live_clients (hub_delete og cid h) = filter (\<lambda>c. c \<noteq> cid) (live_clients h)"
proof -
  from c obtain rf where rf: "map_of (h_orgs h) og = Some rf" "cid \<in> set (h_inner h rf)"
    by (cases "map_of (h_orgs h) og") (simp_all add: clients_of_def)
  then have "rf \<in> set (map snd (h_orgs h))" by (force dest: map_of_SomeD)
  from held_delete [OF this, of cid "h_inner h"] rf ok show ?thesis
    by (auto simp: hub_delete_def live_held hub_ok_def Let_def held_drop_empty)
qed

lemma hub_ok_Unregister:
  assumes ok: "hub_ok h" and c: "cid \<in> set (clients_of h og)"
    and un: "hub_Unregister og cid h = Some h'"
  shows "hub_ok h' \<and> live_clients h' = filter (\<lambda>c. c \<noteq> cid) (live_clients h)"
proof -
  have h': "h' = (hub_delete og cid h)\<lparr>h_chans := (h_chans h)(cid := Closed)\<rparr>"
    using un by (auto simp: hub_Unregister_def split: chan.splits)
  have live: "live_clients h' = filter (\<lambda>c. c \<noteq> cid) (live_clients h)"
    using live_delete [OF ok c] by (simp add: h' live_clients_def)
  have rest: "h_max h' = h_max h" "set (h_orgs h') \<subseteq> set (h_orgs h)" "h_next h' = h_next h"
    "distinct (map fst (h_orgs h'))" "distinct (map snd (h_orgs h'))"
    using ok by (auto simp: h' hub_delete_def Let_def hub_ok_def distinct_map intro: inj_on_subset split: option.splits)
  have "length (live_clients h') \<le> length (live_clients h)" by (simp add: live)
  then have "live_clients h' = [] \<or> int (length (live_clients h')) \<le> h_max h'"
  proof -
    assume le: "length (live_clients h') \<le> length (live_clients h)"
    from ok have "live_clients h = [] \<or> int (length (live_clients h)) \<le> h_max h"
      by (simp add: hub_ok_def)
    then show ?thesis using le rest(1) by auto
  qed
  moreover have "\<forall>rf \<in> set (map snd (h_orgs h')). rf < h_next h'"
    using ok rest(2,3) unfolding hub_ok_def by auto
  moreover have "h_chans h' = (h_chans h)(cid := Closed)" by (simp add: h')
  then have "\<forall>c \<in> set (live_clients h'). is_open (h_chans h' c)"
    using ok by (auto simp: live hub_ok_def)
  moreover have "distinct (live_clients h')" using ok by (simp add: live hub_ok_def)
  ultimately show ?thesis
    using rest(4,5) live unfolding hub_ok_def by blast
qed

lemma try_send_keeps:
  assumes "try_send ev c h = Some h'"
  shows "live_clients h' = live_clients h \<and> h_orgs h' = h_orgs h \<and> h_inner h' = h_inner h
    \<and> h_next h' = h_next h \<and> h_max h' = h_max h
    \<and> (\<forall>d. is_open (h_chans h d) \<longrightarrow> is_open (h_chans h' d)) \<and> (\<forall>d. d \<noteq> c \<longrightarrow> h_chans h' d = h_chans h d)"
  using assms by (auto simp: try_send_def live_clients_def is_open_def split: chan.splits if_splits)

lemma hub_ok_try_send: "try_send ev c h = Some h' \<Longrightarrow> hub_ok h \<Longrightarrow> hub_ok h'"
  using try_send_keeps [of ev c h h'] by (auto simp: hub_ok_def)

lemma send_each_open:
  assumes "\<forall>c \<in> set cs. is_open (h_chans h c)"
  shows "\<exists>h'. send_each ev cs h = Some h' \<and> h_orgs h' = h_orgs h \<and> h_inner h' = h_inner h
    \<and> h_next h' = h_next h \<and> h_max h' = h_max h
    \<and> (\<forall>d. is_open (h_chans h d) \<longrightarrow> is_open (h_chans h' d)) \<and> (\<forall>d. d \<notin> set cs \<longrightarrow> h_chans h' d = h_chans h d)"
  using assms
proof (induction cs arbitrary: h)
  case (Cons c cs)
  then obtain h1 where h1: "try_send ev c h = Some h1"
    by (auto simp: try_send_def is_open_def split: chan.splits)
  note k = try_send_keeps [OF h1]
  from k Cons.prems have "\<forall>c \<in> set cs. is_open (h_chans h1 c)" by auto
  from Cons.IH [OF this] h1 k show ?case by auto
qed auto

lemma send_each_distinct:
  assumes "\<forall>c \<in> set cs. is_open (h_chans h c)" "distinct cs" "send_each ev cs h = Some h'" "c \<in> set cs"
    "h_chans h c = Open buf"
  shows "h_chans h' c = Open (if length buf < chan_capacity then buf @ [ev] else buf)"
  using assms
proof (induction cs arbitrary: h)
  case (Cons d cs)
  then obtain h1 where h1: "try_send ev d h = Some h1" "send_each ev cs h1 = Some h'"
    by (auto split: option.splits)
  note k = try_send_keeps [OF h1(1)]
  have open1: "\<forall>c \<in> set cs. is_open (h_chans h1 c)" using k Cons.prems(1) by auto
  show ?case
  proof (cases "c = d")
    case True
    with Cons.prems have "c \<notin> set cs" by simp
    with send_each_open [OF open1, of ev] h1(2) have "h_chans h' c = h_chans h1 c" by auto
    with True h1(1) Cons.prems(5) show ?thesis by (auto simp: try_send_def split: if_splits)
  next
    case False
    with Cons.prems k have "c \<in> set cs" "h_chans h1 c = Open buf" by auto
    with Cons.IH [OF open1 _ h1(2)] Cons.prems(2) show ?thesis by simp
  qed
qed simp

lemma hub_ok_send_each:
  assumes ok: "hub_ok h" and cs: "set cs \<subseteq> set (live_clients h)"
  shows "\<exists>h'. send_each ev cs h = Some h' \<and> hub_ok h'"
proof -
  have "\<forall>c \<in> set cs. is_open (h_chans h c)" using ok cs by (auto simp: hub_ok_def)
  from send_each_open [OF this, of ev] obtain h' where h': "send_each ev cs h = Some h'"
    "h_orgs h' = h_orgs h" "h_inner h' = h_inner h" "h_next h' = h_next h" "h_max h' = h_max h"
    "\<forall>d. is_open (h_chans h d) \<longrightarrow> is_open (h_chans h' d)" by blast
  then have "live_clients h' = live_clients h" by (simp add: live_clients_def)
  with ok h' show ?thesis by (auto simp: hub_ok_def)
qed

lemma hub_ok_receive: "receive cid h = Some (ev, h') \<Longrightarrow> hub_ok h \<Longrightarrow> hub_ok h'"
proof -
  assume r: "receive cid h = Some (ev, h')" and ok: "hub_ok h"
  then obtain buf where buf: "h_chans h cid = Open (ev # buf)" "h' = h\<lparr>h_chans := (h_chans h)(cid := Open buf)\<rparr>"
    by (auto simp: receive_def split: chan.splits list.splits)
  then have "live_clients h' = live_clients h" by (simp add: live_clients_def)
  moreover have "is_open (h_chans h' c)" if "is_open (h_chans h c)" for c
    using that buf by (auto simp: is_open_def)
  ultimately show ?thesis using ok buf by (auto simp: hub_ok_def)
qed

lemma hub_ok_step: "hub_step s t \<Longrightarrow> hub_ok (fst s) \<Longrightarrow> hub_ok (fst t)"
proof (induction rule: hub_step.induct)
  case (Connect h cid orgID h' b)
  then show ?case by (auto intro: hub_ok_Register)
next
  case (Disconnect cid h orgID h' b)
  then show ?case using hub_ok_Unregister by simp
next
  case (Receive cid h ev h' b)
  then show ?case by (auto intro: hub_ok_receive)
next
  case (Send ev c h h' rf seen)
  then show ?case by (auto intro: hub_ok_try_send)
next
  case (All ev h h' b)
  then show ?case
    using hub_ok_send_each [of h "live_clients h" ev] by (auto simp: BroadcastAll_def live_clients_def)
qed simp_all

lemma hub_ok_steps: "hub_step\<^sup>*\<^sup>* s t \<Longrightarrow> hub_ok (fst s) \<Longrightarrow> hub_ok (fst t)"
  by (induction rule: rtranclp_induct) (auto intro: hub_ok_step)

end
