(* ===== verification/World.thy ===== *)
theory World
  imports Hub
begin

section \<open>The services the control plane runs against\<close>

text \<open>
  The control plane keeps its state in PostgreSQL and Redis. The world holds the tables of the
  migrations (as lists of rows), the Redis keys the code uses, the clock, the source of fresh
  UUIDs and of random bytes, the locks other sessions hold, the hub of dashboard connections, and a script of faults (the materialised view
  \<open>brownie_leaderboard\<close> holds what its last refresh computed): every statement or command sent
  to a service consumes one entry of the script and fails without effect when the entry is true.
  A theorem about all worlds is then a theorem about all patterns of service failures. The clock
  stands still during one handler, tick or reaping cycle and moves between them.
\<close>

record db =
  orgs :: "OrgUnit list"
  workers :: "Worker list"
  tasks :: "Task list"
  api_keys :: "APIKey list"
  outputs :: "OutputPackage list"
  ledger :: "BrownieEvent list"
  audit_log :: "AuditEvent list"
  brownie_leaderboard :: "LeaderboardEntry list"

text \<open>
  Redis: a plain key holds an integer and, optionally, the instant at which it expires; the task
  queue is a sorted set, an association list from members to scores.
\<close>

record redis =
  r_keys :: "string \<rightharpoonup> int \<times> time option"
  r_queue :: "(string \<times> int) list"

text \<open>
  Third-party code the control plane calls is a parameter: the textual form of UUIDs
  (\<^verbatim>\<open>google/uuid\<close>) and the Argon2id key derivation of \<^verbatim>\<open>golang.org/x/crypto\<close> (password, salt,
  iterations, memory, parallelism, key length).
\<close>

record ext =
  uuid_String :: "uuid \<Rightarrow> string"
  uuid_Parse :: "string \<Rightarrow> uuid option"
  argon2_IDKey :: "string \<Rightarrow> byte list \<Rightarrow> 32 word \<Rightarrow> 32 word \<Rightarrow> 8 word \<Rightarrow> 32 word \<Rightarrow> byte list"

record world =
  wdb :: db
  wredis :: redis
  wnow :: time
  wuuids :: "nat \<Rightarrow> uuid"
  wctr :: nat
  wrand :: "nat \<Rightarrow> byte"
  wrpos :: nat
  wfaults :: "bool list"
  wrow_locks :: "uuid list"
  wadv_locks :: "64 word list"
  whub :: hub

text \<open>
  Go errors: a failed statement or command with the text that wraps it, a row that is not there,
  and an error with a message of its own.
\<close>

datatype error =
    Driver string
  | NotFound string uuid
  | Errorf string

type_synonym 'a effect = "(world, 'a) state"
type_synonym 'a fallible = "(world, error + 'a) state"

subsection \<open>Elementary effects\<close>

definition fault :: "bool effect" where
  "fault = State (\<lambda>w. case wfaults w of
      [] \<Rightarrow> (False, w)
    | b # bs \<Rightarrow> (b, w\<lparr>wfaults := bs\<rparr>))"

definition time_Now :: "time effect" where
  "time_Now = gets wnow"

definition uuid_New :: "uuid effect" where
  "uuid_New = State (\<lambda>w. (wuuids w (wctr w), w\<lparr>wctr := Suc (wctr w)\<rparr>))"

text \<open>\<^verbatim>\<open>crypto/rand.Read\<close> of \<open>n\<close> bytes, which may fail.\<close>

definition rand_Read :: "nat \<Rightarrow> byte list fallible" where
  "rand_Read n = do {
     failed \<leftarrow> fault;
     if failed then ret (Inl (Driver ''rand: read''))
     else do {
       bs \<leftarrow> gets (\<lambda>w. map (wrand w) [wrpos w..<wrpos w + n]);
       modify (\<lambda>w. w\<lparr>wrpos := wrpos w + n\<rparr>);
       ret (Inr bs)
     }
   }"

text \<open>
  \<open>sql ctx f\<close> sends one statement: \<open>f\<close> is its meaning on the tables at the current instant, an
  error or the changed tables with the statement's result.
\<close>

definition sql :: "string \<Rightarrow> (db \<Rightarrow> time \<Rightarrow> error + db \<times> 'a) \<Rightarrow> 'a fallible" where
  "sql ctx f = do {
     failed \<leftarrow> fault;
     if failed then ret (Inl (Driver ctx))
     else do {
       w \<leftarrow> State_Monad.get;
       case f (wdb w) (wnow w) of
         Inl e \<Rightarrow> ret (Inl e)
       | Inr (d, x) \<Rightarrow> do { modify (\<lambda>w. w\<lparr>wdb := d\<rparr>); ret (Inr x) }
     }
   }"

text \<open>A statement that only reads.\<close>

definition sql_query :: "string \<Rightarrow> (db \<Rightarrow> time \<Rightarrow> error + 'a) \<Rightarrow> 'a fallible" where
  "sql_query ctx f = do {
     failed \<leftarrow> fault;
     if failed then ret (Inl (Driver ctx)) else gets (\<lambda>w. f (wdb w) (wnow w))
   }"

definition redis_cmd :: "string \<Rightarrow> (redis \<Rightarrow> time \<Rightarrow> error + redis \<times> 'a) \<Rightarrow> 'a fallible" where
  "redis_cmd ctx f = do {
     failed \<leftarrow> fault;
     if failed then ret (Inl (Driver ctx))
     else do {
       w \<leftarrow> State_Monad.get;
       case f (wredis w) (wnow w) of
         Inl e \<Rightarrow> ret (Inl e)
       | Inr (r, x) \<Rightarrow> do { modify (\<lambda>w. w\<lparr>wredis := r\<rparr>); ret (Inr x) }
     }
   }"

text \<open>
  \<^verbatim>\<open>Store.WithTx\<close> of \<^verbatim>\<open>store/postgres/db.go\<close>: begin a transaction, run the function, commit; when
  beginning fails nothing runs, and when the function or the commit fails the tables are as
  they were before.
\<close>

definition WithTx :: "'a fallible \<Rightarrow> 'a fallible" where
  "WithTx fn = do {
     failed \<leftarrow> fault;
     if failed then ret (Inl (Driver ''postgres: begin tx''))
     else do {
       before \<leftarrow> gets wdb;
       r \<leftarrow> fn;
       case r of
         Inl e \<Rightarrow> do { modify (\<lambda>w. w\<lparr>wdb := before\<rparr>); ret (Inl e) }
       | Inr x \<Rightarrow> do {
           failed \<leftarrow> fault;
           if failed then do {
             modify (\<lambda>w. w\<lparr>wdb := before\<rparr>);
             ret (Inl (Driver ''postgres: commit tx''))
           } else ret (Inr x)
         }
     }
   }"

subsection \<open>How the effects act\<close>

definition failing :: "world \<Rightarrow> bool" where
  "failing w = (case wfaults w of [] \<Rightarrow> False | b # _ \<Rightarrow> b)"

definition next_fault :: "world \<Rightarrow> world" where
  "next_fault w = w\<lparr>wfaults := tl (wfaults w)\<rparr>"

lemma next_fault_simps [simp]:
  "wdb (next_fault w) = wdb w" "wredis (next_fault w) = wredis w"
  "wnow (next_fault w) = wnow w" "wuuids (next_fault w) = wuuids w"
  "wctr (next_fault w) = wctr w" "wrand (next_fault w) = wrand w" "wrpos (next_fault w) = wrpos w" "wrow_locks (next_fault w) = wrow_locks w"
  "wadv_locks (next_fault w) = wadv_locks w" "whub (next_fault w) = whub w" "wfaults (next_fault w) = tl (wfaults w)"
  by (simp_all add: next_fault_def)

lemma run_fault [effect_simps]: "run_state fault w = (failing w, next_fault w)"
  by (simp add: fault_def failing_def next_fault_def split: list.splits)

lemma run_time_Now [effect_simps]: "run_state time_Now w = (wnow w, w)"
  by (simp add: time_Now_def)

lemma run_uuid_New [effect_simps]:
  "run_state uuid_New w = (wuuids w (wctr w), w\<lparr>wctr := Suc (wctr w)\<rparr>)"
  by (simp add: uuid_New_def)

lemma run_rand_Read [effect_simps]:
  "run_state (rand_Read n) w =
     (if failing w then (Inl (Driver ''rand: read''), next_fault w)
      else (Inr (map (wrand w) [wrpos w..<wrpos w + n]), (next_fault w)\<lparr>wrpos := wrpos w + n\<rparr>))"
  by (simp add: rand_Read_def run_fault)

lemma run_sql [effect_simps]:
  "run_state (sql ctx f) w =
     (if failing w then (Inl (Driver ctx), next_fault w)
      else case f (wdb w) (wnow w) of
        Inl e \<Rightarrow> (Inl e, next_fault w)
      | Inr (d, x) \<Rightarrow> (Inr x, (next_fault w)\<lparr>wdb := d\<rparr>))"
  by (simp add: sql_def run_fault split: sum.splits prod.splits)

lemma run_sql_query [effect_simps]:
  "run_state (sql_query ctx f) w =
     (if failing w then Inl (Driver ctx) else f (wdb w) (wnow w), next_fault w)"
  by (simp add: sql_query_def run_fault)

lemma run_redis_cmd [effect_simps]:
  "run_state (redis_cmd ctx f) w =
     (if failing w then (Inl (Driver ctx), next_fault w)
      else case f (wredis w) (wnow w) of
        Inl e \<Rightarrow> (Inl e, next_fault w)
      | Inr (r, x) \<Rightarrow> (Inr x, (next_fault w)\<lparr>wredis := r\<rparr>))"
  by (simp add: redis_cmd_def run_fault split: sum.splits prod.splits)

lemma run_WithTx [effect_simps]:
  "run_state (WithTx fn) w =
     (if failing w then (Inl (Driver ''postgres: begin tx''), next_fault w)
      else case run_state fn (next_fault w) of
        (Inl e, v) \<Rightarrow> (Inl e, v\<lparr>wdb := wdb w\<rparr>)
      | (Inr x, v) \<Rightarrow>
          if failing v then (Inl (Driver ''postgres: commit tx''), (next_fault v)\<lparr>wdb := wdb w\<rparr>)
          else (Inr x, next_fault v))"
  by (simp add: WithTx_def run_fault split: sum.splits prod.splits)

text \<open>A failed transaction leaves the tables unchanged, whatever the function did.\<close>

lemma WithTx_atomic:
  "run_state (WithTx fn) w = (Inl e, v) \<Longrightarrow> wdb v = wdb w"
  by (auto simp: run_WithTx split: if_splits sum.splits prod.splits)

subsection \<open>Relations kept by every effect\<close>

text \<open>
  The interface between the services and the code that uses them: a relation on worlds that
  ignores the fault script and the UUID and random-byte counters is kept by the bookkeeping of every call, so only
  the meaning of the statements matters.
\<close>

locale world_relation = kept_relation R for R :: "world \<Rightarrow> world \<Rightarrow> bool" +
  assumes R_faults: "R w (w\<lparr>wfaults := fs\<rparr>)"
    and R_ctr: "R w (w\<lparr>wctr := n\<rparr>)"
    and R_rpos: "R w (w\<lparr>wrpos := n\<rparr>)"
begin

lemma keeps_fault: "keeps fault"
  by (rule keepsI) (simp add: run_fault next_fault_def R_faults)

lemma R_next_fault: "R w (next_fault w)"
  by (simp add: next_fault_def R_faults)

lemma keeps_time_Now: "keeps time_Now"
  by (rule keepsI) (simp add: run_time_Now R_refl)

lemma keeps_uuid_New: "keeps uuid_New"
  by (rule keepsI) (simp add: run_uuid_New R_ctr)

lemma keeps_rand_Read: "keeps (rand_Read n)"
  by (rule keepsI) (auto simp: run_rand_Read R_next_fault intro: R_trans [OF R_next_fault R_rpos])

lemma keeps_sql_query: "keeps (sql_query ctx f)"
  by (rule keepsI) (simp add: run_sql_query R_next_fault)

lemma keeps_sql:
  assumes "\<And>w d x. f (wdb w) (wnow w) = Inr (d, x) \<Longrightarrow> R w (w\<lparr>wdb := d\<rparr>)"
  shows "keeps (sql ctx f)"
proof (rule keepsI)
  fix w
  have "R (next_fault w) ((next_fault w)\<lparr>wdb := d\<rparr>)" if "f (wdb w) (wnow w) = Inr (d, x)" for d x
    using assms [of "next_fault w" d x] that by simp
  then show "R w (exec (sql ctx f) w)"
    by (auto simp: run_sql R_next_fault split: sum.splits prod.splits
        intro: R_trans [OF R_next_fault])
qed

lemma keeps_redis_cmd:
  assumes "\<And>w r x. f (wredis w) (wnow w) = Inr (r, x) \<Longrightarrow> R w (w\<lparr>wredis := r\<rparr>)"
  shows "keeps (redis_cmd ctx f)"
proof (rule keepsI)
  fix w
  have "R (next_fault w) ((next_fault w)\<lparr>wredis := r\<rparr>)" if "f (wredis w) (wnow w) = Inr (r, x)" for r x
    using assms [of "next_fault w" r x] that by simp
  then show "R w (exec (redis_cmd ctx f) w)"
    by (auto simp: run_redis_cmd R_next_fault split: sum.splits prod.splits
        intro: R_trans [OF R_next_fault])
qed

text \<open>A transaction keeps the relation when its body does and touches nothing but tables.\<close>

lemma keeps_WithTx:
  assumes fn: "keeps fn"
    and tabs: "\<And>w. \<exists>fs. (exec fn w)\<lparr>wdb := wdb w\<rparr> = w\<lparr>wfaults := fs\<rparr>"
  shows "keeps (WithTx fn)"
proof (rule keepsI)
  fix w
  let ?w = "next_fault w"
  obtain r v where rv: "run_state fn ?w = (r, v)" by fastforce
  obtain fs where fs: "v\<lparr>wdb := wdb w\<rparr> = w\<lparr>wfaults := fs\<rparr>"
    using tabs [of ?w] rv by (auto simp: next_fault_def)
  have undo: "(next_fault v)\<lparr>wdb := wdb w\<rparr> = w\<lparr>wfaults := tl (wfaults v)\<rparr>"
    using fs by (cases v, cases w) (simp add: next_fault_def)
  have "R ?w v" using keepsD [OF fn, of ?w] rv by simp
  then have ok: "R w (next_fault v)"
    by (blast intro: R_trans R_next_fault)
  show "R w (exec (WithTx fn) w)"
    using rv ok fs undo by (auto simp: run_WithTx R_next_fault R_faults split: sum.splits)
qed

lemmas effect_keeps = keeps_fault keeps_time_Now keeps_uuid_New keeps_rand_Read
  keeps_sql_query

end

end
