(* ===== verification/Store_Tasks.thy ===== *)
theory Store_Tasks
  imports World
begin

unbundle bit_operations_syntax

section \<open>The task table\<close>

text \<open>
  The operations of \<^verbatim>\<open>internal/store/postgres/tasks.go\<close>, each the meaning of its SQL text on the
  table of migration \<^verbatim>\<open>003_create_tasks.sql\<close>.
\<close>

subsection \<open>Operations\<close>

text \<open>
  The constraints of the table: the primary key (id, queued_at), the references to the
  organisation and the worker, and the 32-bit integer columns.
\<close>

definition worker_exists :: "db \<Rightarrow> uuid \<Rightarrow> bool" where
  "worker_exists d wid = (\<exists>wk \<in> set (workers d). wk_ID wk = wid)"

definition org_exists :: "db \<Rightarrow> uuid \<Rightarrow> bool" where
  "org_exists d oid = (\<exists>og \<in> set (orgs d). org_ID og = oid)"

definition task_row_ok :: "db \<Rightarrow> Task \<Rightarrow> bool" where
  "task_row_ok d t \<longleftrightarrow>
     (\<forall>r \<in> set (tasks d). \<not> (t_ID r = t_ID t \<and> t_QueuedAt r = t_QueuedAt t))
     \<and> org_exists d (t_OrgUnitID t)
     \<and> (case t_AssignedWorkerID t of None \<Rightarrow> True | Some wid \<Rightarrow> worker_exists d wid)
     \<and> fits_int4 (t_Priority t) \<and> fits_int4 (t_RetryCount t) \<and> fits_int4 (t_MaxRetries t)"

definition CreateTask :: "Task \<Rightarrow> unit fallible" where
  "CreateTask t = sql ''tasks: create'' (\<lambda>d now.
     if task_row_ok d t then Inr (d\<lparr>tasks := tasks d @ [t]\<rparr>, ())
     else Inl (Driver ''tasks: create''))"

definition GetTask :: "uuid \<Rightarrow> Task fallible" where
  "GetTask tid = sql_query ''tasks: get'' (\<lambda>d now.
     case find (\<lambda>t. t_ID t = tid) (tasks d) of
       None \<Rightarrow> Inl (NotFound ''tasks: not found'' tid)
     | Some t \<Rightarrow> Inr t)"

text \<open>
  The \<^verbatim>\<open>SET\<close> clause of \<^verbatim>\<open>UpdateTaskState\<close>: the worker column is \<^verbatim>\<open>COALESCE\<close>d with its old value, and
  each timestamp column changes only for its own state.
\<close>

definition set_task_state :: "time \<Rightarrow> TaskState \<Rightarrow> uuid option \<Rightarrow> Task \<Rightarrow> Task" where
  "set_task_state now st wid t = t\<lparr>
     t_State := st,
     t_AssignedWorkerID := (case wid of None \<Rightarrow> t_AssignedWorkerID t | Some i \<Rightarrow> Some i),
     t_AssignedAt := (if st = TaskStateAssigned then Some now else t_AssignedAt t),
     t_StartedAt := (if st = TaskStateRunning then Some now else t_StartedAt t),
     t_CompletedAt := (if st = TaskStateCompleted then Some now else t_CompletedAt t),
     t_FailedAt := (if st = TaskStateFailed then Some now else t_FailedAt t)\<rparr>"

definition UpdateTaskState :: "uuid \<Rightarrow> TaskState \<Rightarrow> uuid option \<Rightarrow> unit fallible" where
  "UpdateTaskState tid st wid = sql ''tasks: update state'' (\<lambda>d now.
     if rows_affected (\<lambda>t. t_ID t = tid) (tasks d) = 0
     then Inl (NotFound ''tasks: not found'' tid)
     else if \<not> (case wid of None \<Rightarrow> True | Some i \<Rightarrow> worker_exists d i)
     then Inl (Driver ''tasks: update state'')
     else Inr (d\<lparr>tasks := update_where (\<lambda>t. t_ID t = tid) (set_task_state now st wid) (tasks d)\<rparr>, ()))"

definition ListTasksByOrg :: "uuid \<Rightarrow> int \<Rightarrow> int \<Rightarrow> Task list fallible" where
  "ListTasksByOrg oid limit offset = sql_query ''tasks: list query'' (\<lambda>d now.
     if limit < 0 \<or> offset < 0 then Inl (Driver ''tasks: list query'')
     else Inr (page (nat limit) (nat offset)
       (order_by (\<lambda>t. - t_QueuedAt t) (filter (\<lambda>t. t_OrgUnitID t = oid) (tasks d)))))"

text \<open>
  The key of the advisory lock: bytes 0 to 7 of the UUID, the first one in the highest position.
\<close>

definition uuid_byte :: "uuid \<Rightarrow> nat \<Rightarrow> 8 word" where
  "uuid_byte u i = ucast (drop_bit (120 - 8 * i) u)"

definition lockKey :: "uuid \<Rightarrow> 64 word" where
  "lockKey u =
     push_bit 56 (ucast (uuid_byte u 0)) OR push_bit 48 (ucast (uuid_byte u 1)) OR
     push_bit 40 (ucast (uuid_byte u 2)) OR push_bit 32 (ucast (uuid_byte u 3)) OR
     push_bit 24 (ucast (uuid_byte u 4)) OR push_bit 16 (ucast (uuid_byte u 5)) OR
     push_bit 8 (ucast (uuid_byte u 6)) OR ucast (uuid_byte u 7)"

text \<open>
  The rows \<^verbatim>\<open>ClaimNextTask\<close> selects from: queued, for one of the worker's agents, and not locked by
  another transaction (\<^verbatim>\<open>FOR UPDATE SKIP LOCKED\<close>); highest priority first, then earliest queued.
\<close>

definition claimable :: "string list \<Rightarrow> uuid list \<Rightarrow> Task \<Rightarrow> bool" where
  "claimable agents locked t \<longleftrightarrow>
     t_State t = TaskStateQueued \<and> t_AIAgent t \<in> set agents \<and> t_ID t \<notin> set locked"

definition claim_key :: "Task \<Rightarrow> int \<times> time" where
  "claim_key t = (- t_Priority t, t_QueuedAt t)"

definition next_claim :: "string list \<Rightarrow> uuid list \<Rightarrow> Task list \<Rightarrow> Task option" where
  "next_claim agents locked ts = limit1 (order_by claim_key (filter (claimable agents locked) ts))"

definition claim_task :: "time \<Rightarrow> uuid \<Rightarrow> Task \<Rightarrow> Task" where
  "claim_task now wid t = t\<lparr>t_State := TaskStateAssigned,
     t_AssignedWorkerID := Some wid, t_AssignedAt := Some now\<rparr>"

definition ClaimNextTask :: "uuid \<Rightarrow> string list \<Rightarrow> Task option fallible" where
  "ClaimNextTask wid agents = do {
     failed \<leftarrow> fault;
     if failed then ret (Inl (Driver ''tasks: claim query''))
     else do {
       row \<leftarrow> gets (\<lambda>w. next_claim agents (wrow_locks w) (tasks (wdb w)));
       case row of
         None \<Rightarrow> ret (Inr None)
       | Some task \<Rightarrow> do {
           failed \<leftarrow> fault;
           if failed then ret (Inl (Driver ''tasks: advisory lock''))
           else do {
             locked \<leftarrow> gets (\<lambda>w. lockKey (t_ID task) \<notin> set (wadv_locks w));
             if \<not> locked then ret (Inr None)
             else do {
               r \<leftarrow> sql ''tasks: claim update'' (\<lambda>d now.
                 if \<not> worker_exists d wid then Inl (Driver ''tasks: claim update'')
                 else Inr (d\<lparr>tasks := update_where (\<lambda>t. t_ID t = t_ID task) (claim_task now wid) (tasks d)\<rparr>, ()));
               case r of
                 Inl e \<Rightarrow> ret (Inl e)
               | Inr _ \<Rightarrow> do { now \<leftarrow> time_Now; ret (Inr (Some (claim_task now wid task))) }
             }
           }
         }
     }
   }"

text \<open>Nulls sort last in an ascending \<^verbatim>\<open>ORDER BY\<close>.\<close>

definition nulls_last :: "time option \<Rightarrow> nat \<times> time" where
  "nulls_last a = (case a of Some x \<Rightarrow> (0, x) | None \<Rightarrow> (1, 0))"

definition GetAssignedTaskForWorker :: "uuid \<Rightarrow> Task option fallible" where
  "GetAssignedTaskForWorker wid = sql_query ''tasks: get assigned for worker'' (\<lambda>d now.
     Inr (limit1 (order_by (\<lambda>t. nulls_last (t_AssignedAt t))
       (filter (\<lambda>t. t_AssignedWorkerID t = Some wid \<and> t_State t = TaskStateAssigned) (tasks d)))))"

text \<open>The join of \<^verbatim>\<open>GetStaleTasks\<close>: tasks in progress with a worker whose last heartbeat is too old.\<close>

definition stale_worker :: "time \<Rightarrow> Worker \<Rightarrow> bool" where
  "stale_worker deadline wk = (case wk_LastHeartbeatAt wk of None \<Rightarrow> True | Some h \<Rightarrow> h < deadline)"

definition stale_tasks :: "time \<Rightarrow> db \<Rightarrow> Task list" where
  "stale_tasks deadline d =
     [t. t \<leftarrow> tasks d, t_State t = TaskStateAssigned \<or> t_State t = TaskStateRunning,
         wk \<leftarrow> workers d, t_AssignedWorkerID t = Some (wk_ID wk), stale_worker deadline wk]"

definition GetStaleTasks :: "time \<Rightarrow> Task list fallible" where
  "GetStaleTasks deadline = sql_query ''tasks: stale query'' (\<lambda>d now. Inr (stale_tasks deadline d))"

lemmas task_store_defs [store_defs] =
  CreateTask_def GetTask_def UpdateTaskState_def ListTasksByOrg_def ClaimNextTask_def
  GetAssignedTaskForWorker_def GetStaleTasks_def

subsection \<open>The rows an update leaves alone\<close>

lemma set_task_state_id [simp]:
  "t_ID (set_task_state now st wid t) = t_ID t"
  "t_OrgUnitID (set_task_state now st wid t) = t_OrgUnitID t"
  "t_State (set_task_state now st wid t) = st"
  "t_RetryCount (set_task_state now st wid t) = t_RetryCount t"
  "t_MaxRetries (set_task_state now st wid t) = t_MaxRetries t"
  "t_ErrorMessage (set_task_state now st wid t) = t_ErrorMessage t"
  by (simp_all add: set_task_state_def)

lemma claim_task_simps [simp]:
  "t_ID (claim_task now wid t) = t_ID t"
  "t_OrgUnitID (claim_task now wid t) = t_OrgUnitID t"
  "t_State (claim_task now wid t) = TaskStateAssigned"
  "t_AssignedWorkerID (claim_task now wid t) = Some wid"
  "t_AIAgent (claim_task now wid t) = t_AIAgent t"
  by (simp_all add: claim_task_def)

subsection \<open>The advisory lock key\<close>

lemma bit_placed_byte:
  "bit (push_bit k (ucast (uuid_byte u i)) :: 64 word) n \<longleftrightarrow>
     n < 64 \<and> k \<le> n \<and> n < k + 8 \<and> bit u (120 - 8 * i + (n - k))"
  by (auto simp: uuid_byte_def bit_simps)

lemma bit_lowest_byte:
  "bit (ucast (uuid_byte u 7) :: 64 word) n \<longleftrightarrow> n < 8 \<and> bit u (64 + n)"
  using bit_placed_byte [of 0 u 7 n] by auto

lemma lockKey_high_half: "lockKey u = ucast (drop_bit 64 u)"
proof (rule bit_word_eqI)
  fix n assume "n < LENGTH(64)"
  then have n: "n < 64" by simp
  have bits: "bit (lockKey u) n = (\<exists>k \<in> {56, 48, 40, 32, 24, 16, 8, 0}. k \<le> n \<and> n < k + 8 \<and> bit u (64 + n))"
    using n by (simp add: lockKey_def bit_or_iff bit_placed_byte bit_lowest_byte cong: conj_cong)
  have cover: "\<exists>k \<in> {56, 48, 40, 32, 24, 16, 8, 0 :: nat}. k \<le> n \<and> n < k + 8"
    using n by simp presburger
  then have "bit (lockKey u) n = bit u (64 + n)" unfolding bits by blast
  then show "bit (lockKey u) n = bit (ucast (drop_bit 64 u) :: 64 word) n"
    using n by (simp add: bit_ucast_iff bit_drop_bit_eq)
qed

subsection \<open>What a claim does\<close>

lemma next_claim_Some:
  assumes "next_claim agents locked ts = Some t"
  shows "t \<in> set ts \<and> claimable agents locked t
    \<and> (\<forall>s \<in> set ts. claimable agents locked s \<longrightarrow> claim_key t \<le> claim_key s)"
  using limit1_order_by_Some [OF assms [unfolded next_claim_def]] by auto

lemma next_claim_None:
  "next_claim agents locked ts = None \<longleftrightarrow> (\<forall>t \<in> set ts. \<not> claimable agents locked t)"
  by (auto simp: next_claim_def filter_empty_conv)

lemma run_ClaimNextTask:
  assumes "run_state (ClaimNextTask wid agents) w = (Inr (Some t), v)"
  obtains s where
    "next_claim agents (wrow_locks w) (tasks (wdb w)) = Some s"
    "t = claim_task (wnow w) wid s"
    "lockKey (t_ID s) \<notin> set (wadv_locks w)"
    "worker_exists (wdb w) wid"
    "wdb v = (wdb w)\<lparr>tasks := update_where (\<lambda>t. t_ID t = t_ID s) (claim_task (wnow w) wid) (tasks (wdb w))\<rparr>"
  using assms
  by (auto simp: ClaimNextTask_def effect_simps split: if_splits option.splits sum.splits prod.splits)

lemma ClaimNextTask_no_claim:
  assumes "run_state (ClaimNextTask wid agents) w = (r, v)" and "\<forall>t. r \<noteq> Inr (Some t)"
  shows "wdb v = wdb w"
  using assms
  by (auto simp: ClaimNextTask_def effect_simps split: if_splits option.splits sum.splits prod.splits)

lemma ClaimNextTask_only_tables:
  "\<exists>fs. (exec (ClaimNextTask wid agents) w)\<lparr>wdb := wdb w\<rparr> = w\<lparr>wfaults := fs\<rparr>"
  by (auto simp: ClaimNextTask_def effect_simps next_fault_def
      split: if_splits option.splits sum.splits prod.splits)

text \<open>The claim inside its transaction: nothing but faults are consumed, or one task is claimed.\<close>

definition claimed_by :: "world \<Rightarrow> uuid \<Rightarrow> Task \<Rightarrow> db" where
  "claimed_by w wid s = (wdb w)\<lparr>tasks :=
     update_where (\<lambda>t. t_ID t = t_ID s) (claim_task (wnow w) wid) (tasks (wdb w))\<rparr>"

lemma ClaimNextTask_result:
  assumes "run_state (ClaimNextTask wid agents) w = (r, v)"
  shows "(\<exists>fs. v = w\<lparr>wfaults := fs\<rparr> \<and> (\<forall>t. r \<noteq> Inr (Some t))) \<or>
    (\<exists>fs s. next_claim agents (wrow_locks w) (tasks (wdb w)) = Some s \<and> worker_exists (wdb w) wid
       \<and> v = w\<lparr>wfaults := fs, wdb := claimed_by w wid s\<rparr> \<and> r = Inr (Some (claim_task (wnow w) wid s)))"
proof (cases "next_claim agents (wrow_locks w) (tasks (wdb w))")
  case None
  with assms show ?thesis
    by (auto simp: ClaimNextTask_def effect_simps next_fault_def split: if_splits)
next
  case (Some s)
  show ?thesis
  proof (cases "r = Inr (Some (claim_task (wnow w) wid s))")
    case True
    with assms Some show ?thesis
      by (auto simp: ClaimNextTask_def effect_simps next_fault_def claimed_by_def split: if_splits)
  next
    case False
    with assms Some show ?thesis
      by (auto simp: ClaimNextTask_def effect_simps next_fault_def split: if_splits)
  qed
qed

lemma claim_tx_result:
  assumes "run_state (WithTx (ClaimNextTask wid agents)) w = (r, v)"
  shows "(\<exists>fs. v = w\<lparr>wfaults := fs\<rparr> \<and> (\<forall>t. r \<noteq> Inr (Some t))) \<or>
    (\<exists>fs s. next_claim agents (wrow_locks w) (tasks (wdb w)) = Some s \<and> worker_exists (wdb w) wid
       \<and> v = w\<lparr>wfaults := fs, wdb := claimed_by w wid s\<rparr> \<and> r = Inr (Some (claim_task (wnow w) wid s)))"
proof (cases "failing w")
  case True
  with assms show ?thesis by (auto simp: run_WithTx next_fault_def)
next
  case False
  obtain q u where qu: "run_state (ClaimNextTask wid agents) (next_fault w) = (q, u)" by fastforce
  have undo: "w\<lparr>wfaults := fs, wdb := wdb w\<rparr> = w\<lparr>wfaults := fs\<rparr>"
    "w\<lparr>wfaults := fs, wdb := d, wfaults := fs'\<rparr> = w\<lparr>wfaults := fs', wdb := d\<rparr>" for fs fs' d
    by (cases w, simp)+
  have next_fault: "claimed_by (next_fault w) wid s = claimed_by w wid s"
    "(next_fault w)\<lparr>wfaults := fs\<rparr> = w\<lparr>wfaults := fs\<rparr>" for s fs
    by (simp_all add: claimed_by_def next_fault_def)
  consider fs where "u = w\<lparr>wfaults := fs\<rparr>" "\<forall>t. q \<noteq> Inr (Some t)"
    | fs s where "next_claim agents (wrow_locks w) (tasks (wdb w)) = Some s" "worker_exists (wdb w) wid"
       "u = w\<lparr>wfaults := fs, wdb := claimed_by w wid s\<rparr>" "q = Inr (Some (claim_task (wnow w) wid s))"
    using ClaimNextTask_result [OF qu] by (auto simp: next_fault)
  then show ?thesis
  proof cases
    case 1
    have "v = w\<lparr>wfaults := wfaults v\<rparr> \<and> (\<forall>t. r \<noteq> Inr (Some t))"
      using assms qu False 1 undo(1)
      by (cases w) (auto simp: run_WithTx next_fault_def split: if_splits sum.splits)
    then show ?thesis by blast
  next
    case 2
    show ?thesis
    proof (cases "failing u")
      case True
      have "v = w\<lparr>wfaults := wfaults v\<rparr> \<and> (\<forall>t. r \<noteq> Inr (Some t))"
        using assms qu False 2 True
        by (cases w) (auto simp: run_WithTx next_fault_def split: if_splits sum.splits)
      then show ?thesis by blast
    next
      case ok: False
      have "v = w\<lparr>wfaults := wfaults v, wdb := claimed_by w wid s\<rparr> \<and> r = q"
        using assms qu False 2 ok
        by (cases w) (auto simp: run_WithTx next_fault_def split: if_splits sum.splits)
      with 2 show ?thesis by blast
    qed
  qed
qed

context world_relation
begin

lemma keeps_claim_tx:
  assumes "\<And>w s. next_claim agents (wrow_locks w) (tasks (wdb w)) = Some s \<Longrightarrow>
    worker_exists (wdb w) wid \<Longrightarrow> R w (w\<lparr>wdb := claimed_by w wid s\<rparr>)"
  shows "keeps (WithTx (ClaimNextTask wid agents))"
proof (rule keepsI)
  fix w
  obtain r v where rv: "run_state (WithTx (ClaimNextTask wid agents)) w = (r, v)" by fastforce
  have both: "R w (w\<lparr>wfaults := fs, wdb := d\<rparr>)" if "R w (w\<lparr>wdb := d\<rparr>)" for d fs
  proof -
    have "w\<lparr>wfaults := fs, wdb := d\<rparr> = w\<lparr>wdb := d, wfaults := fs\<rparr>" by (cases w) simp
    with that show ?thesis using R_faults R_trans by metis
  qed
  show "R w (exec (WithTx (ClaimNextTask wid agents)) w)"
    using claim_tx_result [OF rv] rv assms both R_faults by auto
qed

end

end
