(* ===== verification/Store_Workers.thy ===== *)
theory Store_Workers
  imports Store_Tasks
begin

section \<open>The worker table\<close>

text \<open>
  The operations of \<^verbatim>\<open>internal/store/postgres/workers.go\<close> on the table of migration
  \<^verbatim>\<open>002_create_workers.sql\<close>: unique ids, and at most one worker per organisation and hostname
  hash. The driver writes a nil slice as \<^verbatim>\<open>NULL\<close>, which the \<^verbatim>\<open>agents\<close> column refuses; a slice that
  may be nil is therefore an option.
\<close>

definition same_host :: "Worker \<Rightarrow> Worker \<Rightarrow> bool" where
  "same_host a b \<longleftrightarrow>
     wk_OrgUnitID a = wk_OrgUnitID b \<and> wk_HostnameHash a = wk_HostnameHash b"

definition refresh_worker :: "Worker \<Rightarrow> Worker \<Rightarrow> Worker" where
  "refresh_worker excluded row = row\<lparr>
     wk_Agents := wk_Agents excluded, wk_State := wk_State excluded,
     wk_CapacityScore := wk_CapacityScore excluded,
     wk_LastHeartbeatAt := wk_LastHeartbeatAt excluded\<rparr>"

text \<open>The upsert returns the id of the stored row.\<close>

definition RegisterWorker :: "Worker \<Rightarrow> string list option \<Rightarrow> uuid fallible" where
  "RegisterWorker wk agents = sql ''workers: register'' (\<lambda>d now.
     case agents of None \<Rightarrow> Inl (Driver ''workers: register'')
     | Some as \<Rightarrow>
       let new = wk\<lparr>wk_Agents := as\<rparr> in
       if \<not> org_exists d (wk_OrgUnitID wk) \<or> \<not> fits_int4 (wk_CapacityScore wk)
       then Inl (Driver ''workers: register'')
       else case find (same_host new) (workers d) of
         Some row \<Rightarrow>
           Inr (d\<lparr>workers := update_where (same_host new) (refresh_worker new) (workers d)\<rparr>, wk_ID row)
       | None \<Rightarrow>
           if worker_exists d (wk_ID wk) then Inl (Driver ''workers: register'')
           else Inr (d\<lparr>workers := workers d @ [new]\<rparr>, wk_ID wk))"

definition UpdateWorkerState :: "uuid \<Rightarrow> WorkerState \<Rightarrow> unit fallible" where
  "UpdateWorkerState wid st = sql ''workers: update state'' (\<lambda>d now.
     if rows_affected (\<lambda>wk. wk_ID wk = wid) (workers d) = 0
     then Inl (NotFound ''workers: not found'' wid)
     else Inr (d\<lparr>workers := update_where (\<lambda>wk. wk_ID wk = wid) (\<lambda>wk. wk\<lparr>wk_State := st\<rparr>) (workers d)\<rparr>, ()))"

definition UpdateWorkerHeartbeat :: "uuid \<Rightarrow> string list \<Rightarrow> unit fallible" where
  "UpdateWorkerHeartbeat wid agents = sql ''workers: update heartbeat'' (\<lambda>d now.
     if rows_affected (\<lambda>wk. wk_ID wk = wid) (workers d) = 0
     then Inl (NotFound ''workers: not found'' wid)
     else Inr (d\<lparr>workers := update_where (\<lambda>wk. wk_ID wk = wid)
       (\<lambda>wk. wk\<lparr>wk_LastHeartbeatAt := Some now, wk_Agents := agents\<rparr>) (workers d)\<rparr>, ()))"

definition GetWorker :: "uuid \<Rightarrow> Worker fallible" where
  "GetWorker wid = sql_query ''workers: get'' (\<lambda>d now.
     case find (\<lambda>wk. wk_ID wk = wid) (workers d) of
       None \<Rightarrow> Inl (NotFound ''workers: not found'' wid)
     | Some wk \<Rightarrow> Inr wk)"

definition ListWorkers :: "uuid \<Rightarrow> Worker list fallible" where
  "ListWorkers oid = sql_query ''workers: query'' (\<lambda>d now.
     Inr (order_by wk_CreatedAt (filter (\<lambda>wk. wk_OrgUnitID wk = oid) (workers d))))"

definition recently_idle :: "time \<Rightarrow> Worker \<Rightarrow> bool" where
  "recently_idle now wk \<longleftrightarrow> wk_State wk = WorkerStateIdle \<and>
     (case wk_LastHeartbeatAt wk of None \<Rightarrow> False | Some h \<Rightarrow> now - 90 * Second < h)"

definition ListIdleWorkers :: "Worker list fallible" where
  "ListIdleWorkers = sql_query ''workers: query'' (\<lambda>d now.
     Inr (order_by (\<lambda>wk. - wk_CapacityScore wk) (filter (recently_idle now) (workers d))))"

lemmas worker_store_defs [store_defs] =
  RegisterWorker_def UpdateWorkerState_def UpdateWorkerHeartbeat_def GetWorker_def
  ListWorkers_def ListIdleWorkers_def

subsection \<open>Registration is an upsert\<close>

lemma refresh_worker_simps [simp]:
  "wk_ID (refresh_worker new row) = wk_ID row"
  "wk_OrgUnitID (refresh_worker new row) = wk_OrgUnitID row"
  "wk_HostnameHash (refresh_worker new row) = wk_HostnameHash row"
  "wk_State (refresh_worker new row) = wk_State new"
  "wk_CreatedAt (refresh_worker new row) = wk_CreatedAt row"
  by (simp_all add: refresh_worker_def)

text \<open>The key constraints of the table.\<close>

definition worker_keys_ok :: "Worker list \<Rightarrow> bool" where
  "worker_keys_ok ws \<longleftrightarrow> distinct (map wk_ID ws)
     \<and> distinct (map (\<lambda>wk. (wk_OrgUnitID wk, wk_HostnameHash wk)) ws)"

lemma RegisterWorker_cases:
  assumes "run_state (RegisterWorker wk agents) w = (Inr wid, v)"
  obtains (fresh) as where "agents = Some as"
      "find (same_host (wk\<lparr>wk_Agents := as\<rparr>)) (workers (wdb w)) = None"
      "\<not> worker_exists (wdb w) (wk_ID wk)" "wid = wk_ID wk" "org_exists (wdb w) (wk_OrgUnitID wk)"
      "wdb v = (wdb w)\<lparr>workers := workers (wdb w) @ [wk\<lparr>wk_Agents := as\<rparr>]\<rparr>"
  | (known) as row where "agents = Some as"
      "find (same_host (wk\<lparr>wk_Agents := as\<rparr>)) (workers (wdb w)) = Some row" "wid = wk_ID row"
      "wdb v = (wdb w)\<lparr>workers := update_where (same_host (wk\<lparr>wk_Agents := as\<rparr>))
         (refresh_worker (wk\<lparr>wk_Agents := as\<rparr>)) (workers (wdb w))\<rparr>"
  using assms
  by (auto simp: RegisterWorker_def effect_simps Let_def
      split: if_splits option.splits sum.splits prod.splits)

lemma RegisterWorker_failed:
  assumes "run_state (RegisterWorker wk agents) w = (Inl e, v)"
  shows "wdb v = wdb w"
  using assms
  by (auto simp: RegisterWorker_def effect_simps Let_def
      split: if_splits option.splits sum.splits prod.splits)

lemma RegisterWorker_keys_ok:
  assumes "worker_keys_ok (workers (wdb w))"
    and "run_state (RegisterWorker wk agents) w = (Inr wid, v)"
  shows "worker_keys_ok (workers (wdb v))"
  using assms(2)
proof (cases rule: RegisterWorker_cases)
  case (fresh as)
  then show ?thesis
    using assms(1)
    by (fastforce simp: worker_keys_ok_def worker_exists_def same_host_def find_None_iff)
next
  case (known as row)
  then show ?thesis
    using assms(1) by (simp add: worker_keys_ok_def)
qed

end
