(* ===== verification/Store_Keys.thy ===== *)
theory Store_Keys
  imports Store_Workers
begin

section \<open>The API key table\<close>

text \<open>
  The operations of \<^verbatim>\<open>internal/store/postgres/apikeys.go\<close> on the table of migration
  \<^verbatim>\<open>004_create_api_keys.sql\<close>.
\<close>

definition CreateAPIKey_row :: "APIKey \<Rightarrow> string list option \<Rightarrow> unit fallible" where
  "CreateAPIKey_row k scopes = sql ''apikeys: create'' (\<lambda>d now.
     case scopes of None \<Rightarrow> Inl (Driver ''apikeys: create'')
     | Some sc \<Rightarrow>
       if (\<exists>r \<in> set (api_keys d). k_ID r = k_ID k) \<or> \<not> org_exists d (k_OrgUnitID k)
          \<or> \<not> (case k_WorkerID k of None \<Rightarrow> True | Some i \<Rightarrow> worker_exists d i)
       then Inl (Driver ''apikeys: create'')
       else Inr (d\<lparr>api_keys := api_keys d @
         [k\<lparr>k_Scopes := sc, k_RevokedAt := None, k_LastUsedAt := None\<rparr>]\<rparr>, ()))"

text \<open>The condition under which a stored key is usable: its prefix matches, and it is neither
  revoked nor expired.\<close>

definition usable_key :: "time \<Rightarrow> string \<Rightarrow> APIKey \<Rightarrow> bool" where
  "usable_key now prefix k \<longleftrightarrow> k_KeyPrefix k = prefix \<and> k_RevokedAt k = None \<and>
     (case k_ExpiresAt k of None \<Rightarrow> True | Some e \<Rightarrow> now < e)"

definition GetAPIKeyByPrefix :: "string \<Rightarrow> APIKey fallible" where
  "GetAPIKeyByPrefix prefix = sql_query ''apikeys: get by prefix'' (\<lambda>d now.
     case find (usable_key now prefix) (api_keys d) of
       None \<Rightarrow> Inl (Errorf ''apikeys: not found for prefix'')
     | Some k \<Rightarrow> Inr k)"

definition RevokeAPIKey_row :: "uuid \<Rightarrow> uuid \<Rightarrow> unit fallible" where
  "RevokeAPIKey_row kid oid = sql ''apikeys: revoke'' (\<lambda>d now.
     let P = (\<lambda>k. k_ID k = kid \<and> k_OrgUnitID k = oid \<and> k_RevokedAt k = None) in
     if rows_affected P (api_keys d) = 0
     then Inl (NotFound ''apikeys: not found or access denied'' kid)
     else Inr (d\<lparr>api_keys := update_where P (\<lambda>k. k\<lparr>k_RevokedAt := Some now\<rparr>) (api_keys d)\<rparr>, ()))"

definition UpdateAPIKeyLastUsed :: "uuid \<Rightarrow> unit fallible" where
  "UpdateAPIKeyLastUsed kid = sql ''apikeys: update last used'' (\<lambda>d now.
     Inr (d\<lparr>api_keys := update_where (\<lambda>k. k_ID k = kid) (\<lambda>k. k\<lparr>k_LastUsedAt := Some now\<rparr>) (api_keys d)\<rparr>, ()))"

definition rotate_key :: "time \<Rightarrow> string \<Rightarrow> string \<Rightarrow> APIKey \<Rightarrow> APIKey" where
  "rotate_key now newHash newPrefix k = k\<lparr>k_KeyHash := newHash, k_KeyPrefix := newPrefix,
     k_CreatedAt := now, k_RevokedAt := None\<rparr>"

definition RotateAPIKey_row :: "uuid \<Rightarrow> uuid \<Rightarrow> string \<Rightarrow> string \<Rightarrow> APIKey fallible" where
  "RotateAPIKey_row kid oid newHash newPrefix = WithTx (
     sql ''apikeys: rotate update'' (\<lambda>d now.
       let P = (\<lambda>k. k_ID k = kid \<and> k_OrgUnitID k = oid) in
       case find P (api_keys d) of
         None \<Rightarrow> Inl (NotFound ''apikeys: not found or access denied'' kid)
       | Some k \<Rightarrow>
           Inr (d\<lparr>api_keys := update_where P (rotate_key now newHash newPrefix) (api_keys d)\<rparr>,
                rotate_key now newHash newPrefix k)))"

lemmas key_store_defs [store_defs] =
  CreateAPIKey_row_def GetAPIKeyByPrefix_def RevokeAPIKey_row_def UpdateAPIKeyLastUsed_def
  RotateAPIKey_row_def

lemma rotate_key_simps [simp]:
  "k_ID (rotate_key now h p k) = k_ID k" "k_OrgUnitID (rotate_key now h p k) = k_OrgUnitID k"
  "k_WorkerID (rotate_key now h p k) = k_WorkerID k" "k_Scopes (rotate_key now h p k) = k_Scopes k"
  "k_KeyHash (rotate_key now h p k) = h" "k_KeyPrefix (rotate_key now h p k) = p"
  "k_RevokedAt (rotate_key now h p k) = None" "k_ExpiresAt (rotate_key now h p k) = k_ExpiresAt k"
  by (simp_all add: rotate_key_def)

lemma GetAPIKeyByPrefix_Some:
  assumes "run_state (GetAPIKeyByPrefix prefix) w = (Inr k, v)"
  shows "k \<in> set (api_keys (wdb w)) \<and> usable_key (wnow w) prefix k"
  using assms
  by (auto simp: GetAPIKeyByPrefix_def run_sql_query dest: find_SomeD
      split: if_splits option.splits)

context world_relation
begin

lemma keeps_rotate_tx:
  assumes "\<And>w. R w (w\<lparr>wdb := (wdb w)\<lparr>api_keys := update_where (\<lambda>k. k_ID k = kid \<and> k_OrgUnitID k = oid)
    (rotate_key (wnow w) h p) (api_keys (wdb w))\<rparr>\<rparr>)"
  shows "keeps (RotateAPIKey_row kid oid h p)"
  unfolding RotateAPIKey_row_def Let_def
proof (rule keeps_WithTx)
  show "keeps (sql ''apikeys: rotate update'' (\<lambda>d now.
      case find (\<lambda>k. k_ID k = kid \<and> k_OrgUnitID k = oid) (api_keys d) of
        None \<Rightarrow> Inl (NotFound ''apikeys: not found or access denied'' kid)
      | Some k \<Rightarrow> Inr (d\<lparr>api_keys := update_where (\<lambda>k. k_ID k = kid \<and> k_OrgUnitID k = oid)
          (rotate_key now h p) (api_keys d)\<rparr>, rotate_key now h p k)))"
    by (rule keeps_sql) (auto split: option.splits intro: assms)
qed (auto simp: run_sql next_fault_def split: sum.splits option.splits)

end

end
