(* ===== verification/Store_Records.thy ===== *)
theory Store_Records
  imports Store_Keys
begin

section \<open>Outputs, the brownie ledger, organisations and the audit log\<close>

text \<open>
  The operations of \<^verbatim>\<open>outputs.go\<close>, \<^verbatim>\<open>brownie.go\<close>, \<^verbatim>\<open>orgs.go\<close> and \<^verbatim>\<open>audit.go\<close> under
  \<^verbatim>\<open>internal/store/postgres\<close>, on the tables of migrations 001, 005, 006 and 007.
\<close>

subsection \<open>Outputs\<close>

text \<open>The table's check constraint: an approved output has a reviewer.\<close>

definition reviewer_required_when_approved :: "OutputPackage \<Rightarrow> bool" where
  "reviewer_required_when_approved p \<longleftrightarrow>
     o_ReviewStatus p \<noteq> ReviewStatusApproved \<or> o_ReviewerID p \<noteq> None"

definition CreateOutput :: "OutputPackage \<Rightarrow> unit fallible" where
  "CreateOutput p = sql ''outputs: create'' (\<lambda>d now.
     if (\<exists>r \<in> set (outputs d). o_ID r = o_ID p) \<or> \<not> worker_exists d (o_WorkerID p)
        \<or> \<not> reviewer_required_when_approved p
     then Inl (Driver ''outputs: create'')
     else Inr (d\<lparr>outputs := outputs d @ [p]\<rparr>, ()))"

definition GetOutput :: "uuid \<Rightarrow> OutputPackage fallible" where
  "GetOutput pid = sql_query ''outputs: get'' (\<lambda>d now.
     case find (\<lambda>p. o_ID p = pid) (outputs d) of
       None \<Rightarrow> Inl (NotFound ''outputs: not found'' pid)
     | Some p \<Rightarrow> Inr p)"

definition UpdateOutputReview :: "uuid \<Rightarrow> ReviewStatus \<Rightarrow> uuid \<Rightarrow> unit fallible" where
  "UpdateOutputReview pid status reviewer = sql ''outputs: update review'' (\<lambda>d now.
     if rows_affected (\<lambda>p. o_ID p = pid) (outputs d) = 0
     then Inl (NotFound ''outputs: not found'' pid)
     else Inr (d\<lparr>outputs := update_where (\<lambda>p. o_ID p = pid)
       (\<lambda>p. p\<lparr>o_ReviewStatus := status, o_ReviewerID := Some reviewer, o_ReviewedAt := Some now\<rparr>)
       (outputs d)\<rparr>, ()))"

subsection \<open>The brownie ledger\<close>

definition WriteLedgerEntry :: "BrownieEvent \<Rightarrow> unit fallible" where
  "WriteLedgerEntry ev = sql ''brownie: write ledger'' (\<lambda>d now.
     if (\<exists>r \<in> set (ledger d). be_ID r = be_ID ev) \<or> \<not> worker_exists d (be_WorkerID ev)
        \<or> \<not> org_exists d (be_OrgUnitID ev) \<or> \<not> fits_int4 (be_Points ev)
     then Inl (Driver ''brownie: write ledger'')
     else Inr (d\<lparr>ledger := ledger d @ [ev\<lparr>be_CreatedAt := now\<rparr>]\<rparr>, ()))"

definition balance :: "uuid \<Rightarrow> BrownieEvent list \<Rightarrow> int" where
  "balance wid evs = sum_list (map be_Points (filter (\<lambda>ev. be_WorkerID ev = wid) evs))"

definition GetBalance :: "uuid \<Rightarrow> int fallible" where
  "GetBalance wid = sql_query ''brownie: get balance'' (\<lambda>d now. Inr (balance wid (ledger d)))"

text \<open>The leaderboard reads the materialised view, not the ledger.\<close>

definition GetLeaderboard :: "uuid \<Rightarrow> int \<Rightarrow> LeaderboardEntry list fallible" where
  "GetLeaderboard oid limit = sql_query ''brownie: leaderboard query'' (\<lambda>d now.
     if limit < 0 then Inl (Driver ''brownie: leaderboard query'')
     else Inr (page (nat limit) 0 (order_by (\<lambda>e. - le_TotalPoints e)
       (filter (\<lambda>e. le_OrgUnitID e = oid) (brownie_leaderboard d)))))"

subsection \<open>Organisations\<close>

definition CreateOrg :: "OrgUnit \<Rightarrow> unit fallible" where
  "CreateOrg og = sql ''orgs: create'' (\<lambda>d now.
     if (\<exists>r \<in> set (orgs d). org_ID r = org_ID og \<or> org_Name r = org_Name og)
     then Inl (Driver ''orgs: create'')
     else Inr (d\<lparr>orgs := orgs d @ [og]\<rparr>, ()))"

definition GetOrg :: "uuid \<Rightarrow> OrgUnit fallible" where
  "GetOrg oid = sql_query ''orgs: get'' (\<lambda>d now.
     case find (\<lambda>og. org_ID og = oid) (orgs d) of
       None \<Rightarrow> Inl (NotFound ''orgs: not found'' oid)
     | Some og \<Rightarrow> Inr og)"

definition ListOrgs :: "OrgUnit list fallible" where
  "ListOrgs = sql_query ''orgs: list query'' (\<lambda>d now. Inr (order_by org_CreatedAt (orgs d)))"

text \<open>The policy arrives as the JSON document the struct marshals to.\<close>

definition UpdateOrgPolicy :: "uuid \<Rightarrow> jsonmap \<Rightarrow> unit fallible" where
  "UpdateOrgPolicy oid policyJSON = sql ''orgs: update policy'' (\<lambda>d now.
     if rows_affected (\<lambda>og. org_ID og = oid) (orgs d) = 0
     then Inl (NotFound ''orgs: not found'' oid)
     else Inr (d\<lparr>orgs := update_where (\<lambda>og. org_ID og = oid)
       (\<lambda>og. og\<lparr>org_Policy := policyJSON, org_UpdatedAt := now\<rparr>) (orgs d)\<rparr>, ()))"

subsection \<open>The audit log\<close>

definition WriteAuditEvent :: "AuditEvent \<Rightarrow> unit fallible" where
  "WriteAuditEvent ev = sql ''audit: write event'' (\<lambda>d now.
     if (\<exists>r \<in> set (audit_log d). ev_ID r = ev_ID ev \<and> ev_OccurredAt r = ev_OccurredAt ev)
     then Inl (Driver ''audit: write event'')
     else Inr (d\<lparr>audit_log := audit_log d @ [ev]\<rparr>, ()))"

definition QueryAuditLog :: "uuid \<Rightarrow> time \<Rightarrow> time \<Rightarrow> int \<Rightarrow> int \<Rightarrow> AuditEvent list fallible" where
  "QueryAuditLog oid from_t to_t limit offset = sql_query ''audit: query'' (\<lambda>d now.
     if limit < 0 \<or> offset < 0 then Inl (Driver ''audit: query'')
     else Inr (page (nat limit) (nat offset) (order_by (\<lambda>ev. - ev_OccurredAt ev)
       (filter (\<lambda>ev. ev_OrgUnitID ev = oid \<and> from_t \<le> ev_OccurredAt ev \<and> ev_OccurredAt ev \<le> to_t)
         (audit_log d)))))"

lemmas record_store_defs [store_defs] =
  CreateOutput_def GetOutput_def UpdateOutputReview_def WriteLedgerEntry_def GetBalance_def
  GetLeaderboard_def CreateOrg_def GetOrg_def ListOrgs_def UpdateOrgPolicy_def
  WriteAuditEvent_def QueryAuditLog_def

lemma balance_append [simp]: "balance wid (xs @ ys) = balance wid xs + balance wid ys"
  by (simp add: balance_def)

lemma balance_single: "balance wid [ev] = (if be_WorkerID ev = wid then be_Points ev else 0)"
  by (simp add: balance_def)

end
