(* ===== verification/Redis_Store.thy ===== *)
theory Redis_Store
  imports Store_Records
begin

section \<open>Redis: liveness keys, rate counters and the task queue\<close>

text \<open>
  \<^verbatim>\<open>internal/store/redis/heartbeat.go\<close>, \<^verbatim>\<open>ratelimit.go\<close> and \<^verbatim>\<open>internal/queue/redis_queue.go\<close>.
\<close>

subsection \<open>Plain keys\<close>

text \<open>A key whose expiry has passed is absent.\<close>

definition live_key :: "redis \<Rightarrow> time \<Rightarrow> string \<Rightarrow> int option" where
  "live_key r now key = (case r_keys r key of
     None \<Rightarrow> None
   | Some (v, None) \<Rightarrow> Some v
   | Some (v, Some e) \<Rightarrow> if now < e then Some v else None)"

definition heartbeatKey :: "ext \<Rightarrow> uuid \<Rightarrow> string" where
  "heartbeatKey ex wid = ''worker:heartbeat:'' @ uuid_String ex wid"

text \<open>An expiration of zero stores the key without expiry; Redis refuses a negative one.\<close>

definition SetWorkerHeartbeat :: "ext \<Rightarrow> uuid \<Rightarrow> int \<Rightarrow> unit fallible" where
  "SetWorkerHeartbeat ex wid ttlSec = redis_cmd ''redis: set heartbeat'' (\<lambda>r now.
     if ttlSec < 0 then Inl (Driver ''redis: set heartbeat'')
     else Inr (r\<lparr>r_keys := (r_keys r)(heartbeatKey ex wid \<mapsto>
       (1, if ttlSec = 0 then None else Some (now + ttlSec * Second)))\<rparr>, ()))"

definition GetWorkerHeartbeat :: "ext \<Rightarrow> uuid \<Rightarrow> bool fallible" where
  "GetWorkerHeartbeat ex wid = redis_cmd ''redis: exists heartbeat'' (\<lambda>r now.
     Inr (r, live_key r now (heartbeatKey ex wid) \<noteq> None))"

definition DeleteWorkerHeartbeat :: "ext \<Rightarrow> uuid \<Rightarrow> unit fallible" where
  "DeleteWorkerHeartbeat ex wid = redis_cmd ''redis: del heartbeat'' (\<lambda>r now.
     Inr (r\<lparr>r_keys := (r_keys r)(heartbeatKey ex wid := None)\<rparr>, ()))"

text \<open>
  The pipeline of \<^verbatim>\<open>RateLimitIncr\<close>: \<^verbatim>\<open>INCR\<close>, then \<^verbatim>\<open>EXPIRE\<close> with the whole window, on every call.
\<close>

definition RateLimitIncr :: "string \<Rightarrow> time \<Rightarrow> int fallible" where
  "RateLimitIncr key window = redis_cmd ''redis: ratelimit incr'' (\<lambda>r now.
     let n = (case live_key r now key of None \<Rightarrow> 1 | Some v \<Rightarrow> v + 1)
     in Inr (r\<lparr>r_keys := (r_keys r)(key \<mapsto> (n, Some (now + window)))\<rparr>, n))"

subsection \<open>The task queue\<close>

text \<open>
  Rounding of an integer to the nearest float64 (53 significant bits, ties to even). The score is
  computed in float64; all its intermediate values are integers, so the rounding is exact on them.
\<close>

function f64_ulp :: "nat \<Rightarrow> nat" where
  "f64_ulp n = (if n < 2 ^ 53 then 1 else 2 * f64_ulp (n div 2))"
  by pat_completeness auto
termination
  by (relation "measure (\<lambda>n. n)") auto

declare f64_ulp.simps [simp del]

definition f64_round :: "int \<Rightarrow> int" where
  "f64_round x =
     (let u = int (f64_ulp (nat \<bar>x\<bar>)); q = \<bar>x\<bar> div u; m = \<bar>x\<bar> mod u;
          q' = (if 2 * m < u \<or> (2 * m = u \<and> even q) then q else q + 1)
      in sgn x * q' * u)"

definition score :: "int \<Rightarrow> time \<Rightarrow> int" where
  "score priority queuedAt =
     f64_round (f64_round (f64_round priority * 10 ^ 10) - f64_round queuedAt)"

definition zadd :: "string \<Rightarrow> int \<Rightarrow> (string \<times> int) list \<Rightarrow> (string \<times> int) list" where
  "zadd m s q = filter (\<lambda>(n, _). n \<noteq> m) q @ [(m, s)]"

definition Enqueue :: "ext \<Rightarrow> uuid \<Rightarrow> int \<Rightarrow> time \<Rightarrow> unit fallible" where
  "Enqueue ex taskID priority queuedAt = redis_cmd ''queue: enqueue'' (\<lambda>r now.
     Inr (r\<lparr>r_queue := zadd (uuid_String ex taskID) (score priority queuedAt) (r_queue r)\<rparr>, ()))"

text \<open>
  \<^verbatim>\<open>ZPOPMAX\<close> removes the member of greatest score, the lexicographically greatest one among several.
\<close>

definition zpopmax :: "(string \<times> int) list \<Rightarrow> ((string \<times> int) \<times> (string \<times> int) list) option" where
  "zpopmax q = (case limit1 (rev (order_by (\<lambda>(m, s). (s, m)) q)) of
     None \<Rightarrow> None
   | Some x \<Rightarrow> Some (x, filter (\<lambda>(n, _). n \<noteq> fst x) q))"

definition Dequeue :: "ext \<Rightarrow> uuid option fallible" where
  "Dequeue ex = do {
     res \<leftarrow> redis_cmd ''queue: dequeue'' (\<lambda>r now.
       case zpopmax (r_queue r) of
         None \<Rightarrow> Inr (r, None)
       | Some (x, q) \<Rightarrow> Inr (r\<lparr>r_queue := q\<rparr>, Some x));
     case res of
       Inl e \<Rightarrow> ret (Inl e)
     | Inr None \<Rightarrow> ret (Inr None)
     | Inr (Some x) \<Rightarrow>
         (case uuid_Parse ex (fst x) of
            None \<Rightarrow> ret (Inl (Errorf ''queue: parse task id''))
          | Some u \<Rightarrow> ret (Inr (Some u)))
   }"

definition QueueLength :: "int fallible" where
  "QueueLength = redis_cmd ''queue: length'' (\<lambda>r now. Inr (r, int (length (r_queue r))))"

definition RemoveFromQueue :: "ext \<Rightarrow> uuid \<Rightarrow> unit fallible" where
  "RemoveFromQueue ex taskID = redis_cmd ''queue: remove'' (\<lambda>r now.
     Inr (r\<lparr>r_queue := filter (\<lambda>(n, _). n \<noteq> uuid_String ex taskID) (r_queue r)\<rparr>, ()))"

lemmas redis_store_defs [store_defs] =
  SetWorkerHeartbeat_def GetWorkerHeartbeat_def DeleteWorkerHeartbeat_def RateLimitIncr_def
  Enqueue_def Dequeue_def QueueLength_def RemoveFromQueue_def

subsection \<open>Scores\<close>

lemma f64_round_exact: "\<bar>x\<bar> < 2 ^ 53 \<Longrightarrow> f64_round x = x"
proof -
  assume "\<bar>x\<bar> < 2 ^ 53"
  then have "nat \<bar>x\<bar> < 2 ^ 53" by (simp add: nat_less_iff)
  then have "f64_ulp (nat \<bar>x\<bar>) = 1" by (simp add: f64_ulp.simps)
  then show ?thesis by (simp add: f64_round_def Let_def sgn_mult_abs)
qed

lemma score_exact:
  assumes "\<bar>p\<bar> < 2 ^ 53" and "\<bar>p * 10 ^ 10\<bar> < 2 ^ 53" and "\<bar>tm\<bar> < 2 ^ 53"
    and "\<bar>p * 10 ^ 10 - tm\<bar> < 2 ^ 53"
  shows "score p tm = p * 10 ^ 10 - tm"
  using assms by (simp add: score_def f64_round_exact)

lemma score_bounded:
  assumes "\<bar>p\<bar> \<le> 1000" "0 \<le> tm" "tm < 2 ^ 52"
  shows "score p tm = p * 10 ^ 10 - tm"
proof -
  have "- 1000 \<le> p" "p \<le> 1000" using assms(1) by auto
  then show ?thesis
    using assms(2,3) by (intro score_exact) (simp_all add: abs_less_iff)
qed

subsection \<open>The queue as a sorted set\<close>

text \<open>The members of a sorted set are distinct.\<close>

definition zset_ok :: "(string \<times> int) list \<Rightarrow> bool" where
  "zset_ok q \<longleftrightarrow> distinct (map fst q)"

text \<open>The contract of a keyed priority queue, on the map from members to scores.\<close>

locale scored_queue =
  fixes add :: "string \<Rightarrow> int \<Rightarrow> 'q \<Rightarrow> 'q"
    and pop :: "'q \<Rightarrow> ((string \<times> int) \<times> 'q) option"
    and scores :: "'q \<Rightarrow> string \<rightharpoonup> int"
    and invar :: "'q \<Rightarrow> bool"
  assumes scores_add: "invar q \<Longrightarrow> scores (add m s q) = (scores q)(m \<mapsto> s)"
    and invar_add: "invar q \<Longrightarrow> invar (add m s q)"
    and pop_None: "invar q \<Longrightarrow> pop q = None \<longleftrightarrow> scores q = Map.empty"
    and pop_Some: "invar q \<Longrightarrow> pop q = Some ((m, s), q') \<Longrightarrow>
      scores q m = Some s \<and> scores q' = (scores q)(m := None) \<and> invar q'
      \<and> (\<forall>n t. scores q n = Some t \<longrightarrow> t \<le> s)"
begin

text \<open>Adding a member with a score above all others makes it the next one popped.\<close>

lemma add_then_pop:
  assumes q: "invar q" and top: "\<And>n t. scores q n = Some t \<Longrightarrow> t < s"
  shows "\<exists>q'. pop (add m s q) = Some ((m, s), q') \<and> scores q' = (scores q)(m := None)"
proof -
  let ?q = "add m s q"
  have inv: "invar ?q" and sc: "scores ?q = (scores q)(m \<mapsto> s)"
    using q by (simp_all add: invar_add scores_add)
  then obtain n t q' where pop: "pop ?q = Some ((n, t), q')"
    using pop_None [OF inv] by (cases "pop ?q") (auto simp: fun_eq_iff split: if_splits)
  note p = pop_Some [OF inv pop]
  have "s \<le> t" using p sc by (metis fun_upd_same)
  then have "n = m" using p sc top by (fastforce split: if_splits)
  then show ?thesis using p pop sc by auto
qed

end

lemma map_of_zadd: "zset_ok q \<Longrightarrow> map_of (zadd m s q) = (map_of q)(m \<mapsto> s)"
proof -
  have "map_of (filter (\<lambda>(n, _). n \<noteq> m) q @ [(m, s)]) n = ((map_of q)(m \<mapsto> s)) n" for n
    by (induction q) (auto simp: map_add_def split: option.splits)
  then show ?thesis by (auto simp: zadd_def)
qed

lemma zset_ok_zadd: "zset_ok q \<Longrightarrow> zset_ok (zadd m s q)"
  by (auto simp: zset_ok_def zadd_def distinct_map inj_on_def)

lemma zset_ok_filter: "zset_ok q \<Longrightarrow> zset_ok (filter P q)"
  by (simp add: zset_ok_def distinct_map_filter)

lemma map_of_filter_neq: "map_of (filter (\<lambda>(n, _). n \<noteq> m) q) = (map_of q)(m := None)"
  by (induction q) (auto simp: fun_eq_iff)

interpretation zq: scored_queue zadd zpopmax map_of zset_ok
proof unfold_locales
  fix q :: "(string \<times> int) list" and m n :: string and s t :: int and q' :: "(string \<times> int) list"
  assume q: "zset_ok q"
  show "map_of (zadd m s q) = (map_of q)(m \<mapsto> s)" using q by (rule map_of_zadd)
  show "zset_ok (zadd m s q)" using q by (rule zset_ok_zadd)
  show "zpopmax q = None \<longleftrightarrow> map_of q = Map.empty"
    by (auto simp: zpopmax_def limit1_def split: option.splits list.splits)
  assume pop: "zpopmax q = Some ((m, s), q')"
  then have top: "limit1 (rev (order_by (\<lambda>(m, s). (s, m)) q)) = Some (m, s)"
    and q': "q' = filter (\<lambda>(n, _). n \<noteq> m) q"
    by (auto simp: zpopmax_def split: option.splits)
  note best = limit1_rev_order_by_Some [OF top]
  show "map_of q m = Some s \<and> map_of q' = (map_of q)(m := None) \<and> zset_ok q'
      \<and> (\<forall>n t. map_of q n = Some t \<longrightarrow> t \<le> s)"
    using q q' best by (fastforce simp: zset_ok_def zset_ok_filter [unfolded zset_ok_def]
        map_of_filter_neq map_of_eq_Some_iff)
qed

end
