(* ===== verification/Crypto.thy ===== *)
theory Crypto
  imports Go_Lib
begin

unbundle bit_operations_syntax

section \<open>SHA-256 and HMAC\<close>

text \<open>
  \<^verbatim>\<open>crypto/sha256\<close> and \<^verbatim>\<open>crypto/hmac\<close> as FIPS 180-4 and FIPS 198-1 define them, on lists of bytes.
\<close>

type_synonym u32 = "32 word"

text \<open>
  The constants are the first 32 bits of the fractional parts of the cube roots of the first 64
  primes, and of the square roots of the first 8. \<open>root_bits k n b a\<close> finds the lower \<open>b\<close> bits of
  the integer \<open>k\<close>-th root of \<open>n\<close>, whose upper bits are \<open>a\<close>.
\<close>

primrec root_bits :: "nat \<Rightarrow> nat \<Rightarrow> nat \<Rightarrow> nat \<Rightarrow> nat" where
  "root_bits k n 0 a = a"
| "root_bits k n (Suc b) a = root_bits k n b (if (a + 2 ^ b) ^ k \<le> n then a + 2 ^ b else a)"

definition first_primes :: "nat list" where
  "first_primes = [2, 3, 5, 7, 11, 13, 17, 19, 23, 29, 31, 37, 41, 43, 47, 53,
    59, 61, 67, 71, 73, 79, 83, 89, 97, 101, 103, 107, 109, 113, 127, 131,
    137, 139, 149, 151, 157, 163, 167, 173, 179, 181, 191, 193, 197, 199, 211, 223,
    227, 229, 233, 239, 241, 251, 257, 263, 269, 271, 277, 281, 283, 293, 307, 311]"

definition sha_K :: "u32 list" where
  "sha_K = map (\<lambda>p. word_of_nat (root_bits 3 (p * 2 ^ 96) 36 0)) first_primes"

definition sha_H0 :: "u32 list" where
  "sha_H0 = map (\<lambda>p. word_of_nat (root_bits 2 (p * 2 ^ 64) 37 0)) (take 8 first_primes)"

definition big_sigma0 :: "u32 \<Rightarrow> u32" where
  "big_sigma0 x = word_rotr 2 x XOR word_rotr 13 x XOR word_rotr 22 x"

definition big_sigma1 :: "u32 \<Rightarrow> u32" where
  "big_sigma1 x = word_rotr 6 x XOR word_rotr 11 x XOR word_rotr 25 x"

definition small_sigma0 :: "u32 \<Rightarrow> u32" where
  "small_sigma0 x = word_rotr 7 x XOR word_rotr 18 x XOR drop_bit 3 x"

definition small_sigma1 :: "u32 \<Rightarrow> u32" where
  "small_sigma1 x = word_rotr 17 x XOR word_rotr 19 x XOR drop_bit 10 x"

text \<open>The message schedule, newest word first.\<close>

primrec schedule_from :: "nat \<Rightarrow> u32 list \<Rightarrow> u32 list" where
  "schedule_from 0 ws = ws"
| "schedule_from (Suc n) ws =
     schedule_from n ((small_sigma1 (ws ! 1) + ws ! 6 + small_sigma0 (ws ! 14) + ws ! 15) # ws)"

definition schedule :: "u32 list \<Rightarrow> u32 list" where
  "schedule block = rev (schedule_from 48 (rev block))"

fun sha_round :: "u32 list \<Rightarrow> u32 \<times> u32 \<Rightarrow> u32 list" where
  "sha_round [a, b, c, d, e, f, g, h] (k, w) =
     (let t1 = h + big_sigma1 e + ((e AND f) XOR (NOT e AND g)) + k + w;
          t2 = big_sigma0 a + ((a AND b) XOR (a AND c) XOR (b AND c))
      in [t1 + t2, a, b, c, d + t1, e, f, g])"
| "sha_round hs _ = hs"

definition compress :: "u32 list \<Rightarrow> u32 list \<Rightarrow> u32 list" where
  "compress hs block = map2 (+) hs (foldl sha_round hs (zip sha_K (schedule block)))"

fun words_be :: "byte list \<Rightarrow> u32 list" where
  "words_be (a # b # c # d # s) =
     (push_bit 24 (ucast a) OR push_bit 16 (ucast b) OR push_bit 8 (ucast c) OR ucast d) # words_be s"
| "words_be _ = []"

definition be64 :: "nat \<Rightarrow> byte list" where
  "be64 n = map (\<lambda>i. of_nat (n div 256 ^ (7 - i))) [0..<8]"

definition sha_pad :: "byte list \<Rightarrow> byte list" where
  "sha_pad m = m @ [0x80] @ replicate ((119 - length m mod 64) mod 64) 0 @ be64 (8 * length m)"

fun blocks16 :: "u32 list \<Rightarrow> u32 list list" where
  "blocks16 ws = (if length ws < 16 then [] else take 16 ws # blocks16 (drop 16 ws))"

declare blocks16.simps [simp del]

definition sha256 :: "byte list \<Rightarrow> byte list" where
  "sha256 m = concat (map be32 (foldl compress sha_H0 (blocks16 (words_be (sha_pad m)))))"

definition hmac_sha256 :: "byte list \<Rightarrow> byte list \<Rightarrow> byte list" where
  "hmac_sha256 key m =
     (let k0 = (if 64 < length key then sha256 key else key);
          k = k0 @ replicate (64 - length k0) 0
      in sha256 (map (\<lambda>b. b XOR 0x5c) k @ sha256 (map (\<lambda>b. b XOR 0x36) k @ m)))"

lemma length_sha_round [simp]: "length (sha_round hs kw) = length hs"
  by (induction hs kw rule: sha_round.induct) (simp_all add: Let_def)

lemma length_foldl_sha_round [simp]: "length (foldl sha_round hs kws) = length hs"
  by (induction kws arbitrary: hs) simp_all

lemma length_compress [simp]: "length (compress hs block) = length hs"
  by (simp add: compress_def)

lemma length_foldl_compress [simp]: "length (foldl compress hs bs) = length hs"
  by (induction bs arbitrary: hs) simp_all

text \<open>Every digest has 32 bytes.\<close>

lemma length_sha256: "length (sha256 m) = 32"
proof -
  have "sum_list (map (length \<circ> be32) xs) = 4 * length xs" for xs
    by (induction xs) (simp_all add: be32_def)
  then show ?thesis
    by (simp add: sha256_def length_concat sha_H0_def first_primes_def)
qed

lemma length_hmac_sha256: "length (hmac_sha256 key m) = 32"
  by (simp add: hmac_sha256_def Let_def length_sha256)

end
