(* ===== verification/Security.thy ===== *)
theory Security
  imports World Crypto
begin

section \<open>API keys and signatures\<close>

text \<open>
  \<^verbatim>\<open>internal/security/apikey.go\<close> and \<^verbatim>\<open>hmac.go\<close>. The random bytes come from the world, the Argon2id
  derivation is the parameter \<open>argon2_IDKey\<close>.
\<close>

subsection \<open>API keys\<close>

definition KeyPrefix :: string where
  "KeyPrefix = ''gw_''"

definition KeyPrefixLen :: nat where
  "KeyPrefixLen = 8"

definition keyRandomBytes :: nat where
  "keyRandomBytes = 32"

record ArgonParams =
  ap_Memory :: "32 word"
  ap_Iterations :: "32 word"
  ap_Parallelism :: "8 word"
  ap_SaltLen :: nat
  ap_KeyLen :: "32 word"

definition DefaultArgonParams :: ArgonParams where
  "DefaultArgonParams = \<lparr>ap_Memory = 65536, ap_Iterations = 3, ap_Parallelism = 2,
     ap_SaltLen = 16, ap_KeyLen = 32\<rparr>"

definition derive :: "ext \<Rightarrow> ArgonParams \<Rightarrow> string \<Rightarrow> byte list \<Rightarrow> byte list" where
  "derive ex p plaintext salt =
     argon2_IDKey ex plaintext salt (ap_Iterations p) (ap_Memory p) (ap_Parallelism p) (ap_KeyLen p)"

definition hashArgon2id :: "ext \<Rightarrow> string \<Rightarrow> ArgonParams \<Rightarrow> string fallible" where
  "hashArgon2id ex plaintext p = do {
     r \<leftarrow> rand_Read (ap_SaltLen p);
     case r of
       Inl e \<Rightarrow> ret (Inl (Driver ''argon2id: read salt''))
     | Inr salt \<Rightarrow> ret (Inr (hex_encode salt @ ''$'' @ hex_encode (derive ex p plaintext salt)))
   }"

definition GenerateAPIKeyWithParams :: "ext \<Rightarrow> ArgonParams \<Rightarrow> (string \<times> string \<times> string) fallible" where
  "GenerateAPIKeyWithParams ex p = do {
     r \<leftarrow> rand_Read keyRandomBytes;
     case r of
       Inl e \<Rightarrow> ret (Inl (Driver ''apikey: read random''))
     | Inr raw \<Rightarrow> do {
         let b64 = b64_encode raw;
         let plaintext = KeyPrefix @ b64;
         let prefix = KeyPrefix @ take KeyPrefixLen b64;
         h \<leftarrow> hashArgon2id ex plaintext p;
         case h of
           Inl e \<Rightarrow> ret (Inl (Driver ''apikey: hash''))
         | Inr hash \<Rightarrow> ret (Inr (plaintext, prefix, hash))
       }
   }"

definition parseArgon2idHash :: "string \<Rightarrow> (byte list \<times> byte list) option" where
  "parseArgon2idHash h = (case SplitN2 CHR ''$'' h of
     [s, d] \<Rightarrow> (case hex_decode s of None \<Rightarrow> None
       | Some salt \<Rightarrow> (case hex_decode d of None \<Rightarrow> None | Some dk \<Rightarrow> Some (salt, dk)))
   | _ \<Rightarrow> None)"

text \<open>The verification always uses the default parameters.\<close>

definition VerifyAPIKey :: "ext \<Rightarrow> string \<Rightarrow> string \<Rightarrow> bool" where
  "VerifyAPIKey ex plaintext storedHash = (case parseArgon2idHash storedHash of
     None \<Rightarrow> False
   | Some (salt, dk) \<Rightarrow>
       hex_encode (derive ex DefaultArgonParams plaintext salt) = hex_encode dk)"

lemma SplitN2_append: "c \<notin> set s \<Longrightarrow> SplitN2 c (s @ c # t) = [s, t]"
  by (induction s) auto

lemma parse_stored_hash:
  "parseArgon2idHash (hex_encode salt @ ''$'' @ hex_encode dk) = Some (salt, dk)"
  using SplitN2_append [OF hex_encode_no_dollar, of salt "hex_encode dk"]
  by (simp add: parseArgon2idHash_def)

lemma VerifyAPIKey_stored:
  "VerifyAPIKey ex pt (hex_encode salt @ ''$'' @ hex_encode dk)
     \<longleftrightarrow> derive ex DefaultArgonParams pt salt = dk"
  by (simp only: VerifyAPIKey_def parse_stored_hash option.case prod.case hex_encode_inj)

text \<open>What key generation returns.\<close>

lemma run_GenerateAPIKey:
  assumes "run_state (GenerateAPIKeyWithParams ex p) w = (Inr (pt, prefix, h), v)"
  obtains raw salt where "length raw = 32" "pt = KeyPrefix @ b64_encode raw"
    "prefix = take (length KeyPrefix + KeyPrefixLen) pt" "length salt = ap_SaltLen p"
    "h = hex_encode salt @ ''$'' @ hex_encode (derive ex p pt salt)"
proof (rule that)
  let ?raw = "map (wrand w) [wrpos w..<wrpos w + 32]"
  let ?salt = "map (wrand w) [wrpos w + 32..<wrpos w + 32 + ap_SaltLen p]"
  show "length ?raw = 32" "length ?salt = ap_SaltLen p" by simp_all
  show "pt = KeyPrefix @ b64_encode ?raw"
    "prefix = take (length KeyPrefix + KeyPrefixLen) pt"
    "h = hex_encode ?salt @ ''$'' @ hex_encode (derive ex p pt ?salt)"
    using assms
    by (auto simp: GenerateAPIKeyWithParams_def hashArgon2id_def run_rand_Read Let_def
        keyRandomBytes_def KeyPrefixLen_def split: if_splits sum.splits prod.splits)
qed

lemma GenerateAPIKey_frame:
  "wdb (exec (GenerateAPIKeyWithParams ex p) w) = wdb w
   \<and> wredis (exec (GenerateAPIKeyWithParams ex p) w) = wredis w
   \<and> wnow (exec (GenerateAPIKeyWithParams ex p) w) = wnow w"
  by (auto simp: GenerateAPIKeyWithParams_def hashArgon2id_def run_rand_Read Let_def
      split: if_splits sum.splits prod.splits)

subsection \<open>Signatures\<close>

definition Sign :: "string \<Rightarrow> byte list \<Rightarrow> string" where
  "Sign secret payload = hex_encode (hmac_sha256 (bytes_of secret) payload)"

text \<open>\<^verbatim>\<open>hmac.Equal\<close> compares contents; its timing is not modelled.\<close>

definition Verify :: "string \<Rightarrow> byte list \<Rightarrow> string \<Rightarrow> bool" where
  "Verify secret payload sig =
     (let expected = Sign secret payload in
      case hex_decode sig of None \<Rightarrow> False
      | Some sigBytes \<Rightarrow> (case hex_decode expected of None \<Rightarrow> False
          | Some expectedBytes \<Rightarrow> sigBytes = expectedBytes))"

lemma Verify_iff: "Verify secret payload sig \<longleftrightarrow> hex_decode sig = Some (hmac_sha256 (bytes_of secret) payload)"
  by (auto simp: Verify_def Sign_def Let_def split: option.splits)

end
