(* ===== verification/Regex.thy ===== *)
theory Regex
  imports Go_Lib
begin

section \<open>Regular expressions\<close>

text \<open>
  The part of \<^verbatim>\<open>regexp\<close> that the secret scanners use. A pattern is a tree; matching follows the
  package's documentation: of the matches at the leftmost position, the one a backtracking search
  finds first. The matcher lists the suffixes left over after a match, in that order of
  preference. Patterns are read byte by byte, which is exact on ASCII text.
\<close>

datatype rx =
    Eps
  | Cls "char \<Rightarrow> bool"
  | Seq rx rx
  | Alt rx rx
  | Star rx

function ms :: "rx \<Rightarrow> string \<Rightarrow> string list" where
  "ms Eps s = [s]"
| "ms (Cls p) s = (case s of [] \<Rightarrow> [] | c # s' \<Rightarrow> if p c then [s'] else [])"
| "ms (Seq a b) s = concat (map (ms b) (ms a s))"
| "ms (Alt a b) s = ms a s @ ms b s"
| "ms (Star a) s =
     concat (map (\<lambda>s'. if length s' < length s then ms (Star a) s' else []) (ms a s)) @ [s]"
  by pat_completeness auto
termination
  by (relation "measures [\<lambda>(r, s). size r, \<lambda>(r, s). length s]") auto

declare ms.simps(5) [simp del]

text \<open>\<^verbatim>\<open>FindString\<close>: the leftmost match, \<^verbatim>\<open>None\<close> where there is none.\<close>

fun Find :: "rx \<Rightarrow> string \<Rightarrow> string option" where
  "Find r s = (case ms r s of
     t # _ \<Rightarrow> Some (take (length s - length t) s)
   | [] \<Rightarrow> (case s of [] \<Rightarrow> None | c # s' \<Rightarrow> Find r s'))"

declare Find.simps [simp del]

text \<open>The Go function returns the empty string for no match.\<close>

definition FindString :: "rx \<Rightarrow> string \<Rightarrow> string" where
  "FindString r s = (case Find r s of None \<Rightarrow> [] | Some m \<Rightarrow> m)"

text \<open>
  \<^verbatim>\<open>FindAllString(s, -1)\<close>: the successive non-overlapping matches; an empty match right after a
  match is skipped.
\<close>

function FindAll :: "rx \<Rightarrow> bool \<Rightarrow> string \<Rightarrow> string list" where
  "FindAll r adjacent s = (case ms r s of
     t # _ \<Rightarrow>
       if length t < length s then take (length s - length t) s # FindAll r True t
       else (if adjacent then [] else [[]]) @
         (case s of [] \<Rightarrow> [] | c # s' \<Rightarrow> FindAll r False s')
   | [] \<Rightarrow> (case s of [] \<Rightarrow> [] | c # s' \<Rightarrow> FindAll r False s'))"
  by pat_completeness auto
termination
  by (relation "measure (\<lambda>(r, adjacent, s). length s)") auto

declare FindAll.simps [simp del]

definition FindAllString :: "rx \<Rightarrow> string \<Rightarrow> string list" where
  "FindAllString r s = FindAll r False s"

subsection \<open>Abbreviations for writing patterns\<close>

definition chr :: "char \<Rightarrow> rx" where
  "chr c = Cls (\<lambda>x. x = c)"

definition oneof :: "string \<Rightarrow> rx" where
  "oneof cs = Cls (\<lambda>x. x \<in> set cs)"

primrec str :: "string \<Rightarrow> rx" where
  "str [] = Eps"
| "str (c # cs) = Seq (chr c) (str cs)"

text \<open>A literal under the flag \<^verbatim>\<open>(?i)\<close>.\<close>

primrec stri :: "string \<Rightarrow> rx" where
  "stri [] = Eps"
| "stri (c # cs) = Seq (Cls (\<lambda>x. lower x = lower c)) (stri cs)"

definition opt :: "rx \<Rightarrow> rx" where
  "opt r = Alt r Eps"

primrec rep :: "nat \<Rightarrow> rx \<Rightarrow> rx" where
  "rep 0 r = Eps"
| "rep (Suc n) r = Seq r (rep n r)"

definition atleast :: "nat \<Rightarrow> rx \<Rightarrow> rx" where
  "atleast n r = Seq (rep n r) (Star r)"

primrec seqs :: "rx list \<Rightarrow> rx" where
  "seqs [] = Eps"
| "seqs (r # rs) = Seq r (seqs rs)"

definition in_range :: "char \<Rightarrow> char \<Rightarrow> char \<Rightarrow> bool" where
  "in_range a b c \<longleftrightarrow> a \<le> c \<and> c \<le> b"

definition alnum :: "char \<Rightarrow> bool" where
  "alnum c \<longleftrightarrow> in_range CHR ''A'' CHR ''Z'' c \<or> in_range CHR ''a'' CHR ''z'' c \<or> in_range CHR ''0'' CHR ''9'' c"

text \<open>The class \<^verbatim>\<open>\s\<close>.\<close>

definition rx_space :: "char \<Rightarrow> bool" where
  "rx_space c \<longleftrightarrow> c = CHR '' '' \<or> c = CHR 0x09 \<or> c = CHR 0x0A \<or> c = CHR 0x0C \<or> c = CHR 0x0D"

subsection \<open>The language of a pattern\<close>

inductive lang :: "rx \<Rightarrow> string \<Rightarrow> bool" where
  Eps: "lang Eps []"
| Cls: "p c \<Longrightarrow> lang (Cls p) [c]"
| Seq: "lang a x \<Longrightarrow> lang b y \<Longrightarrow> lang (Seq a b) (x @ y)"
| AltL: "lang a x \<Longrightarrow> lang (Alt a b) x"
| AltR: "lang b x \<Longrightarrow> lang (Alt a b) x"
| Star0: "lang (Star a) []"
| StarS: "lang a x \<Longrightarrow> lang (Star a) y \<Longrightarrow> lang (Star a) (x @ y)"

inductive_simps lang_simps: "lang Eps x" "lang (Cls p) x" "lang (Seq a b) x" "lang (Alt a b) x"

lemma ms_sound: "t \<in> set (ms r s) \<Longrightarrow> \<exists>x. s = x @ t \<and> lang r x"
proof (induction r s arbitrary: t rule: ms.induct)
  case (2 p s)
  then show ?case by (cases s) (auto intro: lang.intros split: if_splits)
next
  case (3 a b s)
  then obtain u where u: "u \<in> set (ms a s)" and t: "t \<in> set (ms b u)" by auto
  obtain x where x: "s = x @ u" "lang a x" using "3.IH"(1) [OF u] by blast
  obtain y where y: "u = y @ t" "lang b y" using "3.IH"(2) [OF u t] by blast
  have "s = (x @ y) @ t" using x y by simp
  with lang.Seq [OF x(2) y(2)] show ?case by blast
next
  case (5 a s)
  show ?case
  proof (cases "t = s")
    case False
    then obtain u where u: "u \<in> set (ms a s)" "length u < length s"
      and t: "t \<in> set (ms (Star a) u)"
      using "5.prems" by (subst (asm) ms.simps(5)) (auto split: if_splits)
    obtain x where x: "s = x @ u" "lang a x" using "5.IH"(1) [OF u(1)] by blast
    obtain y where y: "u = y @ t" "lang (Star a) y" using "5.IH"(2) [OF u t] by blast
    have "s = (x @ y) @ t" using x y by simp
    with lang.StarS [OF x(2) y(2)] show ?thesis by blast
  qed (auto intro: lang.intros)
next
  case (4 a b s)
  then show ?case by (simp, blast intro: lang.AltL lang.AltR)
qed (auto intro: lang.intros)

lemma ms_complete: "lang r x \<Longrightarrow> t \<in> set (ms r (x @ t))"
proof (induction arbitrary: t rule: lang.induct)
  case (StarS a x y)
  show ?case
  proof (cases x)
    case Nil
    with StarS.IH(2) show ?thesis by simp
  next
    case (Cons c x')
    then have "length (y @ t) < length (x @ y @ t)" by simp
    moreover have "y @ t \<in> set (ms a (x @ y @ t))" by (rule StarS.IH(1))
    moreover have "t \<in> set (ms (Star a) (y @ t))" by (rule StarS.IH(2))
    ultimately show ?thesis by (simp, subst ms.simps(5)) (auto intro!: bexI [of _ "y @ t"])
  qed
next
  case (Seq a x b y)
  have "y @ t \<in> set (ms a (x @ y @ t))" by (rule Seq.IH(1))
  moreover have "t \<in> set (ms b (y @ t))" by (rule Seq.IH(2))
  ultimately show ?case by auto
next
  case (Star0 a)
  show ?case by (subst ms.simps(5)) simp
qed simp_all

text \<open>A pattern occurs in a text when some part of the text is in its language.\<close>

definition occurs :: "rx \<Rightarrow> string \<Rightarrow> bool" where
  "occurs r s \<longleftrightarrow> (\<exists>a x b. s = a @ x @ b \<and> lang r x)"

lemma ms_Nil_iff: "ms r s = [] \<longleftrightarrow> (\<forall>x t. s = x @ t \<longrightarrow> \<not> lang r x)"
proof
  assume "ms r s = []"
  then show "\<forall>x t. s = x @ t \<longrightarrow> \<not> lang r x"
    using ms_complete [of r] by (metis empty_iff empty_set)
next
  assume *: "\<forall>x t. s = x @ t \<longrightarrow> \<not> lang r x"
  show "ms r s = []"
  proof (cases "ms r s")
    case (Cons t ts)
    then have "t \<in> set (ms r s)" by simp
    from ms_sound [OF this] * show ?thesis by blast
  qed
qed

lemma occurs_Cons: "occurs r (c # s) \<longleftrightarrow> ms r (c # s) \<noteq> [] \<or> occurs r s"
proof
  assume "occurs r (c # s)"
  then obtain a x b where e: "c # s = a @ x @ b" and l: "lang r x" by (auto simp: occurs_def)
  then show "ms r (c # s) \<noteq> [] \<or> occurs r s"
    by (cases a) (auto simp: ms_Nil_iff occurs_def)
next
  assume "ms r (c # s) \<noteq> [] \<or> occurs r s"
  then consider x t where "c # s = [] @ x @ t" "lang r x"
    | a x b where "c # s = (c # a) @ x @ b" "lang r x"
    by (auto simp: ms_Nil_iff occurs_def)
  then show "occurs r (c # s)"
    unfolding occurs_def by cases blast+
qed

lemma occurs_Nil: "occurs r [] \<longleftrightarrow> ms r [] \<noteq> []"
  by (auto simp: occurs_def ms_Nil_iff)

lemma Find_None_iff: "Find r s = None \<longleftrightarrow> \<not> occurs r s"
proof (induction s)
  case Nil
  then show ?case by (subst Find.simps) (auto simp: occurs_Nil split: list.splits)
next
  case (Cons c s)
  then show ?case by (subst Find.simps) (auto simp: occurs_Cons split: list.splits)
qed

lemma FindAll_Nil_imp: "FindAll r adj s = [] \<Longrightarrow> \<not> adj \<Longrightarrow> \<not> occurs r s"
proof (induction s arbitrary: adj)
  case Nil
  then show ?case by (subst (asm) FindAll.simps) (auto simp: occurs_Nil split: list.splits if_splits)
next
  case (Cons c s)
  then show ?case
    by (subst (asm) (2) FindAll.simps) (auto simp: occurs_Cons split: list.splits if_splits)
qed

lemma FindAll_nonempty_occurs: "FindAll r adj s \<noteq> [] \<Longrightarrow> occurs r s"
proof (induction r adj s rule: FindAll.induct)
  case (1 r adj s)
  show ?case
  proof (cases "ms r s")
    case (Cons t ts)
    then obtain x where "s = x @ t" "lang r x" using ms_sound [of t r s] by auto
    then have "s = [] @ x @ t \<and> lang r x" by simp
    then show ?thesis unfolding occurs_def by blast
  next
    case Nil
    with "1.prems" obtain c s' where s: "s = c # s'" and "FindAll r False s' \<noteq> []"
      by (subst (asm) FindAll.simps) (auto split: list.splits)
    with Nil "1.IH" show ?thesis by (auto simp: occurs_Cons)
  qed
qed

lemma FindAllString_Nil_iff: "FindAllString r s = [] \<longleftrightarrow> \<not> occurs r s"
  using FindAll_Nil_imp [of r False s] FindAll_nonempty_occurs [of r False s]
  by (auto simp: FindAllString_def)

text \<open>Every match found is a part of the text in the language.\<close>

lemma FindAll_match: "m \<in> set (FindAll r adj s) \<Longrightarrow> lang r m \<and> (\<exists>a b. s = a @ m @ b)"
proof (induction r adj s rule: FindAll.induct)
  case (1 r adj s)
  have tail: "lang r m \<and> (\<exists>a b. s = a @ m @ b)"
    if "s = c # s'" "m \<in> set (FindAll r False s')" "lang r m \<and> (\<exists>a b. s' = a @ m @ b)" for c s'
  proof -
    from that(3) obtain a b where "lang r m" "s' = a @ m @ b" by blast
    with that(1) have "s = (c # a) @ m @ b" by simp
    with \<open>lang r m\<close> show ?thesis by blast
  qed
  show ?case
  proof (cases "ms r s")
    case Nil
    with "1.prems" obtain c s' where s: "s = c # s'" "m \<in> set (FindAll r False s')"
      by (subst (asm) FindAll.simps) (auto split: list.splits)
    show ?thesis by (rule tail [OF s "1.IH"(1) [OF Nil s]])
  next
    case (Cons t ts)
    then obtain x where x: "s = x @ t" "lang r x" using ms_sound [of t r s] by auto
    show ?thesis
    proof (cases "length t < length s")
      case True
      with "1.prems" Cons x have "m = x \<or> m \<in> set (FindAll r True t)"
        by (subst (asm) FindAll.simps) auto
      then show ?thesis
      proof
        assume "m = x"
        then have "s = [] @ m @ t" "lang r m" using x by simp_all
        then show ?thesis by blast
      next
        assume "m \<in> set (FindAll r True t)"
        then obtain a b where "lang r m" "t = a @ m @ b" using "1.IH"(2) [OF Cons True] by blast
        then have "s = (x @ a) @ m @ b" using x by simp
        with \<open>lang r m\<close> show ?thesis by blast
      qed
    next
      case False
      with x have "x = []" by simp
      with x have "lang r []" by simp
      show ?thesis
      proof (cases "m = []")
        case True
        then have "s = [] @ m @ s \<and> lang r m" using \<open>lang r []\<close> by simp
        then show ?thesis by blast
      next
        case ne: False
        with "1.prems" Cons False obtain c s' where s: "s = c # s'" "m \<in> set (FindAll r False s')"
          by (subst (asm) FindAll.simps) (auto split: list.splits if_splits)
        show ?thesis by (rule tail [OF s "1.IH"(3) [OF Cons False s]])
      qed
    qed
  qed
qed

end
