(* ===== verification/Secret_Scan.thy ===== *)
theory Secret_Scan
  imports World Regex
begin

section \<open>Scanning task payloads for secrets\<close>

text \<open>
  \<^verbatim>\<open>internal/security/secretscan.go\<close>: the built-in patterns as pattern trees, the scan of a text and the
  redaction of what it finds. A scan reports a finding exactly when some pattern occurs in the
  text, and no finding shows a matched secret.
\<close>

datatype Severity = SeverityCritical | SeverityHigh | SeverityMedium | SeverityLow

datatype Scope = ScopeAll | ScopePayload | ScopeOutput

record Pattern =
  p_ID :: string
  p_Name :: string
  p_Regex :: rx
  p_Severity :: Severity
  p_Scope :: Scope

record Finding =
  f_PatternID :: string
  f_Name :: string
  f_Match :: string
  f_Severity :: Severity

text \<open>Classes that the patterns share.\<close>

definition rx_alnum :: rx where
  "rx_alnum = Cls alnum"

definition rx_spaces :: rx where
  "rx_spaces = Star (Cls rx_space)"

definition rx_quote :: rx where
  "rx_quote = opt (oneof [CHR 0x22, CHR 0x27])"

definition rx_assign :: rx where
  "rx_assign = oneof ''=:''"

definition sep_us :: rx where
  "sep_us = opt (Cls (\<lambda>c. c = CHR ''_'' \<or> c = CHR ''-'' \<or> rx_space c))"

definition sep_dash :: rx where
  "sep_dash = opt (oneof ''_-'')"

definition BuiltinPatterns :: "Pattern list" where
  "BuiltinPatterns = [
     \<lparr>p_ID = ''aws_access_key'', p_Name = ''AWS Access Key ID'',
      p_Regex = Seq (Alt (stri ''AKIA'') (Alt (stri ''ASIA'') (stri ''AROA''))) (rep 16 rx_alnum),
      p_Severity = SeverityCritical, p_Scope = ScopeAll\<rparr>,
     \<lparr>p_ID = ''aws_secret_key'', p_Name = ''AWS Secret Access Key'',
      p_Regex = seqs [stri ''aws'', sep_us, stri ''secret'', sep_us, stri ''access'', sep_us,
        stri ''key'', rx_spaces, rx_assign, rx_quote, rx_spaces,
        rep 40 (Cls (\<lambda>c. alnum c \<or> c = CHR ''/'' \<or> c = CHR ''+''))],
      p_Severity = SeverityCritical, p_Scope = ScopeAll\<rparr>,
     \<lparr>p_ID = ''github_token'', p_Name = ''GitHub Personal Access Token'',
      p_Regex = Alt (Seq (str ''ghp_'') (rep 36 rx_alnum))
        (Seq (str ''github_pat_'') (rep 82 (Cls (\<lambda>c. alnum c \<or> c = CHR ''_'')))),
      p_Severity = SeverityCritical, p_Scope = ScopeAll\<rparr>,
     \<lparr>p_ID = ''private_key_pem'', p_Name = ''Private Key PEM Header'',
      p_Regex = seqs [str ''-----BEGIN '',
        opt (Alt (str ''RSA '') (Alt (str ''EC '') (Alt (str ''DSA '') (str ''OPENSSH '')))),
        str ''PRIVATE KEY-----''],
      p_Severity = SeverityCritical, p_Scope = ScopeAll\<rparr>,
     \<lparr>p_ID = ''generic_password'', p_Name = ''Generic Password Assignment'',
      p_Regex = seqs [stri ''password'', rx_spaces, rx_assign, rx_spaces, rx_quote,
        atleast 8 (Cls (\<lambda>c. \<not> rx_space c \<and> c \<noteq> CHR 0x22 \<and> c \<noteq> CHR 0x27)), rx_quote],
      p_Severity = SeverityHigh, p_Scope = ScopePayload\<rparr>,
     \<lparr>p_ID = ''generic_api_key'', p_Name = ''Generic API Key Assignment'',
      p_Regex = seqs [
        Alt (seqs [stri ''api'', sep_dash, stri ''key''])
          (Alt (stri ''apikey'') (seqs [stri ''api'', sep_dash, stri ''secret''])),
        rx_spaces, rx_assign, rx_spaces, rx_quote,
        atleast 16 (Cls (\<lambda>c. alnum c \<or> c = CHR ''-'' \<or> c = CHR ''_'')), rx_quote],
      p_Severity = SeverityHigh, p_Scope = ScopeAll\<rparr>,
     \<lparr>p_ID = ''stripe_secret_key'', p_Name = ''Stripe Secret Key'',
      p_Regex = seqs [str ''sk_'', Alt (str ''live'') (str ''test''), str ''_'', atleast 24 rx_alnum],
      p_Severity = SeverityCritical, p_Scope = ScopeAll\<rparr>]"

definition redact :: "string \<Rightarrow> string" where
  "redact s = (if length s \<le> 6 then ''***''
     else take 3 s @ ''***'' @ drop (length s - 3) s)"

text \<open>The scanner is its list of patterns; the receiver may be nil.\<close>

type_synonym Scanner = "Pattern list"

definition NewDefaultScanner :: Scanner where
  "NewDefaultScanner = BuiltinPatterns"

definition pattern_findings :: "string \<Rightarrow> Pattern \<Rightarrow> Finding list" where
  "pattern_findings text p =
     map (\<lambda>m. \<lparr>f_PatternID = p_ID p, f_Name = p_Name p, f_Match = redact m, f_Severity = p_Severity p\<rparr>)
       (FindAllString (p_Regex p) text)"

definition ScanText :: "Scanner option \<Rightarrow> string \<Rightarrow> error + Finding list" where
  "ScanText sc text = (case sc of
     None \<Rightarrow> Inl (Errorf ''secretscan: nil scanner'')
   | Some ps \<Rightarrow> Inr (concat (map (pattern_findings text) ps)))"

subsection \<open>Lemmas\<close>

text \<open>A scan is empty exactly when no pattern occurs.\<close>

lemma ScanText_Nil_iff:
  "ScanText (Some ps) text = Inr [] \<longleftrightarrow> (\<forall>p \<in> set ps. \<not> occurs (p_Regex p) text)"
  by (simp add: ScanText_def pattern_findings_def FindAllString_Nil_iff)

text \<open>A finding names the pattern and the part of the text it was made from.\<close>

lemma ScanText_finding:
  assumes "ScanText (Some ps) text = Inr fs" and "f \<in> set fs"
  shows "\<exists>p \<in> set ps. \<exists>m a b. f_PatternID f = p_ID p \<and> f_Match f = redact m
    \<and> lang (p_Regex p) m \<and> text = a @ m @ b"
proof -
  from assms obtain p m where p: "p \<in> set ps" and m: "m \<in> set (FindAllString (p_Regex p) text)"
    and f: "f_PatternID f = p_ID p \<and> f_Match f = redact m"
    by (auto simp: ScanText_def pattern_findings_def)
  from FindAll_match [OF m [unfolded FindAllString_def]] obtain a b
    where "lang (p_Regex p) m" "text = a @ m @ b" by blast
  with p f show ?thesis by blast
qed

text \<open>A lower bound on the length of a match.\<close>

primrec min_length :: "rx \<Rightarrow> nat" where
  "min_length Eps = 0"
| "min_length (Cls p) = 1"
| "min_length (Seq a b) = min_length a + min_length b"
| "min_length (Alt a b) = min (min_length a) (min_length b)"
| "min_length (Star a) = 0"

lemma min_length_le: "lang r x \<Longrightarrow> min_length r \<le> length x"
  by (induction rule: lang.induct) auto

lemma min_length_rep [simp]: "min_length (rep n r) = n * min_length r"
  by (induction n) auto

lemma min_length_str [simp]: "min_length (str cs) = length cs"
  by (induction cs) (auto simp: chr_def)

lemma min_length_stri [simp]: "min_length (stri cs) = length cs"
  by (induction cs) auto

lemma min_length_opt [simp]: "min_length (opt r) = 0"
  by (simp add: opt_def)

lemma min_length_oneof [simp]: "min_length (oneof cs) = 1"
  by (simp add: oneof_def)

lemma min_length_atleast [simp]: "min_length (atleast n r) = n * min_length r"
  by (simp add: atleast_def)

lemma BuiltinPatterns_min_length: "p \<in> set BuiltinPatterns \<Longrightarrow> 17 \<le> min_length (p_Regex p)"
  by (auto simp: BuiltinPatterns_def rx_alnum_def rx_spaces_def rx_quote_def rx_assign_def
      sep_us_def sep_dash_def chr_def)

lemma length_redact: "length (redact s) = (if length s \<le> 6 then 3 else 9)"
  by (simp add: redact_def)

lemma redact_middle:
  "length a = 3 \<Longrightarrow> length b = 3 \<Longrightarrow> m \<noteq> [] \<Longrightarrow> redact (a @ m @ b) = a @ ''***'' @ b"
  by (cases m) (auto simp: redact_def)

end
