(* ===== verification/Http.thy ===== *)
theory Http
  imports Redis_Store Security Secret_Scan
begin

section \<open>Requests, responses and middleware\<close>

text \<open>
  \<^verbatim>\<open>internal/api/middleware\<close>: authentication, scopes, auditing and rate limiting. A handler is a
  function from requests to effects that return a response; a middleware takes the next handler
  and returns a handler. A request carries what the middleware put into its context; its decoded
  body is an argument of the handler that decodes it.
\<close>

record request =
  rq_Method :: string
  rq_Path :: string
  rq_Header :: "string \<Rightarrow> string"
  rq_RemoteAddr :: string
  rq_URLParams :: "(string \<times> string) list"
  rq_Query :: "string \<Rightarrow> string"
  rq_Body :: string
  rq_OrgUnitID :: "uuid option"
  rq_WorkerID :: "uuid option option"
  rq_APIKeyID :: "uuid option"
  rq_Scopes :: "string list option"

text \<open>The outcome of \<^verbatim>\<open>json.NewDecoder(r.Body).Decode(&req)\<close>: the error's text or the struct.\<close>

type_synonym 'a decoded = "string + 'a"

text \<open>The task a heartbeat response carries for the worker.\<close>

record AssignedTask =
  at_TaskID :: string
  at_Title :: string
  at_Description :: string
  at_TaskType :: string
  at_AIAgent :: string
  at_Options :: "string \<rightharpoonup> string"
  at_RepoURL :: string
  at_Branch :: string
  at_TimeoutSec :: int

text \<open>The response of the dashboard's snapshot endpoint.\<close>

record dashboardSnapshot =
  ds_GeneratedAt :: time
  ds_ActiveWorkers :: "Worker list"
  ds_QueuedTasks :: "Task list"
  ds_RunningTasks :: "Task list"
  ds_RecentCompleted :: "Task list"
  ds_TopBrownieEarners :: "LeaderboardEntry list"
  ds_RecentSecurityEvents :: "AuditEvent list"

text \<open>
  What is written as the body: nothing, literal bytes, or the value handed to the JSON encoder.
\<close>

datatype payload =
    NoBody
  | Raw string
  | ErrorJSON string
  | TaskJSON Task
  | TasksJSON "Task list" int int
  | StateJSON string
  | WorkerJSON Worker
  | WorkersJSON "Worker list"
  | RegisteredJSON uuid WorkerState
  | HeartbeatJSON uuid int "AssignedTask option"
  | CreatedKeyJSON uuid string string string "string list option" time "time option"
  | RotatedKeyJSON uuid string string string
  | OutputJSON uuid
  | OrgJSON OrgUnit
  | OrgsJSON "OrgUnit list"
  | AuditJSON "AuditEvent list"
  | LeaderboardJSON "LeaderboardEntry list"
  | StatusJSON string
  | SnapshotJSON dashboardSnapshot
  | ReadyJSON string "(string \<times> string) list" time

record response =
  rs_Status :: nat
  rs_Header :: "(string \<times> string) list"
  rs_Body :: payload

type_synonym handler = "request \<Rightarrow> response effect"

text \<open>\<^verbatim>\<open>writeJSON\<close> and \<^verbatim>\<open>writeError\<close> of the handlers package, and \<^verbatim>\<open>http.Error\<close>.\<close>

definition writeJSON :: "nat \<Rightarrow> payload \<Rightarrow> response effect" where
  "writeJSON code v = ret \<lparr>rs_Status = code,
     rs_Header = [(''Content-Type'', ''application/json'')], rs_Body = v\<rparr>"

definition writeError :: "nat \<Rightarrow> string \<Rightarrow> response effect" where
  "writeError code msg = writeJSON code (ErrorJSON msg)"

definition http_Error :: "string \<Rightarrow> nat \<Rightarrow> response effect" where
  "http_Error msg code = ret \<lparr>rs_Status = code,
     rs_Header = [(''Content-Type'', ''text/plain; charset=utf-8''),
       (''X-Content-Type-Options'', ''nosniff'')], rs_Body = Raw (msg @ [CHR 0x0A])\<rparr>"

definition no_content :: "response effect" where
  "no_content = ret \<lparr>rs_Status = 204, rs_Header = [], rs_Body = NoBody\<rparr>"

subsection \<open>Escaping\<close>

definition jsonEscape :: "string \<Rightarrow> string" where
  "jsonEscape s =
     (let s = ReplaceAll CHR 0x5C [CHR 0x5C, CHR 0x5C] s;
          s = ReplaceAll CHR 0x22 [CHR 0x5C, CHR 0x22] s;
          s = ReplaceAll CHR 0x0A [CHR 0x5C, CHR ''n''] s;
          s = ReplaceAll CHR 0x0D [CHR 0x5C, CHR ''r''] s
      in ReplaceAll CHR 0x09 [CHR 0x5C, CHR ''t''] s)"

text \<open>The escape sequence of one byte.\<close>

definition escape_char :: "char \<Rightarrow> string" where
  "escape_char c =
     (if c = CHR 0x5C then [CHR 0x5C, CHR 0x5C]
      else if c = CHR 0x22 then [CHR 0x5C, CHR 0x22]
      else if c = CHR 0x0A then [CHR 0x5C, CHR ''n'']
      else if c = CHR 0x0D then [CHR 0x5C, CHR ''r'']
      else if c = CHR 0x09 then [CHR 0x5C, CHR ''t'']
      else [c])"

text \<open>
  A reader of JSON string literals, for the two-byte escapes: it takes the bytes after the opening
  quote and returns the value and what follows the closing quote.
\<close>

definition unescape_char :: "char \<Rightarrow> char option" where
  "unescape_char c =
     (if c = CHR 0x5C then Some (CHR 0x5C)
      else if c = CHR 0x22 then Some (CHR 0x22)
      else if c = CHR ''n'' then Some (CHR 0x0A)
      else if c = CHR ''r'' then Some (CHR 0x0D)
      else if c = CHR ''t'' then Some (CHR 0x09)
      else None)"

fun read_literal :: "string \<Rightarrow> (string \<times> string) option" where
  "read_literal [] = None"
| "read_literal (c # s) =
     (if c = CHR 0x22 then Some ([], s)
      else if c = CHR 0x5C then
        (case s of [] \<Rightarrow> None
         | d # s' \<Rightarrow> (case unescape_char d of None \<Rightarrow> None
             | Some x \<Rightarrow> map_option (\<lambda>(v, r). (x # v, r)) (read_literal s')))
      else map_option (\<lambda>(v, r). (c # v, r)) (read_literal s))"

lemma ReplaceAll_append [simp]: "ReplaceAll a b (s @ t) = ReplaceAll a b s @ ReplaceAll a b t"
  by (simp add: ReplaceAll_def)

lemma jsonEscape_append: "jsonEscape (s @ t) = jsonEscape s @ jsonEscape t"
  by (simp add: jsonEscape_def Let_def)

lemma jsonEscape_single: "jsonEscape [c] = escape_char c"
  by (auto simp: jsonEscape_def escape_char_def Let_def ReplaceAll_def)

lemma jsonEscape_Nil [simp]: "jsonEscape [] = []"
  by (simp add: jsonEscape_def ReplaceAll_def)

lemma jsonEscape_Cons: "jsonEscape (c # s) = escape_char c @ jsonEscape s"
  using jsonEscape_append [of "[c]" s] by (simp add: jsonEscape_single)

lemma read_literal_escape_char:
  "read_literal (escape_char c @ s) = map_option (\<lambda>(v, r). (c # v, r)) (read_literal s)"
  by (auto simp: escape_char_def unescape_char_def)

lemma read_literal_jsonEscape: "read_literal (jsonEscape s @ CHR 0x22 # rest) = Some (s, rest)"
  by (induction s) (simp_all add: jsonEscape_Cons read_literal_escape_char)

subsection \<open>Authentication\<close>

definition writeUnauthorized :: "string \<Rightarrow> response effect" where
  "writeUnauthorized msg = ret \<lparr>rs_Status = 401,
     rs_Header = [(''Content-Type'', ''application/json''),
       (''WWW-Authenticate'', ''Bearer realm='' @ [CHR 0x22] @ ''grid-control-plane'' @ [CHR 0x22])],
     rs_Body = Raw (''{'' @ [CHR 0x22] @ ''error'' @ [CHR 0x22] @ '':'' @ [CHR 0x22] @ ''unauthorized'' @ [CHR 0x22]
       @ '','' @ [CHR 0x22] @ ''message'' @ [CHR 0x22] @ '':'' @ [CHR 0x22] @ jsonEscape msg @ [CHR 0x22] @ ''}'')\<rparr>"

definition writeForbidden :: "string \<Rightarrow> response effect" where
  "writeForbidden msg = ret \<lparr>rs_Status = 403,
     rs_Header = [(''Content-Type'', ''application/json'')],
     rs_Body = Raw (''{'' @ [CHR 0x22] @ ''error'' @ [CHR 0x22] @ '':'' @ [CHR 0x22] @ ''forbidden'' @ [CHR 0x22]
       @ '','' @ [CHR 0x22] @ ''message'' @ [CHR 0x22] @ '':'' @ [CHR 0x22] @ jsonEscape msg @ [CHR 0x22] @ ''}'')\<rparr>"

definition realIP :: "request \<Rightarrow> string" where
  "realIP r =
     (if rq_Header r ''X-Forwarded-For'' \<noteq> []
      then TrimSpace (hd (Split CHR '','' (rq_Header r ''X-Forwarded-For'')))
      else if rq_Header r ''X-Real-IP'' \<noteq> [] then rq_Header r ''X-Real-IP''
      else case before_last CHR '':'' (rq_RemoteAddr r) of
        Some addr \<Rightarrow> addr
      | None \<Rightarrow> rq_RemoteAddr r)"

text \<open>A best-effort call: its error is logged and dropped.\<close>

definition ignore_error :: "'a fallible \<Rightarrow> unit effect" where
  "ignore_error m = do { _ \<leftarrow> m; ret () }"

definition writeAuthAuditEvent :: "request \<Rightarrow> string \<Rightarrow> uuid \<Rightarrow> string \<Rightarrow> string \<Rightarrow> unit effect" where
  "writeAuthAuditEvent r actorID orgUnitID action detail = do {
     eid \<leftarrow> uuid_New;
     now \<leftarrow> time_Now;
     ignore_error (WriteAuditEvent \<lparr>ev_ID = eid, ev_OrgUnitID = orgUnitID,
       ev_ActorType = ActorTypeAPIKey, ev_ActorID = actorID, ev_Action = action,
       ev_ResourceType = ''api_key'', ev_ResourceID = None,
       ev_Details = [''reason'' \<mapsto> JStr detail, ''path'' \<mapsto> JStr (rq_Path r)],
       ev_IPAddress = realIP r, ev_OccurredAt = now\<rparr>)
   }"

definition with_key :: "APIKey \<Rightarrow> request \<Rightarrow> request" where
  "with_key k r = r\<lparr>rq_OrgUnitID := Some (k_OrgUnitID k), rq_WorkerID := Some (k_WorkerID k),
     rq_APIKeyID := Some (k_ID k), rq_Scopes := Some (k_Scopes k)\<rparr>"

text \<open>
  The bearer token of a request: the error message of \<^verbatim>\<open>Auth\<close>, or the plain-text key.
\<close>

definition bearer_token :: "request \<Rightarrow> string + string" where
  "bearer_token r =
     (let authHeader = rq_Header r ''Authorization'' in
      if authHeader = [] then Inl ''missing Authorization header''
      else case SplitN2 CHR '' '' authHeader of
        [scheme, plaintext] \<Rightarrow>
          if \<not> EqualFold scheme ''Bearer'' then Inl ''malformed Authorization header''
          else if length plaintext < length KeyPrefix + KeyPrefixLen then Inl ''invalid key format''
          else Inr plaintext
      | _ \<Rightarrow> Inl ''malformed Authorization header'')"

definition Auth :: "ext \<Rightarrow> handler \<Rightarrow> handler" where
  "Auth ex nxt r = (case bearer_token r of
     Inl msg \<Rightarrow> writeUnauthorized msg
   | Inr plaintext \<Rightarrow> do {
       let prefix = take (length KeyPrefix + KeyPrefixLen) plaintext;
       k \<leftarrow> GetAPIKeyByPrefix prefix;
       case k of
         Inl e \<Rightarrow> do {
           writeAuthAuditEvent r prefix 0 ''auth_failed'' ''invalid_key'';
           writeUnauthorized ''invalid or expired key''
         }
       | Inr apiKey \<Rightarrow>
           if \<not> VerifyAPIKey ex plaintext (k_KeyHash apiKey) then do {
             writeAuthAuditEvent r (uuid_String ex (k_ID apiKey)) (k_OrgUnitID apiKey)
               ''auth_failed'' ''bad_credentials'';
             writeUnauthorized ''invalid credentials''
           } else do {
             ignore_error (UpdateAPIKeyLastUsed (k_ID apiKey));
             nxt (with_key apiKey r)
           }
     })"

definition ScopeRequired :: "string \<Rightarrow> handler \<Rightarrow> handler" where
  "ScopeRequired scope nxt r = (case rq_Scopes r of
     None \<Rightarrow> writeForbidden ''no scopes on token''
   | Some scopes \<Rightarrow>
       if \<exists>s \<in> set scopes. s = scope \<or> s = ''admin'' then nxt r
       else writeForbidden (''insufficient scope: '' @ scope))"

subsection \<open>Auditing\<close>

definition mutatingMethods :: "string list" where
  "mutatingMethods = [''POST'', ''PATCH'', ''PUT'', ''DELETE'']"

definition resource_names :: "string list" where
  "resource_names = [''tasks'', ''workers'', ''api-keys'', ''orgs'', ''outputs'']"

text \<open>The loop over the path segments; \<open>rid\<close> is the route parameter named id, when there is one.\<close>

fun resource_of_segments :: "string option \<Rightarrow> string list \<Rightarrow> (string \<times> string option) option" where
  "resource_of_segments rid [] = None"
| "resource_of_segments rid (seg # segs) =
     (if seg \<in> set resource_names then
        Some (seg, case rid of Some v \<Rightarrow> Some v
          | None \<Rightarrow> (case segs of [] \<Rightarrow> None
              | v # _ \<Rightarrow> if v \<notin> set [[], ''register'', ''heartbeat'', ''rotate''] then Some v else None))
      else resource_of_segments rid segs)"

definition extractResource :: "request \<Rightarrow> string \<times> string option" where
  "extractResource r =
     (let rid = map_option snd (find (\<lambda>(k, v). EqualFold k ''id'') (rq_URLParams r));
          segments = Split CHR ''/'' (Trim CHR ''/'' (rq_Path r))
      in case resource_of_segments rid segments of
           Some p \<Rightarrow> p
         | None \<Rightarrow> (last segments, rid))"

text \<open>
  The event is written after the response, by a goroutine of its own; the model writes it right
  after the handler. The clock does not advance during a request, so the duration is zero.
\<close>

definition Audit :: "ext \<Rightarrow> handler \<Rightarrow> handler" where
  "Audit ex nxt r =
     (if rq_Method r \<notin> set mutatingMethods then nxt r
      else do {
        resp \<leftarrow> nxt r;
        let orgID = (case rq_OrgUnitID r of None \<Rightarrow> 0 | Some i \<Rightarrow> i);
        let actor = (case rq_APIKeyID r of None \<Rightarrow> (ActorTypeSystem, ''system'')
          | Some k \<Rightarrow> (ActorTypeAPIKey, uuid_String ex k));
        let res = extractResource r;
        eid \<leftarrow> uuid_New;
        now \<leftarrow> time_Now;
        ignore_error (WriteAuditEvent \<lparr>ev_ID = eid, ev_OrgUnitID = orgID,
          ev_ActorType = fst actor, ev_ActorID = snd actor,
          ev_Action = rq_Method r @ '' '' @ rq_Path r,
          ev_ResourceType = fst res, ev_ResourceID = snd res,
          ev_Details = [''status'' \<mapsto> JNum (of_nat (rs_Status resp)), ''duration_ms'' \<mapsto> JNum 0,
            ''user_agent'' \<mapsto> JStr (rq_Header r ''User-Agent'')],
          ev_IPAddress = realIP r, ev_OccurredAt = now\<rparr>);
        ret resp
      })"

subsection \<open>Rate limiting\<close>

definition ratelimit_key :: "ext \<Rightarrow> uuid \<Rightarrow> string" where
  "ratelimit_key ex orgID = ''ratelimit:org:'' @ uuid_String ex orgID"

definition add_headers :: "(string \<times> string) list \<Rightarrow> response effect \<Rightarrow> response effect" where
  "add_headers hs m = do { resp \<leftarrow> m; ret (resp\<lparr>rs_Header := hs @ rs_Header resp\<rparr>) }"

definition RateLimit :: "ext \<Rightarrow> int \<Rightarrow> handler \<Rightarrow> handler" where
  "RateLimit ex requestsPerMin nxt r = (case rq_OrgUnitID r of
     None \<Rightarrow> nxt r
   | Some orgID \<Rightarrow> do {
       c \<leftarrow> RateLimitIncr (ratelimit_key ex orgID) Minute;
       case c of
         Inl e \<Rightarrow> nxt r
       | Inr n \<Rightarrow>
           add_headers [(''X-RateLimit-Limit'', Itoa requestsPerMin),
                        (''X-RateLimit-Remaining'', Itoa (requestsPerMin - n))]
             (if n > requestsPerMin then
                ret \<lparr>rs_Status = 429,
                  rs_Header = [(''Retry-After'', ''60''), (''Content-Type'', ''application/json'')],
                  rs_Body = Raw (''{'' @ [CHR 0x22] @ ''error'' @ [CHR 0x22] @ '':'' @ [CHR 0x22] @ ''rate_limit_exceeded''
                    @ [CHR 0x22] @ '','' @ [CHR 0x22] @ ''retry_after'' @ [CHR 0x22] @ '':60}'')\<rparr>
              else nxt r)
     })"

end
