(* ===== verification/Go_Zone.thy ===== *)
theory Go_Zone
  imports Domain
begin

section \<open>Local time and daily windows\<close>

text \<open>
  Weekday and hour of an instant in a location, and the test of an hour against a daily window that
  both programs make in their \<^verbatim>\<open>inWindow\<close>.
\<close>

text \<open>
  The weekday (0 is Sunday) and the hour of an instant in a location. The location database is a
  parameter: \<open>loc tz\<close> is the offset to UTC, as a function of the instant, for a known timezone name.
\<close>

type_synonym tzdb = "string \<Rightarrow> (time \<Rightarrow> time) option"

definition local_hour :: "time \<Rightarrow> int" where
  "local_hour t = t div Hour mod 24"

text \<open>1 January 1970 was a Thursday.\<close>

definition local_weekday :: "time \<Rightarrow> int" where
  "local_weekday t = (t div (24 * Hour) + 4) mod 7"

text \<open>The hour test, shared by both the control plane's and the worker's \<^verbatim>\<open>inWindow\<close>.\<close>

definition hour_in_window :: "int \<Rightarrow> int \<Rightarrow> int \<Rightarrow> bool" where
  "hour_in_window startH endH hour =
     (if startH \<le> endH then startH \<le> hour \<and> hour < endH
      else startH \<le> hour \<or> hour < endH)"

lemma local_hour_range: "0 \<le> local_hour t \<and> local_hour t < 24"
  by (simp add: local_hour_def)

text \<open>The specification of a daily window: the hours reached from the start hour, going round the
  clock, before the end hour.\<close>

definition cyclic_window :: "int \<Rightarrow> int \<Rightarrow> int \<Rightarrow> bool" where
  "cyclic_window startH endH hour \<longleftrightarrow> (hour - startH) mod 24 < (endH - startH) mod 24"

lemma hour_in_window_cyclic:
  assumes "0 \<le> startH" "startH < 24" "0 \<le> endH" "endH < 24" "0 \<le> hour" "hour < 24"
  shows "hour_in_window startH endH hour = cyclic_window startH endH hour"
proof -
  have m: "x mod 24 = (if x < 0 then x + 24 else x)" if "- 24 < x" "x < 24" for x :: int
    using that by presburger
  show ?thesis
    using assms m [of "hour - startH"] m [of "endH - startH"]
    by (auto simp: hour_in_window_def cyclic_window_def)
qed

end
