(* ===== verification/Scheduler.thy ===== *)
theory Scheduler
  imports Redis_Store Go_Zone
begin

section \<open>Brownie points, the scheduler and the reaper\<close>

text \<open>
  \<^verbatim>\<open>internal/brownie/engine.go\<close> and \<^verbatim>\<open>internal/scheduler\<close>: the point rules, the matcher, the
  execution windows, one scheduling round (\<^verbatim>\<open>tick\<close>) and one reaping cycle (\<^verbatim>\<open>reap\<close>). The
  goroutines around \<^verbatim>\<open>tick\<close> and \<^verbatim>\<open>reap\<close> only repeat them on a timer.
\<close>

subsection \<open>Brownie points\<close>

definition PointsTaskCompleted :: int where
  "PointsTaskCompleted = 10"

definition PointsTaskAbandoned :: int where
  "PointsTaskAbandoned = - 5"

definition PointsOutputApproved :: int where
  "PointsOutputApproved = 20"

definition PointsOutputRejected :: int where
  "PointsOutputRejected = - 10"

definition brownie_write :: "uuid \<Rightarrow> uuid \<Rightarrow> int \<Rightarrow> string \<Rightarrow> uuid option \<Rightarrow> unit fallible" where
  "brownie_write wid oid points reason refID = do {
     u \<leftarrow> uuid_New;
     WriteLedgerEntry \<lparr>be_ID = u, be_WorkerID = wid, be_OrgUnitID = oid, be_Points = points,
       be_Reason = reason, be_ReferenceID = refID, be_CreatedAt = 0\<rparr>
   }"

definition Award :: "uuid \<Rightarrow> uuid \<Rightarrow> int \<Rightarrow> string \<Rightarrow> uuid option \<Rightarrow> unit fallible" where
  "Award wid oid points reason refID =
     (if points \<le> 0 then ret (Inl (Errorf ''brownie: Award called with non-positive points''))
      else brownie_write wid oid points reason refID)"

definition Deduct :: "uuid \<Rightarrow> uuid \<Rightarrow> int \<Rightarrow> string \<Rightarrow> uuid option \<Rightarrow> unit fallible" where
  "Deduct wid oid points reason refID =
     (if points \<le> 0 then ret (Inl (Errorf ''brownie: Deduct called with non-positive points''))
      else brownie_write wid oid (- points) reason refID)"

subsection \<open>The matcher\<close>

primrec hasAgent :: "string list \<Rightarrow> string \<Rightarrow> bool" where
  "hasAgent [] agent = False"
| "hasAgent (a # as) agent = (if a = agent then True else hasAgent as agent)"

definition matchScore :: "Task \<Rightarrow> Worker \<Rightarrow> int" where
  "matchScore task worker =
     (if \<not> hasAgent (wk_Agents worker) (t_AIAgent task) then - 1
      else if wk_State worker \<noteq> WorkerStateIdle then - 1
      else t_Priority task * 10 + go_div (wk_CapacityScore worker) 10 - t_RetryCount task * 5)"

fun bestWorker_from :: "Task \<Rightarrow> Worker list \<Rightarrow> Worker option \<Rightarrow> int \<Rightarrow> Worker option" where
  "bestWorker_from task [] best bestScore = best"
| "bestWorker_from task (w # ws) best bestScore =
     (let s = matchScore task w in
      if bestScore < s then bestWorker_from task ws (Some w) s
      else bestWorker_from task ws best bestScore)"

definition bestWorker :: "Task \<Rightarrow> Worker list \<Rightarrow> Worker option" where
  "bestWorker task ws = bestWorker_from task ws None (- 1)"

subsection \<open>Execution windows\<close>

primrec containsInt :: "int list \<Rightarrow> int \<Rightarrow> bool" where
  "containsInt [] val = False"
| "containsInt (v # vs) val = (if v = val then True else containsInt vs val)"

definition inWindow :: "tzdb \<Rightarrow> time \<Rightarrow> TimeWindow \<Rightarrow> bool" where
  "inWindow tz t w =
     (let local = (if tw_Timezone w = '''' then t
                   else case tz (tw_Timezone w) of Some off \<Rightarrow> t + off t | None \<Rightarrow> t);
          weekday = local_weekday local; hour = local_hour local
      in if tw_DayOfWeek w \<noteq> [] \<and> \<not> containsInt (tw_DayOfWeek w) weekday then False
         else hour_in_window (tw_StartHour w) (tw_EndHour w) hour)"

fun any_window :: "tzdb \<Rightarrow> time \<Rightarrow> TimeWindow list \<Rightarrow> bool" where
  "any_window tz t [] = False"
| "any_window tz t (w # ws) = (if inWindow tz t w then True else any_window tz t ws)"

definition IsInWindow :: "tzdb \<Rightarrow> OrgPolicy \<Rightarrow> bool effect" where
  "IsInWindow tz policy =
     (if op_ExecutionWindows policy = [] then ret True
      else do { now \<leftarrow> time_Now; ret (any_window tz now (op_ExecutionWindows policy)) })"

subsection \<open>One scheduling round\<close>

text \<open>
  The loop over the idle workers: it stops when the remaining queue length is used up, a failed
  claim or an empty one leaves the length as it is, and a failure to mark the worker busy is only
  logged.
\<close>

primrec tick_loop :: "Worker list \<Rightarrow> int \<Rightarrow> unit effect" where
  "tick_loop [] qLen = ret ()"
| "tick_loop (worker # ws) qLen =
     (if qLen \<le> 0 then ret ()
      else do {
        claimed \<leftarrow> WithTx (ClaimNextTask (wk_ID worker) (wk_Agents worker));
        case claimed of
          Inl err \<Rightarrow> tick_loop ws qLen
        | Inr None \<Rightarrow> tick_loop ws qLen
        | Inr (Some task) \<Rightarrow> do {
            _ \<leftarrow> UpdateWorkerState (wk_ID worker) WorkerStateBusy;
            tick_loop ws (qLen - 1)
          }
      })"

definition tick :: "unit effect" where
  "tick = do {
     q \<leftarrow> QueueLength;
     case q of
       Inl err \<Rightarrow> ret ()
     | Inr qLen \<Rightarrow>
         if qLen = 0 then ret ()
         else do {
           ws \<leftarrow> ListIdleWorkers;
           case ws of
             Inl err \<Rightarrow> ret ()
           | Inr idle \<Rightarrow> if idle = [] then ret () else tick_loop idle qLen
         }
   }"

subsection \<open>One reaping cycle\<close>

text \<open>
  The deduction is made only when a brownie engine is configured. A task without a worker skips
  the liveness check.
\<close>

definition reap_finish :: "bool \<Rightarrow> Task \<Rightarrow> unit effect" where
  "reap_finish brownie t = (case t_AssignedWorkerID t of
     None \<Rightarrow> ret ()
   | Some wid \<Rightarrow> do {
       _ \<leftarrow> UpdateWorkerState wid WorkerStateOffline;
       if brownie then do {
         _ \<leftarrow> Deduct wid (t_OrgUnitID t) 5 ''task_abandoned'' (Some (t_ID t));
         ret ()
       } else ret ()
     })"

definition reap_requeue :: "bool \<Rightarrow> Task \<Rightarrow> unit effect" where
  "reap_requeue brownie t = do {
     r \<leftarrow> UpdateTaskState (t_ID t) TaskStateQueued None;
     case r of
       Inl err \<Rightarrow> ret ()
     | Inr _ \<Rightarrow> reap_finish brownie t
   }"

definition reap_one :: "ext \<Rightarrow> bool \<Rightarrow> Task \<Rightarrow> unit effect" where
  "reap_one ex brownie t = (case t_AssignedWorkerID t of
     None \<Rightarrow> reap_requeue brownie t
   | Some wid \<Rightarrow> do {
       alive \<leftarrow> GetWorkerHeartbeat ex wid;
       case alive of
         Inl err \<Rightarrow> ret ()
       | Inr a \<Rightarrow> if a then ret () else reap_requeue brownie t
     })"

definition reap :: "ext \<Rightarrow> bool \<Rightarrow> int \<Rightarrow> unit effect" where
  "reap ex brownie heartbeatTTLSec = do {
     now \<leftarrow> time_Now;
     stale \<leftarrow> GetStaleTasks (now - heartbeatTTLSec * Second);
     case stale of
       Inl err \<Rightarrow> ret ()
     | Inr ts \<Rightarrow> for_each ts (reap_one ex brownie)
   }"

lemmas scheduler_defs [handler_defs] =
  tick_def reap_def reap_one_def reap_requeue_def reap_finish_def Award_def Deduct_def
  brownie_write_def

subsection \<open>Agents and windows\<close>

lemma hasAgent_iff [simp]: "hasAgent as a \<longleftrightarrow> a \<in> set as"
  by (induction as) auto

lemma containsInt_iff [simp]: "containsInt vs v \<longleftrightarrow> v \<in> set vs"
  by (induction vs) auto

lemma any_window_iff: "any_window tz t ws \<longleftrightarrow> (\<exists>w \<in> set ws. inWindow tz t w)"
  by (induction ws) auto

subsection \<open>The best worker\<close>

lemma bestWorker_from_spec:
  "(case bestWorker_from task ws best sc of
      None \<Rightarrow> best = None \<and> (\<forall>w \<in> set ws. matchScore task w \<le> sc)
    | Some b \<Rightarrow> (best = Some b \<and> (\<forall>w \<in> set ws. matchScore task w \<le> sc))
        \<or> (b \<in> set ws \<and> sc < matchScore task b \<and> (\<forall>w \<in> set ws. matchScore task w \<le> matchScore task b)))"
proof (induction task ws best sc rule: bestWorker_from.induct)
  case (1 task best sc)
  then show ?case by (cases best) simp_all
next
  case (2 task w ws best sc)
  show ?case
  proof (cases "sc < matchScore task w")
    case True
    with "2.IH"(1) [OF refl] show ?thesis
      by (fastforce split: option.splits)
  next
    case False
    with "2.IH"(2) [OF refl] show ?thesis
      by (fastforce split: option.splits)
  qed
qed

end
