(* ===== verification/Go_Time.thy ===== *)
theory Go_Time
  imports Domain
begin

section \<open>Reading RFC 3339 timestamps\<close>

text \<open>
  \<^verbatim>\<open>time.Parse(time.RFC3339, s)\<close> as the package reads it: one or two hour digits, an optional
  fraction after a period or a comma, \<^verbatim>\<open>Z\<close> or a numeric zone. Instants have microseconds, so
  further digits of the fraction are cut off.
\<close>

text \<open>Days since 1 January 1970 of a date of the Gregorian calendar.\<close>

definition days_from_civil :: "int \<Rightarrow> int \<Rightarrow> int \<Rightarrow> int" where
  "days_from_civil y m d =
     (let y' = (if m \<le> 2 then y - 1 else y);
          doy = (153 * (if m > 2 then m - 3 else m + 9) + 2) div 5 + d - 1;
          yoe = y' mod 400
      in y' div 400 * 146097 + yoe * 365 + yoe div 4 - yoe div 100 + doy - 719468)"

definition leap_year :: "int \<Rightarrow> bool" where
  "leap_year y \<longleftrightarrow> 4 dvd y \<and> (\<not> 100 dvd y \<or> 400 dvd y)"

definition days_in :: "int \<Rightarrow> int \<Rightarrow> int" where
  "days_in m y = (if m = 2 then (if leap_year y then 29 else 28)
     else if m \<in> {4, 6, 9, 11} then 30 else 31)"

text \<open>A number of exactly \<open>n\<close> digits at the front, and the rest.\<close>

definition take_num :: "nat \<Rightarrow> string \<Rightarrow> (int \<times> string) option" where
  "take_num n s = (if length (takeWhile is_digit (take n s)) = n
     then Some (digits_val (take n s), drop n s) else None)"

definition take_hour :: "string \<Rightarrow> (int \<times> string) option" where
  "take_hour s = (case take_num 2 s of Some r \<Rightarrow> Some r | None \<Rightarrow> take_num 1 s)"

definition skip :: "char \<Rightarrow> string \<Rightarrow> string option" where
  "skip c s = (case s of [] \<Rightarrow> None | d # r \<Rightarrow> if d = c then Some r else None)"

definition take_fraction :: "string \<Rightarrow> int \<times> string" where
  "take_fraction s = (case s of
     c # d # r \<Rightarrow>
       if (c = CHR ''.'' \<or> c = CHR '','') \<and> is_digit d
       then (let ds = takeWhile is_digit (d # r)
             in (digits_val (take 6 (ds @ ''000000'')), dropWhile is_digit (d # r)))
       else (0, s)
   | _ \<Rightarrow> (0, s))"

text \<open>The zone's offset to UTC in microseconds, of the whole rest of the text.\<close>

definition take_zone :: "string \<Rightarrow> time option" where
  "take_zone s =
     (if s = ''Z'' then Some 0
      else case s of [] \<Rightarrow> None
      | c # r \<Rightarrow>
         if c = CHR ''+'' \<or> c = CHR ''-'' then
           (case take_num 2 r of None \<Rightarrow> None | Some (h, r) \<Rightarrow>
            case skip CHR '':'' r of None \<Rightarrow> None | Some r \<Rightarrow>
            case take_num 2 r of None \<Rightarrow> None | Some (m, r) \<Rightarrow>
              if r = [] \<and> h \<le> 24 \<and> m \<le> 60
              then Some ((if c = CHR ''-'' then - 1 else 1) * (h * Hour + m * Minute))
              else None)
         else None)"

definition take_date :: "string \<Rightarrow> (int \<times> string) option" where
  "take_date s =
     (case take_num 4 s of None \<Rightarrow> None | Some (y, r) \<Rightarrow>
      case skip CHR ''-'' r of None \<Rightarrow> None | Some r \<Rightarrow>
      case take_num 2 r of None \<Rightarrow> None | Some (m, r) \<Rightarrow>
      case skip CHR ''-'' r of None \<Rightarrow> None | Some r \<Rightarrow>
      case take_num 2 r of None \<Rightarrow> None | Some (d, r) \<Rightarrow>
        if 1 \<le> m \<and> m \<le> 12 \<and> 1 \<le> d \<and> d \<le> days_in m y
        then Some (days_from_civil y m d, r) else None)"

definition parse_RFC3339 :: "string \<Rightarrow> time option" where
  "parse_RFC3339 s =
     (case take_date s of None \<Rightarrow> None | Some (days, r) \<Rightarrow>
      case skip CHR ''T'' r of None \<Rightarrow> None | Some r \<Rightarrow>
      case take_hour r of None \<Rightarrow> None | Some (h, r) \<Rightarrow>
      case skip CHR '':'' r of None \<Rightarrow> None | Some r \<Rightarrow>
      case take_num 2 r of None \<Rightarrow> None | Some (m, r) \<Rightarrow>
      case skip CHR '':'' r of None \<Rightarrow> None | Some r \<Rightarrow>
      case take_num 2 r of None \<Rightarrow> None | Some (sec, r) \<Rightarrow>
      if 24 \<le> h \<or> 60 \<le> m \<or> 60 \<le> sec then None
      else (let (frac, r) = take_fraction r in
        case take_zone r of None \<Rightarrow> None | Some off \<Rightarrow>
          Some (days * 24 * Hour + h * Hour + m * Minute + sec * Second + frac - off)))"

end
