(* ===== verification/Handlers.thy ===== *)
theory Handlers
  imports Http Scheduler Go_Time
begin

section \<open>The request handlers\<close>

text \<open>
  \<^verbatim>\<open>internal/api/handlers\<close>: tasks, workers, API keys, outputs, organisations, audit log, leaderboard
  and health. Each handler is the whole Go function, with every early return; a body that is
  decoded is an argument.
\<close>

subsection \<open>Tasks\<close>

record createTaskRequest =
  ct_Title :: string
  ct_Description :: string
  ct_TaskType :: string
  ct_Priority :: int
  ct_AIAgent :: string
  ct_MaxRetries :: int
  ct_Options :: "jsonmap option"

definition TaskHandler_CreateTask ::
  "ext \<Rightarrow> Scanner option \<Rightarrow> createTaskRequest decoded \<Rightarrow> handler" where
  "TaskHandler_CreateTask ex scanner body r = (case rq_OrgUnitID r of
     None \<Rightarrow> writeError 401 ''missing org context''
   | Some orgID \<Rightarrow> (case body of
       Inl err \<Rightarrow> writeError 400 (''invalid JSON: '' @ err)
     | Inr req \<Rightarrow>
         if ct_Title req = [] \<or> ct_Description req = [] \<or> ct_AIAgent req = [] \<or> ct_TaskType req = []
         then writeError 400 ''title, description, ai_agent, and task_type are required''
         else (case ScanText scanner (ct_Title req @ [CHR 0x0A] @ ct_Description req) of
             Inl err \<Rightarrow> writeError 500 ''internal error''
           | Inr findings \<Rightarrow>
               if findings \<noteq> [] then writeError 422 ''task payload contains potential secrets''
               else do {
                 now \<leftarrow> time_Now;
                 tid \<leftarrow> uuid_New;
                 let task = \<lparr>t_ID = tid, t_OrgUnitID = orgID,
                   t_SubmitterID = (case rq_WorkerID r of Some (Some wid) \<Rightarrow> Some wid | _ \<Rightarrow> None),
                   t_Title = ct_Title req, t_Description = ct_Description req,
                   t_TaskType = ct_TaskType req,
                   t_Priority = (if ct_Priority req = 0 then 5 else ct_Priority req),
                   t_AIAgent = ct_AIAgent req, t_State = TaskStateQueued,
                   t_AssignedWorkerID = None, t_QueuedAt = now, t_AssignedAt = None,
                   t_StartedAt = None, t_CompletedAt = None, t_FailedAt = None,
                   t_ErrorMessage = [], t_RetryCount = 0,
                   t_MaxRetries = (if ct_MaxRetries req = 0 then 3 else ct_MaxRetries req),
                   t_Options = (case ct_Options req of None \<Rightarrow> Map.empty | Some opts \<Rightarrow> opts)\<rparr>;
                 created \<leftarrow> CreateTask task;
                 case created of
                   Inl err \<Rightarrow> writeError 500 ''failed to create task''
                 | Inr _ \<Rightarrow> do {
                     ignore_error (Enqueue ex (t_ID task) (t_Priority task) (t_QueuedAt task));
                     writeJSON 201 (TaskJSON task)
                   }
               })))"

definition URLParam :: "request \<Rightarrow> string \<Rightarrow> string" where
  "URLParam r key = (case map_of (rq_URLParams r) key of None \<Rightarrow> [] | Some v \<Rightarrow> v)"

definition TaskHandler_GetTask :: "ext \<Rightarrow> handler" where
  "TaskHandler_GetTask ex r = (case rq_OrgUnitID r of
     None \<Rightarrow> writeError 401 ''missing org context''
   | Some orgID \<Rightarrow> (case uuid_Parse ex (URLParam r ''id'') of
       None \<Rightarrow> writeError 400 ''invalid task ID''
     | Some taskID \<Rightarrow> do {
         task \<leftarrow> GetTask taskID;
         case task of
           Inl err \<Rightarrow> writeError 404 ''task not found''
         | Inr t \<Rightarrow> if t_OrgUnitID t \<noteq> orgID then writeError 403 ''access denied''
             else writeJSON 200 (TaskJSON t)
       }))"

definition validateStateTransition :: "TaskState \<Rightarrow> string + unit" where
  "validateStateTransition s =
     (if s = TaskStateRunning \<or> s = TaskStateCompleted \<or> s = TaskStateFailed then Inr ()
      else Inl ''invalid state transition; allowed: running, completed, failed'')"

record updateTaskStateRequest =
  ut_State :: string
  ut_ErrorMessage :: "string option"

definition TaskHandler_UpdateTaskStatus :: "ext \<Rightarrow> updateTaskStateRequest decoded \<Rightarrow> handler" where
  "TaskHandler_UpdateTaskStatus ex body r = (case rq_OrgUnitID r of
     None \<Rightarrow> writeError 401 ''missing org context''
   | Some orgID \<Rightarrow> (case rq_WorkerID r of
       Some (Some workerID) \<Rightarrow> (case uuid_Parse ex (URLParam r ''id'') of
           None \<Rightarrow> writeError 400 ''invalid task ID''
         | Some taskID \<Rightarrow> (case body of
             Inl err \<Rightarrow> writeError 400 (''invalid JSON: '' @ err)
           | Inr req \<Rightarrow>
               let newState = TaskState_of_string (ut_State req) in
               (case validateStateTransition newState of
                 Inl err \<Rightarrow> writeError 400 err
               | Inr _ \<Rightarrow> do {
                   task \<leftarrow> GetTask taskID;
                   case task of
                     Inl err \<Rightarrow> writeError 404 ''task not found''
                   | Inr t \<Rightarrow>
                       if t_OrgUnitID t \<noteq> orgID then writeError 403 ''access denied''
                       else if t_AssignedWorkerID t \<noteq> Some workerID
                       then writeError 403 ''task not assigned to this worker''
                       else do {
                         updated \<leftarrow> UpdateTaskState taskID newState (Some workerID);
                         case updated of
                           Inl err \<Rightarrow> writeError 500 ''failed to update task state''
                         | Inr _ \<Rightarrow> writeJSON 200 (StateJSON (string_of_TaskState newState))
                       }
                 })))
     | _ \<Rightarrow> writeError 403 ''worker authentication required''))"

text \<open>A numeric query parameter: the default unless it is an integer in range.\<close>

definition int_param :: "string \<Rightarrow> (int \<Rightarrow> bool) \<Rightarrow> int \<Rightarrow> int" where
  "int_param s ok dflt = (if s = [] then dflt
     else case Atoi s of None \<Rightarrow> dflt | Some n \<Rightarrow> if ok n then n else dflt)"

definition TaskHandler_ListTasks :: handler where
  "TaskHandler_ListTasks r = (case rq_OrgUnitID r of
     None \<Rightarrow> writeError 401 ''missing org context''
   | Some orgID \<Rightarrow> do {
       let limit = int_param (rq_Query r ''limit'') (\<lambda>n. 0 < n \<and> n \<le> 100) 20;
       let offset = int_param (rq_Query r ''offset'') (\<lambda>n. 0 \<le> n) 0;
       ts \<leftarrow> ListTasksByOrg orgID limit offset;
       case ts of
         Inl err \<Rightarrow> writeError 500 ''failed to list tasks''
       | Inr ts \<Rightarrow> writeJSON 200 (TasksJSON ts limit offset)
     })"

subsection \<open>Workers\<close>

record registerWorkerRequest =
  rw_HostnameHash :: string
  rw_Hostname :: string
  rw_Agents :: "string list option"
  rw_CapacityScore :: float64

definition maxAgents :: nat where
  "maxAgents = 50"

definition maxAgentNameLen :: nat where
  "maxAgentNameLen = 100"

text \<open>The length and the elements of a slice that may be nil.\<close>

definition elems :: "'a list option \<Rightarrow> 'a list" where
  "elems xs = (case xs of None \<Rightarrow> [] | Some ys \<Rightarrow> ys)"

text \<open>The checks of an agents list: the message of the response that refuses it.\<close>

definition check_agents :: "string list \<Rightarrow> string option" where
  "check_agents as =
     (if maxAgents < length as then Some ''agents list exceeds maximum allowed size''
      else if \<exists>a \<in> set as. a = [] \<or> maxAgentNameLen < length a
      then Some ''agent name must be between 1 and 100 characters''
      else None)"

text \<open>
  The conversion of a float64 to an int truncates; out of range, amd64 gives the least integer.
\<close>

definition int_of_float :: "float64 \<Rightarrow> int" where
  "int_of_float x = (let i = (if x < 0 then \<lceil>x\<rceil> else \<lfloor>x\<rfloor>) in
     if - (2 ^ 63) \<le> i \<and> i < 2 ^ 63 then i else - (2 ^ 63))"

definition WorkerHandler_Register ::
  "ext \<Rightarrow> int \<Rightarrow> registerWorkerRequest decoded \<Rightarrow> handler" where
  "WorkerHandler_Register ex heartbeatTTLSec body r = (case rq_OrgUnitID r of
     None \<Rightarrow> writeError 401 ''missing org context''
   | Some orgID \<Rightarrow> (case body of
       Inl err \<Rightarrow> writeError 400 (''invalid JSON: '' @ err)
     | Inr req \<Rightarrow>
         if rw_HostnameHash req = [] \<and> rw_Hostname req = []
         then writeError 400 ''hostname or hostname_hash is required''
         else (case check_agents (elems (rw_Agents req)) of
             Some msg \<Rightarrow> writeError 400 msg
           | None \<Rightarrow>
               let hostnameHash = (if rw_HostnameHash req = []
                     then hex_encode (sha256 (bytes_of (rw_Hostname req))) else rw_HostnameHash req);
                   score0 = int_of_float (rw_CapacityScore req);
                   capacityScore = (if score0 = 0 then 100 else score0)
               in if capacityScore < 0 \<or> 100 < capacityScore
               then writeError 400 ''capacity_score must be between 0 and 100''
               else do {
                 now \<leftarrow> time_Now;
                 u \<leftarrow> uuid_New;
                 stored \<leftarrow> RegisterWorker \<lparr>wk_ID = u, wk_OrgUnitID = orgID,
                   wk_HostnameHash = hostnameHash, wk_Agents = elems (rw_Agents req),
                   wk_State = WorkerStateIdle, wk_LastHeartbeatAt = Some now,
                   wk_CapacityScore = capacityScore, wk_CreatedAt = now\<rparr> (rw_Agents req);
                 case stored of
                   Inl err \<Rightarrow> writeError 500 ''failed to register worker''
                 | Inr wid \<Rightarrow> do {
                     ignore_error (SetWorkerHeartbeat ex wid heartbeatTTLSec);
                     writeJSON 201 (RegisteredJSON wid WorkerStateIdle)
                   }
               })))"

definition WorkerHandler_List :: handler where
  "WorkerHandler_List r = (case rq_OrgUnitID r of
     None \<Rightarrow> writeError 401 ''missing org context''
   | Some orgID \<Rightarrow> do {
       ws \<leftarrow> ListWorkers orgID;
       case ws of
         Inl err \<Rightarrow> writeError 500 ''failed to list workers''
       | Inr ws \<Rightarrow> writeJSON 200 (WorkersJSON ws)
     })"

definition WorkerHandler_Get :: "ext \<Rightarrow> handler" where
  "WorkerHandler_Get ex r = (case rq_OrgUnitID r of
     None \<Rightarrow> writeError 401 ''missing org context''
   | Some orgID \<Rightarrow> (case uuid_Parse ex (URLParam r ''id'') of
       None \<Rightarrow> writeError 400 ''invalid worker ID''
     | Some workerID \<Rightarrow> do {
         found \<leftarrow> GetWorker workerID;
         case found of
           Inl err \<Rightarrow> writeError 404 ''worker not found''
         | Inr wk \<Rightarrow> if wk_OrgUnitID wk \<noteq> orgID then writeError 403 ''access denied''
             else writeJSON 200 (WorkerJSON wk)
       }))"

text \<open>The assigned task as the worker reads it; options that are not strings are dropped.\<close>

definition string_option :: "jsonmap \<Rightarrow> string \<Rightarrow> string option" where
  "string_option opts k = (case opts k of Some (JStr s) \<Rightarrow> Some s | _ \<Rightarrow> None)"

definition assigned_task :: "ext \<Rightarrow> Task \<Rightarrow> AssignedTask" where
  "assigned_task ex t = \<lparr>at_TaskID = uuid_String ex (t_ID t), at_Title = t_Title t,
     at_Description = t_Description t, at_TaskType = t_TaskType t, at_AIAgent = t_AIAgent t,
     at_Options = string_option (t_Options t),
     at_RepoURL = (case string_option (t_Options t) ''repo_url'' of None \<Rightarrow> [] | Some s \<Rightarrow> s),
     at_Branch = (case string_option (t_Options t) ''branch'' of None \<Rightarrow> [] | Some s \<Rightarrow> s),
     at_TimeoutSec = (case t_Options t ''timeout_sec'' of Some (JNum x) \<Rightarrow> int_of_float x | _ \<Rightarrow> 3600)\<rparr>"

text \<open>
  The body of a heartbeat is optional and its decoding error ignored: \<open>agents\<close> is what the decoder
  left in the struct.
\<close>

definition WorkerHandler_Heartbeat :: "ext \<Rightarrow> int \<Rightarrow> string list option \<Rightarrow> handler" where
  "WorkerHandler_Heartbeat ex heartbeatTTLSec agents r = (case rq_OrgUnitID r of
     None \<Rightarrow> writeError 401 ''missing org context''
   | Some orgID \<Rightarrow> (case uuid_Parse ex (URLParam r ''id'') of
       None \<Rightarrow> writeError 400 ''invalid worker ID''
     | Some workerID \<Rightarrow> do {
         found \<leftarrow> GetWorker workerID;
         case found of
           Inl err \<Rightarrow> writeError 404 ''worker not found''
         | Inr worker \<Rightarrow>
             if wk_OrgUnitID worker \<noteq> orgID then writeError 403 ''access denied''
             else (case check_agents (elems agents) of
                 Some msg \<Rightarrow> writeError 400 msg
               | None \<Rightarrow> do {
                   ignore_error (SetWorkerHeartbeat ex workerID heartbeatTTLSec);
                   updated \<leftarrow> UpdateWorkerHeartbeat workerID
                     (case agents of None \<Rightarrow> wk_Agents worker | Some as \<Rightarrow> as);
                   case updated of
                     Inl err \<Rightarrow> writeError 500 ''failed to update heartbeat''
                   | Inr _ \<Rightarrow> do {
                       assigned \<leftarrow> GetAssignedTaskForWorker workerID;
                       writeJSON 200 (HeartbeatJSON workerID heartbeatTTLSec
                         (case assigned of Inl err \<Rightarrow> None | Inr a \<Rightarrow> map_option (assigned_task ex) a))
                     }
                 })
       }))"

subsection \<open>API keys\<close>

record createAPIKeyRequest =
  ck_Name :: string
  ck_Scopes :: "string list option"
  ck_ExpiresAt :: "time option"
  ck_WorkerID :: "string option"

definition APIKeyHandler_CreateAPIKey ::
  "ext \<Rightarrow> ArgonParams \<Rightarrow> createAPIKeyRequest decoded \<Rightarrow> handler" where
  "APIKeyHandler_CreateAPIKey ex argon body r = (case rq_OrgUnitID r of
     None \<Rightarrow> writeError 401 ''missing org context''
   | Some orgID \<Rightarrow> (case body of
       Inl err \<Rightarrow> writeError 400 (''invalid JSON: '' @ err)
     | Inr req \<Rightarrow>
         if ck_Name req = [] then writeError 400 ''name is required''
         else do {
           g \<leftarrow> GenerateAPIKeyWithParams ex argon;
           case g of
             Inl err \<Rightarrow> writeError 500 ''failed to generate key''
           | Inr (plaintext, prefix, hash) \<Rightarrow>
               (case (case ck_WorkerID req of None \<Rightarrow> Some None
                      | Some s \<Rightarrow> map_option Some (uuid_Parse ex s)) of
                 None \<Rightarrow> writeError 400 ''invalid worker_id''
               | Some workerID \<Rightarrow> do {
                   kid \<leftarrow> uuid_New;
                   now \<leftarrow> time_Now;
                   created \<leftarrow> CreateAPIKey_row \<lparr>k_ID = kid, k_OrgUnitID = orgID, k_WorkerID = workerID,
                     k_KeyHash = hash, k_KeyPrefix = prefix, k_Name = ck_Name req,
                     k_Scopes = elems (ck_Scopes req), k_CreatedAt = now,
                     k_ExpiresAt = ck_ExpiresAt req, k_RevokedAt = None, k_LastUsedAt = None\<rparr>
                     (ck_Scopes req);
                   case created of
                     Inl err \<Rightarrow> writeError 500 ''failed to store key''
                   | Inr _ \<Rightarrow> writeJSON 201 (CreatedKeyJSON kid plaintext prefix (ck_Name req)
                       (ck_Scopes req) now (ck_ExpiresAt req))
                 })
         }))"

definition APIKeyHandler_RotateAPIKey :: "ext \<Rightarrow> ArgonParams \<Rightarrow> handler" where
  "APIKeyHandler_RotateAPIKey ex argon r = (case rq_OrgUnitID r of
     None \<Rightarrow> writeError 401 ''missing org context''
   | Some orgID \<Rightarrow> (case uuid_Parse ex (URLParam r ''id'') of
       None \<Rightarrow> writeError 400 ''invalid key ID''
     | Some keyID \<Rightarrow> do {
         g \<leftarrow> GenerateAPIKeyWithParams ex argon;
         case g of
           Inl err \<Rightarrow> writeError 500 ''failed to generate new key''
         | Inr (plaintext, prefix, hash) \<Rightarrow> do {
             rotated \<leftarrow> RotateAPIKey_row keyID orgID hash prefix;
             case rotated of
               Inl err \<Rightarrow> writeError 404 ''key not found or access denied''
             | Inr k \<Rightarrow> writeJSON 200 (RotatedKeyJSON (k_ID k) plaintext prefix (k_Name k))
           }
       }))"

definition APIKeyHandler_RevokeAPIKey :: "ext \<Rightarrow> handler" where
  "APIKeyHandler_RevokeAPIKey ex r = (case rq_OrgUnitID r of
     None \<Rightarrow> writeError 401 ''missing org context''
   | Some orgID \<Rightarrow> (case uuid_Parse ex (URLParam r ''id'') of
       None \<Rightarrow> writeError 400 ''invalid key ID''
     | Some keyID \<Rightarrow> do {
         revoked \<leftarrow> RevokeAPIKey_row keyID orgID;
         case revoked of
           Inl err \<Rightarrow> writeError 404 ''key not found or access denied''
         | Inr _ \<Rightarrow> no_content
       }))"

subsection \<open>Outputs\<close>

record submitRequest =
  so_TaskID :: string
  so_HMACSha256 :: string
  so_Artifacts :: "ArtifactMeta list"
  so_Metadata :: jsonmap

text \<open>The literal body of an \<^verbatim>\<open>http.Error\<close> call: an object with the one field error.\<close>

definition error_text :: "string \<Rightarrow> string" where
  "error_text msg = ''{'' @ [CHR 0x22] @ ''error'' @ [CHR 0x22] @ '':'' @ [CHR 0x22] @ msg @ [CHR 0x22] @ ''}''"

definition OutputHandler_Submit :: "ext \<Rightarrow> submitRequest decoded \<Rightarrow> handler" where
  "OutputHandler_Submit ex body r = (case rq_WorkerID r of
     Some (Some workerID) \<Rightarrow> (case body of
         Inl err \<Rightarrow> http_Error (error_text ''invalid JSON'') 400
       | Inr req \<Rightarrow>
           if rq_Header r ''X-HMAC-SHA256'' \<noteq> so_HMACSha256 req
           then http_Error (error_text ''HMAC mismatch'') 422
           else (case uuid_Parse ex (so_TaskID req) of
               None \<Rightarrow> http_Error (error_text ''invalid task_id'') 400
             | Some taskID \<Rightarrow> do {
                 oid \<leftarrow> uuid_New;
                 now \<leftarrow> time_Now;
                 created \<leftarrow> CreateOutput \<lparr>o_ID = oid, o_TaskID = taskID, o_WorkerID = workerID,
                   o_HMACSha256 = so_HMACSha256 req, o_Artifacts = so_Artifacts req,
                   o_Metadata = so_Metadata req, o_ReviewStatus = ReviewStatusPending,
                   o_ReviewerID = None, o_SubmittedAt = now, o_ReviewedAt = None\<rparr>;
                 case created of
                   Inl err \<Rightarrow> http_Error (error_text ''internal error'') 500
                 | Inr _ \<Rightarrow> do {
                     ignore_error (Award workerID (case rq_OrgUnitID r of None \<Rightarrow> 0 | Some i \<Rightarrow> i)
                       PointsTaskCompleted ''task_completed'' (Some taskID));
                     writeJSON 202 (OutputJSON oid)
                   }
               }))
   | _ \<Rightarrow> http_Error (error_text ''worker authentication required'') 403)"

record reviewRequest =
  rv_ReviewStatus :: string
  rv_Comment :: string

definition validStatuses :: "string list" where
  "validStatuses = [''approved'', ''rejected'', ''changes_requested'']"

text \<open>The points of a review decision.\<close>

definition review_points :: "string \<Rightarrow> uuid \<Rightarrow> uuid \<Rightarrow> uuid \<Rightarrow> unit effect" where
  "review_points status wid orgID oid =
     (if status = ''approved''
      then ignore_error (Award wid orgID PointsOutputApproved ''output_approved'' (Some oid))
      else if status = ''rejected''
      then ignore_error (Deduct wid orgID (- PointsOutputRejected) ''output_rejected'' (Some oid))
      else ret ())"

definition OutputHandler_Review :: "ext \<Rightarrow> reviewRequest decoded \<Rightarrow> handler" where
  "OutputHandler_Review ex body r = (case rq_OrgUnitID r of
     None \<Rightarrow> http_Error (error_text ''unauthorized'') 401
   | Some orgID \<Rightarrow>
       if rq_APIKeyID r = None \<or> rq_APIKeyID r = Some 0
       then http_Error (error_text ''reviewer authentication required'') 401
       else (case uuid_Parse ex (URLParam r ''id'') of
           None \<Rightarrow> http_Error (error_text ''invalid output id'') 400
         | Some oid \<Rightarrow> (case body of
             Inl err \<Rightarrow> http_Error (error_text ''invalid JSON'') 400
           | Inr req \<Rightarrow>
               if rv_ReviewStatus req \<notin> set validStatuses
               then http_Error (error_text ''invalid review_status'') 400
               else do {
                 found \<leftarrow> GetOutput oid;
                 case found of
                   Inl err \<Rightarrow> http_Error (error_text ''output not found'') 404
                 | Inr output \<Rightarrow> do {
                     task \<leftarrow> GetTask (o_TaskID output);
                     case task of
                       Inl err \<Rightarrow> http_Error (error_text ''internal error'') 500
                     | Inr t \<Rightarrow>
                         if t_OrgUnitID t \<noteq> orgID then http_Error (error_text ''access denied'') 403
                         else do {
                           updated \<leftarrow> UpdateOutputReview oid
                             (ReviewStatus_of_string (rv_ReviewStatus req)) (the (rq_APIKeyID r));
                           case updated of
                             Inl err \<Rightarrow> http_Error (error_text ''internal error'') 500
                           | Inr _ \<Rightarrow> do {
                               review_points (rv_ReviewStatus req) (o_WorkerID output) orgID oid;
                               no_content
                             }
                         }
                   }
               })))"

subsection \<open>Organisations\<close>

record createOrgRequest =
  co_Name :: string
  co_PlanTier :: string

definition OrgHandler_Create :: "createOrgRequest decoded \<Rightarrow> handler" where
  "OrgHandler_Create body r = (case body of
     Inl err \<Rightarrow> http_Error (error_text ''invalid JSON'') 400
   | Inr req \<Rightarrow>
       if co_Name req = [] then http_Error (error_text ''name is required'') 400
       else do {
         now \<leftarrow> time_Now;
         oid \<leftarrow> uuid_New;
         let og = \<lparr>org_ID = oid, org_Name = co_Name req,
           org_PlanTier = (if co_PlanTier req = [] then ''free'' else co_PlanTier req),
           org_Policy = Map.empty, org_CreatedAt = now, org_UpdatedAt = now\<rparr>;
         created \<leftarrow> CreateOrg og;
         case created of
           Inl err \<Rightarrow> http_Error (error_text ''internal error'') 500
         | Inr _ \<Rightarrow> writeJSON 201 (OrgJSON og)
       })"

definition OrgHandler_Get :: "ext \<Rightarrow> handler" where
  "OrgHandler_Get ex r = (case uuid_Parse ex (URLParam r ''id'') of
     None \<Rightarrow> http_Error (error_text ''invalid org id'') 400
   | Some oid \<Rightarrow> do {
       found \<leftarrow> GetOrg oid;
       case found of
         Inl err \<Rightarrow> http_Error (error_text ''not found'') 404
       | Inr og \<Rightarrow> writeJSON 200 (OrgJSON og)
     })"

definition OrgHandler_List :: handler where
  "OrgHandler_List r = do {
     found \<leftarrow> ListOrgs;
     case found of
       Inl err \<Rightarrow> http_Error (error_text ''internal error'') 500
     | Inr ogs \<Rightarrow> writeJSON 200 (OrgsJSON ogs)
   }"

text \<open>
  The document a policy marshals to. A nil slice marshals to null and is read back as no entries;
  it is written here as the empty array.
\<close>

definition marshal_TimeWindow :: "TimeWindow \<Rightarrow> json" where
  "marshal_TimeWindow tw = JObj [
     (''day_of_week'', JArr (map (\<lambda>i. JNum (of_int i)) (tw_DayOfWeek tw))),
     (''start_hour'', JNum (of_int (tw_StartHour tw))),
     (''end_hour'', JNum (of_int (tw_EndHour tw))),
     (''timezone'', JStr (tw_Timezone tw))]"

definition marshal_OrgPolicy :: "OrgPolicy \<Rightarrow> jsonmap" where
  "marshal_OrgPolicy p = [
     ''execution_windows'' \<mapsto> JArr (map marshal_TimeWindow (op_ExecutionWindows p)),
     ''max_concurrent_jobs'' \<mapsto> JNum (of_int (op_MaxConcurrentJobs p)),
     ''allowed_agents'' \<mapsto> JArr (map JStr (op_AllowedAgents p)),
     ''auto_merge'' \<mapsto> JBool (op_AutoMerge p),
     ''require_review'' \<mapsto> JBool (op_RequireReview p),
     ''max_retries'' \<mapsto> JNum (of_int (op_MaxRetries p))]"

definition OrgHandler_UpdatePolicy :: "ext \<Rightarrow> OrgPolicy decoded \<Rightarrow> handler" where
  "OrgHandler_UpdatePolicy ex body r = (case uuid_Parse ex (URLParam r ''id'') of
     None \<Rightarrow> http_Error (error_text ''invalid org id'') 400
   | Some oid \<Rightarrow> (case body of
       Inl err \<Rightarrow> http_Error (error_text ''invalid JSON'') 400
     | Inr policy \<Rightarrow> do {
         updated \<leftarrow> UpdateOrgPolicy oid (marshal_OrgPolicy policy);
         case updated of
           Inl err \<Rightarrow> http_Error (error_text ''internal error'') 500
         | Inr _ \<Rightarrow> no_content
       }))"

subsection \<open>The audit log and the leaderboard\<close>

definition time_param :: "string \<Rightarrow> time \<Rightarrow> time" where
  "time_param s dflt = (if s = [] then dflt
     else case parse_RFC3339 s of None \<Rightarrow> dflt | Some t \<Rightarrow> t)"

definition AuditHandler_List :: handler where
  "AuditHandler_List r = (case rq_OrgUnitID r of
     None \<Rightarrow> http_Error (error_text ''unauthenticated'') 401
   | Some orgUnitID \<Rightarrow> do {
       now \<leftarrow> time_Now;
       found \<leftarrow> QueryAuditLog orgUnitID
         (time_param (rq_Query r ''from'') (now - 24 * Hour)) (time_param (rq_Query r ''to'') now)
         (int_param (rq_Query r ''limit'') (\<lambda>v. 0 < v \<and> v \<le> 1000) 100)
         (int_param (rq_Query r ''offset'') (\<lambda>v. 0 \<le> v) 0);
       case found of
         Inl err \<Rightarrow> http_Error (error_text ''internal error'') 500
       | Inr events \<Rightarrow> writeJSON 200 (AuditJSON events)
     })"

definition BrownieHandler_Leaderboard :: handler where
  "BrownieHandler_Leaderboard r = (case rq_OrgUnitID r of
     None \<Rightarrow> http_Error (error_text ''unauthenticated'') 401
   | Some orgUnitID \<Rightarrow> do {
       found \<leftarrow> GetLeaderboard orgUnitID
         (int_param (rq_Query r ''limit'') (\<lambda>v. 0 < v \<and> v \<le> 100) 10);
       case found of
         Inl err \<Rightarrow> http_Error (error_text ''internal error'') 500
       | Inr entries \<Rightarrow> writeJSON 200 (LeaderboardJSON entries)
     })"

subsection \<open>The dashboard snapshot\<close>

text \<open>
  The six queries run in goroutines of their own; each one reads and fills one field, and a failed
  query leaves its field empty. The model issues them in the order of the source.
\<close>

definition or_empty :: "'a list fallible \<Rightarrow> 'a list effect" where
  "or_empty q = do { r \<leftarrow> q; ret (case r of Inl err \<Rightarrow> [] | Inr xs \<Rightarrow> xs) }"

definition security_event :: "AuditEvent \<Rightarrow> bool" where
  "security_event ev \<longleftrightarrow> ev_Action ev = ''auth_failed'' \<or> ev_ResourceType ev = ''api_key''"

definition DashboardHandler_Snapshot :: handler where
  "DashboardHandler_Snapshot r = (case rq_OrgUnitID r of
     None \<Rightarrow> writeError 401 ''missing org context''
   | Some orgID \<Rightarrow> do {
       now \<leftarrow> time_Now;
       ws \<leftarrow> or_empty (ListWorkers orgID);
       queued \<leftarrow> or_empty (ListTasksByOrg orgID 50 0);
       running \<leftarrow> or_empty (ListTasksByOrg orgID 50 0);
       completed \<leftarrow> or_empty (ListTasksByOrg orgID 20 0);
       entries \<leftarrow> or_empty (GetLeaderboard orgID 10);
       events \<leftarrow> or_empty (QueryAuditLog orgID (now - 24 * Hour) now 20 0);
       writeJSON 200 (SnapshotJSON \<lparr>ds_GeneratedAt = now,
         ds_ActiveWorkers =
           filter (\<lambda>w. wk_State w = WorkerStateIdle \<or> wk_State w = WorkerStateBusy) ws,
         ds_QueuedTasks = filter (\<lambda>t. t_State t = TaskStateQueued) queued,
         ds_RunningTasks =
           filter (\<lambda>t. t_State t = TaskStateRunning \<or> t_State t = TaskStateAssigned) running,
         ds_RecentCompleted =
           filter (\<lambda>t. t_State t = TaskStateCompleted \<or> t_State t = TaskStateFailed) completed,
         ds_TopBrownieEarners = entries,
         ds_RecentSecurityEvents = filter security_event events\<rparr>)
     })"

subsection \<open>The event stream\<close>

text \<open>
  \<^verbatim>\<open>ServeSSE\<close> up to its loop: registration, the headers and the first event. The loop then writes what
  \<open>receive\<close> takes from the channel until the client goes away and is unregistered.
\<close>

definition ServeSSE :: "ext \<Rightarrow> (json \<Rightarrow> string option) \<Rightarrow> uuid \<Rightarrow> handler" where
  "ServeSSE ex marshal orgID r = do {
     h \<leftarrow> gets whub;
     if h_max h \<le> int (total_clients h) then http_Error ''too many connections'' 503
     else do {
       cid \<leftarrow> uuid_New;
       modify (\<lambda>w. w\<lparr>whub := snd (hub_Register orgID cid (whub w))\<rparr>);
       eid \<leftarrow> uuid_New;
       ret \<lparr>rs_Status = 200,
         rs_Header = [(''Content-Type'', ''text/event-stream''), (''Cache-Control'', ''no-cache''),
           (''Connection'', ''keep-alive''), (''X-Accel-Buffering'', ''no'')],
         rs_Body = Raw (sse_text marshal \<lparr>he_ID = uuid_String ex eid, he_Type = ''connected'',
           he_Data = JObj [(''client_id'', JStr (uuid_String ex cid))]\<rparr>)\<rparr>
     }
   }"

definition DashboardHandler_Stream :: "ext \<Rightarrow> (json \<Rightarrow> string option) \<Rightarrow> handler" where
  "DashboardHandler_Stream ex marshal r = (case rq_OrgUnitID r of
     None \<Rightarrow> writeError 401 ''missing org context''
   | Some orgID \<Rightarrow> ServeSSE ex marshal orgID r)"

subsection \<open>Health\<close>

definition HealthHandler_Liveness :: handler where
  "HealthHandler_Liveness r = writeJSON 200 (StatusJSON ''ok'')"

text \<open>A ping of the database or of Redis succeeds or fails; the texts of its errors are given.\<close>

definition Ping :: "string \<Rightarrow> (string + unit) effect" where
  "Ping err = do { failed \<leftarrow> fault; ret (if failed then Inl err else Inr ()) }"

definition ping_detail :: "string + unit \<Rightarrow> string" where
  "ping_detail p = (case p of Inl err \<Rightarrow> ''unhealthy: '' @ err | Inr _ \<Rightarrow> ''ok'')"

definition HealthHandler_Readiness :: "string \<Rightarrow> string \<Rightarrow> handler" where
  "HealthHandler_Readiness pgErr redisErr r = do {
     pg \<leftarrow> Ping pgErr;
     rd \<leftarrow> Ping redisErr;
     let allOK = (pg = Inr () \<and> rd = Inr ());
     now \<leftarrow> time_Now;
     writeJSON (if allOK then 200 else 503)
       (ReadyJSON (if allOK then ''ok'' else ''degraded'')
         [(''postgres'', ping_detail pg), (''redis'', ping_detail rd)] now)
   }"

lemmas request_handler_defs [handler_defs] =
  TaskHandler_CreateTask_def TaskHandler_GetTask_def TaskHandler_UpdateTaskStatus_def
  TaskHandler_ListTasks_def WorkerHandler_Register_def WorkerHandler_List_def
  WorkerHandler_Get_def WorkerHandler_Heartbeat_def APIKeyHandler_CreateAPIKey_def
  APIKeyHandler_RotateAPIKey_def APIKeyHandler_RevokeAPIKey_def OutputHandler_Submit_def
  OutputHandler_Review_def OrgHandler_Create_def OrgHandler_Get_def OrgHandler_List_def
  OrgHandler_UpdatePolicy_def AuditHandler_List_def BrownieHandler_Leaderboard_def
  DashboardHandler_Snapshot_def or_empty_def ServeSSE_def DashboardHandler_Stream_def HealthHandler_Liveness_def HealthHandler_Readiness_def writeError_def writeJSON_def
  http_Error_def no_content_def

end
