(* ===== verification/Router.thy ===== *)
theory Router
  imports Handlers
begin

section \<open>The router\<close>

text \<open>
  \<^verbatim>\<open>NewRouter\<close> of \<^verbatim>\<open>internal/api/router.go\<close>: the table of routes with their scopes, the middleware
  chain of \<^verbatim>\<open>/api/v1\<close>, and the dispatch of a request that has passed the global middleware of the
  \<^verbatim>\<open>chi\<close> package (which only logs, recovers, bounds the time and rewrites the remote address).
  Decoding a body into a struct and encoding a value is done by \<^verbatim>\<open>encoding/json\<close>; both are given.
\<close>

record RouterDeps =
  rd_ConcreteStore :: bool
  rd_BrownieEng :: bool
  rd_Marshal :: "json \<Rightarrow> string option"
  rd_Scanner :: "Scanner option"
  rd_ArgonParams :: ArgonParams
  rd_HeartbeatTTLSec :: int
  rd_RatePerMin :: int
  rd_pgErr :: string
  rd_redisErr :: string

record decoders =
  dec_createTask :: "string \<Rightarrow> createTaskRequest decoded"
  dec_updateTaskState :: "string \<Rightarrow> updateTaskStateRequest decoded"
  dec_registerWorker :: "string \<Rightarrow> registerWorkerRequest decoded"
  dec_heartbeat :: "string \<Rightarrow> string list option"
  dec_createAPIKey :: "string \<Rightarrow> createAPIKeyRequest decoded"
  dec_createOrg :: "string \<Rightarrow> createOrgRequest decoded"
  dec_policy :: "string \<Rightarrow> OrgPolicy decoded"
  dec_submit :: "string \<Rightarrow> submitRequest decoded"
  dec_review :: "string \<Rightarrow> reviewRequest decoded"

datatype endpoint =
    Ep_ListTasks | Ep_CreateTask | Ep_GetTask | Ep_UpdateTaskStatus
  | Ep_ListWorkers | Ep_GetWorker | Ep_Register | Ep_Heartbeat
  | Ep_CreateAPIKey | Ep_RotateAPIKey | Ep_RevokeAPIKey
  | Ep_Stream | Ep_Snapshot
  | Ep_ListOrgs | Ep_CreateOrg | Ep_GetOrg | Ep_UpdatePolicy
  | Ep_ListAudit | Ep_Leaderboard | Ep_Submit | Ep_Review

datatype segment = Lit string | IdParam

record route =
  ro_Method :: string
  ro_Pattern :: "segment list"
  ro_Scope :: "string option"
  ro_Endpoint :: endpoint

definition mk_route :: "string \<Rightarrow> segment list \<Rightarrow> string option \<Rightarrow> endpoint \<Rightarrow> route" where
  "mk_route m p s e = \<lparr>ro_Method = m, ro_Pattern = p, ro_Scope = s, ro_Endpoint = e\<rparr>"

text \<open>A mounted collection answers with and without the trailing slash.\<close>

definition collection :: "string \<Rightarrow> string \<Rightarrow> string option \<Rightarrow> endpoint \<Rightarrow> route list" where
  "collection m c s e = [mk_route m [Lit c] s e, mk_route m [Lit c, Lit []] s e]"

definition routes :: "RouterDeps \<Rightarrow> route list" where
  "routes d =
     collection ''GET'' ''tasks'' None Ep_ListTasks @
     collection ''POST'' ''tasks'' (Some ''tasks:write'') Ep_CreateTask @
     [mk_route ''GET'' [Lit ''tasks'', IdParam] None Ep_GetTask,
      mk_route ''PATCH'' [Lit ''tasks'', IdParam, Lit ''status''] (Some ''tasks:write'') Ep_UpdateTaskStatus] @
     collection ''GET'' ''workers'' None Ep_ListWorkers @
     [mk_route ''GET'' [Lit ''workers'', IdParam] None Ep_GetWorker,
      mk_route ''POST'' [Lit ''workers'', Lit ''register''] (Some ''workers:register'') Ep_Register,
      mk_route ''POST'' [Lit ''workers'', IdParam, Lit ''heartbeat''] (Some ''workers:heartbeat'') Ep_Heartbeat] @
     collection ''POST'' ''api-keys'' (Some ''keys:write'') Ep_CreateAPIKey @
     [mk_route ''POST'' [Lit ''api-keys'', IdParam, Lit ''rotate''] (Some ''keys:write'') Ep_RotateAPIKey,
      mk_route ''DELETE'' [Lit ''api-keys'', IdParam] (Some ''keys:write'') Ep_RevokeAPIKey,
      mk_route ''GET'' [Lit ''dashboard'', Lit ''stream''] None Ep_Stream,
      mk_route ''GET'' [Lit ''dashboard'', Lit ''snapshot''] None Ep_Snapshot] @
     (if rd_ConcreteStore d then
        collection ''GET'' ''orgs'' (Some ''admin'') Ep_ListOrgs @
        collection ''POST'' ''orgs'' (Some ''admin'') Ep_CreateOrg @
        [mk_route ''GET'' [Lit ''orgs'', IdParam] (Some ''admin'') Ep_GetOrg,
         mk_route ''PUT'' [Lit ''orgs'', IdParam, Lit ''policy''] (Some ''admin'') Ep_UpdatePolicy] @
        collection ''GET'' ''audit'' None Ep_ListAudit @
        [mk_route ''GET'' [Lit ''brownie'', Lit ''leaderboard''] None Ep_Leaderboard] @
        (if rd_BrownieEng d then
           collection ''POST'' ''outputs'' (Some ''workers:heartbeat'') Ep_Submit @
           [mk_route ''POST'' [Lit ''outputs'', IdParam, Lit ''review''] (Some ''tasks:write'') Ep_Review]
         else [])
      else [])"

fun match_segments :: "segment list \<Rightarrow> string list \<Rightarrow> (string \<times> string) list option" where
  "match_segments [] [] = Some []"
| "match_segments (Lit s # ps) (x # xs) = (if s = x then match_segments ps xs else None)"
| "match_segments (IdParam # ps) (x # xs) =
     (if x = [] then None else map_option (\<lambda>bs. (''id'', x) # bs) (match_segments ps xs))"
| "match_segments _ _ = None"

definition find_route :: "RouterDeps \<Rightarrow> string \<Rightarrow> string list \<Rightarrow> route option" where
  "find_route d m segs =
     find (\<lambda>ro. ro_Method ro = m \<and> match_segments (ro_Pattern ro) segs \<noteq> None) (routes d)"

definition run_endpoint :: "ext \<Rightarrow> RouterDeps \<Rightarrow> decoders \<Rightarrow> endpoint \<Rightarrow> handler" where
  "run_endpoint ex d dec ep r = (case ep of
     Ep_ListTasks \<Rightarrow> TaskHandler_ListTasks r
   | Ep_CreateTask \<Rightarrow> TaskHandler_CreateTask ex (rd_Scanner d) (dec_createTask dec (rq_Body r)) r
   | Ep_GetTask \<Rightarrow> TaskHandler_GetTask ex r
   | Ep_UpdateTaskStatus \<Rightarrow> TaskHandler_UpdateTaskStatus ex (dec_updateTaskState dec (rq_Body r)) r
   | Ep_ListWorkers \<Rightarrow> WorkerHandler_List r
   | Ep_GetWorker \<Rightarrow> WorkerHandler_Get ex r
   | Ep_Register \<Rightarrow> WorkerHandler_Register ex (rd_HeartbeatTTLSec d) (dec_registerWorker dec (rq_Body r)) r
   | Ep_Heartbeat \<Rightarrow> WorkerHandler_Heartbeat ex (rd_HeartbeatTTLSec d) (dec_heartbeat dec (rq_Body r)) r
   | Ep_CreateAPIKey \<Rightarrow> APIKeyHandler_CreateAPIKey ex (rd_ArgonParams d) (dec_createAPIKey dec (rq_Body r)) r
   | Ep_RotateAPIKey \<Rightarrow> APIKeyHandler_RotateAPIKey ex (rd_ArgonParams d) r
   | Ep_RevokeAPIKey \<Rightarrow> APIKeyHandler_RevokeAPIKey ex r
   | Ep_Stream \<Rightarrow> DashboardHandler_Stream ex (rd_Marshal d) r
   | Ep_Snapshot \<Rightarrow> DashboardHandler_Snapshot r
   | Ep_ListOrgs \<Rightarrow> OrgHandler_List r
   | Ep_CreateOrg \<Rightarrow> OrgHandler_Create (dec_createOrg dec (rq_Body r)) r
   | Ep_GetOrg \<Rightarrow> OrgHandler_Get ex r
   | Ep_UpdatePolicy \<Rightarrow> OrgHandler_UpdatePolicy ex (dec_policy dec (rq_Body r)) r
   | Ep_ListAudit \<Rightarrow> AuditHandler_List r
   | Ep_Leaderboard \<Rightarrow> BrownieHandler_Leaderboard r
   | Ep_Submit \<Rightarrow> OutputHandler_Submit ex (dec_submit dec (rq_Body r)) r
   | Ep_Review \<Rightarrow> OutputHandler_Review ex (dec_review dec (rq_Body r)) r)"

definition run_route :: "ext \<Rightarrow> RouterDeps \<Rightarrow> decoders \<Rightarrow> route \<Rightarrow> handler" where
  "run_route ex d dec ro = (case ro_Scope ro of
     None \<Rightarrow> run_endpoint ex d dec (ro_Endpoint ro)
   | Some scope \<Rightarrow> ScopeRequired scope (run_endpoint ex d dec (ro_Endpoint ro)))"

text \<open>The router's own answers where no route fits.\<close>

definition not_found :: "response effect" where
  "not_found = http_Error ''404 page not found'' 404"

definition method_not_allowed :: "response effect" where
  "method_not_allowed = ret \<lparr>rs_Status = 405, rs_Header = [], rs_Body = NoBody\<rparr>"

definition dispatch :: "ext \<Rightarrow> RouterDeps \<Rightarrow> decoders \<Rightarrow> string list \<Rightarrow> handler" where
  "dispatch ex d dec segs r = (case find_route d (rq_Method r) segs of
     Some ro \<Rightarrow> run_route ex d dec ro r
   | None \<Rightarrow> if \<exists>ro \<in> set (routes d). match_segments (ro_Pattern ro) segs \<noteq> None
       then method_not_allowed else not_found)"

definition route_params :: "RouterDeps \<Rightarrow> string \<Rightarrow> string list \<Rightarrow> (string \<times> string) list" where
  "route_params d m segs = (case find_route d m segs of None \<Rightarrow> []
     | Some ro \<Rightarrow> the (match_segments (ro_Pattern ro) segs))"

definition serve :: "ext \<Rightarrow> RouterDeps \<Rightarrow> decoders \<Rightarrow> handler" where
  "serve ex d dec r =
     (let path = Split CHR ''/'' (rq_Path r); segs = drop 3 path in
      if take 3 path = [[], ''api'', ''v1''] then
        Auth ex (Audit ex (RateLimit ex (rd_RatePerMin d) (dispatch ex d dec segs)))
          (r\<lparr>rq_URLParams := route_params d (rq_Method r) segs\<rparr>)
      else if rq_Path r = ''/healthz'' then
        (if rq_Method r = ''GET'' then HealthHandler_Liveness r else method_not_allowed)
      else if rq_Path r = ''/readyz'' then
        (if rq_Method r = ''GET''
         then HealthHandler_Readiness (rd_pgErr d) (rd_redisErr d) r else method_not_allowed)
      else not_found)"

end
