(* ===== verification/Frame.thy ===== *)
theory Frame
  imports Router
begin

section \<open>What every operation of the control plane keeps\<close>

text \<open>
  The interface between the stores and the code above them. The locale's parameter is a relation
  between worlds; its assumptions say that each store operation, as the handlers, the scheduler
  and the reaper call it, keeps the relation. Its theorems say that then every handler, every
  request through the router, every scheduling round and every reaping cycle keeps it. The
  components below instantiate it with the relations of their safety properties.
\<close>

text \<open>The task rows the handlers insert.\<close>

definition fresh_task :: "Task \<Rightarrow> bool" where
  "fresh_task t \<longleftrightarrow> t_State t = TaskStateQueued \<and> t_AssignedWorkerID t = None
     \<and> t_RetryCount t = 0 \<and> t_AssignedAt t = None \<and> t_StartedAt t = None
     \<and> t_CompletedAt t = None \<and> t_FailedAt t = None"

definition report_state :: "TaskState \<Rightarrow> bool" where
  "report_state st \<longleftrightarrow> st \<in> {TaskStateRunning, TaskStateCompleted, TaskStateFailed}"

text \<open>The states the scheduler and the reaper give to workers.\<close>

definition served_state :: "WorkerState \<Rightarrow> bool" where
  "served_state wst \<longleftrightarrow> wst \<in> {WorkerStateBusy, WorkerStateOffline}"

text \<open>What the handlers that only read depend on.\<close>

locale request_frame = world_relation R for R :: "world \<Rightarrow> world \<Rightarrow> bool" +
  assumes keeps_redis_keys: "r_queue r = r_queue (wredis w) \<Longrightarrow> R w (w\<lparr>wredis := r\<rparr>)"
    and keeps_hub: "R w (w\<lparr>whub := h\<rparr>)"
begin

lemma keeps_SetWorkerHeartbeat: "keeps (SetWorkerHeartbeat ex wid ttl)"
  unfolding SetWorkerHeartbeat_def by (auto intro!: keeps_redis_cmd keeps_redis_keys split: if_splits)

lemma keeps_GetWorkerHeartbeat: "keeps (GetWorkerHeartbeat ex wid)"
  unfolding GetWorkerHeartbeat_def by (auto intro!: keeps_redis_cmd keeps_redis_keys)

lemma keeps_RateLimitIncr: "keeps (RateLimitIncr key window)"
  unfolding RateLimitIncr_def by (auto intro!: keeps_redis_cmd keeps_redis_keys simp: Let_def)

lemma keeps_QueueLength: "keeps QueueLength"
  unfolding QueueLength_def by (auto intro!: keeps_redis_cmd keeps_redis_keys)

lemma keeps_reads:
  "keeps (GetTask tid)" "keeps (ListTasksByOrg oid limit offset)"
  "keeps (GetAssignedTaskForWorker wid)" "keeps (GetStaleTasks deadline)" "keeps (GetWorker wid)"
  "keeps (ListWorkers oid)" "keeps ListIdleWorkers" "keeps (GetAPIKeyByPrefix prefix)"
  "keeps (GetOutput pid)" "keeps (GetLeaderboard oid limit)" "keeps (GetOrg oid)" "keeps ListOrgs"
  "keeps (QueryAuditLog oid from_t to_t limit offset)"
  by (simp_all add: store_defs keeps_sql_query)

lemma keeps_ignore_error: "keeps m \<Longrightarrow> keeps (ignore_error m)"
  unfolding ignore_error_def by (intro keeps_intros)

lemma keeps_responses:
  "keeps (writeJSON c v)" "keeps (writeError c msg)" "keeps (http_Error msg c)" "keeps no_content"
  "keeps (writeUnauthorized msg)" "keeps (writeForbidden msg)" "keeps not_found"
  "keeps method_not_allowed"
  by (simp_all add: writeJSON_def writeError_def http_Error_def no_content_def writeUnauthorized_def
      writeForbidden_def not_found_def method_not_allowed_def keeps_ret)

lemma keeps_or_empty: "keeps q \<Longrightarrow> keeps (or_empty q)"
  unfolding or_empty_def by (intro keeps_intros)

lemmas keeps_calls = effect_keeps keeps_responses keeps_reads keeps_ignore_error
  keeps_SetWorkerHeartbeat keeps_GetWorkerHeartbeat keeps_RateLimitIncr keeps_QueueLength keeps_or_empty

subsection \<open>Handlers that only read\<close>

lemma keeps_task_handlers:
  "keeps (TaskHandler_GetTask ex r)" "keeps (TaskHandler_ListTasks r)"
  unfolding TaskHandler_GetTask_def TaskHandler_ListTasks_def
  by (intro keeps_intros keeps_calls)+

lemma keeps_worker_reads:
  "keeps (WorkerHandler_List r)" "keeps (WorkerHandler_Get ex r)"
  unfolding WorkerHandler_List_def WorkerHandler_Get_def by (intro keeps_intros keeps_calls)+

lemma keeps_org_reads: "keeps (OrgHandler_Get ex r)" "keeps (OrgHandler_List r)"
  unfolding OrgHandler_Get_def OrgHandler_List_def by (intro keeps_intros keeps_calls)+

lemma keeps_ServeSSE: "keeps (ServeSSE ex marshal orgID r)"
  unfolding ServeSSE_def by (intro keeps_intros keeps_calls keeps_modify keeps_hub)

lemma keeps_read_handlers:
  "keeps (AuditHandler_List r)" "keeps (BrownieHandler_Leaderboard r)"
  "keeps (HealthHandler_Liveness r)" "keeps (HealthHandler_Readiness pgErr redisErr r)"
  "keeps (DashboardHandler_Snapshot r)" "keeps (DashboardHandler_Stream ex marshal r)"
  unfolding AuditHandler_List_def BrownieHandler_Leaderboard_def HealthHandler_Liveness_def
    HealthHandler_Readiness_def Ping_def DashboardHandler_Snapshot_def DashboardHandler_Stream_def
  by (intro keeps_intros keeps_calls keeps_ServeSSE)+

subsection \<open>Middleware\<close>

lemma keeps_ScopeRequired: "keeps (nxt r) \<Longrightarrow> keeps (ScopeRequired scope nxt r)"
  unfolding ScopeRequired_def by (intro keeps_intros keeps_calls) assumption

lemma keeps_RateLimit: "keeps (nxt r) \<Longrightarrow> keeps (RateLimit ex rate nxt r)"
  unfolding RateLimit_def add_headers_def by (intro keeps_intros keeps_calls) assumption+

end

text \<open>The middleware books the use of a key and writes to the audit log.\<close>

locale middleware_frame = request_frame R for R :: "world \<Rightarrow> world \<Rightarrow> bool" +
  assumes keeps_UpdateAPIKeyLastUsed: "keeps (UpdateAPIKeyLastUsed kid)"
    and keeps_WriteAuditEvent: "keeps (WriteAuditEvent aev)"
begin

lemma keeps_writeAuthAuditEvent: "keeps (writeAuthAuditEvent r actor oid action detail)"
  unfolding writeAuthAuditEvent_def
  by (intro keeps_intros keeps_uuid_New keeps_time_Now keeps_ignore_error keeps_WriteAuditEvent)

lemmas keeps_booking = keeps_writeAuthAuditEvent keeps_WriteAuditEvent keeps_UpdateAPIKeyLastUsed

lemma keeps_Auth: "(\<And>k. keeps (nxt (with_key k r))) \<Longrightarrow> keeps (Auth ex nxt r)"
  unfolding Auth_def Let_def by (intro keeps_intros keeps_calls keeps_booking) assumption

lemma keeps_Audit: "keeps (nxt r) \<Longrightarrow> keeps (Audit ex nxt r)"
  unfolding Audit_def Let_def by (intro keeps_intros keeps_calls keeps_booking) assumption+

end

subsection \<open>Operations that write\<close>

text \<open>
  All the writing operations but registration come first; some properties hold of them alone. The
  scheduler marks workers busy and the reaper marks them offline.
\<close>

locale handler_writes = request_frame R for R :: "world \<Rightarrow> world \<Rightarrow> bool" +
  assumes keeps_CreateTask: "fresh_task t \<Longrightarrow> keeps (CreateTask t)"
    and keeps_report: "report_state st \<Longrightarrow> keeps (UpdateTaskState tid st (Some wid))"
    and keeps_requeue: "keeps (UpdateTaskState tid TaskStateQueued None)"
    and keeps_claim: "keeps (WithTx (ClaimNextTask wid agents))"
    and keeps_UpdateWorkerState: "served_state wst \<Longrightarrow> keeps (UpdateWorkerState wid wst)"
    and keeps_UpdateWorkerHeartbeat: "keeps (UpdateWorkerHeartbeat wid agents)"
    and keeps_CreateAPIKey: "keeps (CreateAPIKey_row k scopes)"
    and keeps_RevokeAPIKey: "keeps (RevokeAPIKey_row kid oid)"
    and keeps_RotateAPIKey: "keeps (RotateAPIKey_row kid oid hash prefix)"
    and keeps_CreateOutput: "o_ReviewStatus p = ReviewStatusPending \<Longrightarrow> keeps (CreateOutput p)"
    and keeps_UpdateOutputReview: "keeps (UpdateOutputReview pid status reviewer)"
    and keeps_WriteLedgerEntry: "keeps (WriteLedgerEntry ev)"
    and keeps_CreateOrg: "keeps (CreateOrg og)"
    and keeps_UpdateOrgPolicy: "keeps (UpdateOrgPolicy oid policy)"
    and keeps_Enqueue: "keeps (Enqueue ex taskID pri qat)"

locale handler_frame = handler_writes R for R :: "world \<Rightarrow> world \<Rightarrow> bool" +
  assumes keeps_RegisterWorker: "keeps (RegisterWorker wk agents_opt)"
begin

lemma keeps_hashArgon2id: "keeps (hashArgon2id ex pt p)"
  unfolding hashArgon2id_def by (intro keeps_intros keeps_rand_Read)

lemma keeps_GenerateAPIKey: "keeps (GenerateAPIKeyWithParams ex p)"
  unfolding GenerateAPIKeyWithParams_def by (intro keeps_intros keeps_rand_Read keeps_hashArgon2id)

lemma keeps_brownie: "keeps (Award wid oid pts reason ref)" "keeps (Deduct wid oid pts reason ref)"
  unfolding Award_def Deduct_def brownie_write_def
  by (intro keeps_intros keeps_uuid_New keeps_WriteLedgerEntry)+

lemma keeps_review_points: "keeps (review_points status wid orgID oid)"
  unfolding review_points_def by (intro keeps_intros keeps_ignore_error keeps_brownie)

lemma keeps_worker_states:
  "keeps (UpdateWorkerState wid WorkerStateBusy)" "keeps (UpdateWorkerState wid WorkerStateOffline)"
  by (simp_all add: keeps_UpdateWorkerState served_state_def)

lemmas keeps_writes = keeps_calls keeps_report
  keeps_requeue keeps_claim keeps_RegisterWorker keeps_worker_states
  keeps_UpdateWorkerHeartbeat keeps_CreateAPIKey keeps_RevokeAPIKey
  keeps_RotateAPIKey keeps_UpdateOutputReview keeps_CreateOrg keeps_UpdateOrgPolicy
  keeps_Enqueue keeps_GenerateAPIKey keeps_brownie keeps_review_points

subsection \<open>Handlers that write\<close>

lemma keeps_TaskHandler_CreateTask: "keeps (TaskHandler_CreateTask ex sc body r)"
  unfolding TaskHandler_CreateTask_def Let_def
  by (intro keeps_intros keeps_writes keeps_CreateTask) (simp add: fresh_task_def)

lemma validate_report_state: "validateStateTransition st = Inr u \<Longrightarrow> report_state st"
  by (auto simp: validateStateTransition_def report_state_def split: if_splits)

lemma keeps_TaskHandler_UpdateTaskStatus: "keeps (TaskHandler_UpdateTaskStatus ex body r)"
proof -
  have update: "keeps (case validateStateTransition st of Inl err \<Rightarrow> writeError 400 err
      | Inr _ \<Rightarrow> State_Monad.bind (GetTask tid) (\<lambda>task. case task of
          Inl err \<Rightarrow> writeError 404 ''task not found''
        | Inr t \<Rightarrow> if t_OrgUnitID t \<noteq> oid then writeError 403 ''access denied''
            else if t_AssignedWorkerID t \<noteq> Some wid then writeError 403 ''task not assigned to this worker''
            else State_Monad.bind (UpdateTaskState tid st (Some wid)) (\<lambda>updated. case updated of
                Inl err \<Rightarrow> writeError 500 ''failed to update task state''
              | Inr _ \<Rightarrow> writeJSON 200 (StateJSON (string_of_TaskState st)))))" for st tid oid wid
  proof (cases "validateStateTransition st")
    case (Inr u)
    note report = keeps_report [OF validate_report_state [OF Inr]]
    show ?thesis unfolding Inr sum.case by (intro keeps_intros keeps_responses keeps_reads report)
  qed (simp add: keeps_responses)
  show ?thesis
    unfolding TaskHandler_UpdateTaskStatus_def Let_def
    by (intro keeps_intros keeps_responses update)
qed

lemma keeps_worker_handlers:
  "keeps (WorkerHandler_Register ex ttl wbody r)" "keeps (WorkerHandler_Heartbeat ex ttl hbody r)"
  unfolding WorkerHandler_Register_def WorkerHandler_Heartbeat_def
  by (intro keeps_intros keeps_writes)+

lemma keeps_key_handlers:
  "keeps (APIKeyHandler_CreateAPIKey ex argon kbody r)" "keeps (APIKeyHandler_RotateAPIKey ex argon r)"
  "keeps (APIKeyHandler_RevokeAPIKey ex r)"
  unfolding APIKeyHandler_CreateAPIKey_def APIKeyHandler_RotateAPIKey_def
    APIKeyHandler_RevokeAPIKey_def
  by (intro keeps_intros keeps_writes)+

lemma keeps_OutputHandler_Submit: "keeps (OutputHandler_Submit ex body r)"
  unfolding OutputHandler_Submit_def
  by (intro keeps_intros keeps_writes keeps_CreateOutput) simp

lemma keeps_OutputHandler_Review: "keeps (OutputHandler_Review ex body r)"
  unfolding OutputHandler_Review_def by (intro keeps_intros keeps_writes)

lemma keeps_org_handlers:
  "keeps (OrgHandler_Create obody r)" "keeps (OrgHandler_UpdatePolicy ex pbody r)"
  unfolding OrgHandler_Create_def OrgHandler_UpdatePolicy_def
  by (intro keeps_intros keeps_writes)+

lemmas keeps_handlers = keeps_task_handlers keeps_TaskHandler_CreateTask
  keeps_TaskHandler_UpdateTaskStatus keeps_worker_handlers keeps_key_handlers
  keeps_OutputHandler_Submit keeps_OutputHandler_Review keeps_org_handlers keeps_read_handlers
  keeps_worker_reads keeps_org_reads

subsection \<open>Requests, scheduling rounds and reaping cycles\<close>

lemma keeps_run_endpoint: "keeps (run_endpoint ex d dec ep r)"
  unfolding run_endpoint_def by (cases ep) (simp_all add: keeps_handlers)

lemma keeps_dispatch: "keeps (dispatch ex d dec segs r)"
  unfolding dispatch_def run_route_def
  by (auto split: option.splits simp: keeps_responses keeps_run_endpoint intro: keeps_ScopeRequired)

lemma keeps_tick_loop: "keeps (tick_loop ws q)"
  by (induction ws arbitrary: q) (auto intro!: keeps_intros keeps_writes)

lemma keeps_tick: "keeps tick"
  unfolding tick_def by (intro keeps_intros keeps_writes keeps_tick_loop)

lemma keeps_reap: "keeps (reap ex brownie ttl)"
  unfolding reap_def reap_one_def reap_requeue_def reap_finish_def
  by (intro keeps_intros keeps_writes)

end

text \<open>Handlers and middleware together.\<close>

locale control_plane_writes = middleware_frame R + handler_writes R for R :: "world \<Rightarrow> world \<Rightarrow> bool"

locale control_plane_frame = control_plane_writes R + handler_frame R for R :: "world \<Rightarrow> world \<Rightarrow> bool"
begin

lemma keeps_serve: "keeps (serve ex d dec r)"
proof -
  have "keeps (Auth ex (Audit ex (RateLimit ex rate (dispatch ex d dec segs))) r')" for rate segs r'
    by (intro keeps_Auth keeps_Audit keeps_RateLimit keeps_dispatch)
  then show ?thesis
    unfolding serve_def Let_def by (simp add: keeps_responses keeps_read_handlers)
qed

end

subsection \<open>Runs of the control plane\<close>

text \<open>
  What one statement sent to a service does, as the code sends it: the tasks it inserts are queued
  and unassigned, the states it reports are those a worker may report, a new output waits for its
  review. A claim, a registration and a rotation are one transaction each. The remaining clauses are the bookkeeping of
  the model and the environment: time passes, services fail or recover, other sessions take and
  release locks, dashboard connections come and go. Handlers run concurrently and their statements
  interleave; every such interleaving is a sequence of these steps.
\<close>

inductive statement :: "world \<Rightarrow> world \<Rightarrow> bool" where
  Task_created: "fresh_task t \<Longrightarrow> statement w (exec (CreateTask t) w)"
| Task_reported: "report_state st \<Longrightarrow> statement w (exec (UpdateTaskState tid st (Some wid)) w)"
| Task_requeued: "statement w (exec (UpdateTaskState tid TaskStateQueued None) w)"
| Task_claimed: "statement w (exec (WithTx (ClaimNextTask wid agents)) w)"
| Worker_registered: "statement w (exec (RegisterWorker wk agents_opt) w)"
| Worker_state_set: "served_state wst \<Longrightarrow> statement w (exec (UpdateWorkerState wid wst) w)"
| Worker_heard_of: "statement w (exec (UpdateWorkerHeartbeat wid agents) w)"
| Key_created: "statement w (exec (CreateAPIKey_row k scopes) w)"
| Key_revoked: "statement w (exec (RevokeAPIKey_row kid oid) w)"
| Key_rotated: "statement w (exec (RotateAPIKey_row kid oid hash prefix) w)"
| Key_used: "statement w (exec (UpdateAPIKeyLastUsed kid) w)"
| Output_created: "o_ReviewStatus p = ReviewStatusPending \<Longrightarrow> statement w (exec (CreateOutput p) w)"
| Output_reviewed: "statement w (exec (UpdateOutputReview pid status reviewer) w)"
| Points_written: "statement w (exec (WriteLedgerEntry ev) w)"
| Audit_written: "statement w (exec (WriteAuditEvent aev) w)"
| Org_created: "statement w (exec (CreateOrg og) w)"
| Policy_updated: "statement w (exec (UpdateOrgPolicy oid policy) w)"
| Task_enqueued: "statement w (exec (Enqueue ex taskID pri qat) w)"
| Redis_keys: "r_queue r = r_queue (wredis w) \<Longrightarrow> statement w (w\<lparr>wredis := r\<rparr>)"
| Hub_changed: "statement w (w\<lparr>whub := h\<rparr>)"
| Fault_taken: "statement w (w\<lparr>wfaults := fs\<rparr>)"
| Uuid_taken: "statement w (w\<lparr>wctr := n\<rparr>)"
| Bytes_taken: "statement w (w\<lparr>wrpos := n\<rparr>)"
| Elapsed: "wnow w \<le> now \<Longrightarrow> statement w
    (w\<lparr>wnow := now, wfaults := fs, wrow_locks := rl, wadv_locks := al, whub := h\<rparr>)"

text \<open>
  A step of the control plane is a whole request with any method, path, headers and body, a whole
  scheduling round or reaping cycle, or a single statement.
\<close>

inductive cp_step :: "ext \<Rightarrow> RouterDeps \<Rightarrow> decoders \<Rightarrow> world \<Rightarrow> world \<Rightarrow> bool"
  for ex :: ext and d :: RouterDeps and dec :: decoders where
  Request: "cp_step ex d dec w (exec (serve ex d dec r) w)"
| Tick: "cp_step ex d dec w (exec tick w)"
| Reap: "cp_step ex d dec w (exec (reap ex brownie (rd_HeartbeatTTLSec d)) w)"
| Statement: "statement w v \<Longrightarrow> cp_step ex d dec w v"

abbreviation cp_run :: "ext \<Rightarrow> RouterDeps \<Rightarrow> decoders \<Rightarrow> world \<Rightarrow> world \<Rightarrow> bool" where
  "cp_run ex d dec \<equiv> (cp_step ex d dec)\<^sup>*\<^sup>*"

locale control_plane_service = control_plane_writes R for R :: "world \<Rightarrow> world \<Rightarrow> bool" +
  assumes R_env: "wnow w \<le> now \<Longrightarrow>
    R w (w\<lparr>wnow := now, wfaults := fs, wrow_locks := rl, wadv_locks := al, whub := h\<rparr>)"
begin

lemma statement_cases_registration:
  assumes "statement w v"
  obtains (kept) "R w v" | (registered) wk agents where "v = exec (RegisterWorker wk agents) w"
  using assms
  by (induction rule: statement.induct)
     (blast intro: keepsD keeps_CreateTask keeps_report keeps_requeue keeps_claim
        keeps_UpdateWorkerState keeps_UpdateWorkerHeartbeat keeps_CreateAPIKey keeps_RevokeAPIKey
        keeps_RotateAPIKey keeps_CreateOutput keeps_UpdateOutputReview keeps_WriteLedgerEntry
        keeps_CreateOrg keeps_UpdateOrgPolicy keeps_Enqueue keeps_UpdateAPIKeyLastUsed
        keeps_WriteAuditEvent keeps_redis_keys keeps_hub R_faults R_ctr R_rpos R_env)+

text \<open>The relation holds along statements up to the first registration that breaks it.\<close>

lemma kept_until_registration:
  assumes "statement\<^sup>*\<^sup>* w v"
  obtains (kept) "R w v"
  | (registered) u wk agents where "statement\<^sup>*\<^sup>* w u" "R w u" "\<not> R u (exec (RegisterWorker wk agents) u)"
      "statement\<^sup>*\<^sup>* (exec (RegisterWorker wk agents) u) v"
proof -
  from assms have "R w v \<or> (\<exists>u wk agents. statement\<^sup>*\<^sup>* w u \<and> R w u \<and> \<not> R u (exec (RegisterWorker wk agents) u)
    \<and> statement\<^sup>*\<^sup>* (exec (RegisterWorker wk agents) u) v)" (is "_ \<or> ?registered v")
  proof (induction rule: rtranclp_induct)
    case (step u v)
    from step.IH show ?case
    proof
      assume "R w u"
      from step.hyps(2) show ?thesis
      proof (cases rule: statement_cases_registration)
        case kept
        with \<open>R w u\<close> show ?thesis by (blast intro: R_trans)
      next
        case (registered wk agents)
        with \<open>R w u\<close> step.hyps show ?thesis by (cases "R u v") (blast intro: R_trans)+
      qed
    qed (use step.hyps(2) in \<open>blast intro: rtranclp.rtrancl_into_rtrancl\<close>)
  qed (simp add: R_refl)
  with that show thesis by blast
qed

end

locale control_plane_safety = control_plane_frame R + control_plane_service R for R :: "world \<Rightarrow> world \<Rightarrow> bool"
begin

lemma statement_keeps: "statement w v \<Longrightarrow> R w v"
  by (erule statement_cases_registration) (auto intro: keepsD [OF keeps_RegisterWorker])

lemma step_keeps: "cp_step ex d dec w v \<Longrightarrow> R w v"
  by (induction rule: cp_step.induct)
     (auto intro: keepsD [OF keeps_serve] keepsD [OF keeps_tick] keepsD [OF keeps_reap] statement_keeps)

lemma run_keeps: "cp_run ex d dec w v \<Longrightarrow> R w v"
  by (induction rule: rtranclp_induct) (blast intro: R_refl R_trans step_keeps)+

end

end
