(* ===== verification/Access.thy ===== *)
theory Access
  imports Frame
begin

section \<open>Access control\<close>

text \<open>
  What the middleware chain guarantees: which requests reach a handler, and which can change more
  than the audit log, the time a key was last used, the counters of Redis and the set of
  dashboard connections.
\<close>

subsection \<open>Requests without an effect on the tables\<close>

definition key_core :: "APIKey \<Rightarrow> APIKey" where
  "key_core k = k\<lparr>k_LastUsedAt := None\<rparr>"

definition business_same :: "world \<Rightarrow> world \<Rightarrow> bool" where
  "business_same w v \<longleftrightarrow>
     orgs (wdb v) = orgs (wdb w) \<and> workers (wdb v) = workers (wdb w)
     \<and> tasks (wdb v) = tasks (wdb w) \<and> outputs (wdb v) = outputs (wdb w)
     \<and> ledger (wdb v) = ledger (wdb w)
     \<and> map key_core (api_keys (wdb v)) = map key_core (api_keys (wdb w))
     \<and> r_queue (wredis v) = r_queue (wredis w)"

interpretation bs: world_relation business_same
  by unfold_locales (auto simp: business_same_def)

interpretation bs: middleware_frame business_same
  by unfold_locales
    (auto simp: UpdateAPIKeyLastUsed_def WriteAuditEvent_def business_same_def key_core_def
      intro!: bs.keeps_sql split: if_splits)

lemma unscoped_endpoint_reads:
  assumes "ro \<in> set (routes d)" "ro_Scope ro = None"
  shows "bs.keeps (run_endpoint ex d dec (ro_Endpoint ro) r)"
proof -
  have "ro_Endpoint ro \<in> {Ep_ListTasks, Ep_GetTask, Ep_ListWorkers, Ep_GetWorker, Ep_Stream,
      Ep_Snapshot, Ep_ListAudit, Ep_Leaderboard}"
    using assms by (auto simp: routes_def collection_def mk_route_def split: if_splits)
  then show ?thesis
    by (auto simp: run_endpoint_def bs.keeps_task_handlers bs.keeps_worker_reads bs.keeps_read_handlers)
qed

subsection \<open>Authentication\<close>

text \<open>The key a request presents: stored, usable now, and matching the stored hash.\<close>

definition presents :: "ext \<Rightarrow> world \<Rightarrow> request \<Rightarrow> APIKey \<Rightarrow> bool" where
  "presents ex w r k \<longleftrightarrow> (\<exists>plaintext. bearer_token r = Inr plaintext \<and> k \<in> set (api_keys (wdb w))
     \<and> usable_key (wnow w) (take (length KeyPrefix + KeyPrefixLen) plaintext) k
     \<and> VerifyAPIKey ex plaintext (k_KeyHash k))"

text \<open>Either the chain stops with 401, or the next handler runs with the key's identity.\<close>

lemma Auth_cases:
  obtains "rs_Status (result (Auth ex nxt r) w) = 401" "business_same w (exec (Auth ex nxt r) w)"
      "wredis (exec (Auth ex nxt r) w) = wredis w" "api_keys (wdb (exec (Auth ex nxt r) w)) = api_keys (wdb w)"
  | k u where "presents ex w r k" "business_same w u" "wredis u = wredis w" "wnow u = wnow w"
      "run_state (Auth ex nxt r) w = run_state (nxt (with_key k r)) u"
      "audit_log (wdb u) = audit_log (wdb w)"
proof (cases "bearer_token r")
  case (Inl msg)
  then show ?thesis
    by (intro that(1)) (simp_all add: Auth_def writeUnauthorized_def business_same_def)
next
  case (Inr pt)
  let ?prefix = "take (length KeyPrefix + KeyPrefixLen) pt"
  let ?w = "next_fault w"
  obtain q where q: "run_state (GetAPIKeyByPrefix ?prefix) w = (q, ?w)"
    by (simp add: GetAPIKeyByPrefix_def run_sql_query)
  have audit: "business_same u (exec (writeAuthAuditEvent r a oid act det) u)
      \<and> wredis (exec (writeAuthAuditEvent r a oid act det) u) = wredis u
      \<and> api_keys (wdb (exec (writeAuthAuditEvent r a oid act det) u)) = api_keys (wdb u)" for u a oid act det
    using bs.keepsD [OF bs.keeps_writeAuthAuditEvent]
    by (auto simp: writeAuthAuditEvent_def ignore_error_def WriteAuditEvent_def run_sql run_uuid_New
        run_time_Now Let_def split: prod.splits)
  have w: "business_same w ?w" by (rule bs.R_next_fault)
  show ?thesis
  proof (cases "\<exists>k. q = Inr k \<and> VerifyAPIKey ex pt (k_KeyHash k)")
    case True
    then obtain k where k: "q = Inr k" "VerifyAPIKey ex pt (k_KeyHash k)" by blast
    let ?u = "exec (ignore_error (UpdateAPIKeyLastUsed (k_ID k))) ?w"
    have "presents ex w r k"
      using GetAPIKeyByPrefix_Some [of ?prefix w k ?w] q k Inr by (auto simp: presents_def)
    moreover have "business_same w ?u"
      using bs.R_trans [OF w bs.keepsD [OF bs.keeps_ignore_error [OF bs.keeps_UpdateAPIKeyLastUsed]]] .
    moreover have "wredis ?u = wredis w" "wnow ?u = wnow w"
      by (auto simp: ignore_error_def UpdateAPIKeyLastUsed_def run_sql split: prod.splits)
    moreover have "run_state (Auth ex nxt r) w = run_state (nxt (with_key k r)) ?u"
      using Inr q k by (simp add: Auth_def Let_def split: prod.splits)
    moreover have "audit_log (wdb ?u) = audit_log (wdb w)"
      by (auto simp: ignore_error_def UpdateAPIKeyLastUsed_def run_sql next_fault_def split: prod.splits)
    ultimately show ?thesis by (rule that(2))
  next
    case False
    let ?m = "\<lambda>msg a oid det. State_Monad.bind (writeAuthAuditEvent r a oid ''auth_failed'' det)
      (\<lambda>_. writeUnauthorized msg)"
    have "\<exists>msg a oid det. run_state (Auth ex nxt r) w = run_state (?m msg a oid det) ?w"
      using Inr q False by (cases q) (auto simp: Auth_def Let_def)
    then obtain msg a oid det where run: "run_state (Auth ex nxt r) w = run_state (?m msg a oid det) ?w"
      by blast
    have st: "rs_Status (result (?m msg a oid det) ?w) = 401"
      "exec (?m msg a oid det) ?w = exec (writeAuthAuditEvent r a oid ''auth_failed'' det) ?w"
      by (simp_all add: writeUnauthorized_def split: prod.splits)
    show ?thesis
      by (rule that(1))
        (use run st audit [of ?w] bs.R_trans [OF w] in \<open>auto simp del: bind.simps\<close>)
  qed
qed

subsection \<open>Requests that change the tables\<close>

definition has_scope :: "string \<Rightarrow> APIKey \<Rightarrow> bool" where
  "has_scope s k \<longleftrightarrow> s \<in> set (k_Scopes k) \<or> ''admin'' \<in> set (k_Scopes k)"

lemma dispatch_without_scope:
  assumes "\<nexists>ro s scopes. find_route d (rq_Method r) segs = Some ro \<and> ro_Scope ro = Some s
    \<and> rq_Scopes r = Some scopes \<and> (s \<in> set scopes \<or> ''admin'' \<in> set scopes)"
  shows "bs.keeps (dispatch ex d dec segs r)"
proof (cases "find_route d (rq_Method r) segs")
  case None
  then show ?thesis by (simp add: dispatch_def bs.keeps_responses)
next
  case (Some ro)
  then have mem: "ro \<in> set (routes d)" by (auto simp: find_route_def dest: find_SomeD)
  show ?thesis
  proof (cases "ro_Scope ro")
    case None
    with unscoped_endpoint_reads [OF mem None] Some show ?thesis
      by (simp add: dispatch_def run_route_def)
  next
    case scope: (Some s)
    with Some assms show ?thesis
      by (auto simp: dispatch_def run_route_def ScopeRequired_def bs.keeps_responses split: option.splits)
  qed
qed

lemma serve_changes:
  assumes change: "\<not> business_same w (exec (serve ex d dec r) w)"
  shows "\<exists>k ro s. presents ex w r k \<and> ro_Scope ro = Some s \<and> has_scope s k
    \<and> find_route d (rq_Method r) (drop 3 (Split CHR ''/'' (rq_Path r))) = Some ro"
proof -
  let ?segs = "drop 3 (Split CHR ''/'' (rq_Path r))"
  let ?r = "r\<lparr>rq_URLParams := route_params d (rq_Method r) ?segs\<rparr>"
  let ?chain = "Audit ex (RateLimit ex (rd_RatePerMin d) (dispatch ex d dec ?segs))"
  have api: "take 3 (Split CHR ''/'' (rq_Path r)) = [[], ''api'', ''v1'']"
  proof (rule ccontr)
    assume no: "\<not> ?thesis"
    have "bs.keeps (serve ex d dec r)"
      unfolding serve_def Let_def using no by (simp add: bs.keeps_responses bs.keeps_read_handlers)
    with change bs.keepsD show False by blast
  qed
  then have run: "run_state (serve ex d dec r) w = run_state (Auth ex ?chain ?r) w"
    by (simp add: serve_def Let_def)
  have presents: "presents ex w ?r k = presents ex w r k" for k
    by (simp add: presents_def bearer_token_def)
  from Auth_cases [of ex ?chain ?r w] show ?thesis
  proof cases
    case 1
    with change run show ?thesis by simp
  next
    case (2 k u)
    have ctx: "rq_Method (with_key k ?r) = rq_Method r" "rq_Scopes (with_key k ?r) = Some (k_Scopes k)"
      by (simp_all add: with_key_def)
    have "\<not> bs.keeps (dispatch ex d dec ?segs (with_key k ?r))"
    proof
      assume "bs.keeps (dispatch ex d dec ?segs (with_key k ?r))"
      then have "bs.keeps (?chain (with_key k ?r))"
        by (intro bs.keeps_Audit bs.keeps_RateLimit)
      with bs.R_trans [OF 2(2)] bs.keepsD have "business_same w (exec (?chain (with_key k ?r)) u)" by blast
      with change run 2(5) show False by simp
    qed
    then obtain ro s where "find_route d (rq_Method r) ?segs = Some ro" "ro_Scope ro = Some s"
      "s \<in> set (k_Scopes k) \<or> ''admin'' \<in> set (k_Scopes k)"
      using dispatch_without_scope [of d "with_key k ?r" ?segs ex dec] ctx by auto
    with 2(1) presents show ?thesis by (auto simp: has_scope_def)
  qed
qed

subsection \<open>Keys that were created through the API\<close>

lemma bearer_token_Bearer:
  assumes "rq_Header r ''Authorization'' = ''Bearer '' @ pt" "length KeyPrefix + KeyPrefixLen \<le> length pt"
  shows "bearer_token r = Inr pt"
  using assms by (simp add: bearer_token_def EqualFold_def Let_def)

lemma generated_key_facts:
  assumes "run_state (GenerateAPIKeyWithParams ex DefaultArgonParams) w = (Inr (pt, prefix, h), v)"
  shows "take (length KeyPrefix + KeyPrefixLen) pt = prefix \<and> VerifyAPIKey ex pt h
    \<and> (\<forall>r. rq_Header r ''Authorization'' = ''Bearer '' @ pt \<longrightarrow> bearer_token r = Inr pt)"
proof -
  obtain raw salt where raw: "length raw = 32" "pt = KeyPrefix @ b64_encode raw"
    and rest: "prefix = take (length KeyPrefix + KeyPrefixLen) pt"
      "h = hex_encode salt @ ''$'' @ hex_encode (derive ex DefaultArgonParams pt salt)"
    using run_GenerateAPIKey [OF assms] by metis
  have "length pt = 46" using raw by (simp add: length_b64_encode KeyPrefix_def)
  with bearer_token_Bearer [of _ pt] rest(1) show ?thesis
    unfolding rest(2) by (auto simp: VerifyAPIKey_stored [of ex pt salt] KeyPrefix_def KeyPrefixLen_def simp del: append_Cons)
qed

lemma find_append: "find P (xs @ ys) = (case find P xs of None \<Rightarrow> find P ys | Some x \<Rightarrow> Some x)"
  by (induction xs) auto

lemma CreateAPIKey_created:
  assumes "run_state (APIKeyHandler_CreateAPIKey ex argon (Inr req) r) w = (resp, v)"
    and "rs_Body resp = CreatedKeyJSON kid pt prefix nm scs at_t expiry"
  shows "\<exists>k h u. run_state (GenerateAPIKeyWithParams ex argon) w = (Inr (pt, prefix, h), u)
    \<and> api_keys (wdb v) = api_keys (wdb w) @ [k] \<and> k_ID k = kid \<and> Some (k_OrgUnitID k) = rq_OrgUnitID r
    \<and> Some (k_Scopes k) = ck_Scopes req \<and> k_KeyHash k = h \<and> k_KeyPrefix k = prefix
    \<and> k_RevokedAt k = None \<and> k_ExpiresAt k = ck_ExpiresAt req \<and> wnow v = wnow w"
proof -
  obtain g u where g: "run_state (GenerateAPIKeyWithParams ex argon) w = (g, u)" by fastforce
  have u: "wdb u = wdb w" "wnow u = wnow w"
    using GenerateAPIKey_frame [of ex argon w] g by simp_all
  show ?thesis
    using assms g u
    by (auto simp: APIKeyHandler_CreateAPIKey_def writeError_def writeJSON_def CreateAPIKey_row_def
        run_sql run_uuid_New run_time_Now elems_def
        split: option.splits sum.splits if_splits prod.splits)
qed

subsection \<open>Rate limiting\<close>

text \<open>The counter after each request of a handler that leaves the world alone.\<close>

lemma run_RateLimitIncr:
  "run_state (RateLimitIncr key win) w =
     (if failing w then (Inl (Driver ''redis: ratelimit incr''), next_fault w)
      else (let n = (case live_key (wredis w) (wnow w) key of None \<Rightarrow> 1 | Some v \<Rightarrow> v + 1) in
        (Inr n, (next_fault w)\<lparr>wredis := (wredis w)\<lparr>r_keys := (r_keys (wredis w))(key \<mapsto> (n, Some (wnow w + win)))\<rparr>\<rparr>)))"
  by (simp add: RateLimitIncr_def run_redis_cmd Let_def)

lemma RateLimit_step:
  fixes rate r ex nxt w oid n
  assumes "rq_OrgUnitID r = Some oid" "wfaults w = []" "\<And>u. exec (nxt r) u = u"
    and "\<And>u. rs_Status (result (nxt r) u) \<noteq> 429"
    and n: "n = (case live_key (wredis w) (wnow w) (ratelimit_key ex oid) of None \<Rightarrow> 1 | Some v \<Rightarrow> v + 1)"
  defines "v \<equiv> exec (RateLimit ex rate nxt r) w"
  shows "(rs_Status (result (RateLimit ex rate nxt r) w) = 429 \<longleftrightarrow> rate < n)
    \<and> live_key (wredis v) (wnow v) (ratelimit_key ex oid) = Some n \<and> wfaults v = [] \<and> wnow v = wnow w"
proof -
  have up: "\<not> failing w" using assms(2) by (simp add: failing_def)
  define resp where "resp u = result (nxt r) u" for u
  have run: "run_state (nxt r) u = (resp u, u)" "rs_Status (resp u) \<noteq> 429" for u
    using assms(3) [of u] assms(4) [of u] by (simp_all add: resp_def prod_eq_iff)
  show ?thesis
    using assms(1,2) n up run
    by (auto simp: v_def RateLimit_def run_RateLimitIncr add_headers_def Let_def live_key_def Minute_def Second_def)
qed

lemma RateLimit_iterate:
  fixes rate r ex nxt w oid i
  assumes "rq_OrgUnitID r = Some oid" "wfaults w = []" "\<And>u. exec (nxt r) u = u"
    and "\<And>u. rs_Status (result (nxt r) u) \<noteq> 429"
    and "live_key (wredis w) (wnow w) (ratelimit_key ex oid) = None"
  defines "m \<equiv> RateLimit ex rate nxt r"
  shows "wfaults ((exec m ^^ i) w) = [] \<and> live_key (wredis ((exec m ^^ i) w)) (wnow ((exec m ^^ i) w)) (ratelimit_key ex oid)
    = (if i = 0 then None else Some (int i))"
proof (induction i)
  case (Suc i)
  let ?w = "(exec m ^^ i) w"
  have "live_key (wredis (exec m ?w)) (wnow (exec m ?w)) (ratelimit_key ex oid) = Some (int (Suc i)) \<and> wfaults (exec m ?w) = []"
    using RateLimit_step [where w = ?w and rate = rate and ex = ex and nxt = nxt and r = r and oid = oid
        and n = "int (Suc i)"] assms(1,3,4) Suc
    by (auto simp: m_def split: if_splits)
  then show ?case by simp
qed (use assms in simp)

end
