(* ===== verification/Scheduling.thy ===== *)
theory Scheduling
  imports Scheduler
begin

section \<open>What scheduling rounds and reaping cycles do to the task table\<close>

text \<open>
  The lemmas behind the scheduler's properties: the effect of one round of claims on every row of
  the table, and the effect of one reaping cycle, with and without failing services.
\<close>

subsection \<open>A scheduling round\<close>

definition changed :: "'a list \<Rightarrow> 'a list \<Rightarrow> nat set" where
  "changed xs ys = {i. i < length xs \<and> xs ! i \<noteq> ys ! i}"

lemma changed_same [simp]: "changed xs xs = {}"
  by (simp add: changed_def)

lemma finite_changed [simp]: "finite (changed xs ys)"
  by (simp add: changed_def)

lemma card_changed_trans:
  assumes "length xs = length ys"
  shows "card (changed xs zs) \<le> card (changed xs ys) + card (changed ys zs)"
proof -
  have "changed xs zs \<subseteq> changed xs ys \<union> changed ys zs" using assms by (auto simp: changed_def)
  then have "card (changed xs zs) \<le> card (changed xs ys \<union> changed ys zs)" by (simp add: card_mono)
  also have "\<dots> \<le> card (changed xs ys) + card (changed ys zs)" by (rule card_Un_le)
  finally show ?thesis .
qed

text \<open>What a scheduling round may do to one task, given the workers it went through.\<close>

definition assigned_by :: "Worker list \<Rightarrow> time \<Rightarrow> Task \<Rightarrow> Task \<Rightarrow> bool" where
  "assigned_by ws now t t' \<longleftrightarrow> t' = t \<or>
     (\<exists>wk \<in> set ws. t_State t = TaskStateQueued \<and> t_AIAgent t \<in> set (wk_Agents wk)
        \<and> t' = claim_task now (wk_ID wk) t)"

lemma assigned_by_trans:
  "assigned_by as now t u \<Longrightarrow> assigned_by bs now u v \<Longrightarrow> assigned_by (as @ bs) now t v"
  by (auto simp: assigned_by_def)

lemma UpdateWorkerState_tasks:
  "tasks (wdb (exec (UpdateWorkerState wid st) w)) = tasks (wdb w)"
  "wnow (exec (UpdateWorkerState wid st) w) = wnow w"
  by (simp_all add: UpdateWorkerState_def run_sql)

lemma claim_tx_tasks:
  assumes run: "run_state (WithTx (ClaimNextTask (wk_ID wk) (wk_Agents wk))) w = (r, v)"
    and ids: "distinct (map t_ID (tasks (wdb w)))"
  shows "(tasks (wdb v) = tasks (wdb w) \<and> (\<forall>t. r \<noteq> Inr (Some t)) \<or>
      (\<exists>i s. i < length (tasks (wdb w)) \<and> s = tasks (wdb w) ! i \<and> t_State s = TaskStateQueued
         \<and> t_AIAgent s \<in> set (wk_Agents wk) \<and> r = Inr (Some (claim_task (wnow w) (wk_ID wk) s))
         \<and> tasks (wdb v) = (tasks (wdb w))[i := claim_task (wnow w) (wk_ID wk) s]))
    \<and> wnow v = wnow w"
proof -
  from claim_tx_result [OF run]
  consider "tasks (wdb v) = tasks (wdb w)" "\<forall>t. r \<noteq> Inr (Some t)" "wnow v = wnow w"
    | s where "next_claim (wk_Agents wk) (wrow_locks w) (tasks (wdb w)) = Some s"
       "tasks (wdb v) = tasks (claimed_by w (wk_ID wk) s)"
       "r = Inr (Some (claim_task (wnow w) (wk_ID wk) s))" "wnow v = wnow w"
    by auto
  then show ?thesis
  proof cases
    case 1
    then show ?thesis by simp
  next
    case 2
    from next_claim_Some [OF 2(1)] obtain i where i: "i < length (tasks (wdb w))" "tasks (wdb w) ! i = s"
      and s: "claimable (wk_Agents wk) (wrow_locks w) s"
      by (auto simp: in_set_conv_nth)
    with 2 s update_where_key [OF ids i(1)] show ?thesis
      by (auto simp: claimed_by_def claimable_def)
  qed
qed

lemma tick_loop_tasks:
  assumes "distinct (map t_ID (tasks (wdb w)))"
  shows "length (tasks (wdb (exec (tick_loop ws q) w))) = length (tasks (wdb w))
    \<and> map t_ID (tasks (wdb (exec (tick_loop ws q) w))) = map t_ID (tasks (wdb w))
    \<and> (\<forall>i < length (tasks (wdb w)).
         assigned_by ws (wnow w) (tasks (wdb w) ! i) (tasks (wdb (exec (tick_loop ws q) w)) ! i))
    \<and> int (card (changed (tasks (wdb w)) (tasks (wdb (exec (tick_loop ws q) w))))) \<le> max 0 q"
  using assms
proof (induction ws arbitrary: w q)
  case Nil
  then show ?case by (simp add: assigned_by_def)
next
  case (Cons wk ws)
  show ?case
  proof (cases "q \<le> 0")
    case True
    then show ?thesis by (simp add: assigned_by_def)
  next
    case q: False
    obtain r v where rv: "run_state (WithTx (ClaimNextTask (wk_ID wk) (wk_Agents wk))) w = (r, v)"
      by fastforce
    show ?thesis
    proof (cases "\<exists>t. r = Inr (Some t)")
      case False
      with claim_tx_tasks [OF rv Cons.prems] have v: "tasks (wdb v) = tasks (wdb w)" "wnow v = wnow w" by auto
      have run: "exec (tick_loop (wk # ws) q) w = exec (tick_loop ws q) v"
        using q rv False by (auto split: sum.splits option.splits)
      have "assigned_by (wk # ws) now t t'" if "assigned_by ws now t t'" for now t t'
        using that by (auto simp: assigned_by_def)
      then show ?thesis
        using Cons.IH [of v q] Cons.prems v unfolding run by simp
    next
      case True
      then obtain t where t: "r = Inr (Some t)" by blast
      obtain u where u: "u = exec (UpdateWorkerState (wk_ID wk) WorkerStateBusy) v" by simp
      have tu: "tasks (wdb u) = tasks (wdb v)" "wnow u = wnow v"
        using UpdateWorkerState_tasks u by auto
      from claim_tx_tasks [OF rv Cons.prems] t obtain i s where i: "i < length (tasks (wdb w))"
        "s = tasks (wdb w) ! i" "t_State s = TaskStateQueued" "t_AIAgent s \<in> set (wk_Agents wk)"
        "tasks (wdb v) = (tasks (wdb w))[i := claim_task (wnow w) (wk_ID wk) s]" "wnow v = wnow w"
        by auto
      have run: "exec (tick_loop (wk # ws) q) w = exec (tick_loop ws (q - 1)) u"
        using q rv t u by (auto split: prod.splits)
      have ids: "map t_ID (tasks (wdb u)) = map t_ID (tasks (wdb w))"
        using i tu by (simp add: map_update list_update_id) (metis list_update_id nth_map map_update)
      note IH = Cons.IH [of u "q - 1", unfolded ids, OF Cons.prems]
      have step: "assigned_by [wk] (wnow w) (tasks (wdb w) ! j) (tasks (wdb u) ! j)"
        if "j < length (tasks (wdb w))" for j
        using that i tu by (auto simp: assigned_by_def nth_list_update)
      have "changed (tasks (wdb w)) (tasks (wdb u)) \<subseteq> {i}"
        using i tu by (auto simp: changed_def nth_list_update)
      then have "card (changed (tasks (wdb w)) (tasks (wdb u))) \<le> 1"
        using card_mono [of "{i}"] by fastforce
      then have "int (card (changed (tasks (wdb w)) (tasks (wdb (exec (tick_loop ws (q - 1)) u))))) \<le> max 0 q"
        using card_changed_trans [of "tasks (wdb w)" "tasks (wdb u)" "tasks (wdb (exec (tick_loop ws (q - 1)) u))"]
          IH i tu q by simp
      moreover have "assigned_by (wk # ws) (wnow w) (tasks (wdb w) ! j) (tasks (wdb (exec (tick_loop ws (q - 1)) u)) ! j)"
        if "j < length (tasks (wdb w))" for j
        using assigned_by_trans [OF step [OF that], of ws] IH that i tu by simp
      ultimately show ?thesis
        using IH ids i tu unfolding run by simp
    qed
  qed
qed

lemma run_QueueLength:
  "run_state QueueLength w = (if failing w then Inl (Driver ''queue: length'')
     else Inr (int (length (r_queue (wredis w)))), next_fault w)"
  by (cases w) (simp add: QueueLength_def run_redis_cmd next_fault_def)

lemma tick_cases:
  obtains "tasks (wdb (exec tick w)) = tasks (wdb w)"
  | idle u where "set idle \<subseteq> {wk \<in> set (workers (wdb w)). recently_idle (wnow w) wk}"
      "exec tick w = exec (tick_loop idle (int (length (r_queue (wredis w))))) u"
      "wdb u = wdb w" "wnow u = wnow w"
proof (cases "failing w \<or> r_queue (wredis w) = [] \<or> failing (next_fault w)
    \<or> filter (recently_idle (wnow w)) (workers (wdb w)) = []")
  case True
  have "tasks (wdb (exec tick w)) = tasks (wdb w)"
    using True by (auto simp: tick_def run_QueueLength ListIdleWorkers_def run_sql_query)
  then show ?thesis by (rule that(1))
next
  case False
  let ?idle = "order_by (\<lambda>wk. - wk_CapacityScore wk) (filter (recently_idle (wnow w)) (workers (wdb w)))"
  have run: "exec tick w = exec (tick_loop ?idle (int (length (r_queue (wredis w))))) (next_fault (next_fault w))"
    using False by (simp add: tick_def run_QueueLength ListIdleWorkers_def run_sql_query)
  show ?thesis by (rule that(2) [OF _ run]) auto
qed

subsection \<open>A reaping cycle\<close>

definition dead :: "ext \<Rightarrow> redis \<Rightarrow> time \<Rightarrow> Task \<Rightarrow> bool" where
  "dead ex r now t \<longleftrightarrow> (\<forall>wid. t_AssignedWorkerID t = Some wid \<longrightarrow> live_key r now (heartbeatKey ex wid) = None)"

abbreviation requeue_row :: "time \<Rightarrow> Task \<Rightarrow> Task" where
  "requeue_row now \<equiv> set_task_state now TaskStateQueued None"

lemma run_GetWorkerHeartbeat:
  "run_state (GetWorkerHeartbeat ex wid) w =
     (if failing w then Inl (Driver ''redis: exists heartbeat'')
      else Inr (live_key (wredis w) (wnow w) (heartbeatKey ex wid) \<noteq> None), next_fault w)"
  by (cases w) (simp add: GetWorkerHeartbeat_def run_redis_cmd next_fault_def)

definition same_tasks :: "world \<Rightarrow> world \<Rightarrow> bool" where
  "same_tasks w v \<longleftrightarrow> tasks (wdb v) = tasks (wdb w) \<and> wredis v = wredis w \<and> wnow v = wnow w
     \<and> (wfaults w = [] \<longrightarrow> wfaults v = [])"

lemma same_tasks_next_fault: "same_tasks w (next_fault w)"
  by (simp add: same_tasks_def)

lemma same_tasks_reap_finish: "same_tasks w (exec (reap_finish b t) w)"
  by (auto simp: same_tasks_def reap_finish_def UpdateWorkerState_def Deduct_def brownie_write_def
      WriteLedgerEntry_def run_sql run_uuid_New split: option.splits)

lemma reap_requeue_step:
  "(same_tasks w (exec (reap_requeue b t) w) \<and>
      (wfaults w = [] \<longrightarrow> rows_affected (\<lambda>r. t_ID r = t_ID t) (tasks (wdb w)) = 0)) \<or>
   same_tasks (w\<lparr>wdb := (wdb w)\<lparr>tasks := update_where (\<lambda>r. t_ID r = t_ID t) (requeue_row (wnow w)) (tasks (wdb w))\<rparr>\<rparr>)
     (exec (reap_requeue b t) w)"
proof -
  have fin: "same_tasks u v \<Longrightarrow> same_tasks u (exec (reap_finish b t) v)" for u v
    using same_tasks_reap_finish [of v b t] by (auto simp: same_tasks_def)
  show ?thesis
    by (auto simp: reap_requeue_def UpdateTaskState_def run_sql failing_def
        intro!: fin split: list.splits) (auto simp: same_tasks_def next_fault_def)
qed

lemma reap_one_step:
  fixes ex b t w
  defines "v \<equiv> exec (reap_one ex b t) w"
  shows "(same_tasks w v \<and> (wfaults w = [] \<longrightarrow> \<not> dead ex (wredis w) (wnow w) t
      \<or> rows_affected (\<lambda>r. t_ID r = t_ID t) (tasks (wdb w)) = 0)) \<or>
   (dead ex (wredis w) (wnow w) t \<and>
     same_tasks (w\<lparr>wdb := (wdb w)\<lparr>tasks := update_where (\<lambda>r. t_ID r = t_ID t) (requeue_row (wnow w)) (tasks (wdb w))\<rparr>\<rparr>) v)"
proof (cases "t_AssignedWorkerID t")
  case None
  then show ?thesis using reap_requeue_step [of w b t] by (auto simp: v_def reap_one_def dead_def)
next
  case (Some wid)
  consider "failing w" | "\<not> failing w" "live_key (wredis w) (wnow w) (heartbeatKey ex wid) \<noteq> None"
    | "\<not> failing w" "live_key (wredis w) (wnow w) (heartbeatKey ex wid) = None" by blast
  then show ?thesis
  proof cases
    case 1
    then have "v = next_fault w" "wfaults w \<noteq> []"
      using Some by (auto simp: v_def reap_one_def run_GetWorkerHeartbeat failing_def)
    then show ?thesis by (simp add: same_tasks_next_fault)
  next
    case 2
    then have "v = next_fault w" "\<not> dead ex (wredis w) (wnow w) t"
      using Some by (auto simp: v_def reap_one_def run_GetWorkerHeartbeat dead_def)
    then show ?thesis by (simp add: same_tasks_next_fault)
  next
    case 3
    then have v: "v = exec (reap_requeue b t) (next_fault w)" and d: "dead ex (wredis w) (wnow w) t"
      using Some by (auto simp: v_def reap_one_def run_GetWorkerHeartbeat dead_def)
    have "same_tasks w u" if "same_tasks (next_fault w) u" for u
      using that by (auto simp: same_tasks_def)
    moreover have "same_tasks (w\<lparr>wdb := d\<rparr>) u" if "same_tasks ((next_fault w)\<lparr>wdb := d\<rparr>) u" for u d
      using that by (auto simp: same_tasks_def)
    ultimately show ?thesis
      using reap_requeue_step [of "next_fault w" b t] d unfolding v by auto
  qed
qed

text \<open>The row of a task after the reaper went through a list of stale tasks.\<close>

definition reaped :: "ext \<Rightarrow> redis \<Rightarrow> time \<Rightarrow> Task list \<Rightarrow> Task \<Rightarrow> bool" where
  "reaped ex r now ts t \<longleftrightarrow> (\<exists>s \<in> set ts. t_ID s = t_ID t \<and> dead ex r now s)"

lemma requeue_row_idem: "requeue_row now (requeue_row now t) = requeue_row now t"
  by (simp add: set_task_state_def)

lemma reap_loop:
  fixes ts w ex b
  defines "v \<equiv> exec (for_each ts (reap_one ex b)) w"
  shows "wredis v = wredis w \<and> wnow v = wnow w \<and> length (tasks (wdb v)) = length (tasks (wdb w))
    \<and> (\<forall>i < length (tasks (wdb w)). t_ID (tasks (wdb v) ! i) = t_ID (tasks (wdb w) ! i)
        \<and> (tasks (wdb v) ! i = tasks (wdb w) ! i \<or>
           reaped ex (wredis w) (wnow w) ts (tasks (wdb w) ! i) \<and> tasks (wdb v) ! i = requeue_row (wnow w) (tasks (wdb w) ! i))
        \<and> (wfaults w = [] \<and> reaped ex (wredis w) (wnow w) ts (tasks (wdb w) ! i)
           \<longrightarrow> tasks (wdb v) ! i = requeue_row (wnow w) (tasks (wdb w) ! i)))
    \<and> (wfaults w = [] \<longrightarrow> wfaults v = [])"
  unfolding v_def
proof (induction ts arbitrary: w)
  case Nil
  then show ?case by (simp add: reaped_def)
next
  case (Cons t ts)
  define u where "u = exec (reap_one ex b t) w"
  have run: "exec (for_each (t # ts) (reap_one ex b)) w = exec (for_each ts (reap_one ex b)) u"
    unfolding u_def by (rule exec_for_each_Cons)
  note IH = Cons.IH [of u]
  from reap_one_step [of w ex b t, folded u_def] show ?case
  proof (elim disjE conjE)
    assume same: "same_tasks w u" and skip: "wfaults w = [] \<longrightarrow> \<not> dead ex (wredis w) (wnow w) t
      \<or> rows_affected (\<lambda>r. t_ID r = t_ID t) (tasks (wdb w)) = 0"
    then have eq: "tasks (wdb u) = tasks (wdb w)" "wredis u = wredis w" "wnow u = wnow w"
      "wfaults w = [] \<longrightarrow> wfaults u = []" by (auto simp: same_tasks_def)
    have "reaped ex (wredis w) (wnow w) (t # ts) r \<longleftrightarrow> reaped ex (wredis w) (wnow w) ts r"
      if "wfaults w = []" "r \<in> set (tasks (wdb w))" for r
      using skip that by (auto simp: reaped_def rows_affected_0_iff)
    moreover have "reaped ex r now ts q \<Longrightarrow> reaped ex r now (t # ts) q" for r now q
      by (auto simp: reaped_def)
    ultimately show ?thesis using IH unfolding run eq by (auto simp: eq)
  next
    assume d: "dead ex (wredis w) (wnow w) t"
      and same: "same_tasks (w\<lparr>wdb := (wdb w)\<lparr>tasks := update_where (\<lambda>r. t_ID r = t_ID t) (requeue_row (wnow w)) (tasks (wdb w))\<rparr>\<rparr>) u"
    then have eq: "wredis u = wredis w" "wnow u = wnow w" "wfaults w = [] \<longrightarrow> wfaults u = []"
      and tu: "tasks (wdb u) = update_where (\<lambda>r. t_ID r = t_ID t) (requeue_row (wnow w)) (tasks (wdb w))"
      by (auto simp: same_tasks_def)
    have "reaped ex (wredis w) (wnow w) (t # ts) q \<longleftrightarrow> t_ID t = t_ID q \<or> reaped ex (wredis w) (wnow w) ts q" for q
      using d by (auto simp: reaped_def)
    moreover have "reaped ex r now ts (requeue_row n q) = reaped ex r now ts q" for r now n q
      by (simp add: reaped_def)
    ultimately show ?thesis
      using IH unfolding run by (auto simp: eq tu nth_update_where requeue_row_idem)
  qed
qed

lemma reap_tasks:
  fixes w ex b ttl
  defines "v \<equiv> exec (reap ex b ttl) w" and "stale \<equiv> stale_tasks (wnow w - ttl * Second) (wdb w)"
  shows "length (tasks (wdb v)) = length (tasks (wdb w)) \<and> (\<forall>i < length (tasks (wdb w)).
      (tasks (wdb v) ! i = tasks (wdb w) ! i \<or>
         reaped ex (wredis w) (wnow w) stale (tasks (wdb w) ! i) \<and> tasks (wdb v) ! i = requeue_row (wnow w) (tasks (wdb w) ! i))
      \<and> (wfaults w = [] \<and> reaped ex (wredis w) (wnow w) stale (tasks (wdb w) ! i)
         \<longrightarrow> tasks (wdb v) ! i = requeue_row (wnow w) (tasks (wdb w) ! i)))"
proof (cases "failing w")
  case True
  then have "wfaults w \<noteq> []" by (auto simp: failing_def)
  with True show ?thesis by (simp add: v_def reap_def run_time_Now GetStaleTasks_def run_sql_query)
next
  case False
  then have "v = exec (for_each stale (reap_one ex b)) (next_fault w)"
    by (simp add: v_def stale_def reap_def run_time_Now GetStaleTasks_def run_sql_query)
  then show ?thesis using reap_loop [of stale ex b "next_fault w"] by simp
qed

subsection \<open>A scheduling round without failures\<close>

definition undisturbed :: "world \<Rightarrow> bool" where
  "undisturbed w \<longleftrightarrow> wfaults w = [] \<and> wrow_locks w = [] \<and> wadv_locks w = []"

lemma undisturbed_simps [simp]:
  assumes "undisturbed w"
  shows "\<not> failing w" "next_fault w = w" "wrow_locks w = []" "wadv_locks w = []" "undisturbed (w\<lparr>wdb := d\<rparr>)"
  using assms by (cases w; simp add: undisturbed_def failing_def next_fault_def)+

lemma undisturbed_claim:
  assumes "undisturbed w" "worker_exists (wdb w) wid"
  shows "run_state (WithTx (ClaimNextTask wid agents)) w = (case next_claim agents [] (tasks (wdb w)) of
     None \<Rightarrow> (Inr None, w)
   | Some s \<Rightarrow> (Inr (Some (claim_task (wnow w) wid s)), w\<lparr>wdb := claimed_by w wid s\<rparr>))"
  using assms by (simp add: run_WithTx ClaimNextTask_def effect_simps claimed_by_def split: option.split)

lemma worker_exists_image: "worker_exists d i \<longleftrightarrow> i \<in> wk_ID ` set (workers d)"
  by (auto simp: worker_exists_def)

lemma undisturbed_UpdateWorkerState:
  assumes "undisturbed w"
  obtains ws where "exec (UpdateWorkerState wid st) w = w\<lparr>wdb := (wdb w)\<lparr>workers := ws\<rparr>\<rparr>"
    "\<And>i. worker_exists ((wdb w)\<lparr>workers := ws\<rparr>) i = worker_exists (wdb w) i"
proof (cases "rows_affected (\<lambda>wk. wk_ID wk = wid) (workers (wdb w)) = 0")
  case True
  have "exec (UpdateWorkerState wid st) w = w\<lparr>wdb := (wdb w)\<lparr>workers := workers (wdb w)\<rparr>\<rparr>"
    using assms True by (cases w) (simp add: UpdateWorkerState_def run_sql)
  then show ?thesis by (rule that) simp
next
  case False
  let ?ws = "update_where (\<lambda>wk. wk_ID wk = wid) (\<lambda>wk. wk\<lparr>wk_State := st\<rparr>) (workers (wdb w))"
  have "map wk_ID ?ws = map wk_ID (workers (wdb w))" by (auto simp: update_where_def)
  then have "wk_ID ` set ?ws = wk_ID ` set (workers (wdb w))" by (metis set_map)
  then have "worker_exists ((wdb w)\<lparr>workers := ?ws\<rparr>) i = worker_exists (wdb w) i" for i
    by (simp add: worker_exists_image)
  moreover have "exec (UpdateWorkerState wid st) w = w\<lparr>wdb := (wdb w)\<lparr>workers := ?ws\<rparr>\<rparr>"
    using assms False by (simp add: UpdateWorkerState_def run_sql)
  ultimately show ?thesis by (intro that)
qed

text \<open>What one idle worker gets out of a round: a claim, or there was nothing for it.\<close>

definition served :: "time \<Rightarrow> Task list \<Rightarrow> Task list \<Rightarrow> Worker \<Rightarrow> bool" where
  "served now ts ts' wk \<longleftrightarrow>
     (\<exists>t \<in> set ts. t_State t = TaskStateQueued \<and> t_AIAgent t \<in> set (wk_Agents wk) \<and> claim_task now (wk_ID wk) t \<in> set ts')
   \<or> (\<forall>t \<in> set ts'. t_State t = TaskStateQueued \<longrightarrow> t_AIAgent t \<notin> set (wk_Agents wk))"

lemma loop_rows:
  assumes "distinct (map t_ID (tasks (wdb w)))" and "t' \<in> set (tasks (wdb (exec (tick_loop ws q) w)))"
    and "t_State t' = TaskStateQueued"
  shows "t' \<in> set (tasks (wdb w))"
proof -
  note loop = tick_loop_tasks [OF assms(1), of ws q]
  from assms(2) loop obtain i where i: "i < length (tasks (wdb w))" "tasks (wdb (exec (tick_loop ws q) w)) ! i = t'"
    by (auto simp: in_set_conv_nth)
  with loop assms(3) have "tasks (wdb w) ! i = t'" by (auto simp: assigned_by_def)
  with i(1) show ?thesis by (metis nth_mem)
qed

lemma loop_keeps_assigned:
  assumes "distinct (map t_ID (tasks (wdb w)))" "t \<in> set (tasks (wdb w))" "t_State t \<noteq> TaskStateQueued"
  shows "t \<in> set (tasks (wdb (exec (tick_loop ws q) w)))"
proof -
  note loop = tick_loop_tasks [OF assms(1), of ws q]
  from assms(2) obtain i where i: "i < length (tasks (wdb w))" "tasks (wdb w) ! i = t" by (auto simp: in_set_conv_nth)
  with loop assms(3) have "tasks (wdb (exec (tick_loop ws q) w)) ! i = t" by (auto simp: assigned_by_def)
  with i(1) loop show ?thesis by (metis nth_mem)
qed

lemma tick_loop_serves:
  assumes "undisturbed w" "distinct (map t_ID (tasks (wdb w)))" "int (length ws) \<le> q"
    and "\<forall>wk \<in> set ws. worker_exists (wdb w) (wk_ID wk)"
  shows "\<forall>wk \<in> set ws. served (wnow w) (tasks (wdb w)) (tasks (wdb (exec (tick_loop ws q) w))) wk"
  using assms
proof (induction ws arbitrary: w q)
  case (Cons wk ws)
  have q: "\<not> q \<le> 0" "int (length ws) \<le> q - 1" using Cons.prems(3) by simp_all
  have ex: "worker_exists (wdb w) (wk_ID wk)" using Cons.prems(4) by simp
  note claim = undisturbed_claim [OF Cons.prems(1) ex, of "wk_Agents wk"]
  show ?case
  proof (cases "next_claim (wk_Agents wk) [] (tasks (wdb w))")
    case None
    then have run: "exec (tick_loop (wk # ws) q) w = exec (tick_loop ws q) w" using q(1) claim by simp
    have none: "\<forall>t \<in> set (tasks (wdb w)). t_State t = TaskStateQueued \<longrightarrow> t_AIAgent t \<notin> set (wk_Agents wk)"
      using None by (auto simp: next_claim_None claimable_def)
    then have "served (wnow w) (tasks (wdb w)) (tasks (wdb (exec (tick_loop ws q) w))) wk"
      using loop_rows [OF Cons.prems(2), of _ ws q] by (auto simp: served_def)
    moreover have "int (length ws) \<le> q" using q(2) by simp
    ultimately show ?thesis
      using Cons.IH [OF Cons.prems(1,2)] Cons.prems(4) unfolding run by simp
  next
    case (Some s)
    let ?v = "w\<lparr>wdb := claimed_by w (wk_ID wk) s\<rparr>"
    have v: "undisturbed ?v" using Cons.prems(1) by simp
    obtain ws' where u: "exec (UpdateWorkerState (wk_ID wk) WorkerStateBusy) ?v = ?v\<lparr>wdb := (wdb ?v)\<lparr>workers := ws'\<rparr>\<rparr>"
      "\<And>i. worker_exists ((wdb ?v)\<lparr>workers := ws'\<rparr>) i = worker_exists (wdb ?v) i"
      by (rule undisturbed_UpdateWorkerState [OF v, of "wk_ID wk" WorkerStateBusy]) blast
    let ?u = "?v\<lparr>wdb := (wdb ?v)\<lparr>workers := ws'\<rparr>\<rparr>"
    let ?f = "tasks (wdb (exec (tick_loop ws (q - 1)) ?u))"
    have "exec (tick_loop (wk # ws) q) w
        = exec (tick_loop ws (q - 1)) (exec (UpdateWorkerState (wk_ID wk) WorkerStateBusy) ?v)"
      using q(1) claim Some by (simp add: split_beta)
    then have run: "exec (tick_loop (wk # ws) q) w = exec (tick_loop ws (q - 1)) ?u" by (simp only: u(1))
    from next_claim_Some [OF Some] have s: "s \<in> set (tasks (wdb w))" "t_State s = TaskStateQueued"
      "t_AIAgent s \<in> set (wk_Agents wk)" by (auto simp: claimable_def)
    have tu: "tasks (wdb ?u) = update_where (\<lambda>t. t_ID t = t_ID s) (claim_task (wnow w) (wk_ID wk)) (tasks (wdb w))"
      by (simp add: claimed_by_def)
    have ids: "distinct (map t_ID (tasks (wdb ?u)))"
      using Cons.prems(2) unfolding tu by (simp add: update_where_def comp_def if_distrib [of t_ID] cong: if_cong)
    have "claim_task (wnow w) (wk_ID wk) s \<in> set (tasks (wdb ?u))" using s(1) unfolding tu by (auto simp: set_update_where)
    then have "claim_task (wnow w) (wk_ID wk) s \<in> set ?f" by (rule loop_keeps_assigned [OF ids]) simp
    with s have here: "served (wnow w) (tasks (wdb w)) ?f wk" by (auto simp: served_def)
    have IH: "\<forall>wk \<in> set ws. served (wnow w) (tasks (wdb ?u)) ?f wk"
    proof -
      have "undisturbed ?u" using undisturbed_simps(5) [OF v] .
      moreover have "\<forall>wk \<in> set ws. worker_exists (wdb ?u) (wk_ID wk)"
        using Cons.prems(4) u(2) by (simp add: claimed_by_def worker_exists_def)
      ultimately show ?thesis using Cons.IH [of ?u "q - 1", OF _ ids q(2)] by simp
    qed
    have queued: "t \<in> set (tasks (wdb w))" if "t \<in> set (tasks (wdb ?u))" "t_State t = TaskStateQueued" for t
      using that unfolding tu by (auto simp: set_update_where)
    have "served (wnow w) (tasks (wdb w)) ?f wk'" if "wk' \<in> set ws" for wk'
      using IH that queued unfolding served_def by blast
    with here show ?thesis unfolding run by simp
  qed
qed simp

lemma tick_undisturbed:
  assumes "undisturbed w" "r_queue (wredis w) \<noteq> []"
  shows "exec tick w = exec (tick_loop (order_by (\<lambda>wk. - wk_CapacityScore wk)
     (filter (recently_idle (wnow w)) (workers (wdb w)))) (int (length (r_queue (wredis w))))) w"
  using assms by (auto simp: tick_def run_QueueLength ListIdleWorkers_def run_sql_query)

end
