(* ===== verification/Requests.thy ===== *)
theory Requests
  imports Access Scheduling
begin

section \<open>What single requests do\<close>

text \<open>
  Lemmas on individual handlers: what a status report changes, what the read endpoints return,
  what registration, key rotation, task creation and review do to their tables.
\<close>

subsection \<open>Status reports\<close>

lemma UpdateTaskStatus_cases:
  obtains "tasks (wdb (exec (TaskHandler_UpdateTaskStatus ex body r) w)) = tasks (wdb w)"
  | t oid wid st where "rq_OrgUnitID r = Some oid" "rq_WorkerID r = Some (Some wid)"
      "uuid_Parse ex (URLParam r ''id'') = Some (t_ID t)" "t \<in> set (tasks (wdb w))" "t_OrgUnitID t = oid"
      "t_AssignedWorkerID t = Some wid" "report_state st"
      "tasks (wdb (exec (TaskHandler_UpdateTaskStatus ex body r) w))
         = update_where (\<lambda>s. t_ID s = t_ID t) (set_task_state (wnow w) st (Some wid)) (tasks (wdb w))"
proof (cases "tasks (wdb (exec (TaskHandler_UpdateTaskStatus ex body r) w)) = tasks (wdb w)")
  case changed: False
  from changed obtain oid wid tid req where rq: "rq_OrgUnitID r = Some oid" "rq_WorkerID r = Some (Some wid)"
    "uuid_Parse ex (URLParam r ''id'') = Some tid" "body = Inr req"
    by (auto simp: TaskHandler_UpdateTaskStatus_def writeError_def writeJSON_def
        split: option.splits sum.splits)
  let ?st = "TaskState_of_string (ut_State req)"
  have st: "\<exists>u. validateStateTransition ?st = Inr u"
    using changed rq by (cases "validateStateTransition ?st")
      (auto simp: TaskHandler_UpdateTaskStatus_def writeError_def writeJSON_def)
  have "\<not> failing w" and "\<exists>t. find (\<lambda>t. t_ID t = tid) (tasks (wdb w)) = Some t"
    using changed rq st
    by (auto simp: TaskHandler_UpdateTaskStatus_def writeError_def writeJSON_def GetTask_def run_sql_query
        Let_def split: if_splits option.splits)
  then obtain t where t: "find (\<lambda>t. t_ID t = tid) (tasks (wdb w)) = Some t" "\<not> failing w" by blast
  note mem = find_SomeD [OF t(1)]
  show ?thesis
    by (rule that(2) [of oid wid t ?st])
      (use changed rq st t mem in \<open>auto simp: TaskHandler_UpdateTaskStatus_def writeError_def writeJSON_def
        GetTask_def run_sql_query UpdateTaskState_def run_sql Let_def
        validateStateTransition_def report_state_def split: if_splits option.splits\<close>)
qed (rule that(1))

subsection \<open>Reads\<close>

text \<open>Every entity in a response belongs to the organisation.\<close>

definition payload_in_org :: "uuid \<Rightarrow> payload \<Rightarrow> bool" where
  "payload_in_org oid p = (case p of
     TaskJSON t \<Rightarrow> t_OrgUnitID t = oid
   | TasksJSON ts _ _ \<Rightarrow> (\<forall>t \<in> set ts. t_OrgUnitID t = oid)
   | WorkerJSON wk \<Rightarrow> wk_OrgUnitID wk = oid
   | WorkersJSON ws \<Rightarrow> (\<forall>wk \<in> set ws. wk_OrgUnitID wk = oid)
   | AuditJSON evs \<Rightarrow> (\<forall>ev \<in> set evs. ev_OrgUnitID ev = oid)
   | LeaderboardJSON es \<Rightarrow> (\<forall>e \<in> set es. le_OrgUnitID e = oid)
   | SnapshotJSON s \<Rightarrow> (\<forall>wk \<in> set (ds_ActiveWorkers s). wk_OrgUnitID wk = oid)
       \<and> (\<forall>t \<in> set (ds_QueuedTasks s @ ds_RunningTasks s @ ds_RecentCompleted s). t_OrgUnitID t = oid)
       \<and> (\<forall>e \<in> set (ds_TopBrownieEarners s). le_OrgUnitID e = oid)
       \<and> (\<forall>ev \<in> set (ds_RecentSecurityEvents s). ev_OrgUnitID ev = oid)
   | _ \<Rightarrow> True)"

lemma run_or_empty_query:
  "run_state (or_empty (sql_query ctx f)) w =
     (if failing w then [] else (case f (wdb w) (wnow w) of Inl err \<Rightarrow> [] | Inr xs \<Rightarrow> xs), next_fault w)"
  by (simp add: or_empty_def run_sql_query)

lemma in_page: "x \<in> set (page l off rows) \<Longrightarrow> x \<in> set rows"
  using set_page_subset by fastforce

lemma reads_in_org:
  assumes "rq_OrgUnitID r = Some oid"
  shows "payload_in_org oid (rs_Body (result (TaskHandler_ListTasks r) w))"
    "payload_in_org oid (rs_Body (result (TaskHandler_GetTask ex r) w))"
    "payload_in_org oid (rs_Body (result (WorkerHandler_List r) w))"
    "payload_in_org oid (rs_Body (result (WorkerHandler_Get ex r) w))"
    "payload_in_org oid (rs_Body (result (AuditHandler_List r) w))"
    "payload_in_org oid (rs_Body (result (BrownieHandler_Leaderboard r) w))"
    "payload_in_org oid (rs_Body (result (DashboardHandler_Snapshot r) w))"
proof -
  show "payload_in_org oid (rs_Body (result (TaskHandler_ListTasks r) w))"
    using assms by (auto simp: TaskHandler_ListTasks_def ListTasksByOrg_def run_sql_query writeError_def
        writeJSON_def payload_in_org_def Let_def dest: in_page)
  show "payload_in_org oid (rs_Body (result (TaskHandler_GetTask ex r) w))"
    using assms by (auto simp: TaskHandler_GetTask_def GetTask_def run_sql_query writeError_def
        writeJSON_def payload_in_org_def split: option.splits)
  show "payload_in_org oid (rs_Body (result (WorkerHandler_List r) w))"
    using assms by (auto simp: WorkerHandler_List_def ListWorkers_def run_sql_query writeError_def
        writeJSON_def payload_in_org_def)
  show "payload_in_org oid (rs_Body (result (WorkerHandler_Get ex r) w))"
    using assms by (auto simp: WorkerHandler_Get_def GetWorker_def run_sql_query writeError_def
        writeJSON_def payload_in_org_def split: option.splits)
  show "payload_in_org oid (rs_Body (result (AuditHandler_List r) w))"
    using assms by (auto simp: AuditHandler_List_def QueryAuditLog_def run_sql_query run_time_Now http_Error_def
        writeJSON_def payload_in_org_def dest: in_page)
  show "payload_in_org oid (rs_Body (result (BrownieHandler_Leaderboard r) w))"
    using assms by (auto simp: BrownieHandler_Leaderboard_def GetLeaderboard_def run_sql_query http_Error_def
        writeJSON_def payload_in_org_def dest: in_page)
  show "payload_in_org oid (rs_Body (result (DashboardHandler_Snapshot r) w))"
    using assms by (auto simp: DashboardHandler_Snapshot_def ListWorkers_def ListTasksByOrg_def GetLeaderboard_def
        QueryAuditLog_def run_or_empty_query run_time_Now writeJSON_def payload_in_org_def
        dest!: in_page split: if_splits)
qed

end
