(* ===== verification/Control_Plane.thy ===== *)
theory Control_Plane
  imports Frame
begin

section \<open>Safety of the control plane\<close>

text \<open>
  The relations of the safety properties, each an interpretation of the frame locale on the store
  operations, and the states reachable by requests, scheduling rounds, reaping cycles and the
  passing of time.
\<close>

subsection \<open>The ledger and the audit log only grow\<close>

definition appended :: "'a list \<Rightarrow> 'a list \<Rightarrow> bool" where
  "appended xs ys \<longleftrightarrow> take (length xs) ys = xs"

lemma appended_refl [simp]: "appended xs xs"
  by (simp add: appended_def)

lemma appended_append [simp]: "appended xs (xs @ ys)"
  by (simp add: appended_def)

lemma appended_iff: "appended xs ys \<longleftrightarrow> (\<exists>zs. ys = xs @ zs)"
  by (metis append_take_drop_id appended_append appended_def)

lemma appended_trans: "appended xs ys \<Longrightarrow> appended ys zs \<Longrightarrow> appended xs zs"
  by (auto simp: appended_iff)

definition logs_grow :: "world \<Rightarrow> world \<Rightarrow> bool" where
  "logs_grow w v \<longleftrightarrow> appended (ledger (wdb w)) (ledger (wdb v))
     \<and> appended (audit_log (wdb w)) (audit_log (wdb v))"

interpretation logs: world_relation logs_grow
  by unfold_locales (auto simp: logs_grow_def intro: appended_trans)

lemmas row_simps = store_defs Let_def claimed_by_def Enqueue_def

interpretation logs: control_plane_safety logs_grow
  by unfold_locales
    (auto simp: row_simps logs_grow_def simp del: ClaimNextTask_def RotateAPIKey_row_def
      intro!: logs.keeps_sql logs.keeps_claim_tx logs.keeps_rotate_tx logs.keeps_redis_cmd
      split: if_splits option.splits)

subsection \<open>What a task is never changes\<close>

text \<open>The part of a row that no operation writes: all but the state, the worker and the instants.\<close>

definition frozen :: "Task \<Rightarrow> Task" where
  "frozen t = t\<lparr>t_State := TaskStateQueued, t_AssignedWorkerID := None, t_AssignedAt := None,
     t_StartedAt := None, t_CompletedAt := None, t_FailedAt := None\<rparr>"

lemma frozen_simps [simp]:
  "frozen (claim_task now wid t) = frozen t" "frozen (set_task_state now st w t) = frozen t"
  by (simp_all add: frozen_def claim_task_def set_task_state_def)

definition tasks_kept :: "world \<Rightarrow> world \<Rightarrow> bool" where
  "tasks_kept w v \<longleftrightarrow> appended (map frozen (tasks (wdb w))) (map frozen (tasks (wdb v)))"

interpretation tk: world_relation tasks_kept
  by unfold_locales (auto simp: tasks_kept_def intro: appended_trans)

interpretation tk: control_plane_safety tasks_kept
  by unfold_locales
    (auto simp: row_simps tasks_kept_def simp del: ClaimNextTask_def RotateAPIKey_row_def
      intro!: tk.keeps_sql tk.keeps_claim_tx tk.keeps_rotate_tx tk.keeps_redis_cmd
      split: if_splits option.splits)

subsection \<open>The queue is only added to\<close>

definition queue_grows :: "world \<Rightarrow> world \<Rightarrow> bool" where
  "queue_grows w v \<longleftrightarrow> fst ` set (r_queue (wredis w)) \<subseteq> fst ` set (r_queue (wredis v))"

lemma fst_zadd: "fst ` set (zadd m s q) = insert m (fst ` set q)"
  by (force simp: zadd_def)

interpretation qg: world_relation queue_grows
  by unfold_locales (auto simp: queue_grows_def)

interpretation qg: control_plane_safety queue_grows
  by unfold_locales
    (auto simp: row_simps queue_grows_def fst_zadd simp del: ClaimNextTask_def RotateAPIKey_row_def
      intro!: qg.keeps_sql qg.keeps_claim_tx qg.keeps_rotate_tx qg.keeps_redis_cmd
      split: if_splits option.splits)

subsection \<open>Integrity of the tables\<close>

definition lifecycle :: "Task \<Rightarrow> bool" where
  "lifecycle t \<longleftrightarrow>
     t_State t \<in> {TaskStateQueued, TaskStateAssigned, TaskStateRunning, TaskStateCompleted, TaskStateFailed}
     \<and> (t_State t \<noteq> TaskStateQueued \<longrightarrow> t_AssignedWorkerID t \<noteq> None)
     \<and> (t_State t = TaskStateAssigned \<longrightarrow> t_AssignedAt t \<noteq> None)
     \<and> (t_State t = TaskStateRunning \<longrightarrow> t_StartedAt t \<noteq> None)
     \<and> (t_State t = TaskStateCompleted \<longrightarrow> t_CompletedAt t \<noteq> None)
     \<and> (t_State t = TaskStateFailed \<longrightarrow> t_FailedAt t \<noteq> None)
     \<and> t_RetryCount t = 0"

definition task_refs :: "db \<Rightarrow> Task \<Rightarrow> bool" where
  "task_refs d t \<longleftrightarrow> org_exists d (t_OrgUnitID t)
     \<and> (\<forall>i. t_AssignedWorkerID t = Some i \<longrightarrow> worker_exists d i)"

definition integrity :: "db \<Rightarrow> bool" where
  "integrity d \<longleftrightarrow>
     distinct (map wk_ID (workers d))
     \<and> distinct (map (\<lambda>w. (wk_OrgUnitID w, wk_HostnameHash w)) (workers d))
     \<and> distinct (map k_ID (api_keys d)) \<and> distinct (map o_ID (outputs d))
     \<and> (\<forall>t \<in> set (tasks d). lifecycle t \<and> task_refs d t)
     \<and> (\<forall>w \<in> set (workers d). org_exists d (wk_OrgUnitID w))
     \<and> (\<forall>k \<in> set (api_keys d). org_exists d (k_OrgUnitID k))
     \<and> (\<forall>p \<in> set (outputs d). worker_exists d (o_WorkerID p) \<and> reviewer_required_when_approved p)
     \<and> (\<forall>ev \<in> set (ledger d). worker_exists d (be_WorkerID ev) \<and> org_exists d (be_OrgUnitID ev))"

lemma exists_frame [simp]:
  "org_exists (d\<lparr>workers := ws\<rparr>) oid = org_exists d oid"
  "org_exists (d\<lparr>tasks := ts\<rparr>) oid = org_exists d oid"
  "org_exists (d\<lparr>api_keys := ks\<rparr>) oid = org_exists d oid"
  "org_exists (d\<lparr>outputs := os\<rparr>) oid = org_exists d oid"
  "org_exists (d\<lparr>ledger := ls\<rparr>) oid = org_exists d oid"
  "org_exists (d\<lparr>audit_log := as\<rparr>) oid = org_exists d oid"
  "worker_exists (d\<lparr>orgs := gs\<rparr>) wid = worker_exists d wid"
  "worker_exists (d\<lparr>tasks := ts\<rparr>) wid = worker_exists d wid"
  "worker_exists (d\<lparr>api_keys := ks\<rparr>) wid = worker_exists d wid"
  "worker_exists (d\<lparr>outputs := os\<rparr>) wid = worker_exists d wid"
  "worker_exists (d\<lparr>ledger := ls\<rparr>) wid = worker_exists d wid"
  "worker_exists (d\<lparr>audit_log := as\<rparr>) wid = worker_exists d wid"
  by (simp_all add: org_exists_def worker_exists_def)

lemma task_refs_frame [simp]:
  "task_refs (d\<lparr>tasks := ts\<rparr>) = task_refs d" "task_refs (d\<lparr>api_keys := ks\<rparr>) = task_refs d"
  "task_refs (d\<lparr>outputs := os\<rparr>) = task_refs d" "task_refs (d\<lparr>ledger := ls\<rparr>) = task_refs d"
  "task_refs (d\<lparr>audit_log := as\<rparr>) = task_refs d"
  by (simp_all add: task_refs_def fun_eq_iff split: option.splits)

lemma update_where_all:
  assumes "\<And>r. r \<in> set rows \<Longrightarrow> P r \<Longrightarrow> Q (f r)" and "\<forall>r \<in> set rows. Q r"
  shows "\<forall>r \<in> set (update_where P f rows). Q r"
  using assms by (auto simp: set_update_where)

lemma integrity_update_tasks:
  assumes "integrity d"
    and "\<And>t. t \<in> set (tasks d) \<Longrightarrow> lifecycle t \<Longrightarrow> task_refs d t \<Longrightarrow> P t \<Longrightarrow> lifecycle (f t) \<and> task_refs d (f t)"
  shows "integrity (d\<lparr>tasks := update_where P f (tasks d)\<rparr>)"
proof -
  have "\<forall>t \<in> set (update_where P f (tasks d)). lifecycle t \<and> task_refs d t"
    using assms by (intro update_where_all) (auto simp: integrity_def)
  with assms(1) show ?thesis by (simp add: integrity_def)
qed

lemma integrity_add_task:
  "integrity d \<Longrightarrow> fresh_task t \<Longrightarrow> task_row_ok d t \<Longrightarrow> integrity (d\<lparr>tasks := tasks d @ [t]\<rparr>)"
  by (auto simp: integrity_def fresh_task_def lifecycle_def task_refs_def task_row_ok_def)

lemma worker_exists_iff: "worker_exists d = (\<lambda>i. i \<in> set (map wk_ID (workers d)))"
  by (auto simp: worker_exists_def fun_eq_iff)

lemma org_exists_iff: "org_exists d = (\<lambda>i. i \<in> set (map org_ID (orgs d)))"
  by (auto simp: org_exists_def fun_eq_iff)

lemma integrity_update_workers:
  assumes ok: "integrity d"
    and f: "\<And>w. P w \<Longrightarrow> wk_ID (f w) = wk_ID w \<and> wk_OrgUnitID (f w) = wk_OrgUnitID w
      \<and> wk_HostnameHash (f w) = wk_HostnameHash w"
  shows "integrity (d\<lparr>workers := update_where P f (workers d)\<rparr>)"
proof -
  have ids: "map wk_ID (update_where P f (workers d)) = map wk_ID (workers d)"
    "map (\<lambda>w. (wk_OrgUnitID w, wk_HostnameHash w)) (update_where P f (workers d)) =
     map (\<lambda>w. (wk_OrgUnitID w, wk_HostnameHash w)) (workers d)"
    using f by (simp_all add: map_update_where)
  then have "worker_exists (d\<lparr>workers := update_where P f (workers d)\<rparr>) = worker_exists d"
    unfolding worker_exists_iff by simp
  moreover have "\<forall>w \<in> set (update_where P f (workers d)). org_exists d (wk_OrgUnitID w)"
    using ok f by (intro update_where_all) (auto simp: integrity_def)
  ultimately show ?thesis
    using ok ids by (auto simp: integrity_def task_refs_def)
qed

lemma worker_exists_mono:
  "worker_exists d i \<Longrightarrow> worker_exists (d\<lparr>workers := workers d @ ws\<rparr>) i"
  by (auto simp: worker_exists_def)

lemma integrity_add_worker:
  assumes "integrity d" "org_exists d (wk_OrgUnitID w)" "\<not> worker_exists d (wk_ID w)"
    "find (same_host w) (workers d) = None"
  shows "integrity (d\<lparr>workers := workers d @ [w]\<rparr>)"
proof -
  have "\<forall>x \<in> set (workers d). \<not> (wk_OrgUnitID w = wk_OrgUnitID x \<and> wk_HostnameHash w = wk_HostnameHash x)"
    using assms(4) by (auto simp: find_None_iff same_host_def)
  moreover have "wk_ID w \<notin> set (map wk_ID (workers d))"
    using assms(3) by (auto simp: worker_exists_def)
  ultimately show ?thesis
    using assms(1,2)
    by (auto simp: integrity_def task_refs_def intro: worker_exists_mono split: option.splits)
qed

lemma integrity_add_org: "integrity d \<Longrightarrow> integrity (d\<lparr>orgs := orgs d @ [og]\<rparr>)"
  by (auto simp: integrity_def task_refs_def org_exists_def split: option.splits)

lemma integrity_update_orgs:
  assumes ok: "integrity d" and "\<And>og. org_ID (f og) = org_ID og"
  shows "integrity (d\<lparr>orgs := update_where P f (orgs d)\<rparr>)"
proof -
  have "org_exists (d\<lparr>orgs := update_where P f (orgs d)\<rparr>) = org_exists d"
    using assms(2) unfolding org_exists_iff by (simp add: map_update_where)
  with ok show ?thesis by (simp add: integrity_def task_refs_def)
qed

lemma integrity_update_keys:
  assumes "integrity d" "\<And>k. k_ID (f k) = k_ID k" "\<And>k. k_OrgUnitID (f k) = k_OrgUnitID k"
  shows "integrity (d\<lparr>api_keys := update_where P f (api_keys d)\<rparr>)"
  using assms by (auto simp: integrity_def set_update_where)

lemma integrity_add_key:
  "integrity d \<Longrightarrow> \<forall>r \<in> set (api_keys d). k_ID r \<noteq> k_ID k \<Longrightarrow> org_exists d (k_OrgUnitID k) \<Longrightarrow>
     integrity (d\<lparr>api_keys := api_keys d @ [k]\<rparr>)"
  by (auto simp: integrity_def)

lemma integrity_add_output:
  "integrity d \<Longrightarrow> \<forall>r \<in> set (outputs d). o_ID r \<noteq> o_ID p \<Longrightarrow> worker_exists d (o_WorkerID p) \<Longrightarrow>
     reviewer_required_when_approved p \<Longrightarrow> integrity (d\<lparr>outputs := outputs d @ [p]\<rparr>)"
  by (auto simp: integrity_def)

lemma integrity_update_outputs:
  assumes "integrity d" "\<And>p. o_ID (f p) = o_ID p" "\<And>p. o_WorkerID (f p) = o_WorkerID p"
    "\<And>p. reviewer_required_when_approved (f p)"
  shows "integrity (d\<lparr>outputs := update_where P f (outputs d)\<rparr>)"
  using assms by (auto simp: integrity_def set_update_where)

lemma integrity_add_ledger:
  "integrity d \<Longrightarrow> worker_exists d (be_WorkerID ev) \<Longrightarrow> org_exists d (be_OrgUnitID ev) \<Longrightarrow>
     integrity (d\<lparr>ledger := ledger d @ [ev]\<rparr>)"
  by (auto simp: integrity_def)

lemma integrity_audit: "integrity (d\<lparr>audit_log := as\<rparr>) = integrity d"
  by (simp add: integrity_def)

lemma integrity_claim:
  assumes "integrity d" "worker_exists d wid"
  shows "integrity (d\<lparr>tasks := update_where P (claim_task now wid) (tasks d)\<rparr>)"
  using assms
  by (intro integrity_update_tasks) (auto simp: lifecycle_def task_refs_def claim_task_def)

lemma integrity_report:
  assumes "integrity d" "worker_exists d wid" "report_state st"
  shows "integrity (d\<lparr>tasks := update_where P (set_task_state now st (Some wid)) (tasks d)\<rparr>)"
  using assms
  by (intro integrity_update_tasks)
     (auto simp: lifecycle_def task_refs_def set_task_state_def report_state_def)

lemma integrity_requeue:
  assumes "integrity d"
  shows "integrity (d\<lparr>tasks := update_where P (set_task_state now TaskStateQueued None) (tasks d)\<rparr>)"
  using assms
  by (intro integrity_update_tasks) (auto simp: lifecycle_def task_refs_def set_task_state_def)

definition integrity_kept :: "world \<Rightarrow> world \<Rightarrow> bool" where
  "integrity_kept w v \<longleftrightarrow> (integrity (wdb w) \<longrightarrow> integrity (wdb v))"

interpretation ik: world_relation integrity_kept
  by unfold_locales (auto simp: integrity_kept_def)

lemma integrity_RegisterWorker: "ik.keeps (RegisterWorker wk agents)"
  unfolding RegisterWorker_def Let_def
  by (rule ik.keeps_sql)
     (auto simp: integrity_kept_def refresh_worker_def same_host_def split: option.splits if_splits
       intro!: integrity_update_workers integrity_add_worker)

interpretation ik: control_plane_safety integrity_kept
proof unfold_locales
  show "ik.keeps (RegisterWorker wk agents)" for wk agents
    by (rule integrity_RegisterWorker)
qed (auto simp: row_simps integrity_kept_def integrity_audit reviewer_required_when_approved_def
      simp del: ClaimNextTask_def RotateAPIKey_row_def RegisterWorker_def
      intro!: ik.keeps_sql ik.keeps_claim_tx ik.keeps_rotate_tx ik.keeps_redis_cmd
        integrity_add_task integrity_report integrity_requeue integrity_claim
        integrity_update_workers integrity_update_keys integrity_add_key integrity_add_output
        integrity_update_outputs integrity_add_ledger integrity_add_org integrity_update_orgs
      split: if_splits option.splits)

subsection \<open>Runs as sequences of statements\<close>

text \<open>
  The least relation that satisfies the interface: whole requests, rounds and cycles do nothing but
  send statements of the list.
\<close>

interpretation sr: world_relation "statement\<^sup>*\<^sup>*"
  by unfold_locales (auto intro: statement.intros)

lemma statement_run: "sr.keeps m" if "\<And>w. statement w (exec m w)"
  by (rule sr.keepsI) (blast intro: that)

interpretation sr: control_plane_safety "statement\<^sup>*\<^sup>*"
  by unfold_locales (auto intro: statement.intros statement_run)

end
