(* ===== verification/Control_Plane_Properties.thy ===== *)
theory Control_Plane_Properties
  imports Samples
begin

section \<open>Properties of the control plane\<close>

text \<open>
  The properties of the server side. Each is stated over the model's own definitions and rests on
  the lemmas of the component theories; a witness evaluates it on the sample installation.
\<close>

subsection \<open>Runs\<close>

text \<open>C1: Every run of the control plane, whatever the requests, the failures and the interleaving of
  the statements of concurrent requests, scheduling rounds and reaping cycles, keeps the tables' integrity: unique ids, at most one worker per host,
  references to existing organisations and workers, and for every task the life cycle, in which a
  task that left the queue has a worker and the instant of its state is recorded.\<close>

theorem run_keeps_integrity:
  assumes "cp_run ex d dec w v" and "integrity (wdb w)"
  shows "integrity (wdb v)"
  using ik.run_keeps [OF assms(1)] assms(2) by (simp add: integrity_kept_def)

theorem run_keeps_integrity_witness: "integrity (wdb (exec tick sample_world))"
  by (rule run_keeps_integrity [OF sample_step sample_integrity])

text \<open>C3: A request with any content, a scheduling round and a reaping cycle change the world only by a
  sequence of the single statements listed in \<open>statement\<close>, each with the arguments allowed there. The
  properties of runs therefore hold for every interleaving of handlers that run concurrently.\<close>

theorem requests_send_statements:
  "statement\<^sup>*\<^sup>* w (exec (serve ex d dec r) w) \<and> statement\<^sup>*\<^sup>* w (exec tick w)
    \<and> statement\<^sup>*\<^sup>* w (exec (reap ex brownie ttl) w)"
  by (intro conjI sr.keepsD sr.keeps_serve sr.keeps_tick sr.keeps_reap)

text \<open>C37: No run deletes a task or changes anything but its state, its worker and the instants of
  its states: organisation, payload, priority, queueing time and retry counter stay as they were
  inserted.\<close>

theorem run_keeps_task_content:
  assumes "cp_run ex d dec w v"
  shows "\<exists>new. map frozen (tasks (wdb v)) = map frozen (tasks (wdb w)) @ new"
  using tk.run_keeps [OF assms] by (simp add: tasks_kept_def appended_iff)

theorem run_keeps_task_content_witness:
  "\<exists>new. map frozen (tasks (wdb (exec tick sample_world))) = map frozen (tasks (wdb sample_world)) @ new"
  by (rule run_keeps_task_content [OF sample_step])

text \<open>The brownie ledger and the audit log are append-only in every run.\<close>

lemma run_logs_append_only:
  assumes "cp_run ex d dec w v"
  shows "\<exists>new_entries new_events. ledger (wdb v) = ledger (wdb w) @ new_entries
    \<and> audit_log (wdb v) = audit_log (wdb w) @ new_events"
  using logs.run_keeps [OF assms] by (simp add: logs_grow_def appended_iff)

text \<open>C38: No run ever removes a task from the Redis queue: the scheduler claims tasks from the
  database and only reads the queue's length, so an enqueued task stays in the queue for ever.\<close>

theorem run_queue_never_shrinks:
  assumes "cp_run ex d dec w v"
  shows "fst ` set (r_queue (wredis w)) \<subseteq> fst ` set (r_queue (wredis v))"
  using qg.run_keeps [OF assms] by (simp add: queue_grows_def)

theorem run_queue_never_shrinks_witness:
  "fst ` set (r_queue (wredis sample_world)) \<subseteq> fst ` set (r_queue (wredis (exec tick sample_world)))"
  by (rule run_queue_never_shrinks [OF sample_step])

subsection \<open>Scheduling\<close>

text \<open>C12: A scheduling round, under any failures, assigns a task only when it is queued and to a
  worker that is idle, was heard of in the last 90 seconds and offers the task's agent; it leaves
  every other row alone, and assigns at most as many tasks as the queue is long.\<close>

theorem tick_assigns_queued_to_idle:
  assumes ids: "distinct (map t_ID (tasks (wdb w)))"
  defines "v \<equiv> exec tick w"
  shows "length (tasks (wdb v)) = length (tasks (wdb w))
    \<and> (\<forall>i < length (tasks (wdb w)). tasks (wdb v) ! i = tasks (wdb w) ! i \<or>
        (\<exists>wk \<in> set (workers (wdb w)). recently_idle (wnow w) wk
           \<and> t_State (tasks (wdb w) ! i) = TaskStateQueued \<and> t_AIAgent (tasks (wdb w) ! i) \<in> set (wk_Agents wk)
           \<and> tasks (wdb v) ! i = claim_task (wnow w) (wk_ID wk) (tasks (wdb w) ! i)))
    \<and> card (changed (tasks (wdb w)) (tasks (wdb v))) \<le> length (r_queue (wredis w))"
proof -
  from tick_cases [of w, folded v_def]
  consider "tasks (wdb v) = tasks (wdb w)"
    | idle u where "set idle \<subseteq> {wk \<in> set (workers (wdb w)). recently_idle (wnow w) wk}"
        "v = exec (tick_loop idle (int (length (r_queue (wredis w))))) u"
        "wdb u = wdb w" "wnow u = wnow w"
    by blast
  then show ?thesis
  proof cases
    case 2
    from tick_loop_tasks [of u idle "int (length (r_queue (wredis w)))"] ids 2
    show ?thesis by (fastforce simp: assigned_by_def)
  qed simp
qed

theorem tick_assigns_queued_to_idle_witness:
  "length (tasks (wdb (exec tick sample_world))) = length (tasks (wdb sample_world))"
proof -
  have "distinct (map t_ID (tasks (wdb sample_world)))" by (simp add: sample_defs)
  from tick_assigns_queued_to_idle [OF this] show ?thesis by blast
qed



text \<open>C16: A successful claim takes, among the queued tasks for the worker's agents that no other
  session has locked, one of highest priority, and among those of that priority the one queued
  first.\<close>

theorem claim_takes_best:
  assumes "run_state (ClaimNextTask wid agents) w = (Inr (Some t), v)"
  shows "\<exists>s \<in> set (tasks (wdb w)). claimable agents (wrow_locks w) s \<and> t = claim_task (wnow w) wid s
    \<and> (\<forall>s' \<in> set (tasks (wdb w)). claimable agents (wrow_locks w) s' \<longrightarrow>
         t_Priority s' < t_Priority s \<or> t_Priority s' = t_Priority s \<and> t_QueuedAt s \<le> t_QueuedAt s')"
proof -
  from assms obtain s where s: "next_claim agents (wrow_locks w) (tasks (wdb w)) = Some s"
    "t = claim_task (wnow w) wid s"
    by (rule run_ClaimNextTask)
  from next_claim_Some [OF s(1)] s(2) show ?thesis
    by (fastforce simp: claim_key_def less_eq_prod_def)
qed

theorem claim_takes_best_witness:
  "\<exists>s \<in> set (tasks (wdb sample_world)). claimable [''claude''] (wrow_locks sample_world) s
    \<and> claim_task 1000 2 sample_task = claim_task (wnow sample_world) 2 s"
proof -
  have "fst (run_state (ClaimNextTask 2 [''claude'']) sample_world) = Inr (Some (claim_task 1000 2 sample_task))"
    by (simp add: ClaimNextTask_def effect_simps failing_def sample_defs next_claim_def claimable_def
        order_by_def limit1_def worker_exists_def)
  then obtain v where "run_state (ClaimNextTask 2 [''claude'']) sample_world
      = (Inr (Some (claim_task 1000 2 sample_task)), v)"
    by (metis prod.collapse)
  from claim_takes_best [OF this] show ?thesis by auto
qed

text \<open>C19: A reaping cycle, under any failures, puts back into the queue only tasks in progress whose
  worker was last heard of before the deadline and has no live heartbeat key; it keeps their
  worker, and touches no other row.\<close>

theorem reap_requeues_only_dead:
  fixes w ex brownie ttl i
  assumes ids: "distinct (map t_ID (tasks (wdb w)))" and i: "i < length (tasks (wdb w))"
  defines "t \<equiv> tasks (wdb w) ! i" and "t' \<equiv> tasks (wdb (exec (reap ex brownie ttl) w)) ! i"
  shows "t' = t \<or> (t \<in> set (stale_tasks (wnow w - ttl * Second) (wdb w)) \<and> dead ex (wredis w) (wnow w) t
    \<and> t' = set_task_state (wnow w) TaskStateQueued None t)"
proof -
  let ?stale = "stale_tasks (wnow w - ttl * Second) (wdb w)"
  have "t \<in> set ?stale \<and> dead ex (wredis w) (wnow w) t" if "reaped ex (wredis w) (wnow w) ?stale t"
  proof -
    from that obtain s where s: "s \<in> set ?stale" "t_ID s = t_ID t" "dead ex (wredis w) (wnow w) s"
      by (auto simp: reaped_def)
    moreover have "s \<in> set (tasks (wdb w))" "t \<in> set (tasks (wdb w))"
      using s(1) i by (auto simp: stale_tasks_def t_def)
    ultimately have "s = t" using ids by (auto simp: distinct_map inj_on_def)
    with s show ?thesis by simp
  qed
  with reap_tasks [where w = w and ex = ex and b = brownie and ttl = ttl] i
  show ?thesis unfolding t_def t'_def by blast
qed

theorem reap_requeues_only_dead_witness:
  "tasks (wdb (exec (reap sample_ext True 60) sample_world)) ! 0 = sample_task"
proof -
  have "distinct (map t_ID (tasks (wdb sample_world)))" "0 < length (tasks (wdb sample_world))"
    by (simp_all add: sample_defs)
  from reap_requeues_only_dead [OF this, of sample_ext True 60] show ?thesis
    by (auto simp: sample_defs stale_tasks_def)
qed

text \<open>C32: When no service fails, a reaping cycle puts back into the queue every task in progress whose
  worker is stale and has no live heartbeat key, in one pass.\<close>

theorem reap_requeues_all_dead:
  assumes "wfaults w = []" and "t \<in> set (stale_tasks (wnow w - ttl * Second) (wdb w))"
    and "dead ex (wredis w) (wnow w) t"
  shows "set_task_state (wnow w) TaskStateQueued None t \<in> set (tasks (wdb (exec (reap ex brownie ttl) w)))"
proof -
  have "t \<in> set (tasks (wdb w))" using assms(2) by (auto simp: stale_tasks_def)
  then obtain i where i: "i < length (tasks (wdb w))" "tasks (wdb w) ! i = t" by (auto simp: in_set_conv_nth)
  have "reaped ex (wredis w) (wnow w) (stale_tasks (wnow w - ttl * Second) (wdb w)) t"
    using assms(2,3) by (auto simp: reaped_def)
  with reap_tasks [where w = w and ex = ex and b = brownie and ttl = ttl] i assms(1) show ?thesis
    by (metis nth_mem)
qed

theorem reap_requeues_all_dead_witness:
  "set_task_state (100 * Second) TaskStateQueued None running_task
     \<in> set (tasks (wdb (exec (reap sample_ext True 60) stale_world)))"
proof -
  have "running_task \<in> set (stale_tasks (wnow stale_world - 60 * Second) (wdb stale_world))"
    by (simp add: stale_world_def sample_defs stale_tasks_def stale_worker_def Second_def)
  from reap_requeues_all_dead [OF _ this, of sample_ext True] show ?thesis
    by (simp add: stale_world_def sample_defs dead_def live_key_def)
qed

text \<open>The best worker for a task is one that offers the agent and is idle with a non-negative
  score, no other candidate scores higher, and there is none exactly when every score is
  negative.\<close>

lemma bestWorker_is_best:
  "(case bestWorker task ws of
      None \<Rightarrow> \<forall>w \<in> set ws. matchScore task w \<le> - 1
    | Some b \<Rightarrow> b \<in> set ws \<and> 0 \<le> matchScore task b \<and> t_AIAgent task \<in> set (wk_Agents b)
        \<and> wk_State b = WorkerStateIdle \<and> (\<forall>w \<in> set ws. matchScore task w \<le> matchScore task b))"
  using bestWorker_from_spec [where task = task and ws = ws and best = None and sc = "- 1"]
  by (auto simp: bestWorker_def matchScore_def split: option.splits if_splits)

text \<open>The advisory lock key of a task is the upper 64 bits of its UUID; two tasks contend for
  one lock exactly when those bits agree, whatever the lower half is.\<close>

lemma lockKey_is_upper_half:
  "lockKey u = ucast (drop_bit 64 u) \<and> (lockKey u = lockKey v \<longleftrightarrow> drop_bit 64 u = drop_bit 64 v)"
proof -
  have low: "lockKey u = lockKey v \<longleftrightarrow> (\<forall>n < 64. bit u (64 + n) = bit v (64 + n))"
    by (auto simp: lockKey_high_half bit_eq_iff bit_ucast_iff bit_drop_bit_eq)
  have "bit w (64 + n) = False" if "\<not> n < 64" for w :: uuid and n
    using that by (auto dest: bit_imp_le_length)
  then have "drop_bit 64 u = drop_bit 64 v \<longleftrightarrow> (\<forall>n < 64. bit u (64 + n) = bit v (64 + n))"
    by (auto simp: bit_eq_iff bit_drop_bit_eq)
  with low lockKey_high_half [of u] show ?thesis by blast
qed

text \<open>An execution window is open exactly when the weekday is allowed and the local hour is
  reached from the start hour, going round the clock, before the end hour.\<close>

lemma window_goes_round_the_clock:
  assumes "0 \<le> tw_StartHour tw" "tw_StartHour tw < 24" "0 \<le> tw_EndHour tw" "tw_EndHour tw < 24"
    and "tw_Timezone tw = []"
  shows "inWindow tz t tw \<longleftrightarrow> (tw_DayOfWeek tw = [] \<or> local_weekday t \<in> set (tw_DayOfWeek tw))
    \<and> (local_hour t - tw_StartHour tw) mod 24 < (tw_EndHour tw - tw_StartHour tw) mod 24"
  using hour_in_window_cyclic [OF assms(1-4), of "local_hour t"] local_hour_range [of t] assms(5)
  by (auto simp: inWindow_def cyclic_window_def Let_def)

subsection \<open>The queue\<close>

text \<open>A dequeued task is one of greatest score, and exactly that member leaves the queue.\<close>

lemma dequeue_returns_greatest:
  assumes "run_state (Dequeue ex) w = (Inr (Some u), v)" and q: "zset_ok (r_queue (wredis w))"
  shows "\<exists>m s. uuid_Parse ex m = Some u \<and> map_of (r_queue (wredis w)) m = Some s
    \<and> (\<forall>n t. map_of (r_queue (wredis w)) n = Some t \<longrightarrow> t \<le> s)
    \<and> map_of (r_queue (wredis v)) = (map_of (r_queue (wredis w)))(m := None)"
proof -
  from assms(1) obtain m s q' where pop: "zpopmax (r_queue (wredis w)) = Some ((m, s), q')"
    and v: "r_queue (wredis v) = q'" "uuid_Parse ex m = Some u"
    by (auto simp: Dequeue_def run_redis_cmd split: if_splits sum.splits option.splits prod.splits)
  from zq.pop_Some [OF q pop] v show ?thesis by blast
qed

text \<open>The score lets age outrank priority: a level of priority is worth ten thousand seconds, so
  a task queued that much earlier is taken before one of higher priority.\<close>

lemma queue_age_outranks_priority:
  assumes "\<bar>p\<bar> \<le> 1000" "\<bar>p'\<bar> \<le> 1000" "0 \<le> t" "t < 2 ^ 52" "0 \<le> t'" "t' < 2 ^ 52" "m \<noteq> m'"
    and older: "t' + (p - p') * 10 ^ 10 < t"
  shows "map_option fst (zpopmax (zadd m (score p t) (zadd m' (score p' t') []))) = Some (m', score p' t')"
proof -
  have "score p t = p * 10 ^ 10 - t" "score p' t' = p' * 10 ^ 10 - t'"
    using assms by (simp_all add: score_bounded)
  with older have less: "score p t < score p' t'" by (simp add: algebra_simps)
  show ?thesis
    using less assms(7) by (simp add: zpopmax_def zadd_def order_by_def limit1_def)
qed

subsection \<open>Access\<close>

text \<open>C4: A request that changes any organisation, worker, task, output, ledger entry, key (other than
  the instant of its last use) or the queue presents, as bearer token, a stored key that is
  neither revoked nor expired and whose hash it matches, and the key carries the scope of the
  request's route or the scope admin.\<close>

theorem changes_need_key_and_scope:
  assumes "\<not> business_same w (exec (serve ex d dec r) w)"
  shows "\<exists>k ro s. presents ex w r k \<and> ro_Scope ro = Some s \<and> has_scope s k
    \<and> find_route d (rq_Method r) (drop 3 (Split CHR ''/'' (rq_Path r))) = Some ro"
  using assms by (rule serve_changes)

theorem changes_need_key_and_scope_witness:
  "\<exists>k (ro :: route) s. presents sample_ext stale_world sample_request k \<and> ro_Scope ro = Some s \<and> has_scope s k"
proof -
  have "tasks (wdb (exec (serve sample_ext sample_deps sample_decoders sample_request) stale_world))
      \<noteq> tasks (wdb stale_world)"
  proof
    assume "tasks (wdb (exec (serve sample_ext sample_deps sample_decoders sample_request) stale_world))
      = tasks (wdb stale_world)"
    with sample_report have "map t_State (tasks (wdb stale_world)) = [TaskStateCompleted]" by simp
    then show False by (simp add: stale_world_def sample_defs)
  qed
  then have "\<not> business_same stale_world (exec (serve sample_ext sample_deps sample_decoders sample_request) stale_world)"
    by (simp add: business_same_def)
  from changes_need_key_and_scope [OF this] show ?thesis by blast
qed

text \<open>A generated key has the prefix it is looked up by, is accepted as a bearer token, and
  verifies against its stored hash exactly when the derivation under the default parameters
  agrees with the one under the configured parameters: always for the default parameters.\<close>

lemma generated_key_verifies:
  assumes "run_state (GenerateAPIKeyWithParams ex p) w = (Inr (pt, prefix, h), v)"
  shows "prefix = take (length KeyPrefix + KeyPrefixLen) pt \<and> length pt = 46
    \<and> (\<forall>r. rq_Header r ''Authorization'' = ''Bearer '' @ pt \<longrightarrow> bearer_token r = Inr pt)
    \<and> (\<exists>salt. length salt = ap_SaltLen p
         \<and> (VerifyAPIKey ex pt h \<longleftrightarrow> derive ex DefaultArgonParams pt salt = derive ex p pt salt))
    \<and> (p = DefaultArgonParams \<longrightarrow> VerifyAPIKey ex pt h)"
proof -
  obtain raw salt where raw: "length raw = 32" "pt = KeyPrefix @ b64_encode raw"
    and rest: "prefix = take (length KeyPrefix + KeyPrefixLen) pt" "length salt = ap_SaltLen p"
      "h = hex_encode salt @ ''$'' @ hex_encode (derive ex p pt salt)"
    using run_GenerateAPIKey [OF assms] by metis
  have len: "length pt = 46" using raw by (simp add: length_b64_encode KeyPrefix_def)
  have verify: "VerifyAPIKey ex pt h \<longleftrightarrow> derive ex DefaultArgonParams pt salt = derive ex p pt salt"
    unfolding rest(3) by (rule VerifyAPIKey_stored)
  show ?thesis
    using rest(1,2) len verify bearer_token_Bearer [of _ pt]
    by (auto simp: KeyPrefix_def KeyPrefixLen_def)
qed





subsection \<open>Requests\<close>



text \<open>C8: A status report changes at most the one task it names, and only when that task belongs to
  the caller's organisation and is assigned to the calling worker; the new state is running,
  completed or failed.\<close>

theorem status_report_by_assigned_worker:
  assumes ids: "distinct (map t_ID (tasks (wdb w)))" and i: "i < length (tasks (wdb w))"
  shows "tasks (wdb (exec (TaskHandler_UpdateTaskStatus ex body r) w)) ! i = tasks (wdb w) ! i \<or>
    (\<exists>wid st. rq_OrgUnitID r = Some (t_OrgUnitID (tasks (wdb w) ! i)) \<and> rq_WorkerID r = Some (Some wid)
       \<and> t_AssignedWorkerID (tasks (wdb w) ! i) = Some wid
       \<and> uuid_Parse ex (URLParam r ''id'') = Some (t_ID (tasks (wdb w) ! i))
       \<and> st \<in> {TaskStateRunning, TaskStateCompleted, TaskStateFailed}
       \<and> tasks (wdb (exec (TaskHandler_UpdateTaskStatus ex body r) w)) ! i
           = set_task_state (wnow w) st (Some wid) (tasks (wdb w) ! i))"
proof -
  from UpdateTaskStatus_cases [where ex = ex and body = body and r = r and w = w] show ?thesis
  proof cases
    case 1
    then show ?thesis by simp
  next
    case (2 t oid wid st)
    then obtain j where j: "j < length (tasks (wdb w))" "tasks (wdb w) ! j = t" by (auto simp: in_set_conv_nth)
    with 2 update_where_key [OF ids j(1)] i show ?thesis
      by (cases "i = j") (auto simp: nth_list_update report_state_def)
  qed
qed

theorem status_report_by_assigned_worker_witness:
  "tasks (wdb (exec (TaskHandler_UpdateTaskStatus sample_ext (Inl ''EOF'') sample_request) stale_world)) ! 0 = running_task"
proof -
  have "distinct (map t_ID (tasks (wdb stale_world)))" "0 < length (tasks (wdb stale_world))"
    by (simp_all add: stale_world_def sample_defs)
  from status_report_by_assigned_worker [OF this, of sample_ext "Inl ''EOF''" sample_request] show ?thesis
    by (auto simp: sample_request_def stale_world_def sample_defs)
qed

subsection \<open>A report that is overtaken\<close>

text \<open>What is left of \<open>TaskHandler_UpdateTaskStatus\<close> once its checks have passed.\<close>

definition report_write :: "uuid \<Rightarrow> TaskState \<Rightarrow> uuid \<Rightarrow> response effect" where
  "report_write tid st wid = do {
     updated \<leftarrow> UpdateTaskState tid st (Some wid);
     case updated of
       Inl err \<Rightarrow> writeError 500 ''failed to update task state''
     | Inr _ \<Rightarrow> writeJSON 200 (StateJSON (string_of_TaskState st))
   }"

lemma UpdateTaskStatus_write:
  assumes "\<not> failing w" "find (\<lambda>t. t_ID t = tid) (tasks (wdb w)) = Some t" "t_AssignedWorkerID t = Some wid"
    and "rq_OrgUnitID r = Some (t_OrgUnitID t)" "rq_WorkerID r = Some (Some wid)"
    and "uuid_Parse ex (URLParam r ''id'') = Some tid" "validateStateTransition (TaskState_of_string (ut_State req)) = Inr ()"
  shows "run_state (TaskHandler_UpdateTaskStatus ex (Inr req) r) w
    = run_state (report_write tid (TaskState_of_string (ut_State req)) wid) (next_fault w)"
  using assms by (simp add: TaskHandler_UpdateTaskStatus_def GetTask_def run_sql_query report_write_def Let_def cong: sum.case_cong)

text \<open>C40: A report is checked and written by two statements. When, between them, the reaper and the scheduler have given
  the task to another worker, the report is still written: the task is taken from the new worker and
  carries the reported state, and the late worker is answered with 200.\<close>

theorem overtaken_report_takes_task_back:
  assumes "\<not> failing w" "find (\<lambda>t. t_ID t = tid) (tasks (wdb w)) = Some t" "t_AssignedWorkerID t = Some wid"
    and "rq_OrgUnitID r = Some (t_OrgUnitID t)" "rq_WorkerID r = Some (Some wid)"
    and "uuid_Parse ex (URLParam r ''id'') = Some tid" "validateStateTransition (TaskState_of_string (ut_State req)) = Inr ()"
    and later: "\<not> failing v" "t' \<in> set (tasks (wdb v))" "t_ID t' = tid" "t_AssignedWorkerID t' = Some wid'" "wid' \<noteq> wid"
      "worker_exists (wdb v) wid"
  shows "run_state (TaskHandler_UpdateTaskStatus ex (Inr req) r) w
      = run_state (report_write tid (TaskState_of_string (ut_State req)) wid) (next_fault w)
    \<and> rs_Status (result (report_write tid (TaskState_of_string (ut_State req)) wid) v) = 200
    \<and> set_task_state (wnow v) (TaskState_of_string (ut_State req)) (Some wid) t'
        \<in> set (tasks (wdb (exec (report_write tid (TaskState_of_string (ut_State req)) wid) v)))"
proof -
  let ?st = "TaskState_of_string (ut_State req)"
  have "rows_affected (\<lambda>t. t_ID t = tid) (tasks (wdb v)) \<noteq> 0"
    using later(2,3) by (auto simp: rows_affected_0_iff)
  then have run: "rs_Status (result (report_write tid ?st wid) v) = 200"
    "tasks (wdb (exec (report_write tid ?st wid) v))
       = update_where (\<lambda>t. t_ID t = tid) (set_task_state (wnow v) ?st (Some wid)) (tasks (wdb v))"
    using later(1,6) by (simp_all add: report_write_def UpdateTaskState_def run_sql writeJSON_def)
  have "set_task_state (wnow v) ?st (Some wid) t' \<in> set (tasks (wdb (exec (report_write tid ?st wid) v)))"
    unfolding run(2) set_update_where using later(2,3) by blast
  with UpdateTaskStatus_write [OF assms(1-7)] run(1) show ?thesis by blast
qed

text \<open>Two workers: the one that runs the task went silent, the other is idle.\<close>

definition contested_world :: world where
  "contested_world = stale_world\<lparr>wdb := (wdb stale_world)\<lparr>workers :=
     [sample_worker, sample_worker\<lparr>wk_ID := 5, wk_LastHeartbeatAt := Some (100 * Second)\<rparr>]\<rparr>\<rparr>"

definition reassigned_world :: world where
  "reassigned_world = exec tick (exec (reap sample_ext True 60) contested_world)"

definition ownership :: "world \<Rightarrow> (uuid \<times> uuid option) list \<times> uuid list \<times> bool list" where
  "ownership w = (map (\<lambda>t. (t_ID t, t_AssignedWorkerID t)) (tasks (wdb w)), map wk_ID (workers (wdb w)), wfaults w)"

lemma reassigned: "ownership reassigned_world = ([(3, Some 5)], [2, 5], [])"
  by code_simp

theorem overtaken_report_takes_task_back_witness:
  "cp_run sample_ext sample_deps sample_decoders contested_world reassigned_world
   \<and> (\<exists>t \<in> set (tasks (wdb reassigned_world)). t_AssignedWorkerID t = Some 5
       \<and> set_task_state (wnow reassigned_world) TaskStateCompleted (Some 2) t
           \<in> set (tasks (wdb (exec (report_write 3 TaskStateCompleted 2) reassigned_world))))"
proof
  have "cp_step sample_ext sample_deps sample_decoders contested_world (exec (reap sample_ext True 60) contested_world)"
    using cp_step.Reap [of sample_ext sample_deps sample_decoders contested_world True] by (simp add: sample_deps_def)
  then show "cp_run sample_ext sample_deps sample_decoders contested_world reassigned_world"
    unfolding reassigned_world_def by (meson cp_step.Tick rtranclp.rtrancl_into_rtrancl r_into_rtranclp)
next
  let ?r = "sample_request\<lparr>rq_OrgUnitID := Some 1, rq_WorkerID := Some (Some 2), rq_URLParams := [(''id'', ''3'')]\<rparr>"
  let ?req = "\<lparr>ut_State = ''completed'', ut_ErrorMessage = None\<rparr>"
  obtain t where t: "t \<in> set (tasks (wdb reassigned_world))" "t_ID t = 3" "t_AssignedWorkerID t = Some 5"
    using reassigned by (cases "tasks (wdb reassigned_world)") (auto simp: ownership_def)
  have v: "\<not> failing reassigned_world" using reassigned by (simp add: ownership_def failing_def)
  have "2 \<in> set (map wk_ID (workers (wdb reassigned_world)))" using reassigned by (simp add: ownership_def)
  then have ex: "worker_exists (wdb reassigned_world) 2" by (auto simp: worker_exists_def)
  have w: "\<not> failing contested_world" "find (\<lambda>t. t_ID t = 3) (tasks (wdb contested_world)) = Some running_task"
    "t_AssignedWorkerID running_task = Some 2" "rq_OrgUnitID ?r = Some (t_OrgUnitID running_task)" "rq_WorkerID ?r = Some (Some 2)"
    by (simp_all add: contested_world_def stale_world_def sample_defs failing_def)
  have "Atoi ''3'' = Some 3" by code_simp
  then have id: "uuid_Parse sample_ext (URLParam ?r ''id'') = Some 3" by (simp add: URLParam_def sample_ext_def)
  have st: "TaskState_of_string ''completed'' = TaskStateCompleted" by (simp add: TaskState_of_string_def)
  have ok: "validateStateTransition (TaskState_of_string (ut_State ?req)) = Inr ()"
    by (simp add: st validateStateTransition_def)
  from overtaken_report_takes_task_back [OF w id ok v t _ ex] t(1,3) show
    "\<exists>t \<in> set (tasks (wdb reassigned_world)). t_AssignedWorkerID t = Some 5
       \<and> set_task_state (wnow reassigned_world) TaskStateCompleted (Some 2) t
           \<in> set (tasks (wdb (exec (report_write 3 TaskStateCompleted 2) reassigned_world)))"
    by (auto simp: st)
qed

text \<open>A heartbeat is answered the same whichever worker's key of the organisation it comes with.\<close>

lemma heartbeat_ignores_caller:
  "WorkerHandler_Heartbeat ex ttl agents (r\<lparr>rq_WorkerID := wid\<rparr>) = WorkerHandler_Heartbeat ex ttl agents r"
proof -
  have param: "URLParam (r\<lparr>rq_WorkerID := wid\<rparr>) k = URLParam r k" for k by (simp add: URLParam_def)
  show ?thesis unfolding WorkerHandler_Heartbeat_def param by simp
qed

subsection \<open>Reading\<close>



end
