(* ===== verification/Go_Text.thy ===== *)
theory Go_Text
  imports Domain
begin

section \<open>Text: formatting, searching and reading lines\<close>

text \<open>
  What the worker uses of \<^verbatim>\<open>fmt\<close>, \<^verbatim>\<open>strings\<close>, \<^verbatim>\<open>bufio\<close> and \<^verbatim>\<open>math\<close> beyond \<open>Go_Lib\<close>. Strings are
  byte strings; a byte outside ASCII counts as part of a printable rune.
\<close>

subsection \<open>Quoting and numbers\<close>

text \<open>One byte of \<^verbatim>\<open>strconv.Quote\<close> (the verb \<^verbatim>\<open>%q\<close>).\<close>

definition quote_char :: "char \<Rightarrow> string" where
  "quote_char c =
     (if c = CHR 0x22 then [CHR 0x5C, CHR 0x22]
      else if c = CHR 0x5C then [CHR 0x5C, CHR 0x5C]
      else if c = CHR 0x07 then [CHR 0x5C, CHR ''a'']
      else if c = CHR 0x08 then [CHR 0x5C, CHR ''b'']
      else if c = CHR 0x0C then [CHR 0x5C, CHR ''f'']
      else if c = CHR 0x0A then [CHR 0x5C, CHR ''n'']
      else if c = CHR 0x0D then [CHR 0x5C, CHR ''r'']
      else if c = CHR 0x09 then [CHR 0x5C, CHR ''t'']
      else if c = CHR 0x0B then [CHR 0x5C, CHR ''v'']
      else let n = of_char c :: nat in
        if n < 32 \<or> n = 127 then [CHR 0x5C, CHR ''x'', hex_digit (n div 16), hex_digit (n mod 16)]
        else [c])"

definition Quote :: "string \<Rightarrow> string" where
  "Quote s = [CHR 0x22] @ concat (map quote_char s) @ [CHR 0x22]"

text \<open>The verb \<^verbatim>\<open>%.pf\<close>: exact decimal expansion rounded at the last digit, ties to the even one.\<close>

definition round_half_even :: "rat \<Rightarrow> int" where
  "round_half_even x =
     (let n = \<lfloor>x\<rfloor>; d = x - of_int n in
      if d < 1 / 2 then n else if 1 / 2 < d then n + 1 else if even n then n else n + 1)"

definition pad0 :: "nat \<Rightarrow> string \<Rightarrow> string" where
  "pad0 p s = replicate (p - length s) CHR ''0'' @ s"

definition fixed :: "nat \<Rightarrow> float64 \<Rightarrow> string" where
  "fixed p x =
     (let k = nat (round_half_even (\<bar>x\<bar> * 10 ^ p)) in
      (if x < 0 then ''-'' else []) @ digits (k div 10 ^ p)
        @ (if p = 0 then [] else ''.'' @ pad0 p (digits (k mod 10 ^ p))))"

text \<open>The verb \<^verbatim>\<open>%v\<close> of a list of strings, and \<^verbatim>\<open>strings.ToUpper\<close> on ASCII letters.\<close>

definition upper :: "char \<Rightarrow> char" where
  "upper c = (if CHR ''a'' \<le> c \<and> c \<le> CHR ''z'' then char_of (of_char c - 32 :: nat) else c)"

subsection \<open>Searching\<close>

text \<open>\<^verbatim>\<open>strings.Index\<close> for a one-byte needle and \<^verbatim>\<open>strings.IndexAny\<close>; \<^verbatim>\<open>None\<close> where Go returns -1.\<close>

fun IndexAny :: "string \<Rightarrow> string \<Rightarrow> nat option" where
  "IndexAny [] cs = None"
| "IndexAny (c # s) cs = (if c \<in> set cs then Some 0 else map_option Suc (IndexAny s cs))"

lemma IndexAny_Some: "IndexAny s cs = Some i \<Longrightarrow> i < length s \<and> s ! i \<in> set cs \<and> set (take i s) \<inter> set cs = {}"
  by (induction s arbitrary: i) (auto split: if_splits)

lemma IndexAny_None: "IndexAny s cs = None \<longleftrightarrow> set s \<inter> set cs = {}"
  by (induction s) auto

lemma Contains_iff: "Contains s p \<longleftrightarrow> (\<exists>a b. s = a @ p @ b)"
proof (induction s)
  case (Cons c s)
  have "(\<exists>a b. c # s = a @ p @ b) \<longleftrightarrow> HasPrefix (c # s) p \<or> (\<exists>a b. s = a @ p @ b)"
    by (metis (no_types, lifting) HasPrefix_iff append_Cons append_Nil list.inject neq_Nil_conv)
  with Cons show ?case by simp
qed auto

subsection \<open>Reading lines\<close>

text \<open>
  \<^verbatim>\<open>bufio.Scanner\<close> with \<^verbatim>\<open>ScanLines\<close>: the lines without their end (a carriage return before the
  newline is dropped too), no empty last line. A line whose bytes and newline do not fit the
  64 KiB buffer stops the scanner: it and what follows are not delivered.
\<close>

definition MaxScanTokenSize :: nat where
  "MaxScanTokenSize = 64 * 1024"

definition dropCR :: "string \<Rightarrow> string" where
  "dropCR s = (if s \<noteq> [] \<and> last s = CHR 0x0D then butlast s else s)"

function scan_lines :: "nat \<Rightarrow> string \<Rightarrow> string list" where
  "scan_lines limit s =
     (if s = [] then []
      else let line = takeWhile (\<lambda>c. c \<noteq> CHR 0x0A) s; rest = dropWhile (\<lambda>c. c \<noteq> CHR 0x0A) s in
        if limit \<le> length line then []
        else dropCR line # (case rest of [] \<Rightarrow> [] | _ # rest' \<Rightarrow> scan_lines limit rest'))"
  by pat_completeness auto
termination
proof (relation "measure (\<lambda>(limit, s). length s)", goal_cases)
  case (2 limit s x xa x21 x22)
  then have "length (x21 # x22) \<le> length s"
    by (metis length_dropWhile_le)
  then show ?case by simp
qed simp

declare scan_lines.simps [simp del]

definition Scanner_lines :: "string \<Rightarrow> string list" where
  "Scanner_lines s = scan_lines MaxScanTokenSize s"

text \<open>Text made of short lines, each ended by a newline, is read back line by line.\<close>

lemma takeWhile_line: "CHR 0x0A \<notin> set l \<Longrightarrow> takeWhile (\<lambda>c. c \<noteq> CHR 0x0A) (l @ CHR 0x0A # r) = l"
  by (induction l) auto

lemma dropWhile_line:
  "CHR 0x0A \<notin> set l \<Longrightarrow> dropWhile (\<lambda>c. c \<noteq> CHR 0x0A) (l @ CHR 0x0A # r) = CHR 0x0A # r"
  by (induction l) auto

lemma scan_lines_step:
  assumes "CHR 0x0A \<notin> set l" "length l < limit"
  shows "scan_lines limit (l @ CHR 0x0A # r) = dropCR l # scan_lines limit r"
  by (subst scan_lines.simps) (use assms in \<open>simp add: takeWhile_line dropWhile_line Let_def\<close>)

lemma scan_lines_Nil [simp]: "scan_lines limit [] = []"
  by (subst scan_lines.simps) simp

lemma scan_lines_concat:
  assumes "\<And>l. l \<in> set ls \<Longrightarrow> CHR 0x0A \<notin> set l \<and> CHR 0x0D \<notin> set l \<and> length l < limit"
  shows "scan_lines limit (concat (map (\<lambda>l. l @ [CHR 0x0A]) ls)) = ls"
  using assms
proof (induction ls)
  case (Cons l ls)
  then have "dropCR l = l" by (auto simp: dropCR_def dest: last_in_set)
  with Cons show ?case by (simp add: scan_lines_step)
qed simp

text \<open>A line that does not fit stops the scanner, whatever follows it.\<close>

lemma scan_lines_stops:
  assumes "CHR 0x0A \<notin> set l" "limit \<le> length l" "l \<noteq> []"
  shows "scan_lines limit (l @ CHR 0x0A # r) = []"
  by (subst scan_lines.simps) (use assms in \<open>simp add: takeWhile_line dropWhile_line Let_def\<close>)

subsection \<open>Writing instants\<close>

text \<open>The date of a day count since 1 January 1970, and \<^verbatim>\<open>Format(time.RFC3339)\<close> in UTC.\<close>

definition civil_from_days :: "int \<Rightarrow> int \<times> int \<times> int" where
  "civil_from_days days =
     (let z = days + 719468; era = z div 146097; doe = z mod 146097;
          yoe = (doe - doe div 1460 + doe div 36524 - doe div 146096) div 365;
          doy = doe - (365 * yoe + yoe div 4 - yoe div 100);
          mp = (5 * doy + 2) div 153; d = doy - (153 * mp + 2) div 5 + 1;
          m = (if mp < 10 then mp + 3 else mp - 9)
      in (yoe + era * 400 + (if m \<le> 2 then 1 else 0), m, d))"

definition two :: "int \<Rightarrow> string" where
  "two i = pad0 2 (Itoa i)"

definition format_RFC3339 :: "time \<Rightarrow> string" where
  "format_RFC3339 t =
     (let secs = t div Second; sod = secs mod 86400 in
      case civil_from_days (secs div 86400) of (y, m, d) \<Rightarrow>
        pad0 4 (Itoa y) @ ''-'' @ two m @ ''-'' @ two d @ ''T'' @ two (sod div 3600) @ '':''
          @ two (sod div 60 mod 60) @ '':'' @ two (sod mod 60) @ ''Z'')"

end
