(* ===== verification/Go_Path.thy ===== *)
theory Go_Path
  imports Go_Text
begin

section \<open>path/filepath on a Unix host\<close>

text \<open>
  Paths are byte strings with the separator \<^verbatim>\<open>/\<close>. The functions follow their documentation:
  \<^verbatim>\<open>Clean\<close> works on the elements between separators, \<^verbatim>\<open>Match\<close> on a pattern without the
  separator-crossing \<^verbatim>\<open>**\<close> of other tools.
\<close>

definition Separator :: char where
  "Separator = CHR ''/''"

definition IsAbs :: "string \<Rightarrow> bool" where
  "IsAbs p \<longleftrightarrow> HasPrefix p ''/''"

subsection \<open>Clean, Join, Base, Abs and Rel\<close>

text \<open>The elements of the cleaned path; the elements kept so far are held in reverse.\<close>

fun clean_elems :: "bool \<Rightarrow> string list \<Rightarrow> string list \<Rightarrow> string list" where
  "clean_elems rooted kept [] = rev kept"
| "clean_elems rooted kept (e # es) =
     (if e = [] \<or> e = ''.'' then clean_elems rooted kept es
      else if e = ''..'' then
        (if kept \<noteq> [] \<and> hd kept \<noteq> ''..'' then clean_elems rooted (tl kept) es
         else if rooted then clean_elems rooted kept es
         else clean_elems rooted (''..'' # kept) es)
      else clean_elems rooted (e # kept) es)"

definition elems_of :: "string \<Rightarrow> string list" where
  "elems_of p = clean_elems (IsAbs p) [] (Split Separator p)"

definition Clean :: "string \<Rightarrow> string" where
  "Clean p = (if IsAbs p then ''/'' @ Join ''/'' (elems_of p)
     else if elems_of p = [] then ''.'' else Join ''/'' (elems_of p))"

definition JoinPath :: "string list \<Rightarrow> string" where
  "JoinPath es = (case dropWhile (\<lambda>e. e = []) es of [] \<Rightarrow> [] | es' \<Rightarrow> Clean (Join ''/'' es'))"

definition Base :: "string \<Rightarrow> string" where
  "Base p = (if p = [] then ''.''
     else let q = rev (dropWhile (\<lambda>c. c = Separator) (rev p)) in
       if q = [] then ''/'' else last (Split Separator q))"

definition Abs :: "string \<Rightarrow> string \<Rightarrow> string" where
  "Abs cwd p = (if IsAbs p then Clean p else JoinPath [cwd, p])"

text \<open>\<^verbatim>\<open>Rel\<close>: drop the common elements, climb from the base, descend to the target.\<close>

fun drop_common :: "string list \<Rightarrow> string list \<Rightarrow> string list \<times> string list" where
  "drop_common (a # as) (b # bs) = (if a = b then drop_common as bs else (a # as, b # bs))"
| "drop_common as bs = (as, bs)"

definition Rel :: "string \<Rightarrow> string \<Rightarrow> string option" where
  "Rel base targ =
     (if Clean base = Clean targ then Some ''.''
      else if IsAbs base \<noteq> IsAbs targ then None
      else case drop_common (elems_of base) (elems_of targ) of (bs, ts) \<Rightarrow>
        if bs \<noteq> [] \<and> hd bs = ''..'' then None
        else Some (Join ''/'' (replicate (length bs) ''..'' @ ts)))"

subsection \<open>Match\<close>

datatype glob =
    GStar
  | GAny
  | GLit char
  | GClass bool "(char \<times> char) list"

text \<open>A member of a class, perhaps escaped; then a class up to its closing bracket.\<close>

fun class_char :: "string \<Rightarrow> (char \<times> string) option" where
  "class_char [] = None"
| "class_char (c # s) =
     (if c = CHR 0x5C then (case s of [] \<Rightarrow> None | d # s' \<Rightarrow> if s' = [] then None else Some (d, s'))
      else if c = CHR ''-'' \<or> c = CHR '']'' then None
      else if s = [] then None
      else Some (c, s))"

lemma class_char_shorter: "class_char s = Some (c, s') \<Longrightarrow> length s' < length s"
  by (cases s) (auto split: if_splits list.splits)

definition class_range :: "string \<Rightarrow> ((char \<times> char) \<times> string) option" where
  "class_range s = (case class_char s of
     None \<Rightarrow> None
   | Some (lo, s') \<Rightarrow>
       if s' \<noteq> [] \<and> hd s' = CHR ''-''
       then map_option (\<lambda>(hi, s''). ((lo, hi), s'')) (class_char (tl s'))
       else Some ((lo, lo), s'))"

lemma class_range_shorter: "class_range s = Some (r, s') \<Longrightarrow> length s' < length s"
  by (auto simp: class_range_def split: option.splits if_splits dest!: class_char_shorter)

function class_ranges :: "string \<Rightarrow> ((char \<times> char) list \<times> string) option" where
  "class_ranges s = (case class_range s of
     None \<Rightarrow> None
   | Some (r, s') \<Rightarrow>
       if s' \<noteq> [] \<and> hd s' = CHR '']'' then Some ([r], tl s')
       else map_option (\<lambda>(rs, s''). (r # rs, s'')) (class_ranges s'))"
  by pat_completeness auto
termination
  by (relation "measure length") (auto dest: class_range_shorter)

declare class_ranges.simps [simp del]

lemma class_ranges_shorter: "class_ranges s = Some (rs, s') \<Longrightarrow> length s' < length s"
proof (induction s arbitrary: rs s' rule: class_ranges.induct)
  case (1 s)
  from "1.prems" obtain r t where r: "class_range s = Some (r, t)"
    by (subst (asm) class_ranges.simps) (auto split: option.splits)
  note t = class_range_shorter [OF r]
  show ?case
  proof (cases "t \<noteq> [] \<and> hd t = CHR '']''")
    case True
    then have "s' = tl t" using "1.prems" r by (subst (asm) class_ranges.simps) auto
    with t show ?thesis by simp
  next
    case False
    then obtain rs' where "class_ranges t = Some (rs', s')"
      using "1.prems" r by (subst (asm) class_ranges.simps) auto
    from "1.IH" [OF r refl False this] t show ?thesis by simp
  qed
qed

text \<open>The pattern as a list of items, \<^verbatim>\<open>None\<close> for \<^verbatim>\<open>ErrBadPattern\<close>.\<close>

function parse_glob :: "string \<Rightarrow> glob list option" where
  "parse_glob s = (case s of
     [] \<Rightarrow> Some []
   | c # s' \<Rightarrow>
       if c = CHR ''*'' then map_option (\<lambda>gs. GStar # gs) (parse_glob s')
       else if c = CHR ''?'' then map_option (\<lambda>gs. GAny # gs) (parse_glob s')
       else if c = CHR ''['' then
         (let neg = (s' \<noteq> [] \<and> hd s' = CHR ''^'') in
          case class_ranges (if neg then tl s' else s') of
            None \<Rightarrow> None
          | Some (rs, t) \<Rightarrow> map_option (\<lambda>gs. GClass neg rs # gs) (parse_glob t))
       else if c = CHR 0x5C then
         (case s' of [] \<Rightarrow> None | d # t \<Rightarrow> map_option (\<lambda>gs. GLit d # gs) (parse_glob t))
       else map_option (\<lambda>gs. GLit c # gs) (parse_glob s'))"
  by pat_completeness auto
termination
  by (relation "measure length") (auto dest!: class_ranges_shorter split: if_splits, (fastforce simp: less_Suc_eq_le)?)

declare parse_glob.simps [simp del]

fun gmatch :: "glob list \<Rightarrow> string \<Rightarrow> bool" where
  "gmatch [] s = (s = [])"
| "gmatch (GStar # gs) s =
     (gmatch gs s \<or> (case s of [] \<Rightarrow> False | c # s' \<Rightarrow> c \<noteq> Separator \<and> gmatch (GStar # gs) s'))"
| "gmatch (g # gs) s = (case s of
     [] \<Rightarrow> False
   | c # s' \<Rightarrow> (case g of
       GLit d \<Rightarrow> c = d
     | GClass neg rs \<Rightarrow> (\<exists>(lo, hi) \<in> set rs. lo \<le> c \<and> c \<le> hi) \<noteq> neg
     | _ \<Rightarrow> c \<noteq> Separator) \<and> gmatch gs s')"

definition Match :: "string \<Rightarrow> string \<Rightarrow> bool" where
  "Match pattern name = (case parse_glob pattern of None \<Rightarrow> False | Some gs \<Rightarrow> gmatch gs name)"

subsection \<open>Elements of cleaned paths\<close>

lemma Split_append_sep: "Split sep (a @ sep # b) = Split sep a @ Split sep b"
proof (induction a)
  case (Cons c a)
  then show ?case by (cases "Split sep a") auto
qed simp

lemma Join_Cons: "Join sep (e # es) = e @ (if es = [] then [] else sep @ Join sep es)"
  by (cases es) (simp_all add: Join_def)

lemma Split_Join:
  assumes "es \<noteq> []" "\<And>e. e \<in> set es \<Longrightarrow> sep \<notin> set e"
  shows "Split sep (Join [sep] es) = es"
  using assms
proof (induction es)
  case (Cons e es)
  show ?case
  proof (cases "es = []")
    case False
    have "Split sep (e @ sep # Join [sep] es) = Split sep e @ Split sep (Join [sep] es)"
      by (rule Split_append_sep)
    with Cons False show ?thesis by (simp add: Join_Cons Split_no_sep)
  qed (use Cons in \<open>simp add: Join_Cons Split_no_sep\<close>)
qed simp

lemma clean_elems_append:
  "clean_elems r kept (xs @ ys) = clean_elems r (rev (clean_elems r kept xs)) ys"
proof (induction r kept xs rule: clean_elems.induct)
  case (2 rooted kept e es)
  then show ?case by (cases rooted; cases "kept = []") simp_all
qed simp

lemma clean_elems_all:
  assumes "list_all P kept" "list_all (\<lambda>e. e \<noteq> [] \<longrightarrow> e \<noteq> ''..'' \<longrightarrow> e \<noteq> ''.'' \<longrightarrow> P e) es" "r \<or> P ''..''"
  shows "list_all P (clean_elems r kept es)"
  using assms
proof (induction r kept es rule: clean_elems.induct)
  case (2 rooted kept e es)
  have "list_all P (tl kept)" using "2.prems"(1) by (cases kept) simp_all
  with 2 show ?case by (cases rooted; cases "kept = []") simp_all
qed simp

text \<open>A plain element names an entry of its directory: it is not empty, not \<^verbatim>\<open>.\<close> or \<^verbatim>\<open>..\<close> and has
  no separator.\<close>

definition plain :: "string \<Rightarrow> bool" where
  "plain e \<longleftrightarrow> e \<noteq> [] \<and> e \<noteq> ''.'' \<and> e \<noteq> ''..'' \<and> Separator \<notin> set e"

lemma elems_of_abs_plain:
  assumes "IsAbs p" "e \<in> set (elems_of p)"
  shows "plain e"
proof -
  have "list_all plain (elems_of p)"
    unfolding elems_of_def using assms(1)
    by (intro clean_elems_all) (auto simp: list_all_iff plain_def dest: Split_parts_no_sep)
  with assms(2) show ?thesis by (simp add: list_all_iff)
qed

lemma clean_elems_plain_append: "plain e \<Longrightarrow> clean_elems r kept [e] = rev kept @ [e]"
  by (simp add: plain_def)

lemma IsAbs_Clean [simp]: "IsAbs (Clean p) = IsAbs p"
proof -
  have "Join ''/'' (elems_of p) = [] \<or> hd (Join ''/'' (elems_of p)) \<noteq> CHR ''/''" if "\<not> IsAbs p"
  proof -
    have "list_all (\<lambda>e. e \<noteq> [] \<and> CHR ''/'' \<notin> set e) (elems_of p)"
      unfolding elems_of_def
      by (intro clean_elems_all)
        (auto simp: list_all_iff Separator_def dest: Split_parts_no_sep)
    then have *: "\<And>e. e \<in> set (elems_of p) \<Longrightarrow> e \<noteq> [] \<and> CHR ''/'' \<notin> set e"
      by (simp add: list_all_iff)
    show ?thesis
    proof (cases "elems_of p")
      case (Cons e es)
      with * [of e] show ?thesis by (cases e) (auto simp: Join_Cons)
    qed (simp add: Join_def)
  qed
  then show ?thesis
    by (cases "Join ''/'' (elems_of p)") (auto simp: Clean_def IsAbs_def HasPrefix_def)
qed

lemma Split_Clean_abs:
  assumes "IsAbs p" "elems_of p \<noteq> []"
  shows "Split Separator (Clean p) = [] # elems_of p"
proof -
  have "Split Separator (Join [Separator] (elems_of p)) = elems_of p"
    using elems_of_abs_plain [OF assms(1)] assms(2) by (intro Split_Join) (auto simp: plain_def)
  with assms show ?thesis by (simp add: Clean_def Separator_def)
qed

text \<open>Containment of cleaned absolute paths is containment of their elements.\<close>

lemma Clean_below:
  assumes w: "IsAbs w" and f: "IsAbs f" and pre: "HasPrefix (Clean f) (Clean w @ ''/'')"
  shows "\<exists>rest. elems_of f = elems_of w @ rest \<and> rest \<noteq> [] \<and> (\<forall>e \<in> set rest. plain e)"
proof -
  obtain r where r: "Clean f = Clean w @ Separator # r"
    using pre by (auto simp: HasPrefix_iff Separator_def)
  have wne: "elems_of w \<noteq> []"
  proof
    assume "elems_of w = []"
    with w r f have "Join ''/'' (elems_of f) = CHR ''/'' # r"
      by (simp add: Clean_def Join_def Separator_def)
    moreover have "\<And>e. e \<in> set (elems_of f) \<Longrightarrow> plain e" using elems_of_abs_plain [OF f] by blast
    ultimately show False
      by (cases "elems_of f"; cases "hd (elems_of f)")
        (force simp: Join_Cons plain_def Separator_def Join_def)+
  qed
  have fne: "elems_of f \<noteq> []"
  proof
    assume "elems_of f = []"
    with f r w show False by (auto simp: Clean_def Join_def)
  qed
  have "Split Separator (Clean f) = Split Separator (Clean w) @ Split Separator r"
    unfolding r by (rule Split_append_sep)
  then have e: "elems_of f = elems_of w @ Split Separator r"
    using Split_Clean_abs [OF w wne] Split_Clean_abs [OF f fne] by simp
  moreover from e have "\<forall>e \<in> set (Split Separator r). plain e"
    using elems_of_abs_plain [OF f] by (metis Un_iff set_append)
  ultimately show ?thesis by auto
qed

lemma elems_of_below:
  assumes "p \<noteq> []" "plain e"
  shows "elems_of (p @ ''/'' @ e) = elems_of p @ [e]"
proof -
  have "IsAbs (p @ ''/'' @ e) = IsAbs p"
    using assms(1) by (cases p) (simp_all add: IsAbs_def HasPrefix_def)
  moreover have "Split Separator (p @ ''/'' @ e) = Split Separator p @ [e]"
    using Split_append_sep [of Separator p e] assms(2) by (simp add: Separator_def plain_def Split_no_sep)
  ultimately show ?thesis
    using clean_elems_plain_append [OF assms(2)] by (simp add: elems_of_def clean_elems_append)
qed

lemma JoinPath_two: "p \<noteq> [] \<Longrightarrow> JoinPath [p, e] = Clean (p @ ''/'' @ e)"
  by (simp add: JoinPath_def Join_def)

text \<open>The last element of a path is plain, or one of the three special names.\<close>

lemma Base_cases: "Base p = ''/'' \<or> Base p = ''.'' \<or> Base p = ''..'' \<or> plain (Base p)"
proof -
  let ?q = "rev (dropWhile (\<lambda>c. c = Separator) (rev p))"
  have "last (Split Separator ?q) \<noteq> []" if "?q \<noteq> []"
  proof
    assume e: "last (Split Separator ?q) = []"
    have last: "last ?q \<noteq> Separator"
      using that hd_dropWhile [of "\<lambda>c. c = Separator" "rev p"] by (simp add: last_rev)
    obtain xs where "Split Separator ?q = xs @ [[]]"
      using e by (metis Split_nonempty append_butlast_last_id)
    then have q: "?q = Join [Separator] (xs @ [[]])" using Join_Split [of Separator ?q] by simp
    have "xs = [] \<or> last (Join [Separator] (xs @ [[]])) = Separator"
      by (induction xs) (auto simp: Join_Cons)
    with q last that show False by (auto simp: Join_def)
  qed
  moreover have "Separator \<notin> set (last (Split Separator ?q))"
    by (rule Split_parts_no_sep [of _ _ ?q]) simp
  ultimately show ?thesis by (auto simp: Base_def plain_def Let_def)
qed

lemma Base_plain_iff: "plain e \<Longrightarrow> Base e = e"
proof -
  assume e: "plain e"
  then have "last e \<noteq> Separator" by (metis last_in_set plain_def)
  with e have "dropWhile (\<lambda>c. c = Separator) (rev e) = rev e"
    by (cases "rev e") (auto simp: plain_def)
  with e show ?thesis by (auto simp: Base_def plain_def Split_no_sep Let_def)
qed

lemma clean_elems_all_plain: "list_all plain es \<Longrightarrow> clean_elems r kept es = rev kept @ es"
  by (induction es arbitrary: kept) (auto simp: plain_def)

lemma elems_of_Clean: "IsAbs p \<Longrightarrow> elems_of (Clean p) = elems_of p"
proof (cases "elems_of p = []")
  case True
  assume "IsAbs p"
  with True show ?thesis
    by (simp add: elems_of_def [of "Clean p"]) (simp add: Clean_def Join_def Separator_def)
next
  case False
  assume p: "IsAbs p"
  have "list_all plain (elems_of p)" using elems_of_abs_plain [OF p] by (simp add: list_all_iff)
  then have "clean_elems True [] (elems_of p) = elems_of p" by (simp add: clean_elems_all_plain)
  then have "clean_elems (IsAbs (Clean p)) [] (Split Separator (Clean p)) = elems_of p"
    using Split_Clean_abs [OF p False] p by simp
  then show ?thesis by (simp only: elems_of_def [of "Clean p"])
qed

lemma elems_of_trailing: "p \<noteq> [] \<Longrightarrow> elems_of (p @ ''//'') = elems_of p"
proof -
  assume p: "p \<noteq> []"
  have "Split Separator (p @ Separator # [Separator]) = Split Separator p @ [[], []]"
    by (subst Split_append_sep) simp
  moreover have "IsAbs (p @ ''//'') = IsAbs p"
    using p by (cases p) (simp_all add: IsAbs_def HasPrefix_def)
  ultimately show ?thesis by (simp add: elems_of_def clean_elems_append Separator_def)
qed

lemma IsAbs_Abs: "IsAbs cwd \<Longrightarrow> IsAbs (Abs cwd p)"
proof -
  assume "IsAbs cwd"
  then obtain r where "cwd = CHR ''/'' # r" by (cases cwd) (auto simp: IsAbs_def HasPrefix_def)
  then show ?thesis
    by (simp add: Abs_def JoinPath_def Join_def) (simp add: IsAbs_def HasPrefix_def)
qed

lemma Clean_Clean: "IsAbs p \<Longrightarrow> Clean (Clean p) = Clean p"
  by (simp add: Clean_def [of "Clean p"] elems_of_Clean) (simp add: Clean_def)

lemma Clean_Abs: "IsAbs cwd \<Longrightarrow> Clean (Abs cwd p) = Abs cwd p"
proof -
  assume cwd: "IsAbs cwd"
  then obtain r where r: "cwd = CHR ''/'' # r" by (cases cwd) (auto simp: IsAbs_def HasPrefix_def)
  then have "Abs cwd p = (if IsAbs p then Clean p else Clean (cwd @ ''/'' @ p))"
    by (simp add: Abs_def JoinPath_def Join_def)
  moreover have "IsAbs (cwd @ ''/'' @ p)" by (simp add: r IsAbs_def HasPrefix_def)
  ultimately show ?thesis by (simp add: Clean_Clean)
qed

lemma HasSuffix_iff: "HasSuffix s p \<longleftrightarrow> (\<exists>r. s = r @ p)"
  by (auto simp: HasSuffix_def) (metis append_take_drop_id)

end
