(* ===== verification/Worker_Config.thy ===== *)
theory Worker_Config
  imports Go_Path
begin

section \<open>The worker's configuration\<close>

text \<open>
  \<^verbatim>\<open>grid-worker/internal/config\<close>: the structs of \<^verbatim>\<open>schema.go\<close>, the defaults, \<^verbatim>\<open>Load\<close> over the
  configuration library (a parameter) and \<^verbatim>\<open>Validate\<close> of \<^verbatim>\<open>config.go\<close>, and the directories of
  \<^verbatim>\<open>pkg/platform/paths.go\<close> on a Unix host.
\<close>

subsection \<open>Schema\<close>

record ServerConfig =
  srv_URL :: string
  srv_APIKey :: string
  srv_WorkerID :: string
  srv_HeartbeatSec :: int
  srv_PollTimeoutSec :: int
  srv_TLSSkipVerify :: bool
  srv_RetryMax :: int

record WorkspaceConfig =
  wsp_BasePath :: string
  wsp_DiskQuotaGB :: float64
  wsp_MaxJobs :: int
  wsp_CleanupAfter :: bool

record SecurityConfig =
  sec_HMACSecret :: string
  sec_ScanEnabled :: bool
  sec_RulesetPath :: string
  sec_ScanConcurrency :: int

record ExecutionConfig =
  exe_TimeoutSec :: int
  exe_MaxCPUPercent :: float64
  exe_MaxRAMMB :: int
  exe_Agents :: "string list"

record TimeWindowConfig =
  win_DayOfWeek :: "int list"
  win_StartHour :: int
  win_EndHour :: int
  win_Timezone :: string

record PolicyConfig =
  pol_Mode :: string
  pol_Windows :: "TimeWindowConfig list"

record LoggingConfig =
  lgc_Level :: string
  lgc_Format :: string
  lgc_File :: string

record Config =
  cfg_Server :: ServerConfig
  cfg_Workspace :: WorkspaceConfig
  cfg_Security :: SecurityConfig
  cfg_Execution :: ExecutionConfig
  cfg_Policy :: PolicyConfig
  cfg_Logging :: LoggingConfig

subsection \<open>Directories\<close>

text \<open>The home directory: \<^verbatim>\<open>os.UserHomeDir\<close> is \<^verbatim>\<open>$HOME\<close> and fails when that is empty.\<close>

definition ConfigDir :: "(string \<Rightarrow> string) \<Rightarrow> string" where
  "ConfigDir env =
     (let home = (if env ''HOME'' = [] then ''/tmp'' else env ''HOME'') in JoinPath [home, ''.grid-worker''])"

definition WorkspaceDir :: "(string \<Rightarrow> string) \<Rightarrow> string" where
  "WorkspaceDir env = JoinPath [ConfigDir env, ''workspace'']"

definition LogDir :: "(string \<Rightarrow> string) \<Rightarrow> string" where
  "LogDir env = JoinPath [ConfigDir env, ''logs'']"

definition SocketPath :: string where
  "SocketPath = ''/tmp/grid-worker.sock''"

subsection \<open>Loading\<close>

datatype setting = SInt int | SBool bool | SFloat float64 | SString string

definition setDefaults :: "(string \<Rightarrow> string) \<Rightarrow> (string \<times> setting) list" where
  "setDefaults env =
     [(''server.heartbeat_sec'', SInt 30), (''server.poll_timeout_sec'', SInt 30),
      (''server.tls_skip_verify'', SBool False), (''server.retry_max'', SInt 3),
      (''workspace.base_path'', SString (WorkspaceDir env)), (''workspace.disk_quota_gb'', SFloat 10),
      (''workspace.max_jobs'', SInt 1), (''workspace.cleanup_after'', SBool True),
      (''security.scan_enabled'', SBool True), (''security.scan_concurrency'', SInt 4),
      (''execution.timeout_sec'', SInt 3600), (''execution.max_cpu_percent'', SFloat 80),
      (''execution.max_ram_mb'', SInt 2048), (''policy.mode'', SString ''auto''),
      (''logging.level'', SString ''info''), (''logging.format'', SString ''json'')]"

text \<open>
  The configuration library (\<^verbatim>\<open>spf13/viper\<close>) is a parameter: reading the file (by explicit path, or
  by name in the given directories) succeeds with its content, finds no file, or fails; unmarshalling
  turns the content and the defaults into a struct, or fails.
\<close>

datatype 'c read_result = FileRead 'c | FileNotFound | ReadFailed string

record 'c viper =
  v_ReadExplicit :: "string \<Rightarrow> 'c read_result"
  v_ReadSearched :: "string \<Rightarrow> string list \<Rightarrow> 'c read_result"
  v_Unmarshal :: "(string \<times> setting) list \<Rightarrow> 'c option \<Rightarrow> string + Config"

definition Load :: "'c viper \<Rightarrow> (string \<Rightarrow> string) \<Rightarrow> string \<Rightarrow> string + Config" where
  "Load v env cfgFile =
     (let defaults = setDefaults env;
          file = (if cfgFile \<noteq> [] then v_ReadExplicit v cfgFile
                  else v_ReadSearched v ''config'' [ConfigDir env, ''.'']);
          unmarshal = (\<lambda>c. case v_Unmarshal v defaults c of
              Inl err \<Rightarrow> Inl (''unmarshalling config: '' @ err)
            | Inr cfg \<Rightarrow> Inr cfg) in
      case file of
        ReadFailed err \<Rightarrow> Inl (''reading config file: '' @ err)
      | FileNotFound \<Rightarrow> unmarshal None
      | FileRead c \<Rightarrow> unmarshal (Some c))"

text \<open>
  \<^verbatim>\<open>Watch\<close> looks for the file in one directory only. What it registers with the library: after a change,
  with the content then read, the configuration the callback gets; \<^verbatim>\<open>None\<close> when it is not called.
\<close>

definition Watch :: "'c viper \<Rightarrow> (string \<Rightarrow> string) \<Rightarrow> string + ('c option \<Rightarrow> Config option)" where
  "Watch v env = (case v_ReadSearched v ''config'' [ConfigDir env] of
     ReadFailed err \<Rightarrow> Inl (''reading config for watcher: '' @ err)
   | _ \<Rightarrow> Inr (\<lambda>changed. case v_Unmarshal v (setDefaults env) changed of Inl _ \<Rightarrow> None | Inr cfg \<Rightarrow> Some cfg))"

subsection \<open>Validation\<close>

definition config_errors :: "Config \<Rightarrow> string list" where
  "config_errors cfg =
     (if srv_URL (cfg_Server cfg) = [] then [''server.url is required''] else [])
   @ (if srv_APIKey (cfg_Server cfg) = [] then [''server.api_key is required''] else [])
   @ (if sec_HMACSecret (cfg_Security cfg) = [] then [''security.hmac_secret is required''] else [])
   @ (if length (sec_HMACSecret (cfg_Security cfg)) < 32
      then [''security.hmac_secret must be at least 32 characters''] else [])
   @ (let mode = pol_Mode (cfg_Policy cfg) in
      if mode \<noteq> ''auto'' \<and> mode \<noteq> ''manual'' \<and> mode \<noteq> ''paused''
      then [''policy.mode must be one of auto|manual|paused, got '' @ Quote mode] else [])
   @ (let logFormat = lgc_Format (cfg_Logging cfg) in
      if logFormat \<noteq> ''json'' \<and> logFormat \<noteq> ''text''
      then [''logging.format must be json or text, got '' @ Quote logFormat] else [])"

definition Validate :: "Config \<Rightarrow> string + unit" where
  "Validate cfg =
     (let errs = config_errors cfg; sep = [CHR 0x0A] @ ''  - '' in
      if errs \<noteq> [] then Inl (''config validation failed:'' @ sep @ Join sep errs) else Inr ())"

text \<open>What a configuration that passes satisfies.\<close>

definition config_ok :: "Config \<Rightarrow> bool" where
  "config_ok cfg \<longleftrightarrow> srv_URL (cfg_Server cfg) \<noteq> [] \<and> srv_APIKey (cfg_Server cfg) \<noteq> []
     \<and> 32 \<le> length (sec_HMACSecret (cfg_Security cfg))
     \<and> pol_Mode (cfg_Policy cfg) \<in> {''auto'', ''manual'', ''paused''}
     \<and> lgc_Format (cfg_Logging cfg) \<in> {''json'', ''text''}"

lemma config_errors_Nil_iff: "config_errors cfg = [] \<longleftrightarrow> config_ok cfg"
  by (auto simp: config_errors_def config_ok_def Let_def)

lemma Validate_iff: "Validate cfg = Inr () \<longleftrightarrow> config_ok cfg"
  by (auto simp: Validate_def Let_def config_errors_Nil_iff)


end
