(* ===== verification/Worker_Node.thy ===== *)
theory Worker_Node
  imports Worker_Config
begin

section \<open>The machine a worker runs on\<close>

text \<open>
  What the worker's code reads and changes outside its own memory: the files, the environment, the
  programs on the path, the clock, the network and the processes it starts. What the outside
  answers is a script that every call consumes: the outcome of a system call, the reply to a
  request, the outcome of a process, whether the context is cancelled at a check. A theorem about all
  nodes is a theorem about all answers. What the worker does to the outside is recorded in order.
\<close>

datatype entry = Dir | File string

text \<open>An outgoing HTTP request, and the reply (or the error) the transport produces.\<close>

record httpReq =
  hq_Method :: string
  hq_URL :: string
  hq_Header :: "(string \<times> string) list"
  hq_Body :: "json option"

record httpResp =
  hp_Status :: int
  hp_Header :: "string \<Rightarrow> string"
  hp_Body :: string
  hp_ReadError :: "string option"

text \<open>
  A process: its program, arguments, directory and environment. It ends with an exit code and
  output, or could not be run; while it runs it may change the files.
\<close>

record command =
  cmd_Path :: string
  cmd_Args :: "string list"
  cmd_Dir :: string
  cmd_Env :: "string list"

datatype proc_outcome =
    Exited int string string "(string \<rightharpoonup> entry) \<Rightarrow> (string \<rightharpoonup> entry)"
  | NotRun string

text \<open>Outgoing effects, in the order they happen.\<close>

datatype event =
    Sent httpReq
  | Spawned command
  | Cloned string "string option" string

record node =
  n_fs :: "string \<rightharpoonup> entry"
  n_env :: "string \<Rightarrow> string"
  n_path :: "string \<rightharpoonup> string"
  n_cwd :: string
  n_now :: time
  n_oserrs :: "string option list"
  n_replies :: "(string + httpResp) list"
  n_procs :: "proc_outcome list"
  n_clones :: "((string \<rightharpoonup> entry) \<Rightarrow> (string \<rightharpoonup> entry) \<times> string option) list"
  n_cancels :: "bool list"
  n_log :: "event list"

type_synonym 'a node_effect = "(node, 'a) state"

text \<open>
  Go errors of the worker: a message, a message wrapping an error (\<^verbatim>\<open>%w\<close>), and the two error types
  of the client.
\<close>

datatype werror =
    Err string
  | Wrap string werror
  | AuthError int string
  | ServerError int string

type_synonym 'a node_fallible = "(node, werror + 'a) state"

primrec err_text :: "werror \<Rightarrow> string" where
  "err_text (Err m) = m"
| "err_text (Wrap m e) = m @ '': '' @ err_text e"
| "err_text (AuthError n m) = ''authentication error '' @ Itoa n @ '': '' @ m"
| "err_text (ServerError n m) = ''server error '' @ Itoa n @ '': '' @ m"

text \<open>\<^verbatim>\<open>errors.As\<close> for the two types: somewhere along the chain of wrapped errors.\<close>

primrec is_AuthError :: "werror \<Rightarrow> bool" where
  "is_AuthError (Err m) = False"
| "is_AuthError (Wrap m e) = is_AuthError e"
| "is_AuthError (AuthError n m) = True"
| "is_AuthError (ServerError n m) = False"

primrec is_ServerError :: "werror \<Rightarrow> bool" where
  "is_ServerError (Err m) = False"
| "is_ServerError (Wrap m e) = is_ServerError e"
| "is_ServerError (AuthError n m) = False"
| "is_ServerError (ServerError n m) = True"

subsection \<open>Elementary effects\<close>

text \<open>The next entry of a script, or a default when it is exhausted.\<close>

definition next_of :: "'a \<Rightarrow> 'a list \<Rightarrow> 'a" where
  "next_of d xs = (case xs of [] \<Rightarrow> d | x # _ \<Rightarrow> x)"

lemma next_of_simps [simp]: "next_of d [] = d" "next_of d (x # xs) = x"
  by (simp_all add: next_of_def)

definition oserr :: "string option node_effect" where
  "oserr = State (\<lambda>n. (next_of None (n_oserrs n), n\<lparr>n_oserrs := tl (n_oserrs n)\<rparr>))"

definition cancelled :: "bool node_effect" where
  "cancelled = State (\<lambda>n. (next_of False (n_cancels n), n\<lparr>n_cancels := tl (n_cancels n)\<rparr>))"

definition emit :: "event \<Rightarrow> unit node_effect" where
  "emit e = modify (\<lambda>n. n\<lparr>n_log := n_log n @ [e]\<rparr>)"

text \<open>Sending a request: it is on the wire, then the reply or a transport error comes back.\<close>

definition Do :: "httpReq \<Rightarrow> (string + httpResp) node_effect" where
  "Do q = State (\<lambda>n. (next_of (Inl ''no reply'') (n_replies n),
     n\<lparr>n_replies := tl (n_replies n), n_log := n_log n @ [Sent q]\<rparr>))"

text \<open>Running a command to its end.\<close>

definition Run :: "command \<Rightarrow> (string + int \<times> string \<times> string) node_effect" where
  "Run c = State (\<lambda>n. (case next_of (NotRun ''not started'') (n_procs n) of
       NotRun e \<Rightarrow> (Inl e, n\<lparr>n_procs := tl (n_procs n), n_log := n_log n @ [Spawned c]\<rparr>)
     | Exited code out err f \<Rightarrow> (Inr (code, out, err),
         n\<lparr>n_procs := tl (n_procs n), n_fs := f (n_fs n), n_log := n_log n @ [Spawned c]\<rparr>)))"

definition Getenv :: "string \<Rightarrow> string node_effect" where
  "Getenv k = gets (\<lambda>n. n_env n k)"

definition LookPath :: "string \<Rightarrow> string option node_effect" where
  "LookPath p = gets (\<lambda>n. n_path n p)"

definition node_Now :: "time node_effect" where
  "node_Now = gets n_now"

text \<open>
  Files. \<^verbatim>\<open>MkdirAll\<close> creates the missing directories on the way; \<^verbatim>\<open>RemoveAll\<close> removes the path and
  everything below it; a file is written into a directory that is there. A call may fail with the error
  the script gives.
\<close>

definition below :: "string \<Rightarrow> string \<Rightarrow> bool" where
  "below d p \<longleftrightarrow> p = d \<or> HasPrefix p (d @ ''/'')"

definition mkdirs :: "string \<Rightarrow> (string \<rightharpoonup> entry) \<Rightarrow> (string \<rightharpoonup> entry)" where
  "mkdirs p fs = (\<lambda>q. if below q p \<and> fs q = None then Some Dir else fs q)"

definition file_in_way :: "string \<Rightarrow> (string \<rightharpoonup> entry) \<Rightarrow> bool" where
  "file_in_way p fs \<longleftrightarrow> list_ex (\<lambda>i. let q = take i p in below q p \<and> (case fs q of Some (File _) \<Rightarrow> True | _ \<Rightarrow> False))
     [0..<Suc (length p)]"

definition os_MkdirAll :: "string \<Rightarrow> (string + unit) node_effect" where
  "os_MkdirAll p = do {
     e \<leftarrow> oserr;
     case e of Some m \<Rightarrow> ret (Inl m)
     | None \<Rightarrow> do {
         blocked \<leftarrow> gets (\<lambda>n. file_in_way p (n_fs n));
         if blocked then ret (Inl (''mkdir '' @ p @ '': not a directory''))
         else do { modify (\<lambda>n. n\<lparr>n_fs := mkdirs p (n_fs n)\<rparr>); ret (Inr ()) }
       }
   }"

definition os_RemoveAll :: "string \<Rightarrow> (string + unit) node_effect" where
  "os_RemoveAll p = do {
     e \<leftarrow> oserr;
     case e of Some m \<Rightarrow> ret (Inl m)
     | None \<Rightarrow> do { modify (\<lambda>n. n\<lparr>n_fs := (\<lambda>q. if below p q then None else n_fs n q)\<rparr>); ret (Inr ()) }
   }"

definition os_ReadFile :: "string \<Rightarrow> (string + string) node_effect" where
  "os_ReadFile p = do {
     e \<leftarrow> oserr;
     case e of Some m \<Rightarrow> ret (Inl m)
     | None \<Rightarrow> gets (\<lambda>n. case n_fs n p of
         Some (File s) \<Rightarrow> Inr s
       | Some Dir \<Rightarrow> Inl (''read '' @ p @ '': is a directory'')
       | None \<Rightarrow> Inl (''open '' @ p @ '': no such file or directory''))
   }"

definition os_WriteFile :: "string \<Rightarrow> string \<Rightarrow> (string + unit) node_effect" where
  "os_WriteFile p s = do {
     e \<leftarrow> oserr;
     case e of Some m \<Rightarrow> ret (Inl m)
     | None \<Rightarrow> do {
         taken \<leftarrow> gets (\<lambda>n. n_fs n p = Some Dir);
         if taken then ret (Inl (''open '' @ p @ '': is a directory''))
         else do { modify (\<lambda>n. n\<lparr>n_fs := (n_fs n)(p \<mapsto> File s)\<rparr>); ret (Inr ()) }
       }
   }"

definition os_Remove :: "string \<Rightarrow> (string + unit) node_effect" where
  "os_Remove p = do {
     e \<leftarrow> oserr;
     case e of Some m \<Rightarrow> ret (Inl m)
     | None \<Rightarrow> do { modify (\<lambda>n. n\<lparr>n_fs := (n_fs n)(p := None)\<rparr>); ret (Inr ()) }
   }"

subsection \<open>How the effects act\<close>

lemma run_oserr [effect_simps]:
  "run_state oserr n = (next_of None (n_oserrs n), n\<lparr>n_oserrs := tl (n_oserrs n)\<rparr>)"
  by (simp add: oserr_def)

lemma run_cancelled [effect_simps]:
  "run_state cancelled n = (next_of False (n_cancels n), n\<lparr>n_cancels := tl (n_cancels n)\<rparr>)"
  by (simp add: cancelled_def)

lemma run_emit [effect_simps]: "run_state (emit e) n = ((), n\<lparr>n_log := n_log n @ [e]\<rparr>)"
  by (simp add: emit_def)

lemma run_Do [effect_simps]:
  "run_state (Do q) n = (next_of (Inl ''no reply'') (n_replies n),
     n\<lparr>n_replies := tl (n_replies n), n_log := n_log n @ [Sent q]\<rparr>)"
  by (simp add: Do_def)

lemma run_Getenv [effect_simps]: "run_state (Getenv k) n = (n_env n k, n)"
  by (simp add: Getenv_def)

lemma run_LookPath [effect_simps]: "run_state (LookPath k) n = (n_path n k, n)"
  by (simp add: LookPath_def)

lemma run_node_Now [effect_simps]: "run_state node_Now n = (n_now n, n)"
  by (simp add: node_Now_def)

subsection \<open>What is recorded\<close>

text \<open>
  The interface for statements about what the worker does to the outside: code keeps \<open>recorded\<close>
  when it only appends events that satisfy \<open>P\<close> to the record.
\<close>

locale event_safety =
  fixes P :: "event \<Rightarrow> bool"
begin

definition recorded :: "node \<Rightarrow> node \<Rightarrow> bool" where
  "recorded n n' \<longleftrightarrow> (\<exists>es. n_log n' = n_log n @ es \<and> (\<forall>e \<in> set es. P e))"

end

sublocale event_safety \<subseteq> kept_relation recorded
proof
  fix n n' n'' :: node
  show "recorded n n" by (simp add: recorded_def)
  assume "recorded n n'" "recorded n' n''"
  then show "recorded n n''" by (fastforce simp: recorded_def)
qed

context event_safety begin

lemma recorded_same: "n_log n' = n_log n \<Longrightarrow> recorded n n'"
  by (simp add: recorded_def)

lemma recorded_one: "n_log n' = n_log n @ [e] \<Longrightarrow> P e \<Longrightarrow> recorded n n'"
  by (simp add: recorded_def)

lemma keeps_oserr: "keeps oserr"
  by (rule keepsI) (simp add: run_oserr recorded_same)

lemma keeps_cancelled: "keeps cancelled"
  by (rule keepsI) (simp add: run_cancelled recorded_same)

lemma keeps_emit: "P e \<Longrightarrow> keeps (emit e)"
  by (rule keepsI) (simp add: run_emit recorded_one)

lemma keeps_Do: "P (Sent q) \<Longrightarrow> keeps (Do q)"
  by (rule keepsI) (simp add: run_Do recorded_one)

lemma keeps_Run: "P (Spawned c) \<Longrightarrow> keeps (Run c)"
  by (rule keepsI) (simp add: Run_def recorded_one split: proc_outcome.splits)

lemma keeps_reads: "keeps (Getenv k)" "keeps (LookPath k)" "keeps node_Now"
  by (simp_all add: Getenv_def LookPath_def node_Now_def keeps_gets)

lemma keeps_modify_fs: "keeps (modify (\<lambda>n. n\<lparr>n_fs := f n\<rparr>))"
  by (rule keeps_modify) (simp add: recorded_same)

lemma keeps_files:
  "keeps (os_MkdirAll p)" "keeps (os_RemoveAll p)" "keeps (os_ReadFile p)" "keeps (os_WriteFile p s)"
  "keeps (os_Remove p)"
  unfolding os_MkdirAll_def os_RemoveAll_def os_ReadFile_def os_WriteFile_def os_Remove_def
  by (intro keeps_intros keeps_oserr keeps_modify_fs)+

lemmas node_keeps = keeps_oserr keeps_cancelled keeps_emit keeps_Do keeps_Run keeps_reads
  keeps_modify_fs keeps_files

end

end
