(* ===== verification/Worker_Workspace.thy ===== *)
theory Worker_Workspace
  imports Worker_Node
begin

section \<open>Workspaces\<close>

text \<open>
  \<^verbatim>\<open>grid-worker/internal/workspace\<close>: the directory of a task, its removal, the containment check
  and disk usage (\<^verbatim>\<open>manager.go\<close>), cloning a repository (\<^verbatim>\<open>clone.go\<close>, over the git library as a
  parameter), and the quota monitor (\<^verbatim>\<open>quota.go\<close>).
\<close>

subsection \<open>The manager\<close>

definition taskPath :: "string \<Rightarrow> string \<Rightarrow> string" where
  "taskPath basePath taskID =
     (let safe = Base taskID; safe' = (if safe = ''.'' \<or> safe = ''..'' then ''_invalid_'' else safe)
      in JoinPath [basePath, safe'])"

definition Manager_Create :: "string \<Rightarrow> string \<Rightarrow> string node_fallible" where
  "Manager_Create basePath taskID =
     (let wsPath = taskPath basePath taskID in do {
        r \<leftarrow> os_MkdirAll wsPath;
        case r of Inl e \<Rightarrow> ret (Inl (Wrap (''create workspace for task '' @ taskID) (Err e)))
        | Inr _ \<Rightarrow> ret (Inr wsPath)
      })"

text \<open>An error of \<^verbatim>\<open>os.Stat\<close> other than absence does not stop the removal.\<close>

definition Manager_Cleanup :: "string \<Rightarrow> string \<Rightarrow> unit node_fallible" where
  "Manager_Cleanup basePath taskID =
     (let wsPath = taskPath basePath taskID in do {
        e \<leftarrow> oserr;
        gone \<leftarrow> gets (\<lambda>n. e = None \<and> n_fs n wsPath = None);
        if gone then ret (Inr ())
        else do {
          r \<leftarrow> os_RemoveAll wsPath;
          case r of Inl m \<Rightarrow> ret (Inl (Wrap (''cleanup workspace for task '' @ taskID) (Err m)))
          | Inr _ \<Rightarrow> ret (Inr ())
        }
      })"

definition AssertContained :: "string \<Rightarrow> string \<Rightarrow> string \<Rightarrow> string + unit" where
  "AssertContained cwd workspacePath filePath =
     (let absWorkspace = Abs cwd workspacePath; absFile = Abs cwd filePath;
          wsWithSep = (if HasSuffix absWorkspace ''/'' then absWorkspace else absWorkspace @ ''/'') in
      if absFile \<noteq> absWorkspace \<and> \<not> HasPrefix absFile wsWithSep
      then Inl (''path traversal detected: '' @ Quote filePath @ '' escapes workspace '' @ Quote workspacePath)
      else Inr ())"

text \<open>
  The walk visits the regular files below a directory; \<open>files\<close> lists those there are. A file whose
  size cannot be read is skipped.
\<close>

definition files_below :: "string \<Rightarrow> string list \<Rightarrow> (string \<rightharpoonup> entry) \<Rightarrow> string list" where
  "files_below dir paths fs = filter (\<lambda>p. below dir p \<and> (case fs p of Some (File _) \<Rightarrow> True | _ \<Rightarrow> False)) paths"

definition file_size :: "(string \<rightharpoonup> entry) \<Rightarrow> string \<Rightarrow> int" where
  "file_size fs p = (case fs p of Some (File s) \<Rightarrow> int (length s) | _ \<Rightarrow> 0)"

primrec sum_sizes :: "string list \<Rightarrow> int node_effect" where
  "sum_sizes [] = ret 0"
| "sum_sizes (p # ps) = do {
     e \<leftarrow> oserr;
     size \<leftarrow> gets (\<lambda>n. if e = None then file_size (n_fs n) p else 0);
     total \<leftarrow> sum_sizes ps;
     ret (size + total)
   }"

definition DiskUsageGB :: "string list \<Rightarrow> string \<Rightarrow> string \<Rightarrow> float64 node_effect" where
  "DiskUsageGB paths basePath taskID = do {
     files \<leftarrow> gets (\<lambda>n. files_below (taskPath basePath taskID) paths (n_fs n));
     total \<leftarrow> sum_sizes files;
     ret (of_int total / 2 ^ 30)
   }"

subsection \<open>Cloning\<close>

definition branch_char :: "char \<Rightarrow> bool" where
  "branch_char c \<longleftrightarrow> (CHR ''a'' \<le> c \<and> c \<le> CHR ''z'') \<or> (CHR ''A'' \<le> c \<and> c \<le> CHR ''Z'')
     \<or> (CHR ''0'' \<le> c \<and> c \<le> CHR ''9'') \<or> c = CHR ''.'' \<or> c = CHR ''_'' \<or> c = CHR ''/'' \<or> c = CHR ''-''"

definition validBranch :: "string \<Rightarrow> bool" where
  "validBranch b \<longleftrightarrow> b \<noteq> [] \<and> list_all branch_char b"

text \<open>
  \<^verbatim>\<open>git.PlainCloneContext\<close>, of one branch or of all: it changes the files, and fails with an error
  or not. The error \<^verbatim>\<open>ErrRepositoryAlreadyExists\<close> is the text \<open>repo_exists\<close>.
\<close>

definition repo_exists :: string where
  "repo_exists = ''repository already exists''"

definition git_PlainClone :: "string \<Rightarrow> string option \<Rightarrow> string \<Rightarrow> string option node_effect" where
  "git_PlainClone url ref dest = State (\<lambda>n.
     (case next_of (\<lambda>fs. (fs, Some ''no transport'')) (n_clones n) (n_fs n) of
        (fs', err) \<Rightarrow> (err, n\<lparr>n_clones := tl (n_clones n), n_fs := fs', n_log := n_log n @ [Cloned url ref dest]\<rparr>)))"

definition NewBranchReferenceName :: "string \<Rightarrow> string" where
  "NewBranchReferenceName b = ''refs/heads/'' @ b"

text \<open>
  After a fallback clone the requested branch is checked out as well as possible; opening the
  repository, its worktree and the checkout are calls of the git library whose errors are ignored,
  so the checkout is one more change of the files.
\<close>

definition git_Checkout :: "unit node_effect" where
  "git_Checkout = State (\<lambda>n. (case next_of (\<lambda>fs. (fs, None)) (n_clones n) (n_fs n) of
     (fs', err) \<Rightarrow> ((), n\<lparr>n_clones := tl (n_clones n), n_fs := fs'\<rparr>)))"

definition CloneRepo :: "string \<Rightarrow> string \<Rightarrow> string \<Rightarrow> unit node_fallible" where
  "CloneRepo repoURL branch destPath =
     (if branch \<noteq> [] \<and> \<not> validBranch branch
      then ret (Inl (Err (''clone: invalid branch name '' @ Quote branch)))
      else do {
        err \<leftarrow> git_PlainClone repoURL (Some (NewBranchReferenceName branch)) destPath;
        case err of
          None \<Rightarrow> ret (Inr ())
        | Some e \<Rightarrow>
            if e = repo_exists then ret (Inr ())
            else if branch \<noteq> [] then do {
              fallbackErr \<leftarrow> git_PlainClone repoURL None destPath;
              case fallbackErr of
                Some fe \<Rightarrow> ret (Inl (Wrap (''clone '' @ Quote repoURL @ '' (branch '' @ Quote branch @ '') failed: ''
                    @ e @ ''; fallback also failed'') (Err fe)))
              | None \<Rightarrow> do { git_Checkout; ret (Inr ()) }
            }
            else ret (Inl (Wrap (''clone '' @ Quote repoURL) (Err e)))
      })"

subsection \<open>The quota monitor\<close>

text \<open>
  One check of the monitor: the walk itself never fails, as its callback skips what it cannot
  read. The monitor ends at the first measurement above the limit, after calling the kill function.
\<close>

definition measureUsageGB :: "string list \<Rightarrow> string \<Rightarrow> float64 node_effect" where
  "measureUsageGB paths workspacePath = do {
     files \<leftarrow> gets (\<lambda>n. files_below workspacePath paths (n_fs n));
     total \<leftarrow> sum_sizes files;
     ret (of_int total / 2 ^ 30)
   }"

fun quota_monitor :: "float64 \<Rightarrow> float64 list \<Rightarrow> bool" where
  "quota_monitor maxGB [] = False"
| "quota_monitor maxGB (usageGB # later) = (if usageGB > maxGB then True else quota_monitor maxGB later)"

lemma quota_monitor_iff: "quota_monitor maxGB us \<longleftrightarrow> (\<exists>u \<in> set us. maxGB < u)"
  by (induction us) auto

subsection \<open>Containment\<close>

text \<open>The directory of a task is an entry of the base directory, or the base directory itself when
  the id consists of separators.\<close>

lemma taskPath_below:
  assumes base: "IsAbs basePath"
  shows "(\<exists>e. plain e \<and> elems_of (taskPath basePath taskID) = elems_of basePath @ [e])
    \<or> (Base taskID = ''/'' \<and> taskPath basePath taskID = Clean basePath)"
proof -
  let ?safe = "if Base taskID = ''.'' \<or> Base taskID = ''..'' then ''_invalid_'' else Base taskID"
  have ne: "basePath \<noteq> []" using base by (auto simp: IsAbs_def HasPrefix_def)
  have abs: "IsAbs (basePath @ ''/'' @ e)" for e
    using base by (cases basePath) (simp_all add: IsAbs_def HasPrefix_def)
  have path: "taskPath basePath taskID = Clean (basePath @ ''/'' @ ?safe)"
    unfolding taskPath_def Let_def by (rule JoinPath_two [OF ne])
  have "plain ''_invalid_''" by (simp add: plain_def Separator_def)
  with Base_cases [of taskID] have "plain ?safe \<or> Base taskID = ''/''" by auto
  then show ?thesis
  proof
    assume e: "plain ?safe"
    have "elems_of (taskPath basePath taskID) = elems_of (basePath @ ''/'' @ ?safe)"
      unfolding path by (rule elems_of_Clean [OF abs])
    with elems_of_below [OF ne e] e show ?thesis by metis
  next
    assume b: "Base taskID = ''/''"
    have "taskPath basePath taskID = Clean (basePath @ ''//'')" using path b by simp
    moreover have "IsAbs (basePath @ ''//'')" using abs [of "''/''"] by simp
    ultimately show ?thesis using b elems_of_trailing [OF ne] base by (simp add: Clean_def)
  qed
qed

text \<open>A path the manager asserts to be contained lies at or below the workspace, and climbs nowhere.\<close>

lemma AssertContained_below:
  assumes "IsAbs cwd" "AssertContained cwd ws f = Inr ()"
  shows "\<exists>rest. elems_of (Abs cwd f) = elems_of (Abs cwd ws) @ rest \<and> list_all plain rest"
proof -
  let ?w = "Abs cwd ws" and ?f = "Abs cwd f"
  note w = IsAbs_Abs [OF assms(1), of ws] and f = IsAbs_Abs [OF assms(1), of f]
  have clean: "Clean ?w = ?w" "Clean ?f = ?f" by (rule Clean_Abs [OF assms(1)])+
  consider "?f = ?w" | "HasSuffix ?w ''/''" | "HasPrefix ?f (?w @ ''/'')"
    using assms(2) by (auto simp: AssertContained_def Let_def split: if_splits)
  then show ?thesis
  proof cases
    case 2
    have "elems_of ?w = []"
    proof (rule ccontr)
      assume ne: "elems_of ?w \<noteq> []"
      have "last (Split Separator (Clean ?w)) = []"
        using 2 clean(1) by (auto simp: HasSuffix_iff Separator_def Split_append_sep)
      with Split_Clean_abs [OF w ne] ne elems_of_abs_plain [OF w] last_in_set [OF ne] show False
        by (auto simp: plain_def)
    qed
    with elems_of_abs_plain [OF f] show ?thesis by (auto simp: list_all_iff)
  next
    case 3
    with Clean_below [OF w f] clean show ?thesis by (auto simp: list_all_iff)
  qed simp
qed

end
