(* ===== verification/Regex_Syntax.thy ===== *)
theory Regex_Syntax
  imports Regex Go_Text
begin

section \<open>Compiling regular expressions\<close>

text \<open>
  \<^verbatim>\<open>regexp.Compile\<close> on the syntax the rulesets use: literals, the escapes of punctuation and of the
  Perl classes, bracketed classes, groups, alternation, the repetition operators, and the flag
  \<^verbatim>\<open>(?i)\<close> at the beginning. Anything else is refused: what is malformed, and the rest of the syntax,
  which the compiler accepts and no ruleset of the repository uses.
\<close>

subsection \<open>Classes\<close>

definition fold_case :: "bool \<Rightarrow> (char \<Rightarrow> bool) \<Rightarrow> char \<Rightarrow> bool" where
  "fold_case ci p c \<longleftrightarrow> p c \<or> ci \<and> (p (lower c) \<or> p (upper c))"

definition perl_class :: "char \<Rightarrow> (char \<Rightarrow> bool) option" where
  "perl_class c =
     (if c = CHR ''s'' then Some rx_space
      else if c = CHR ''S'' then Some (\<lambda>x. \<not> rx_space x)
      else if c = CHR ''d'' then Some is_digit
      else if c = CHR ''D'' then Some (\<lambda>x. \<not> is_digit x)
      else if c = CHR ''w'' then Some (\<lambda>x. alnum x \<or> x = CHR ''_'')
      else if c = CHR ''W'' then Some (\<lambda>x. \<not> (alnum x \<or> x = CHR ''_''))
      else None)"

text \<open>
  The inside of a bracketed class is a union of items: Perl classes, escaped characters, ranges and
  characters.
\<close>

definition class_item :: "string \<Rightarrow> ((char \<Rightarrow> bool) \<times> string) option" where
  "class_item s = (case s of
     [] \<Rightarrow> None
   | [c] \<Rightarrow> None
   | c # d # s' \<Rightarrow>
       if c = CHR 0x5C then
         (case perl_class d of
            Some q \<Rightarrow> Some (q, s')
          | None \<Rightarrow> if alnum d then None else Some (\<lambda>x. x = d, s'))
       else if d = CHR ''-'' \<and> s' \<noteq> [] \<and> hd s' \<noteq> CHR '']'' then
         (if hd s' \<noteq> CHR 0x5C \<and> c \<le> hd s' then Some (in_range c (hd s'), tl s') else None)
       else Some (\<lambda>x. x = c, d # s'))"

lemma class_item_shorter: "class_item s = Some (q, s') \<Longrightarrow> length s' < length s"
  by (auto simp: class_item_def split: list.splits if_splits option.splits)

function class_body :: "(char \<Rightarrow> bool) \<Rightarrow> string \<Rightarrow> ((char \<Rightarrow> bool) \<times> string) option" where
  "class_body p s =
     (if s \<noteq> [] \<and> hd s = CHR '']'' then Some (p, tl s)
      else case class_item s of
          None \<Rightarrow> None
        | Some (q, s') \<Rightarrow> class_body (\<lambda>x. p x \<or> q x) s')"
  by pat_completeness auto
termination
  by (relation "measure (\<lambda>(p, s). length s)") (auto dest: class_item_shorter)

declare class_body.simps [simp del]

lemma class_body_shorter: "class_body p s = Some (q, s') \<Longrightarrow> length s' < length s"
proof (induction p s arbitrary: q s' rule: class_body.induct)
  case (1 p s)
  show ?case
  proof (cases "s \<noteq> [] \<and> hd s = CHR '']''")
    case True
    with "1.prems" show ?thesis by (subst (asm) class_body.simps) auto
  next
    case False
    then obtain q' t where t: "class_item s = Some (q', t)"
      using "1.prems" by (subst (asm) class_body.simps) (auto split: option.splits)
    with False "1.prems" have "class_body (\<lambda>x. p x \<or> q' x) t = Some (q, s')"
      by (subst (asm) class_body.simps) (simp add: if_not_P)
    from "1.IH" [OF False t refl this] class_item_shorter [OF t] show ?thesis by simp
  qed
qed

definition bracket_class :: "bool \<Rightarrow> string \<Rightarrow> ((char \<Rightarrow> bool) \<times> string) option" where
  "bracket_class ci s =
     (let neg = (s \<noteq> [] \<and> hd s = CHR ''^''); t = (if neg then tl s else s) in
      if t \<noteq> [] \<and> hd t = CHR '']'' then None
      else map_option (\<lambda>(p, s'). (\<lambda>x. fold_case ci p x \<noteq> neg, s')) (class_body (\<lambda>_. False) t))"

lemma bracket_class_shorter: "bracket_class ci s = Some (q, s') \<Longrightarrow> length s' < length s"
  by (cases s) (auto simp: bracket_class_def Let_def split: if_splits dest!: class_body_shorter)

subsection \<open>Repetition\<close>

text \<open>The counts of \<^verbatim>\<open>{n}\<close>, \<^verbatim>\<open>{n,}\<close> and \<^verbatim>\<open>{n,m}\<close>, read up to the closing brace.\<close>

definition counts :: "string \<Rightarrow> (nat \<times> nat option) option" where
  "counts s = (case Split CHR '','' s of
     [a] \<Rightarrow> if a \<noteq> [] \<and> list_all is_digit a then Some (nat (digits_val a), Some (nat (digits_val a))) else None
   | [a, b] \<Rightarrow>
       if a \<noteq> [] \<and> list_all is_digit a \<and> list_all is_digit b
       then Some (nat (digits_val a), if b = [] then None else Some (nat (digits_val b))) else None
   | _ \<Rightarrow> None)"

primrec upto_times :: "nat \<Rightarrow> rx \<Rightarrow> rx" where
  "upto_times 0 r = Eps"
| "upto_times (Suc n) r = opt (Seq r (upto_times n r))"

definition repeat :: "nat \<times> nat option \<Rightarrow> rx \<Rightarrow> rx option" where
  "repeat c r = (case c of
     (n, None) \<Rightarrow> Some (atleast n r)
   | (n, Some m) \<Rightarrow> if m < n then None else if m = n then Some (rep n r) else Some (Seq (rep n r) (upto_times (m - n) r)))"

subsection \<open>The parser\<close>

text \<open>
  The groups that are open are a stack of frames: the finished alternatives of the group and the
  atoms of the current one, both in reverse.
\<close>

type_synonym rx_frame = "rx list \<times> rx list"

definition close_frame :: "rx_frame \<Rightarrow> rx" where
  "close_frame f = (case f of (alts, cur) \<Rightarrow>
     let seq = (case rev cur of [r] \<Rightarrow> r | rs \<Rightarrow> seqs rs) in
     foldl (\<lambda>acc a. Alt a acc) seq alts)"

definition push_atom :: "rx \<Rightarrow> rx_frame list \<Rightarrow> rx_frame list" where
  "push_atom r st = (case st of [] \<Rightarrow> [] | (alts, cur) # st' \<Rightarrow> (alts, r # cur) # st')"

text \<open>Apply a repetition to the last atom.\<close>

definition modify_atom :: "(rx \<Rightarrow> rx option) \<Rightarrow> rx_frame list \<Rightarrow> rx_frame list option" where
  "modify_atom f st = (case st of
     (alts, r # cur) # st' \<Rightarrow> map_option (\<lambda>r'. (alts, r' # cur) # st') (f r)
   | _ \<Rightarrow> None)"

definition plus :: "rx \<Rightarrow> rx" where
  "plus r = atleast 1 r"

function parse_rx :: "bool \<Rightarrow> rx_frame list \<Rightarrow> string \<Rightarrow> rx option" where
  "parse_rx ci st s = (case s of
     [] \<Rightarrow> (case st of [f] \<Rightarrow> Some (close_frame f) | _ \<Rightarrow> None)
   | c # s' \<Rightarrow>
       if c = CHR ''('' then (if s' \<noteq> [] \<and> hd s' = CHR ''?'' then None else parse_rx ci (([], []) # st) s')
       else if c = CHR '')'' then
         (case st of f # g # st' \<Rightarrow> parse_rx ci (push_atom (close_frame f) (g # st')) s' | _ \<Rightarrow> None)
       else if c = CHR ''|'' then
         (case st of (alts, cur) # st' \<Rightarrow> parse_rx ci ((close_frame ([], cur) # alts, []) # st') s' | _ \<Rightarrow> None)
       else if c = CHR ''*'' then
         (case modify_atom (\<lambda>r. Some (Star r)) st of None \<Rightarrow> None | Some st' \<Rightarrow> parse_rx ci st' s')
       else if c = CHR ''+'' then
         (case modify_atom (\<lambda>r. Some (plus r)) st of None \<Rightarrow> None | Some st' \<Rightarrow> parse_rx ci st' s')
       else if c = CHR ''?'' then
         (case modify_atom (\<lambda>r. Some (opt r)) st of None \<Rightarrow> None | Some st' \<Rightarrow> parse_rx ci st' s')
       else if c = CHR ''{'' then
         (let num = takeWhile (\<lambda>x. x \<noteq> CHR ''}'') s'; rest = dropWhile (\<lambda>x. x \<noteq> CHR ''}'') s' in
          case counts num of None \<Rightarrow> None
          | Some n \<Rightarrow> (case modify_atom (repeat n) st of None \<Rightarrow> None
              | Some st' \<Rightarrow> if rest = [] then None else parse_rx ci st' (tl rest)))
       else if c = CHR ''['' then
         (case bracket_class ci s' of None \<Rightarrow> None
          | Some (p, t) \<Rightarrow> parse_rx ci (push_atom (Cls p) st) t)
       else if c = CHR 0x5C then
         (case s' of [] \<Rightarrow> None
          | e # t \<Rightarrow> (case perl_class e of
              Some q \<Rightarrow> parse_rx ci (push_atom (Cls q) st) t
            | None \<Rightarrow> if alnum e then None else parse_rx ci (push_atom (chr e) st) t))
       else if c = CHR ''^'' \<or> c = CHR ''$'' then None
       else if c = CHR ''.'' then parse_rx ci (push_atom (Cls (\<lambda>x. x \<noteq> CHR 0x0A)) st) s'
       else parse_rx ci (push_atom (Cls (fold_case ci (\<lambda>x. x = c))) st) s')"
  by pat_completeness auto
termination
proof (relation "measure (\<lambda>(ci, st, s). length s)", goal_cases)
  case (8 ci st s c s' num rest)
  have "length rest \<le> length s'" using 8 by (simp add: length_dropWhile_le)
  then show ?case using 8 by (cases rest) auto
qed (auto dest: bracket_class_shorter)

declare parse_rx.simps [simp del]

definition regexp_Compile :: "string \<Rightarrow> string + rx" where
  "regexp_Compile s =
     (let ci = HasPrefix s ''(?i)'' in
      case parse_rx ci [([], [])] (TrimPrefix s ''(?i)'') of
        None \<Rightarrow> Inl (''error parsing regexp: '' @ s)
      | Some r \<Rightarrow> Inr r)"

end
