(* ===== verification/Worker_Scanner.thy ===== *)
theory Worker_Scanner
  imports Worker_Workspace Regex_Syntax
begin

section \<open>The worker's secret scanner\<close>

text \<open>
  \<^verbatim>\<open>grid-worker/internal/scanner\<close>: rulesets (\<^verbatim>\<open>ruleset.go\<close>) and the scans of a text, of a directory and
  of a patch (\<^verbatim>\<open>scanner.go\<close>). The YAML library is a parameter that turns a document into the structs
  of the intermediate form.
\<close>

subsection \<open>Rulesets\<close>

record Rule =
  rule_ID :: string
  rule_Name :: string
  rule_Pattern :: rx
  rule_RawPattern :: string
  rule_Severity :: string
  rule_Scope :: string

record ruleYAML =
  ry_ID :: string
  ry_Name :: string
  ry_Pattern :: string
  ry_Severity :: string
  ry_Scope :: string

record Ruleset =
  rset_Version :: string
  rset_Rules :: "Rule list"
  rset_Paths :: "string list"
  rset_Patterns :: "string list"

record rulesetYAML =
  rsy_Version :: string
  rsy_Rules :: "ruleYAML list"
  rsy_Paths :: "string list"
  rsy_Patterns :: "string list"

fun parse_rules :: "nat \<Rightarrow> ruleYAML list \<Rightarrow> string + Rule list" where
  "parse_rules i [] = Inr []"
| "parse_rules i (r # rs) = (case regexp_Compile (ry_Pattern r) of
     Inl e \<Rightarrow> Inl (''rule '' @ Itoa (int i) @ '' ('' @ ry_ID r @ ''): invalid pattern '' @ Quote (ry_Pattern r) @ '': '' @ e)
   | Inr compiled \<Rightarrow> (case parse_rules (Suc i) rs of
       Inl e \<Rightarrow> Inl e
     | Inr rules \<Rightarrow> Inr (\<lparr>rule_ID = ry_ID r, rule_Name = ry_Name r, rule_Pattern = compiled,
         rule_RawPattern = ry_Pattern r, rule_Severity = ry_Severity r,
         rule_Scope = (if ry_Scope r = [] then ''all'' else ry_Scope r)\<rparr> # rules)))"

definition parseRuleset :: "string + rulesetYAML \<Rightarrow> string + Ruleset" where
  "parseRuleset raw = (case raw of
     Inl e \<Rightarrow> Inl (''parse ruleset YAML: '' @ e)
   | Inr y \<Rightarrow> (case parse_rules 0 (rsy_Rules y) of
       Inl e \<Rightarrow> Inl e
     | Inr rules \<Rightarrow> Inr \<lparr>rset_Version = rsy_Version y, rset_Rules = rules, rset_Paths = rsy_Paths y,
         rset_Patterns = rsy_Patterns y\<rparr>))"

definition LoadRuleset :: "(string \<Rightarrow> string + rulesetYAML) \<Rightarrow> string \<Rightarrow> (string + Ruleset) node_effect" where
  "LoadRuleset yaml path = do {
     data \<leftarrow> os_ReadFile path;
     ret (case data of Inl e \<Rightarrow> Inl (''read ruleset file '' @ Quote path @ '': '' @ e)
       | Inr text \<Rightarrow> parseRuleset (yaml text))
   }"

text \<open>A backslash in a pattern.\<close>

abbreviation bs :: string where
  "bs \<equiv> [CHR 0x5C]"

definition hardcoded_specs :: "(string \<times> string \<times> string \<times> string \<times> string) list" where
  "hardcoded_specs =
     [(''SEC-001'', ''AWS Access Key ID'', ''(?i)AKIA[0-9A-Z]{16}'', ''critical'', ''all''),
      (''SEC-002'', ''GitHub Personal Access Token'', ''ghp_[0-9a-zA-Z]{36}'', ''critical'', ''all''),
      (''SEC-003'', ''Private Key PEM'', ''-----BEGIN (RSA |EC |OPENSSH )?PRIVATE KEY-----'', ''critical'', ''all''),
      (''SEC-004'', ''Generic Password Assignment'',
        ''(?i)password'' @ bs @ ''s*[:=]'' @ bs @ ''s*'' @ bs @ ''S{8,}'', ''high'', ''all''),
      (''SEC-005'', ''Generic Secret Assignment'',
        ''(?i)secret'' @ bs @ ''s*[:=]'' @ bs @ ''s*'' @ bs @ ''S{8,}'', ''high'', ''all''),
      (''SEC-006'', ''Bearer Token'', ''(?i)bearer'' @ bs @ ''s+[a-zA-Z0-9._'' @ bs @ ''-]{20,}'', ''medium'', ''diff_only'')]"

definition default_paths :: "string list" where
  "default_paths = [''**/*.md'', ''**/testdata/**'', ''**/*_test.go'']"

definition default_patterns :: "string list" where
  "default_patterns = [''EXAMPLE_KEY_PLACEHOLDER'', ''YOUR_KEY_HERE'']"

fun compile_specs :: "(string \<times> string \<times> string \<times> string \<times> string) list \<Rightarrow> Rule list" where
  "compile_specs [] = []"
| "compile_specs ((i, nm, pat, sev, scope) # specs) = (case regexp_Compile pat of
     Inl _ \<Rightarrow> compile_specs specs
   | Inr compiled \<Rightarrow> \<lparr>rule_ID = i, rule_Name = nm, rule_Pattern = compiled, rule_RawPattern = pat,
       rule_Severity = sev, rule_Scope = scope\<rparr> # compile_specs specs)"

definition hardcodedRuleset :: Ruleset where
  "hardcodedRuleset = \<lparr>rset_Version = ''1'', rset_Rules = compile_specs hardcoded_specs,
     rset_Paths = default_paths, rset_Patterns = default_patterns\<rparr>"

text \<open>The embedded document is the text \<open>embedded\<close>; without it, or when it does not parse, the
  hard-coded rules are used.\<close>

definition DefaultRuleset :: "(string \<Rightarrow> string + rulesetYAML) \<Rightarrow> string \<Rightarrow> Ruleset" where
  "DefaultRuleset yaml embedded =
     (if embedded = [] then hardcodedRuleset
      else case parseRuleset (yaml embedded) of Inl _ \<Rightarrow> hardcodedRuleset | Inr rs \<Rightarrow> rs)"

text \<open>The content of \<^verbatim>\<open>assets/default-ruleset.yaml\<close>.\<close>

definition default_ruleset_doc :: rulesetYAML where
  "default_ruleset_doc = \<lparr>rsy_Version = ''1'',
     rsy_Rules = map (\<lambda>(i, nm, pat, sev, scope).
       \<lparr>ry_ID = i, ry_Name = nm, ry_Pattern = pat, ry_Severity = sev, ry_Scope = scope\<rparr>) hardcoded_specs,
     rsy_Paths = default_paths, rsy_Patterns = default_patterns\<rparr>"

subsection \<open>Scanning\<close>

record WFinding =
  wf_RuleID :: string
  wf_RuleName :: string
  wf_Severity :: string
  wf_FilePath :: string
  wf_Line :: int
  wf_Match :: string

record WScanner =
  sc_ruleset :: Ruleset
  sc_concurrency :: nat

definition Scanner_New :: "Ruleset \<Rightarrow> int \<Rightarrow> WScanner" where
  "Scanner_New rs concurrency = \<lparr>sc_ruleset = rs, sc_concurrency = (if concurrency \<le> 0 then 4 else nat concurrency)\<rparr>"

fun isExcludedPath :: "string list \<Rightarrow> string \<Rightarrow> bool" where
  "isExcludedPath [] path = False"
| "isExcludedPath (pattern # ps) path =
     (if Match pattern path then True
      else if Match pattern (Base path) then True
      else isExcludedPath ps path)"

definition isExcludedPattern :: "string list \<Rightarrow> string \<Rightarrow> bool" where
  "isExcludedPattern patterns line = (\<exists>p \<in> set patterns. Contains line p)"

definition worker_redact :: "string \<Rightarrow> string" where
  "worker_redact s = (if length s \<le> 4 then ''***'' else take 4 s @ ''***'')"

definition finding :: "Rule \<Rightarrow> string \<Rightarrow> int \<Rightarrow> string \<Rightarrow> WFinding" where
  "finding rule file line match = \<lparr>wf_RuleID = rule_ID rule, wf_RuleName = rule_Name rule,
     wf_Severity = rule_Severity rule, wf_FilePath = file, wf_Line = line, wf_Match = worker_redact match\<rparr>"

fun scan_rule_lines :: "WScanner \<Rightarrow> string \<Rightarrow> Rule \<Rightarrow> int \<Rightarrow> string list \<Rightarrow> WFinding list" where
  "scan_rule_lines sc file rule i [] = []"
| "scan_rule_lines sc file rule i (line # lines) =
     (if isExcludedPattern (rset_Patterns (sc_ruleset sc)) line then []
      else let match = FindString (rule_Pattern rule) line in
        if match = [] then [] else [finding rule file (i + 1) match])
     @ scan_rule_lines sc file rule (i + 1) lines"

definition worker_ScanText :: "WScanner \<Rightarrow> string \<Rightarrow> string \<Rightarrow> WFinding list" where
  "worker_ScanText sc text filePath =
     (if isExcludedPath (rset_Paths (sc_ruleset sc)) filePath then []
      else concat (map (\<lambda>rule. scan_rule_lines sc filePath rule 0 (Split CHR 0x0A text)) (rset_Rules (sc_ruleset sc))))"

text \<open>
  \<^verbatim>\<open>ScanDirectory\<close>: the walk collects the files (those above 10 MiB are left out) and stops with an
  error when the context is cancelled. The workers then share the files; a worker that finds the
  context cancelled returns, dropping the file it holds, and with no worker left the other files
  are not scanned. The results arrive in some order; the model takes the order of the walk.
\<close>

primrec collect_files :: "string list \<Rightarrow> string list \<Rightarrow> (string + string list) node_effect" where
  "collect_files [] acc = ret (Inr acc)"
| "collect_files (p # ps) acc = do {
     stop \<leftarrow> cancelled;
     if stop then ret (Inl ''context canceled'')
     else do {
       e \<leftarrow> oserr;
       size \<leftarrow> gets (\<lambda>n. file_size (n_fs n) p);
       if e = None \<and> size > 10 * 1024 * 1024 then collect_files ps acc
       else collect_files ps (acc @ [p])
     }
   }"

primrec scan_files :: "WScanner \<Rightarrow> string \<Rightarrow> nat \<Rightarrow> string list \<Rightarrow> WFinding list node_effect" where
  "scan_files sc dir k [] = ret []"
| "scan_files sc dir k (p # ps) =
     (if k = 0 then ret []
      else do {
        stop \<leftarrow> cancelled;
        if stop then scan_files sc dir (k - 1) ps
        else let relPath = (case Rel dir p of None \<Rightarrow> [] | Some r \<Rightarrow> r) in
          if isExcludedPath (rset_Paths (sc_ruleset sc)) relPath then scan_files sc dir k ps
          else do {
            data \<leftarrow> os_ReadFile p;
            rest \<leftarrow> scan_files sc dir k ps;
            ret ((case data of Inl _ \<Rightarrow> [] | Inr text \<Rightarrow> worker_ScanText sc text relPath) @ rest)
          }
      })"

definition ScanDirectory :: "WScanner \<Rightarrow> string list \<Rightarrow> string \<Rightarrow> (string + WFinding list) node_effect" where
  "ScanDirectory sc paths dir = do {
     files \<leftarrow> gets (\<lambda>n. files_below dir paths (n_fs n));
     collected \<leftarrow> collect_files files [];
     case collected of
       Inl e \<Rightarrow> ret (Inl (''walk directory '' @ Quote dir @ '': '' @ e))
     | Inr ps \<Rightarrow> do { fs \<leftarrow> scan_files sc dir (sc_concurrency sc) ps; ret (Inr fs) }
   }"

subsection \<open>Patches\<close>

text \<open>The line number is only reported; the model leaves out its overflow on absurd headers.\<close>

definition parseDiffLineNum :: "string \<Rightarrow> int" where
  "parseDiffLineNum line = (case IndexAny line ''+'' of
     None \<Rightarrow> 0
   | Some plusIdx \<Rightarrow>
       let rest = drop (plusIdx + 1) line;
           end = (case IndexAny rest '', @'' of None \<Rightarrow> length rest | Some e \<Rightarrow> e);
           n = digits_val (takeWhile is_digit (take end rest))
       in if n > 0 then n - 1 else 0)"

record patch_state =
  ps_file :: string
  ps_line :: int
  ps_findings :: "WFinding list"

definition patch_rules :: "WScanner \<Rightarrow> string \<Rightarrow> int \<Rightarrow> string \<Rightarrow> WFinding list" where
  "patch_rules sc file lineNum content =
     concat (map (\<lambda>rule.
       if rule_Scope rule = ''workspace_only'' then []
       else let match = FindString (rule_Pattern rule) content in
         if match = [] then [] else [finding rule file lineNum match]) (rset_Rules (sc_ruleset sc)))"

definition patch_line :: "WScanner \<Rightarrow> string \<Rightarrow> patch_state \<Rightarrow> patch_state" where
  "patch_line sc line st =
     (if HasPrefix line ''+++ b/'' then st\<lparr>ps_file := TrimPrefix line ''+++ b/'', ps_line := 0\<rparr>
      else if HasPrefix line ''@@'' then st\<lparr>ps_line := parseDiffLineNum line\<rparr>
      else if \<not> HasPrefix line ''+'' \<or> HasPrefix line ''+++''
      then (if \<not> HasPrefix line ''-'' then st\<lparr>ps_line := ps_line st + 1\<rparr> else st)
      else
        let st' = st\<lparr>ps_line := ps_line st + 1\<rparr>; content = tl line in
        if isExcludedPath (rset_Paths (sc_ruleset sc)) (ps_file st')
          \<or> isExcludedPattern (rset_Patterns (sc_ruleset sc)) content
        then st'
        else st'\<lparr>ps_findings := ps_findings st' @ patch_rules sc (ps_file st') (ps_line st') content\<rparr>)"

text \<open>The loop: a cancelled context ends it with an error beside the findings so far.\<close>

primrec patch_loop :: "WScanner \<Rightarrow> string list \<Rightarrow> patch_state \<Rightarrow> (string option \<times> WFinding list) node_effect" where
  "patch_loop sc [] st = ret (None, ps_findings st)"
| "patch_loop sc (line # lines) st = do {
     stop \<leftarrow> cancelled;
     if stop then ret (Some ''context canceled'', ps_findings st)
     else patch_loop sc lines (patch_line sc line st)
   }"

definition ScanPatch :: "WScanner \<Rightarrow> string \<Rightarrow> (string option \<times> WFinding list) node_effect" where
  "ScanPatch sc patch = patch_loop sc (Scanner_lines patch) \<lparr>ps_file = [], ps_line = 0, ps_findings = []\<rparr>"

subsection \<open>The two forms of the default rules\<close>

lemma embedded_is_hardcoded: "parse_rules i (map (\<lambda>(i, nm, pat, sev, scope).
     \<lparr>ry_ID = i, ry_Name = nm, ry_Pattern = pat, ry_Severity = sev, ry_Scope = scope\<rparr>) specs) = Inr rules \<Longrightarrow>
   (\<And>s. s \<in> set specs \<Longrightarrow> snd (snd (snd (snd s))) \<noteq> []) \<Longrightarrow> rules = compile_specs specs"
  by (induction specs arbitrary: i rules) (fastforce split: sum.splits prod.splits)+

lemma DefaultRuleset_hardcoded:
  assumes "yaml embedded = Inr default_ruleset_doc"
  shows "DefaultRuleset yaml embedded = hardcodedRuleset"
proof -
  have scopes: "\<And>s. s \<in> set hardcoded_specs \<Longrightarrow> snd (snd (snd (snd s))) \<noteq> []"
    by (auto simp: hardcoded_specs_def)
  have "parse_rules 0 (rsy_Rules default_ruleset_doc) = Inr rules \<Longrightarrow> rules = compile_specs hardcoded_specs" for rules
    using embedded_is_hardcoded [of 0 hardcoded_specs rules] scopes by (simp add: default_ruleset_doc_def)
  with assms show ?thesis
    by (auto simp: DefaultRuleset_def parseRuleset_def hardcodedRuleset_def default_ruleset_doc_def split: sum.splits)
qed

lemma hardcoded_compile: "map rule_ID (compile_specs hardcoded_specs) =
    [''SEC-001'', ''SEC-002'', ''SEC-003'', ''SEC-004'', ''SEC-005'', ''SEC-006'']"
  by code_simp

subsection \<open>What a scan reports\<close>

definition rule_hits :: "Rule \<Rightarrow> string \<Rightarrow> bool" where
  "rule_hits rule s \<longleftrightarrow> FindString (rule_Pattern rule) s \<noteq> []"

text \<open>The file a line of a patch belongs to, from the headers before it.\<close>

definition current_file :: "string list \<Rightarrow> string" where
  "current_file lines = fold (\<lambda>l f. if HasPrefix l ''+++ b/'' then TrimPrefix l ''+++ b/'' else f) lines []"

definition scanned_line :: "WScanner \<Rightarrow> string \<Rightarrow> string \<Rightarrow> bool" where
  "scanned_line sc file line \<longleftrightarrow> HasPrefix line ''+'' \<and> \<not> HasPrefix line ''+++''
     \<and> \<not> isExcludedPath (rset_Paths (sc_ruleset sc)) file
     \<and> \<not> isExcludedPattern (rset_Patterns (sc_ruleset sc)) (tl line)"

definition patch_start :: patch_state where
  "patch_start = \<lparr>ps_file = [], ps_line = 0, ps_findings = []\<rparr>"

lemma HasPrefix_plus: "HasPrefix l ''+++ b/'' \<Longrightarrow> HasPrefix l ''+++''"
  by (auto simp: HasPrefix_iff)

lemma HasPrefix_at: "HasPrefix l ''@@'' \<Longrightarrow> \<not> HasPrefix l ''+''"
  by (auto simp: HasPrefix_iff)

lemma ps_file_patch_line:
  "ps_file (patch_line sc l st) = (if HasPrefix l ''+++ b/'' then TrimPrefix l ''+++ b/'' else ps_file st)"
  by (simp add: patch_line_def Let_def)

lemma ps_file_fold: "ps_file (fold (patch_line sc) lines patch_start) = current_file lines"
proof (induction lines rule: rev_induct)
  case (snoc l lines)
  then show ?case by (simp add: ps_file_patch_line current_file_def)
qed (simp add: patch_start_def current_file_def)

definition finding_key :: "WFinding \<Rightarrow> string \<times> string \<times> string" where
  "finding_key f = (wf_RuleID f, wf_Severity f, wf_FilePath f)"

lemma finding_key_patch_rules:
  "finding_key ` set (patch_rules sc file i s) =
     {(rule_ID r, rule_Severity r, file) | r. r \<in> set (rset_Rules (sc_ruleset sc))
        \<and> rule_Scope r \<noteq> ''workspace_only'' \<and> rule_hits r s}"
proof -
  have "set (patch_rules sc file i s) = (\<lambda>r. finding r file i (FindString (rule_Pattern r) s)) `
      {r \<in> set (rset_Rules (sc_ruleset sc)). rule_Scope r \<noteq> ''workspace_only'' \<and> rule_hits r s}"
    by (auto simp: patch_rules_def rule_hits_def Let_def split: if_splits)
  then show ?thesis by (auto simp: image_image finding_key_def finding_def)
qed

lemma findings_patch_line:
  "finding_key ` set (ps_findings (patch_line sc l st)) = finding_key ` set (ps_findings st) \<union>
     (if scanned_line sc (ps_file st) l
      then {(rule_ID r, rule_Severity r, ps_file st) | r. r \<in> set (rset_Rules (sc_ruleset sc))
        \<and> rule_Scope r \<noteq> ''workspace_only'' \<and> rule_hits r (tl l)} else {})"
proof -
  have *: "finding_key ` set (patch_rules sc (ps_file st) (ps_line st + 1) (tl l)) =
    {(rule_ID r, rule_Severity r, ps_file st) | r. r \<in> set (rset_Rules (sc_ruleset sc))
        \<and> rule_Scope r \<noteq> ''workspace_only'' \<and> rule_hits r (tl l)}"
    by (rule finding_key_patch_rules)
  show ?thesis
  proof (cases "scanned_line sc (ps_file st) l")
    case True
    then have "patch_line sc l st = st\<lparr>ps_line := ps_line st + 1,
        ps_findings := ps_findings st @ patch_rules sc (ps_file st) (ps_line st + 1) (tl l)\<rparr>"
      using HasPrefix_plus [of l] HasPrefix_at [of l] by (auto simp: patch_line_def scanned_line_def Let_def)
    with True * show ?thesis by (simp add: image_Un)
  next
    case False
    then have "ps_findings (patch_line sc l st) = ps_findings st"
      by (auto simp: patch_line_def scanned_line_def Let_def)
    with False show ?thesis by simp
  qed
qed

text \<open>What is reported for a patch: the rules that hit an added line that is not excluded.\<close>

definition patch_hits :: "WScanner \<Rightarrow> string list \<Rightarrow> (string \<times> string \<times> string) set" where
  "patch_hits sc lines = {(rule_ID r, rule_Severity r, current_file pre) | r pre l post.
     lines = pre @ l # post \<and> scanned_line sc (current_file pre) l
     \<and> r \<in> set (rset_Rules (sc_ruleset sc)) \<and> rule_Scope r \<noteq> ''workspace_only'' \<and> rule_hits r (tl l)}"

lemma patch_hits_snoc:
  "patch_hits sc (lines @ [l]) = patch_hits sc lines \<union>
     (if scanned_line sc (current_file lines) l
      then {(rule_ID r, rule_Severity r, current_file lines) | r. r \<in> set (rset_Rules (sc_ruleset sc))
        \<and> rule_Scope r \<noteq> ''workspace_only'' \<and> rule_hits r (tl l)} else {})"
proof -
  have split: "lines @ [l] = pre @ x # post \<longleftrightarrow>
      (post = [] \<and> pre = lines \<and> x = l) \<or> (\<exists>post'. post = post' @ [l] \<and> lines = pre @ x # post')" for pre x post
    by (cases post rule: rev_cases) auto
  show ?thesis
    unfolding patch_hits_def split by (auto; blast)
qed

lemma findings_fold: "finding_key ` set (ps_findings (fold (patch_line sc) lines patch_start)) = patch_hits sc lines"
proof (induction lines rule: rev_induct)
  case (snoc l lines)
  then show ?case by (simp add: findings_patch_line patch_hits_snoc ps_file_fold)
qed (simp add: patch_start_def patch_hits_def)

text \<open>Without cancellation the loop is this fold.\<close>

definition never_cancelled :: "node \<Rightarrow> bool" where
  "never_cancelled n \<longleftrightarrow> True \<notin> set (n_cancels n)"

lemma never_cancelled_next: "never_cancelled n \<Longrightarrow> \<not> next_of False (n_cancels n)
    \<and> never_cancelled (n\<lparr>n_cancels := tl (n_cancels n)\<rparr>)"
  by (cases "n_cancels n") (auto simp: never_cancelled_def)

lemma patch_loop_fold:
  "never_cancelled n \<Longrightarrow>
     result (patch_loop sc lines st) n = (None, ps_findings (fold (patch_line sc) lines st))"
proof (induction lines arbitrary: st n)
  case (Cons l lines)
  with never_cancelled_next [of n] show ?case by (simp add: run_cancelled)
qed simp

lemma ScanPatch_hits:
  assumes "never_cancelled n"
  shows "fst (result (ScanPatch sc patch) n) = None"
    "finding_key ` set (snd (result (ScanPatch sc patch) n)) = patch_hits sc (Scanner_lines patch)"
  using patch_loop_fold [OF assms, of sc "Scanner_lines patch" patch_start] findings_fold [of sc "Scanner_lines patch"]
  by (simp_all add: ScanPatch_def patch_start_def)

subsection \<open>Redaction\<close>

lemma worker_redact_short: "length (worker_redact s) \<le> 7"
  by (simp add: worker_redact_def)

lemma worker_redact_cong: "4 < length s \<Longrightarrow> 4 < length t \<Longrightarrow> take 4 s = take 4 t \<Longrightarrow> worker_redact s = worker_redact t"
  by (simp add: worker_redact_def)

end
