(* ===== verification/Worker_Client.thy ===== *)
theory Worker_Client
  imports Worker_Node
begin

section \<open>The worker's client of the control plane\<close>

text \<open>
  \<^verbatim>\<open>grid-worker/internal/controlplane/client.go\<close>: the messages, their JSON form (field names, and
  the fields left out when empty), the requests with their headers, and how replies are read.
\<close>

subsection \<open>Messages\<close>

record Client =
  cl_baseURL :: string
  cl_apiKey :: string
  cl_workerID :: string
  cl_TimeoutSec :: int
  cl_SkipVerify :: bool

definition Client_New :: "ServerConfig \<Rightarrow> Client" where
  "Client_New cfg = \<lparr>cl_baseURL = srv_URL cfg, cl_apiKey = srv_APIKey cfg, cl_workerID = srv_WorkerID cfg,
     cl_TimeoutSec = srv_PollTimeoutSec cfg, cl_SkipVerify = srv_TLSSkipVerify cfg\<rparr>"

definition SetWorkerID :: "string \<Rightarrow> Client \<Rightarrow> Client" where
  "SetWorkerID wid c = c\<lparr>cl_workerID := wid\<rparr>"

record RegisterRequest =
  rr_HostnameHash :: string
  rr_Agents :: "string list option"
  rr_OSInfo :: string
  rr_CapacityScore :: float64

record HeartbeatRequest =
  hb_State :: string
  hb_CPUPercent :: float64
  hb_RAMMBUsed :: int
  hb_DiskFreeGB :: float64
  hb_BatteryPercent :: float64
  hb_JobsToday :: int

record TaskAssignment =
  ta_TaskID :: string
  ta_Title :: string
  ta_Description :: string
  ta_TaskType :: string
  ta_AIAgent :: string
  ta_Options :: "(string \<times> string) list"
  ta_RepoURL :: string
  ta_Branch :: string
  ta_TimeoutSec :: int

record TaskStatusRequest =
  ts_State :: string
  ts_ErrorMessage :: string

record WArtifactMeta =
  am_RelPath :: string
  am_SHA256 :: string
  am_Size :: int

record OutputSubmission =
  os_TaskID :: string
  os_HMACSha256 :: string
  os_Artifacts :: "WArtifactMeta list"
  os_Metadata :: "(string \<times> json) list"
  os_XHMACHeader :: string

subsection \<open>JSON form of the requests\<close>

definition JInt :: "int \<Rightarrow> json" where
  "JInt i = JNum (of_int i)"

text \<open>A field with the option \<^verbatim>\<open>omitempty\<close>.\<close>

definition unless_empty :: "bool \<Rightarrow> string \<Rightarrow> json \<Rightarrow> (string \<times> json) list" where
  "unless_empty omit k v = (if omit then [] else [(k, v)])"

definition marshal_RegisterRequest :: "RegisterRequest \<Rightarrow> json" where
  "marshal_RegisterRequest r = JObj [(''hostname_hash'', JStr (rr_HostnameHash r)),
     (''agents'', case rr_Agents r of None \<Rightarrow> JNull | Some as \<Rightarrow> JArr (map JStr as)),
     (''os_info'', JStr (rr_OSInfo r)), (''capacity_score'', JNum (rr_CapacityScore r))]"

definition marshal_HeartbeatRequest :: "HeartbeatRequest \<Rightarrow> json" where
  "marshal_HeartbeatRequest r = JObj [(''state'', JStr (hb_State r)), (''cpu_percent'', JNum (hb_CPUPercent r)),
     (''ram_mb_used'', JInt (hb_RAMMBUsed r)), (''disk_free_gb'', JNum (hb_DiskFreeGB r)),
     (''battery_percent'', JNum (hb_BatteryPercent r)), (''jobs_today'', JInt (hb_JobsToday r))]"

definition marshal_TaskStatusRequest :: "TaskStatusRequest \<Rightarrow> json" where
  "marshal_TaskStatusRequest r = JObj ((''state'', JStr (ts_State r))
     # unless_empty (ts_ErrorMessage r = []) ''error_message'' (JStr (ts_ErrorMessage r)))"

definition marshal_ArtifactMeta :: "WArtifactMeta \<Rightarrow> json" where
  "marshal_ArtifactMeta a = JObj [(''rel_path'', JStr (am_RelPath a)), (''sha256'', JStr (am_SHA256 a)),
     (''size'', JInt (am_Size a))]"

definition marshal_OutputSubmission :: "OutputSubmission \<Rightarrow> json" where
  "marshal_OutputSubmission s = JObj ([(''task_id'', JStr (os_TaskID s)), (''hmac_sha256'', JStr (os_HMACSha256 s)),
     (''artifacts'', JArr (map marshal_ArtifactMeta (os_Artifacts s)))]
     @ unless_empty (os_Metadata s = []) ''metadata'' (JObj (sort_key fst (os_Metadata s))))"

subsection \<open>Reading JSON into the response structs\<close>

text \<open>
  \<^verbatim>\<open>json.Unmarshal\<close> into a struct: keys match a field's name up to case, the last one counts, other
  keys are ignored, null and a missing key leave the zero value, a value of another type is an
  error. Parsing the text is a parameter of the functions that read replies.
\<close>

definition json_field :: "string \<Rightarrow> (string \<times> json) list \<Rightarrow> json option" where
  "json_field name kvs = map_option snd (find (\<lambda>(k, v). EqualFold k name \<and> v \<noteq> JNull) (rev kvs))"

definition as_string :: "json option \<Rightarrow> string + string" where
  "as_string v = (case v of None \<Rightarrow> Inr [] | Some (JStr s) \<Rightarrow> Inr s
     | Some _ \<Rightarrow> Inl ''json: cannot unmarshal into Go struct field of type string'')"

definition as_int :: "json option \<Rightarrow> string + int" where
  "as_int v = (case v of None \<Rightarrow> Inr 0
     | Some (JNum q) \<Rightarrow> if of_int \<lfloor>q\<rfloor> = q \<and> - (2 ^ 63) \<le> q \<and> q < 2 ^ 63 then Inr \<lfloor>q\<rfloor>
         else Inl ''json: cannot unmarshal number into Go struct field of type int''
     | Some _ \<Rightarrow> Inl ''json: cannot unmarshal into Go struct field of type int'')"

fun string_pairs :: "(string \<times> json) list \<Rightarrow> string + (string \<times> string) list" where
  "string_pairs [] = Inr []"
| "string_pairs ((k, v) # kvs) = (case string_pairs kvs of Inl e \<Rightarrow> Inl e
     | Inr ps \<Rightarrow> (case v of JStr s \<Rightarrow> Inr ((k, s) # ps) | JNull \<Rightarrow> Inr ((k, []) # ps)
         | _ \<Rightarrow> Inl ''json: cannot unmarshal into Go value of type string''))"

definition as_string_map :: "json option \<Rightarrow> string + (string \<times> string) list" where
  "as_string_map v = (case v of None \<Rightarrow> Inr [] | Some (JObj kvs) \<Rightarrow> string_pairs kvs
     | Some _ \<Rightarrow> Inl ''json: cannot unmarshal into Go struct field of type map[string]string'')"

definition decode_TaskAssignment :: "(string \<times> json) list \<Rightarrow> string + TaskAssignment" where
  "decode_TaskAssignment kvs =
     (let s = (\<lambda>k. as_string (json_field k kvs)) in
      case (s ''task_id'', s ''title'', s ''description'', s ''task_type'', s ''ai_agent'') of
        (Inr i, Inr ti, Inr d, Inr ty, Inr ag) \<Rightarrow>
          (case (as_string_map (json_field ''options'' kvs), s ''repo_url'', s ''branch'', as_int (json_field ''timeout_sec'' kvs)) of
            (Inr opts, Inr repo, Inr br, Inr tm) \<Rightarrow>
              Inr \<lparr>ta_TaskID = i, ta_Title = ti, ta_Description = d, ta_TaskType = ty, ta_AIAgent = ag,
                ta_Options = opts, ta_RepoURL = repo, ta_Branch = br, ta_TimeoutSec = tm\<rparr>
          | _ \<Rightarrow> Inl ''json: cannot unmarshal into Go struct of type controlplane.TaskAssignment'')
      | _ \<Rightarrow> Inl ''json: cannot unmarshal into Go struct of type controlplane.TaskAssignment'')"

definition decode_HeartbeatResponse :: "json \<Rightarrow> string + TaskAssignment option" where
  "decode_HeartbeatResponse j = (case j of
     JObj kvs \<Rightarrow> (case json_field ''assigned_task'' kvs of
         None \<Rightarrow> Inr None
       | Some (JObj t) \<Rightarrow> (case decode_TaskAssignment t of Inl e \<Rightarrow> Inl e | Inr a \<Rightarrow> Inr (Some a))
       | Some _ \<Rightarrow> Inl ''json: cannot unmarshal into Go struct field of type controlplane.TaskAssignment'')
   | JNull \<Rightarrow> Inr None
   | _ \<Rightarrow> Inl ''json: cannot unmarshal into Go value of type controlplane.HeartbeatResponse'')"

definition decode_RegisterResponse :: "json \<Rightarrow> string + string" where
  "decode_RegisterResponse j = (case j of
     JObj kvs \<Rightarrow> as_string (json_field ''worker_id'' kvs)
   | JNull \<Rightarrow> Inr []
   | _ \<Rightarrow> Inl ''json: cannot unmarshal into Go value of type controlplane.RegisterResponse'')"

subsection \<open>Requests\<close>

text \<open>
  Libraries the worker calls with what the network or the user provides are parameters: the
  check of a URL by \<^verbatim>\<open>http.NewRequest\<close>, the parser of JSON text, and the parser of the HTTP date.
\<close>

record wext =
  url_error :: "string \<Rightarrow> string option"
  json_Parse :: "string \<Rightarrow> string + json"
  json_Text :: "json \<Rightarrow> string"
  http_ParseTime :: "string \<Rightarrow> string + time"

definition MaxReply :: nat where
  "MaxReply = 2 ^ 20"

text \<open>
  \<^verbatim>\<open>doJSON\<close>: \<open>zero\<close> is the zero value of the struct the reply is read into, \<open>decode\<close> reads it; for
  \<^verbatim>\<open>out == nil\<close> there is no decoder.
\<close>

definition doJSON :: "wext \<Rightarrow> Client \<Rightarrow> string \<Rightarrow> string \<Rightarrow> json \<Rightarrow> 'a \<Rightarrow> (json \<Rightarrow> string + 'a) option \<Rightarrow> 'a node_fallible" where
  "doJSON ex c meth path body zero decode =
     (let url = cl_baseURL c @ path in
      case url_error ex url of
        Some e \<Rightarrow> ret (Inl (Wrap ''create request'' (Err e)))
      | None \<Rightarrow> do {
          r \<leftarrow> Do \<lparr>hq_Method = meth, hq_URL = url,
                hq_Header = [(''Content-Type'', ''application/json''), (''Authorization'', ''Bearer '' @ cl_apiKey c)]
                  @ (if cl_workerID c \<noteq> [] then [(''X-Worker-ID'', cl_workerID c)] else []),
                hq_Body = Some body\<rparr>;
          case r of
            Inl e \<Rightarrow> ret (Inl (Wrap ''execute request'' (Err e)))
          | Inr resp \<Rightarrow> (case hp_ReadError resp of
              Some e \<Rightarrow> ret (Inl (Wrap ''read response body'' (Err e)))
            | None \<Rightarrow>
                let text = take MaxReply (hp_Body resp); status = hp_Status resp in
                if status = 401 then ret (Inl (AuthError status text))
                else if status \<ge> 500 then ret (Inl (ServerError status text))
                else if status \<ge> 400 then ret (Inl (Err (''client error '' @ Itoa status @ '': '' @ text)))
                else (case decode of
                    None \<Rightarrow> ret (Inr zero)
                  | Some dec \<Rightarrow>
                      if text = [] then ret (Inr zero)
                      else (case json_Parse ex text of
                          Inl e \<Rightarrow> ret (Inl (Wrap ''unmarshal response'' (Err e)))
                        | Inr j \<Rightarrow> (case dec j of
                            Inl e \<Rightarrow> ret (Inl (Wrap ''unmarshal response'' (Err e)))
                          | Inr x \<Rightarrow> ret (Inr x)))))
        })"

definition wrap :: "string \<Rightarrow> 'a node_fallible \<Rightarrow> 'a node_fallible" where
  "wrap what m = do { r \<leftarrow> m; ret (case r of Inl e \<Rightarrow> Inl (Wrap what e) | Inr x \<Rightarrow> Inr x) }"

definition Client_Register :: "wext \<Rightarrow> Client \<Rightarrow> RegisterRequest \<Rightarrow> string node_fallible" where
  "Client_Register ex c req =
     wrap ''register'' (doJSON ex c ''POST'' ''/api/v1/workers/register'' (marshal_RegisterRequest req)
       [] (Some decode_RegisterResponse))"

definition Client_Heartbeat :: "wext \<Rightarrow> Client \<Rightarrow> HeartbeatRequest \<Rightarrow> TaskAssignment option node_fallible" where
  "Client_Heartbeat ex c req =
     wrap ''heartbeat'' (doJSON ex c ''POST'' (''/api/v1/workers/'' @ cl_workerID c @ ''/heartbeat'')
       (marshal_HeartbeatRequest req) None (Some decode_HeartbeatResponse))"

definition Client_UpdateTaskStatus :: "wext \<Rightarrow> Client \<Rightarrow> string \<Rightarrow> TaskStatusRequest \<Rightarrow> unit node_fallible" where
  "Client_UpdateTaskStatus ex c taskID req =
     wrap ''update task status'' (doJSON ex c ''PATCH'' (''/api/v1/tasks/'' @ taskID @ ''/status'')
       (marshal_TaskStatusRequest req) () None)"

definition MaxErrorText :: nat where
  "MaxErrorText = 4096"

text \<open>A failed read of an error body leaves what was read so far; the script gives that as the body.\<close>

definition Client_SubmitOutput :: "wext \<Rightarrow> Client \<Rightarrow> OutputSubmission \<Rightarrow> unit node_fallible" where
  "Client_SubmitOutput ex c out =
     (let url = cl_baseURL c @ ''/api/v1/outputs'' in
      case url_error ex url of
        Some e \<Rightarrow> ret (Inl (Wrap ''create request'' (Err e)))
      | None \<Rightarrow> do {
          r \<leftarrow> Do \<lparr>hq_Method = ''POST'', hq_URL = url,
                hq_Header = [(''Content-Type'', ''application/json''), (''Authorization'', ''Bearer '' @ cl_apiKey c),
                    (''X-Worker-ID'', cl_workerID c)]
                  @ (if os_XHMACHeader out \<noteq> [] then [(''X-HMAC-SHA256'', os_XHMACHeader out)] else []),
                hq_Body = Some (marshal_OutputSubmission out)\<rparr>;
          case r of
            Inl e \<Rightarrow> ret (Inl (Wrap ''submit output request'' (Err e)))
          | Inr resp \<Rightarrow>
              if hp_Status resp = 202 \<or> hp_Status resp = 200 then ret (Inr ())
              else ret (Inl (Err (''submit output: status '' @ Itoa (hp_Status resp) @ '': ''
                @ take MaxErrorText (hp_Body resp))))
        })"

definition ValidateAPIKey :: "wext \<Rightarrow> Client \<Rightarrow> unit node_fallible" where
  "ValidateAPIKey ex c =
     (let url = cl_baseURL c @ ''/api/v1/workers'' in
      case url_error ex url of
        Some e \<Rightarrow> ret (Inl (Wrap ''create validate request'' (Err e)))
      | None \<Rightarrow> do {
          r \<leftarrow> Do \<lparr>hq_Method = ''GET'', hq_URL = url, hq_Header = [(''Authorization'', ''Bearer '' @ cl_apiKey c)],
                hq_Body = None\<rparr>;
          case r of
            Inl e \<Rightarrow> ret (Inl (Wrap ''validate API key request'' (Err e)))
          | Inr resp \<Rightarrow>
              if hp_Status resp = 401 then ret (Inl (Err ''API key is invalid or expired''))
              else if hp_Status resp \<ge> 500
              then ret (Inl (Err (''server error during validation: status '' @ Itoa (hp_Status resp) @ '': ''
                @ take MaxErrorText (hp_Body resp))))
              else ret (Inr ())
        })"

definition ServerTime :: "wext \<Rightarrow> Client \<Rightarrow> time node_fallible" where
  "ServerTime ex c =
     (let url = cl_baseURL c @ ''/healthz'' in
      case url_error ex url of
        Some e \<Rightarrow> ret (Inl (Wrap ''create time request'' (Err e)))
      | None \<Rightarrow> do {
          r \<leftarrow> Do \<lparr>hq_Method = ''HEAD'', hq_URL = url, hq_Header = [], hq_Body = None\<rparr>;
          case r of
            Inl e \<Rightarrow> ret (Inl (Wrap ''time request'' (Err e)))
          | Inr resp \<Rightarrow>
              let date = hp_Header resp ''Date'' in
              if date = [] then do { now \<leftarrow> node_Now; ret (Inr now) }
              else (case http_ParseTime ex date of
                  Inl e \<Rightarrow> ret (Inl (Wrap ''parse server Date header'' (Err e)))
                | Inr t \<Rightarrow> ret (Inr t))
        })"

subsection \<open>What the client sends\<close>

context event_safety begin

lemma keeps_wrap: "keeps m \<Longrightarrow> keeps (wrap what m)"
  unfolding wrap_def by (intro keeps_intros)

lemma keeps_doJSON:
  "(\<And>h. P (Sent \<lparr>hq_Method = meth, hq_URL = cl_baseURL c @ path, hq_Header = h, hq_Body = Some body\<rparr>)) \<Longrightarrow>
     keeps (doJSON ex c meth path body zero decode)"
  unfolding doJSON_def Let_def by (intro keeps_intros keeps_Do) auto

lemma keeps_SubmitOutput:
  "(\<And>h. P (Sent \<lparr>hq_Method = ''POST'', hq_URL = cl_baseURL c @ ''/api/v1/outputs'', hq_Header = h,
       hq_Body = Some (marshal_OutputSubmission out)\<rparr>)) \<Longrightarrow> keeps (Client_SubmitOutput ex c out)"
  unfolding Client_SubmitOutput_def Let_def by (intro keeps_intros keeps_Do) auto

lemma keeps_UpdateTaskStatus:
  "(\<And>h. P (Sent \<lparr>hq_Method = ''PATCH'', hq_URL = cl_baseURL c @ ''/api/v1/tasks/'' @ taskID @ ''/status'', hq_Header = h,
       hq_Body = Some (marshal_TaskStatusRequest req)\<rparr>)) \<Longrightarrow> keeps (Client_UpdateTaskStatus ex c taskID req)"
  unfolding Client_UpdateTaskStatus_def by (intro keeps_wrap keeps_doJSON) auto

end

text \<open>An output submission never fails with the error type the reporter retries on.\<close>

lemma SubmitOutput_no_ServerError:
  "run_state (Client_SubmitOutput ex c out) n = (Inl e, n') \<Longrightarrow> \<not> is_ServerError e"
  by (auto simp: Client_SubmitOutput_def run_Do Let_def split: option.splits sum.splits if_splits)

end
