(* ===== verification/Worker_Reporter.thy ===== *)
theory Worker_Reporter
  imports Worker_Workspace Worker_Client Crypto
begin

section \<open>Packing and submitting the output\<close>

text \<open>
  \<^verbatim>\<open>grid-worker/internal/reporter\<close>: the artifacts with their checksums and the signature
  (\<^verbatim>\<open>packer.go\<close>) and the submission with its retries (\<^verbatim>\<open>reporter.go\<close>). Files are regular files or
  directories; links are not modelled.
\<close>

definition maxInlineSize :: int where
  "maxInlineSize = 2 ^ 20"

record ArtifactEntry =
  ae_RelPath :: string
  ae_Size :: int
  ae_SHA256 :: string
  ae_Content :: string

record WOutputPackage =
  wp_TaskID :: string
  wp_WorkerID :: string
  wp_Artifacts :: "ArtifactEntry list"
  wp_Metadata :: "(string \<times> json) list"
  wp_HMACSha256 :: string

subsection \<open>Packing\<close>

text \<open>The test that keeps an artifact inside the workspace.\<close>

definition artifact_allowed :: "string \<Rightarrow> string \<Rightarrow> bool" where
  "artifact_allowed workspacePath relPath =
     (let cleanWorkspace = Clean workspacePath; cleanAbs = Clean (JoinPath [workspacePath, relPath]) in
      \<not> (length cleanAbs \<le> length cleanWorkspace
         \<or> take (length cleanWorkspace + 1) cleanAbs \<noteq> cleanWorkspace @ [Separator])
      \<or> cleanAbs = cleanWorkspace)"

text \<open>\<^verbatim>\<open>packFile\<close>: open, stat, hash, and for a small file read it again.\<close>

definition io_step :: "string \<Rightarrow> 'a node_fallible \<Rightarrow> 'a node_fallible" where
  "io_step what k = do {
     e \<leftarrow> oserr;
     case e of Some m \<Rightarrow> ret (Inl (Wrap what (Err m))) | None \<Rightarrow> k
   }"

definition packFile :: "string \<Rightarrow> string \<Rightarrow> ArtifactEntry node_fallible" where
  "packFile absPath relPath =
     io_step (''open '' @ Quote absPath) (do {
       f \<leftarrow> gets (\<lambda>n. n_fs n absPath);
       case f of
         None \<Rightarrow> ret (Inl (Wrap (''open '' @ Quote absPath) (Err ''no such file or directory'')))
       | Some ent \<Rightarrow>
           io_step (''stat '' @ Quote absPath) (
           io_step (''hash '' @ Quote absPath) (case ent of
               Dir \<Rightarrow> ret (Inl (Wrap (''hash '' @ Quote absPath) (Err ''is a directory'')))
             | File s \<Rightarrow>
                 let entry = \<lparr>ae_RelPath = relPath, ae_Size = int (length s),
                       ae_SHA256 = hex_encode (sha256 (bytes_of s)), ae_Content = []\<rparr> in
                 if int (length s) < maxInlineSize
                 then io_step (''seek '' @ Quote absPath) (io_step (''read '' @ Quote absPath)
                   (ret (Inr (entry\<lparr>ae_Content := s\<rparr>))))
                 else ret (Inr entry)))
     })"

primrec pack_artifacts :: "string \<Rightarrow> string list \<Rightarrow> ArtifactEntry list node_fallible" where
  "pack_artifacts workspacePath [] = ret (Inr [])"
| "pack_artifacts workspacePath (relPath # rels) =
     (if \<not> artifact_allowed workspacePath relPath
      then ret (Inl (Err (''artifact path '' @ Quote relPath @ '' escapes workspace'')))
      else do {
        entry \<leftarrow> packFile (JoinPath [workspacePath, relPath]) relPath;
        case entry of
          Inl e \<Rightarrow> ret (Inl (Wrap (''pack artifact '' @ Quote relPath) e))
        | Inr a \<Rightarrow> do {
            rest \<leftarrow> pack_artifacts workspacePath rels;
            ret (case rest of Inl e \<Rightarrow> Inl e | Inr as \<Rightarrow> Inr (a # as))
          }
      })"

text \<open>The signed text: base64 for a content, null for a list with no element appended.\<close>

definition base64_Std :: "byte list \<Rightarrow> string" where
  "base64_Std b = map (\<lambda>c. if c = CHR ''-'' then CHR ''+'' else if c = CHR ''_'' then CHR ''/'' else c) (b64_encode b)
     @ replicate ((3 - length b mod 3) mod 3) CHR ''=''"

definition marshal_ArtifactEntry :: "ArtifactEntry \<Rightarrow> json" where
  "marshal_ArtifactEntry a = JObj ([(''rel_path'', JStr (ae_RelPath a)), (''size'', JInt (ae_Size a)),
     (''sha256'', JStr (ae_SHA256 a))]
     @ unless_empty (ae_Content a = []) ''content'' (JStr (base64_Std (bytes_of (ae_Content a)))))"

definition signing_payload :: "WOutputPackage \<Rightarrow> json" where
  "signing_payload p = JObj ([(''task_id'', JStr (wp_TaskID p)), (''worker_id'', JStr (wp_WorkerID p)),
     (''artifacts'', if wp_Artifacts p = [] then JNull else JArr (map marshal_ArtifactEntry (wp_Artifacts p)))]
     @ unless_empty (wp_Metadata p = []) ''metadata'' (JObj (sort_key fst (wp_Metadata p))))"

definition signPackage :: "wext \<Rightarrow> WOutputPackage \<Rightarrow> string \<Rightarrow> string" where
  "signPackage ex p secret = hex_encode (hmac_sha256 (bytes_of secret) (bytes_of (json_Text ex (signing_payload p))))"

definition Pack :: "wext \<Rightarrow> string \<Rightarrow> string \<Rightarrow> string \<Rightarrow> string \<Rightarrow> string list \<Rightarrow> WOutputPackage node_fallible" where
  "Pack ex taskID workerID workspacePath hmacSecret artifacts = do {
     r \<leftarrow> pack_artifacts workspacePath artifacts;
     ret (case r of Inl e \<Rightarrow> Inl e
       | Inr as \<Rightarrow>
           let pkg = \<lparr>wp_TaskID = taskID, wp_WorkerID = workerID, wp_Artifacts = as, wp_Metadata = [],
                 wp_HMACSha256 = []\<rparr>
           in Inr (pkg\<lparr>wp_HMACSha256 := signPackage ex pkg hmacSecret\<rparr>))
   }"

subsection \<open>Submitting\<close>

definition submission :: "WOutputPackage \<Rightarrow> OutputSubmission" where
  "submission pkg = \<lparr>os_TaskID = wp_TaskID pkg, os_HMACSha256 = wp_HMACSha256 pkg,
     os_Artifacts = map (\<lambda>a. \<lparr>am_RelPath = ae_RelPath a, am_SHA256 = ae_SHA256 a, am_Size = ae_Size a\<rparr>) (wp_Artifacts pkg),
     os_Metadata = wp_Metadata pkg, os_XHMACHeader = wp_HMACSha256 pkg\<rparr>"

definition maxRetries :: nat where
  "maxRetries = 3"

primrec submit_attempts :: "wext \<Rightarrow> Client \<Rightarrow> OutputSubmission \<Rightarrow> nat \<Rightarrow> werror \<Rightarrow> unit node_fallible" where
  "submit_attempts ex c sub 0 lastErr =
     ret (Inl (Wrap (''submit output after '' @ Itoa (int maxRetries) @ '' retries'') lastErr))"
| "submit_attempts ex c sub (Suc k) lastErr = do {
     r \<leftarrow> Client_SubmitOutput ex c sub;
     case r of
       Inr _ \<Rightarrow> ret (Inr ())
     | Inl err \<Rightarrow>
         if \<not> is_ServerError err then ret (Inl (Wrap ''submit output (permanent)'' err))
         else if k > 0 then do {
           stop \<leftarrow> cancelled;
           if stop then ret (Inl (Wrap ''context cancelled during retry'' (Err ''context canceled'')))
           else submit_attempts ex c sub k err
         }
         else submit_attempts ex c sub k err
   }"

definition Reporter_Submit :: "wext \<Rightarrow> Client \<Rightarrow> WOutputPackage \<Rightarrow> unit node_fallible" where
  "Reporter_Submit ex c pkg = submit_attempts ex c (submission pkg) maxRetries (Err [])"

subsection \<open>What is packed\<close>

lemma artifact_allowed_below:
  assumes ws: "IsAbs workspacePath" and ok: "artifact_allowed workspacePath relPath"
  shows "\<exists>rest. elems_of (JoinPath [workspacePath, relPath]) = elems_of workspacePath @ rest \<and> list_all plain rest"
proof -
  have ne: "workspacePath \<noteq> []" using ws by (auto simp: IsAbs_def HasPrefix_def)
  let ?f = "workspacePath @ ''/'' @ relPath"
  have f: "IsAbs ?f" using ws by (cases workspacePath) (simp_all add: IsAbs_def HasPrefix_def)
  have join: "JoinPath [workspacePath, relPath] = Clean ?f" by (rule JoinPath_two [OF ne])
  have el: "elems_of (JoinPath [workspacePath, relPath]) = elems_of ?f"
    unfolding join by (rule elems_of_Clean [OF f])
  have cl: "Clean (JoinPath [workspacePath, relPath]) = Clean ?f"
    unfolding join by (rule Clean_Clean [OF f])
  consider "Clean ?f = Clean workspacePath" | "HasPrefix (Clean ?f) (Clean workspacePath @ ''/'')"
    using ok by (auto simp: artifact_allowed_def Let_def cl HasPrefix_def Separator_def)
  then show ?thesis
  proof cases
    case 1
    then have "elems_of ?f = elems_of workspacePath" using elems_of_Clean [OF f] elems_of_Clean [OF ws] by simp
    with el show ?thesis by simp
  next
    case 2
    from Clean_below [OF ws f this] el show ?thesis by (auto simp: list_all_iff)
  qed
qed

text \<open>Each artifact is an allowed path with the checksum of the file that is there.\<close>

definition packed_ok :: "node \<Rightarrow> string \<Rightarrow> string \<Rightarrow> ArtifactEntry \<Rightarrow> bool" where
  "packed_ok n ws rel a \<longleftrightarrow> artifact_allowed ws rel \<and> ae_RelPath a = rel \<and>
     (\<exists>s. n_fs n (JoinPath [ws, rel]) = Some (File s) \<and> ae_Size a = int (length s)
        \<and> ae_SHA256 a = hex_encode (sha256 (bytes_of s))
        \<and> ae_Content a = (if int (length s) < maxInlineSize then s else []))"

lemma io_step_Inr: "result (io_step what k) n = Inr x \<Longrightarrow> \<exists>n'. result k n' = Inr x \<and> n_fs n' = n_fs n"
  by (cases "next_of None (n_oserrs n)") (auto simp: io_step_def run_oserr intro!: exI)

lemma fs_io_step: "(\<And>n. n_fs (exec k n) = n_fs n) \<Longrightarrow> n_fs (exec (io_step what k) n) = n_fs n"
  by (cases "next_of None (n_oserrs n)") (auto simp: io_step_def run_oserr)

lemma fs_packFile: "n_fs (exec (packFile p rel) n) = n_fs n"
  unfolding packFile_def
  by (intro fs_io_step) (auto simp: Let_def intro!: fs_io_step split: option.splits entry.splits)

lemma packFile_Inr:
  assumes "result (packFile p rel) n = Inr a"
  shows "\<exists>s. n_fs n p = Some (File s) \<and> a = \<lparr>ae_RelPath = rel, ae_Size = int (length s),
      ae_SHA256 = hex_encode (sha256 (bytes_of s)), ae_Content = (if int (length s) < maxInlineSize then s else [])\<rparr>"
  using assms unfolding packFile_def
  by (auto dest!: io_step_Inr split: option.splits entry.splits if_splits simp: Let_def) blast+

lemma pack_artifacts_Inr:
  assumes "result (pack_artifacts ws rels) n = Inr as"
  shows "list_all2 (packed_ok n ws) rels as"
  using assms
proof (induction rels arbitrary: n as)
  case (Cons rel rels)
  let ?p = "packFile (JoinPath [ws, rel]) rel"
  obtain r n' where r: "run_state ?p n = (r, n')" by fastforce
  from Cons.prems r obtain a where a: "r = Inr a" and ok: "artifact_allowed ws rel"
    by (auto split: if_splits sum.splits)
  with Cons.prems r obtain as' where as: "as = a # as'" and rest: "result (pack_artifacts ws rels) n' = Inr as'"
    by (auto split: sum.splits prod.splits)
  have fs: "n_fs n' = n_fs n" using fs_packFile [of "JoinPath [ws, rel]" rel n] r by simp
  have "packed_ok n ws rel a"
    using packFile_Inr [of "JoinPath [ws, rel]" rel n a] r a ok by (auto simp: packed_ok_def)
  moreover have "packed_ok n' ws = packed_ok n ws" by (intro ext) (simp add: packed_ok_def fs)
  ultimately show ?case using Cons.IH [OF rest] as by simp
qed simp

subsection \<open>What is submitted\<close>

text \<open>The client's errors never have the type the reporter retries on: one request is all it sends.\<close>

lemma Submit_once:
  "run_state (Reporter_Submit ex c pkg) n =
     (case run_state (Client_SubmitOutput ex c (submission pkg)) n of
        (Inr u, n') \<Rightarrow> (Inr (), n')
      | (Inl e, n') \<Rightarrow> (Inl (Wrap ''submit output (permanent)'' e), n'))"
proof -
  obtain r n' where r: "run_state (Client_SubmitOutput ex c (submission pkg)) n = (r, n')" by fastforce
  then show ?thesis
    using SubmitOutput_no_ServerError [of ex c "submission pkg" n _ n']
    by (cases r) (auto simp: Reporter_Submit_def maxRetries_def eval_nat_numeral)
qed

context event_safety begin

lemma keeps_packFile: "keeps (packFile p rel)"
  unfolding packFile_def io_step_def
  by (intro keeps_intros node_keeps; (simp only: Let_def split: entry.split)?)
    (auto intro!: keeps_intros node_keeps split: entry.splits)

end

end
