(* ===== verification/Worker_Adapters.thy ===== *)
theory Worker_Adapters
  imports Worker_Client
begin

section \<open>Agent adapters\<close>

text \<open>
  \<^verbatim>\<open>grid-worker/internal/adapters\<close>: the registry and the five adapters that run an agent's command
  line program. A Go map that is ranged over is a list of pairs, in the order of that range.
\<close>

record ExecuteRequest =
  er_WorkspacePath :: string
  er_TaskType :: string
  er_Description :: string
  er_Options :: "(string \<times> string) list"

record ExecuteResult =
  ex_ExitCode :: int
  ex_Stdout :: string
  ex_Stderr :: string
  ex_Artifacts :: "string list"

record AgentAdapter =
  ad_ID :: string
  ad_Version :: "string node_fallible"
  ad_Execute :: "ExecuteRequest \<Rightarrow> ExecuteResult node_fallible"

subsection \<open>The registry\<close>

type_synonym Registry = "(string \<times> AgentAdapter) list"

definition NewRegistry :: Registry where
  "NewRegistry = []"

definition Registry_Register :: "AgentAdapter \<Rightarrow> Registry \<Rightarrow> Registry" where
  "Registry_Register a r = filter (\<lambda>(i, _). i \<noteq> ad_ID a) r @ [(ad_ID a, a)]"

definition Registry_Get :: "string \<Rightarrow> Registry \<Rightarrow> AgentAdapter option" where
  "Registry_Get i r = map_of r i"

definition Registry_List :: "Registry \<Rightarrow> string list" where
  "Registry_List r = sort (map fst r)"

lemma Registry_Get_Register:
  "Registry_Get i (Registry_Register a r) = (if i = ad_ID a then Some a else Registry_Get i r)"
proof -
  have "map_of (filter (\<lambda>(k, _). k \<noteq> ad_ID a) r) i = (if i = ad_ID a then None else map_of r i)"
    by (induction r) auto
  then show ?thesis by (auto simp: Registry_Get_def Registry_Register_def map_add_def split: option.splits)
qed

lemma distinct_Registry_Register: "distinct (map fst r) \<Longrightarrow> distinct (map fst (Registry_Register a r))"
  by (auto simp: Registry_Register_def distinct_map_filter)

subsection \<open>Environments\<close>

text \<open>The variables with a value, in the order of the keys.\<close>

definition env_of :: "string list \<Rightarrow> (string \<Rightarrow> string) \<Rightarrow> string list" where
  "env_of keys env = concat (map (\<lambda>k. if env k \<noteq> [] then [k @ ''='' @ env k] else []) keys)"

definition base_env_keys :: "string list" where
  "base_env_keys = [''PATH'', ''HOME'', ''TMPDIR'', ''TMP'', ''TEMP'', ''USERPROFILE'']"

definition minimalEnv_custom :: "(string \<Rightarrow> string) \<Rightarrow> string list" where
  "minimalEnv_custom env = env_of base_env_keys env"

definition minimalEnv_chatgpt :: "(string \<Rightarrow> string) \<Rightarrow> string list" where
  "minimalEnv_chatgpt env = env_of (base_env_keys @ [''OPENAI_API_KEY'']) env"

definition minimalEnv_copilot :: "(string \<Rightarrow> string) \<Rightarrow> string list" where
  "minimalEnv_copilot env = env_of (base_env_keys @ [''GH_TOKEN'']) env"

definition minimalEnv_gemini :: "(string \<Rightarrow> string) \<Rightarrow> string list" where
  "minimalEnv_gemini env = env_of (base_env_keys @ [''GEMINI_API_KEY'']) env"

definition minimalEnv_claude :: "(string \<Rightarrow> string) \<Rightarrow> string list" where
  "minimalEnv_claude env =
     env_of [''PATH''] env @ env_of [''HOME''] env
     @ (if env ''TMPDIR'' \<noteq> [] then [''TMPDIR='' @ env ''TMPDIR'']
        else if env ''TMP'' \<noteq> [] then [''TMP='' @ env ''TMP'']
        else if env ''TEMP'' \<noteq> [] then [''TEMP='' @ env ''TEMP'']
        else [])
     @ env_of [''USERPROFILE''] env"

subsection \<open>Running a program\<close>

text \<open>
  What the adapters share: look the binary up, run it in the workspace with an explicit argument
  list, and keep a non-zero exit code as part of the result.
\<close>

definition run_cli :: "string \<Rightarrow> string \<Rightarrow> string list \<Rightarrow> ((string \<Rightarrow> string) \<Rightarrow> string list) \<Rightarrow> string
    \<Rightarrow> (int \<times> string \<times> string) node_fallible" where
  "run_cli what bin argv menv dir = do {
     path \<leftarrow> LookPath bin;
     case path of
       None \<Rightarrow> ret (Inl (Wrap (bin @ '' binary not found on PATH'') (Err ''executable file not found in $PATH'')))
     | Some p \<Rightarrow> do {
         env \<leftarrow> gets n_env;
         r \<leftarrow> Run \<lparr>cmd_Path = p, cmd_Args = argv, cmd_Dir = dir, cmd_Env = menv env\<rparr>;
         ret (case r of Inl e \<Rightarrow> Inl (Wrap (''execute '' @ what) (Err e)) | Inr x \<Rightarrow> Inr x)
       }
   }"

definition plain_result :: "(int \<times> string \<times> string) node_fallible \<Rightarrow> ExecuteResult node_fallible" where
  "plain_result m = do {
     r \<leftarrow> m;
     ret (case r of Inl e \<Rightarrow> Inl e
       | Inr (code, out, err) \<Rightarrow> Inr \<lparr>ex_ExitCode = code, ex_Stdout = out, ex_Stderr = err, ex_Artifacts = []\<rparr>)
   }"

text \<open>\<^verbatim>\<open>cmd.Output\<close>: a non-zero exit is an error.\<close>

definition cli_version :: "string \<Rightarrow> ((string \<Rightarrow> string) \<Rightarrow> string list) \<Rightarrow> string node_fallible" where
  "cli_version bin menv = do {
     r \<leftarrow> run_cli bin bin [''--version''] menv [];
     ret (case r of
       Inl e \<Rightarrow> Inl e
     | Inr (code, out, err) \<Rightarrow>
         if code \<noteq> 0 then Inl (Wrap (bin @ '' --version failed'') (Err (''exit status '' @ Itoa code)))
         else Inr (TrimSpace out))
   }"

subsection \<open>The adapters\<close>

definition claude_allowedOptions :: "string list" where
  "claude_allowedOptions = [''model'', ''max-tokens'']"

definition claude_argv :: "ExecuteRequest \<Rightarrow> string list" where
  "claude_argv req = [''--no-interactive'', ''--output-format'', ''json'', ''-p'', er_Description req]
     @ concat (map (\<lambda>(k, v). if k \<in> set claude_allowedOptions then [''--'' @ k, v] else []) (er_Options req))"

text \<open>The artifacts of the program's JSON output, when it can be read into the struct.\<close>

fun as_strings :: "json list \<Rightarrow> string + string list" where
  "as_strings [] = Inr []"
| "as_strings (j # js) = (case (case j of JStr s \<Rightarrow> Inr s | JNull \<Rightarrow> Inr []
       | _ \<Rightarrow> Inl ''json: cannot unmarshal into Go value of type string'') of
     Inl e \<Rightarrow> Inl e
   | Inr s \<Rightarrow> (case as_strings js of Inl e \<Rightarrow> Inl e | Inr ss \<Rightarrow> Inr (s # ss)))"

definition decode_claudeOutput :: "json \<Rightarrow> string + string list" where
  "decode_claudeOutput j = (case j of
     JObj kvs \<Rightarrow> (case (as_string (json_field ''result'' kvs), as_string (json_field ''error'' kvs)) of
         (Inr _, Inr _) \<Rightarrow> (case json_field ''artifacts'' kvs of
             None \<Rightarrow> Inr []
           | Some (JArr js) \<Rightarrow> as_strings js
           | Some _ \<Rightarrow> Inl ''json: cannot unmarshal into Go struct field claudeOutput.artifacts'')
       | _ \<Rightarrow> Inl ''json: cannot unmarshal into Go struct of type claude.claudeOutput'')
   | JNull \<Rightarrow> Inr []
   | _ \<Rightarrow> Inl ''json: cannot unmarshal into Go value of type claude.claudeOutput'')"

definition claude_Execute :: "wext \<Rightarrow> ExecuteRequest \<Rightarrow> ExecuteResult node_fallible" where
  "claude_Execute ex req = do {
     r \<leftarrow> run_cli ''claude'' ''claude'' (claude_argv req) minimalEnv_claude (er_WorkspacePath req);
     ret (case r of
       Inl e \<Rightarrow> Inl e
     | Inr (code, out, err) \<Rightarrow>
         let arts = (if code = 0 \<and> out \<noteq> [] then
               (case json_Parse ex out of Inl _ \<Rightarrow> []
                | Inr j \<Rightarrow> (case decode_claudeOutput j of Inl _ \<Rightarrow> [] | Inr as \<Rightarrow> as)) else [])
         in Inr \<lparr>ex_ExitCode = code, ex_Stdout = out, ex_Stderr = err, ex_Artifacts = arts\<rparr>)
   }"

definition claude_adapter :: "wext \<Rightarrow> AgentAdapter" where
  "claude_adapter ex = \<lparr>ad_ID = ''claude'', ad_Version = cli_version ''claude'' minimalEnv_claude,
     ad_Execute = claude_Execute ex\<rparr>"

definition copilot_argv :: "ExecuteRequest \<Rightarrow> string list" where
  "copilot_argv req = [''copilot'', ''suggest'', ''-t'', ''shell'', er_Description req]"

definition copilot_Execute :: "ExecuteRequest \<Rightarrow> ExecuteResult node_fallible" where
  "copilot_Execute req =
     plain_result (run_cli ''gh copilot'' ''gh'' (copilot_argv req) minimalEnv_copilot (er_WorkspacePath req))"

definition copilot_adapter :: AgentAdapter where
  "copilot_adapter = \<lparr>ad_ID = ''copilot'', ad_Version = cli_version ''gh'' minimalEnv_copilot,
     ad_Execute = copilot_Execute\<rparr>"

definition gemini_defaultModel :: string where
  "gemini_defaultModel = ''gemini-2.5-pro''"

definition gemini_argv :: "ExecuteRequest \<Rightarrow> string list" where
  "gemini_argv req =
     (let model = (case map_of (er_Options req) ''model'' of None \<Rightarrow> gemini_defaultModel | Some m \<Rightarrow> m)
      in [''--model'', model, ''--prompt'', er_Description req])"

definition gemini_Execute :: "ExecuteRequest \<Rightarrow> ExecuteResult node_fallible" where
  "gemini_Execute req =
     plain_result (run_cli ''gemini'' ''gemini'' (gemini_argv req) minimalEnv_gemini (er_WorkspacePath req))"

definition gemini_adapter :: AgentAdapter where
  "gemini_adapter = \<lparr>ad_ID = ''gemini'', ad_Version = cli_version ''gemini'' minimalEnv_gemini,
     ad_Execute = gemini_Execute\<rparr>"

definition chatgpt_argv :: "ExecuteRequest \<Rightarrow> string list" where
  "chatgpt_argv req = [''--code'', er_Description req]"

definition chatgpt_Execute :: "ExecuteRequest \<Rightarrow> ExecuteResult node_fallible" where
  "chatgpt_Execute req =
     plain_result (run_cli ''sgpt'' ''sgpt'' (chatgpt_argv req) minimalEnv_chatgpt (er_WorkspacePath req))"

definition chatgpt_adapter :: AgentAdapter where
  "chatgpt_adapter = \<lparr>ad_ID = ''chatgpt'', ad_Version = cli_version ''sgpt'' minimalEnv_chatgpt,
     ad_Execute = chatgpt_Execute\<rparr>"

text \<open>
  The custom adapter renders a command line from a template (the template package is a parameter:
  the rendered text or an error) and splits it at white space.
\<close>

definition custom_Execute :: "(string \<Rightarrow> string \<Rightarrow> (string \<times> string) list \<Rightarrow> string + string) \<Rightarrow> string list
    \<Rightarrow> ExecuteRequest \<Rightarrow> ExecuteResult node_fallible" where
  "custom_Execute tmpl allowed req =
     (let filtered = filter (\<lambda>(k, _). k \<in> set allowed) (er_Options req) in
      case tmpl (er_Description req) (er_WorkspacePath req) filtered of
        Inl e \<Rightarrow> ret (Inl (Wrap ''render command template'' (Err e)))
      | Inr rendered \<Rightarrow> (case Fields rendered of
          [] \<Rightarrow> ret (Inl (Err ''command template rendered to empty string''))
        | bin # args \<Rightarrow> do {
            path \<leftarrow> LookPath bin;
            case path of
              None \<Rightarrow> ret (Inl (Wrap (''custom binary '' @ Quote bin @ '' not found on PATH'')
                (Err ''executable file not found in $PATH'')))
            | Some p \<Rightarrow> do {
                env \<leftarrow> gets n_env;
                r \<leftarrow> Run \<lparr>cmd_Path = p, cmd_Args = args, cmd_Dir = er_WorkspacePath req, cmd_Env = minimalEnv_custom env\<rparr>;
                ret (case r of
                  Inl e \<Rightarrow> Inl (Wrap ''execute custom command'' (Err e))
                | Inr (code, out, err) \<Rightarrow>
                    Inr \<lparr>ex_ExitCode = code, ex_Stdout = out, ex_Stderr = err, ex_Artifacts = []\<rparr>)
              }
          }))"

definition custom_adapter :: "(string \<Rightarrow> string \<Rightarrow> (string \<times> string) list \<Rightarrow> string + string) \<Rightarrow> string list \<Rightarrow> AgentAdapter" where
  "custom_adapter tmpl allowed = \<lparr>ad_ID = ''custom'', ad_Version = ret (Inr ''custom-adapter-v1''),
     ad_Execute = custom_Execute tmpl allowed\<rparr>"

text \<open>The registry the daemon builds: the custom adapter is not part of it.\<close>

definition daemon_registry :: "wext \<Rightarrow> Registry" where
  "daemon_registry ex =
     fold Registry_Register [claude_adapter ex, copilot_adapter, gemini_adapter, chatgpt_adapter] NewRegistry"

subsection \<open>What the agents are given\<close>

lemma set_env_of: "e \<in> set (env_of keys env) \<longleftrightarrow> (\<exists>k \<in> set keys. env k \<noteq> [] \<and> e = k @ ''='' @ env k)"
  by (auto simp: env_of_def split: if_splits)

definition agent_env_keys :: "string list" where
  "agent_env_keys = base_env_keys @ [''OPENAI_API_KEY'', ''GH_TOKEN'', ''GEMINI_API_KEY'']"

definition env_restricted :: "(string \<Rightarrow> string) \<Rightarrow> string list \<Rightarrow> bool" where
  "env_restricted env es \<longleftrightarrow> (\<forall>e \<in> set es. \<exists>k \<in> set agent_env_keys. e = k @ ''='' @ env k)"

lemma minimalEnv_restricted:
  "env_restricted env (minimalEnv_claude env)" "env_restricted env (minimalEnv_copilot env)"
  "env_restricted env (minimalEnv_gemini env)" "env_restricted env (minimalEnv_chatgpt env)"
  "env_restricted env (minimalEnv_custom env)"
  by (auto simp: env_restricted_def minimalEnv_claude_def minimalEnv_copilot_def minimalEnv_gemini_def
      minimalEnv_chatgpt_def minimalEnv_custom_def set_env_of agent_env_keys_def base_env_keys_def)

lemma daemon_registry_adapter:
  "Registry_Get i (daemon_registry ex) = Some a \<Longrightarrow>
     a \<in> {claude_adapter ex, copilot_adapter, gemini_adapter, chatgpt_adapter} \<and> i = ad_ID a"
  by (auto simp: daemon_registry_def Registry_Get_Register NewRegistry_def split: if_splits)
    (simp_all add: Registry_Get_def)

context event_safety begin

lemma keeps_run_cli:
  "(\<And>p env. P (Spawned \<lparr>cmd_Path = p, cmd_Args = argv, cmd_Dir = dir, cmd_Env = menv env\<rparr>)) \<Longrightarrow>
     keeps (run_cli what bin argv menv dir)"
  unfolding run_cli_def by (intro keeps_intros node_keeps) auto

end

end
