(* ===== verification/Worker_Executor.thy ===== *)
theory Worker_Executor
  imports Worker_Scanner Worker_Reporter Worker_Adapters
begin

section \<open>Executing a task\<close>

text \<open>
  \<^verbatim>\<open>grid-worker/internal/executor\<close>: the life cycle of one task (\<^verbatim>\<open>executor.go\<close>) and the monitor that
  kills it above its limits (\<^verbatim>\<open>monitor.go\<close>). The monitors run beside the agent and act on it only by
  cancelling its context, which shows in the outcome of the process.
\<close>

subsection \<open>The resource monitor\<close>

text \<open>
  One reading of a limit: the counter of violations before, the reading (\<^verbatim>\<open>None\<close> when it fails), the
  counter after and whether the kill function is called.
\<close>

definition check_limit :: "bool \<Rightarrow> 'a::linorder \<Rightarrow> 'a option \<Rightarrow> nat \<Rightarrow> nat \<times> bool" where
  "check_limit enabled limit reading violations =
     (if \<not> enabled then (violations, False)
      else case reading of
        None \<Rightarrow> (violations, False)
      | Some x \<Rightarrow>
          if limit < x then (violations + 1, violations + 1 \<ge> 2) else (0, False))"

definition checkCPU :: "float64 \<Rightarrow> float64 list option \<Rightarrow> nat \<Rightarrow> nat \<times> bool" where
  "checkCPU maxCPUPercent percents violations =
     check_limit (0 < maxCPUPercent) maxCPUPercent
       (case percents of Some (p # _) \<Rightarrow> Some p | _ \<Rightarrow> None) violations"

definition checkRAM :: "int \<Rightarrow> 64 word option \<Rightarrow> nat \<Rightarrow> nat \<times> bool" where
  "checkRAM maxRAMMB used violations =
     check_limit (0 < maxRAMMB) maxRAMMB (map_option (\<lambda>u. uint u div 2 ^ 20) used) violations"

text \<open>The ticks of the monitor until it kills the task: the number of the killing tick, if any.\<close>

fun monitor_run :: "float64 \<Rightarrow> int \<Rightarrow> (float64 list option \<times> 64 word option) list \<Rightarrow> nat \<Rightarrow> nat \<Rightarrow> nat option" where
  "monitor_run maxCPU maxRAM [] cpuV ramV = None"
| "monitor_run maxCPU maxRAM ((cpu, ram) # later) cpuV ramV =
     (case (checkCPU maxCPU cpu cpuV, checkRAM maxRAM ram ramV) of
        ((cv, ckill), (rv, rkill)) \<Rightarrow>
          if ckill \<or> rkill then Some 0 else map_option Suc (monitor_run maxCPU maxRAM later cv rv))"

definition monitor_Start :: "float64 \<Rightarrow> int \<Rightarrow> (float64 list option \<times> 64 word option) list \<Rightarrow> nat option" where
  "monitor_Start maxCPU maxRAM readings = monitor_run maxCPU maxRAM readings 0 0"

subsection \<open>Helpers\<close>

definition hasCritical :: "WFinding list \<Rightarrow> bool" where
  "hasCritical fs = (\<exists>f \<in> set fs. wf_Severity f = ''critical'')"

definition format_finding :: "WFinding \<Rightarrow> string" where
  "format_finding f = wf_RuleID f @ '' ('' @ wf_Severity f @ '') at '' @ wf_FilePath f @ '':'' @ Itoa (wf_Line f)"

fun format_from :: "nat \<Rightarrow> nat \<Rightarrow> WFinding list \<Rightarrow> string" where
  "format_from n i [] = []"
| "format_from n i (f # fs) =
     (if i > 0 then ''; '' else []) @ format_finding f
     @ (if i \<ge> 4 then '' and '' @ Itoa (int n - 5) @ '' more'' else format_from n (Suc i) fs)"

definition formatFindings :: "WFinding list \<Rightarrow> string" where
  "formatFindings fs = (if fs = [] then ''none'' else format_from (length fs) 0 fs)"

definition truncate :: "string \<Rightarrow> nat \<Rightarrow> string" where
  "truncate s maxLen = (if length s \<le> maxLen then s else take maxLen s @ ''...'')"

definition api_state :: "string \<Rightarrow> string" where
  "api_state state =
     (if state \<in> set [''preparing'', ''cloning'', ''scanning_pre'', ''executing'', ''scanning_post'', ''packing'', ''reporting'']
      then ''running'' else state)"

subsection \<open>The life cycle\<close>

record Executor =
  x_registry :: Registry
  x_basePath :: string
  x_scanner :: WScanner
  x_client :: Client
  x_cfg :: Config

text \<open>The files there are, for the walks of the scanner, are a parameter of the model of the disk.\<close>

definition updateStatus :: "wext \<Rightarrow> Executor \<Rightarrow> string \<Rightarrow> string \<Rightarrow> string \<Rightarrow> unit node_effect" where
  "updateStatus ex x taskID state errMsg = do {
     _ \<leftarrow> Client_UpdateTaskStatus ex (x_client x) taskID
       \<lparr>ts_State = api_state state, ts_ErrorMessage = errMsg\<rparr>;
     ret ()
   }"

definition task_timeout :: "TaskAssignment \<Rightarrow> Config \<Rightarrow> int" where
  "task_timeout task cfg =
     (let t = (if ta_TimeoutSec task \<le> 0 then exe_TimeoutSec (cfg_Execution cfg) else ta_TimeoutSec task)
      in if t \<le> 0 then 3600 else t)"

text \<open>Report a failure and return an error.\<close>

definition fail_task :: "wext \<Rightarrow> Executor \<Rightarrow> string \<Rightarrow> string \<Rightarrow> werror \<Rightarrow> unit node_fallible" where
  "fail_task ex x taskID msg err = do { updateStatus ex x taskID ''failed'' msg; ret (Inl err) }"

definition what_of :: "string \<Rightarrow> werror \<Rightarrow> string" where
  "what_of what e = what @ '': '' @ err_text e"

text \<open>Steps 6 to 8: pack, add metadata, report, complete.\<close>

definition deliver :: "wext \<Rightarrow> Executor \<Rightarrow> TaskAssignment \<Rightarrow> string \<Rightarrow> ExecuteResult \<Rightarrow> unit node_fallible" where
  "deliver ex x task wsPath res =
     (let taskID = ta_TaskID task in do {
        updateStatus ex x taskID ''packing'' [];
        pkg \<leftarrow> Pack ex taskID (srv_WorkerID (cfg_Server (x_cfg x))) wsPath (sec_HMACSecret (cfg_Security (x_cfg x)))
          (ex_Artifacts res);
        case pkg of
          Inl e \<Rightarrow> fail_task ex x taskID (what_of ''pack output'' e) (Wrap ''pack output'' e)
        | Inr p \<Rightarrow> do {
            updateStatus ex x taskID ''reporting'' [];
            r \<leftarrow> Reporter_Submit ex (x_client x) (p\<lparr>wp_Metadata := wp_Metadata p @
              [(''exit_code'', JInt (ex_ExitCode res)), (''task_type'', JStr (ta_TaskType task)), (''agent'', JStr (ta_AIAgent task))]\<rparr>);
            case r of
              Inl e \<Rightarrow> fail_task ex x taskID (what_of ''report output'' e) (Wrap ''report output'' e)
            | Inr _ \<Rightarrow> do { updateStatus ex x taskID ''completed'' []; ret (Inr ()) }
          }
      })"

text \<open>Step 5: the scan of the output, when there is some.\<close>

definition scan_output :: "wext \<Rightarrow> Executor \<Rightarrow> TaskAssignment \<Rightarrow> string \<Rightarrow> ExecuteResult \<Rightarrow> unit node_fallible" where
  "scan_output ex x task wsPath res =
     (let taskID = ta_TaskID task in
      if sec_ScanEnabled (cfg_Security (x_cfg x)) \<and> ex_Stdout res \<noteq> []
      then do {
        updateStatus ex x taskID ''scanning_post'' [];
        r \<leftarrow> ScanPatch (x_scanner x) (ex_Stdout res);
        if fst r = None \<and> hasCritical (snd r)
        then fail_task ex x taskID
            (''post-execution scan found critical secrets in output: '' @ formatFindings (snd r))
            (Err ''post-execution scan: critical secrets found in output'')
        else deliver ex x task wsPath res
      }
      else deliver ex x task wsPath res)"

text \<open>Step 4: the adapter.\<close>

definition run_agent :: "wext \<Rightarrow> Executor \<Rightarrow> TaskAssignment \<Rightarrow> string \<Rightarrow> unit node_fallible" where
  "run_agent ex x task wsPath =
     (let taskID = ta_TaskID task in
      case Registry_Get (ta_AIAgent task) (x_registry x) of
        None \<Rightarrow> (let msg = ''no adapter registered for agent '' @ Quote (ta_AIAgent task) in
          fail_task ex x taskID msg (Err msg))
      | Some adapter \<Rightarrow> do {
          updateStatus ex x taskID ''executing'' [];
          r \<leftarrow> ad_Execute adapter \<lparr>er_WorkspacePath = wsPath, er_TaskType = ta_TaskType task,
            er_Description = ta_Description task, er_Options = ta_Options task\<rparr>;
          case r of
            Inl e \<Rightarrow> fail_task ex x taskID (what_of ''execution error'' e) (Wrap ''execute agent'' e)
          | Inr res \<Rightarrow> scan_output ex x task wsPath res
        })"

text \<open>Step 3: the scan of the workspace; an error of the scan itself does not stop the task.\<close>

definition scan_workspace :: "wext \<Rightarrow> Executor \<Rightarrow> string list \<Rightarrow> TaskAssignment \<Rightarrow> string \<Rightarrow> unit node_fallible" where
  "scan_workspace ex x paths task wsPath =
     (let taskID = ta_TaskID task in
      if sec_ScanEnabled (cfg_Security (x_cfg x))
      then do {
        updateStatus ex x taskID ''scanning_pre'' [];
        r \<leftarrow> ScanDirectory (x_scanner x) paths wsPath;
        case r of
          Inl _ \<Rightarrow> run_agent ex x task wsPath
        | Inr fs \<Rightarrow>
            if hasCritical fs
            then fail_task ex x taskID (''pre-execution scan found critical secrets: '' @ formatFindings fs)
              (Err ''pre-execution scan: critical secrets found in repository'')
            else run_agent ex x task wsPath
      }
      else run_agent ex x task wsPath)"

text \<open>Step 2: the clone.\<close>

definition clone_and_run :: "wext \<Rightarrow> Executor \<Rightarrow> string list \<Rightarrow> TaskAssignment \<Rightarrow> string \<Rightarrow> unit node_fallible" where
  "clone_and_run ex x paths task wsPath =
     (let taskID = ta_TaskID task in
      if ta_RepoURL task \<noteq> []
      then do {
        updateStatus ex x taskID ''cloning'' [];
        r \<leftarrow> CloneRepo (ta_RepoURL task) (ta_Branch task) wsPath;
        case r of
          Inl e \<Rightarrow> fail_task ex x taskID (what_of ''clone repo'' e) (Wrap ''clone repo'' e)
        | Inr _ \<Rightarrow> scan_workspace ex x paths task wsPath
      }
      else scan_workspace ex x paths task wsPath)"

text \<open>\<^verbatim>\<open>Execute\<close>: create the workspace, run the steps, and clean up on the way out.\<close>

definition Execute :: "wext \<Rightarrow> Executor \<Rightarrow> string list \<Rightarrow> TaskAssignment \<Rightarrow> unit node_fallible" where
  "Execute ex x paths task =
     (let taskID = ta_TaskID task in do {
        updateStatus ex x taskID ''preparing'' [];
        ws \<leftarrow> Manager_Create (x_basePath x) taskID;
        case ws of
          Inl e \<Rightarrow> fail_task ex x taskID (what_of ''create workspace'' e) (Wrap ''create workspace'' e)
        | Inr wsPath \<Rightarrow> do {
            r \<leftarrow> clone_and_run ex x paths task wsPath;
            if wsp_CleanupAfter (cfg_Workspace (x_cfg x))
            then do { _ \<leftarrow> Manager_Cleanup (x_basePath x) taskID; ret r }
            else ret r
          }
      })"

text \<open>
  \<^verbatim>\<open>buildExecutor\<close> of the daemon package: the four built-in adapters, the workspace manager, the scanner
  with the configured or the default rules, the reporter on the same client.
\<close>

definition buildExecutor :: "wext \<Rightarrow> (string \<Rightarrow> string + rulesetYAML) \<Rightarrow> string \<Rightarrow> Config \<Rightarrow> Client \<Rightarrow> Executor node_fallible" where
  "buildExecutor ex yaml embedded cfg cpClient =
     (let built = (\<lambda>rs. \<lparr>x_registry = daemon_registry ex, x_basePath = wsp_BasePath (cfg_Workspace cfg),
            x_scanner = Scanner_New rs (sec_ScanConcurrency (cfg_Security cfg)), x_client = cpClient, x_cfg = cfg\<rparr>) in
      if sec_RulesetPath (cfg_Security cfg) \<noteq> []
      then do {
        r \<leftarrow> LoadRuleset yaml (sec_RulesetPath (cfg_Security cfg));
        ret (case r of Inl e \<Rightarrow> Inl (Wrap ''load scanner ruleset'' (Err e)) | Inr rs \<Rightarrow> Inr (built rs))
      }
      else ret (Inr (built (DefaultRuleset yaml embedded))))"

lemma buildExecutor_Inr:
  "result (buildExecutor ex yaml embedded cfg c) n = Inr x \<Longrightarrow>
     x_registry x = daemon_registry ex \<and> x_client x = c \<and> x_cfg x = cfg
     \<and> x_basePath x = wsp_BasePath (cfg_Workspace cfg) \<and> 0 < sc_concurrency (x_scanner x)"
  by (auto simp: buildExecutor_def Scanner_New_def Let_def split: if_splits sum.splits prod.splits)

end
