(* ===== verification/Worker_Execution.thy ===== *)
theory Worker_Execution
  imports Worker_Executor
begin

section \<open>What executing a task does to the outside\<close>

text \<open>
  The events of an execution: the status reports it sends, the processes it starts and the output it
  submits, by the record of \<open>Worker_Node\<close>.
\<close>

subsection \<open>One report\<close>

definition status_request :: "Executor \<Rightarrow> string \<Rightarrow> string \<Rightarrow> string \<Rightarrow> httpReq \<Rightarrow> bool" where
  "status_request x taskID st msg q \<longleftrightarrow> hq_Method q = ''PATCH''
     \<and> hq_URL q = cl_baseURL (x_client x) @ ''/api/v1/tasks/'' @ taskID @ ''/status''
     \<and> hq_Body q = Some (marshal_TaskStatusRequest \<lparr>ts_State = st, ts_ErrorMessage = msg\<rparr>)"

definition urls_ok :: "wext \<Rightarrow> bool" where
  "urls_ok ex \<longleftrightarrow> (\<forall>u. url_error ex u = None)"

lemma log_doJSON:
  assumes "url_error ex (cl_baseURL c @ path) = None"
  shows "\<exists>h. n_log (exec (doJSON ex c meth path body zero dec) n) = n_log n @
    [Sent \<lparr>hq_Method = meth, hq_URL = cl_baseURL c @ path, hq_Header = h, hq_Body = Some body\<rparr>]"
proof -
  let ?h = "[(''Content-Type'', ''application/json''), (''Authorization'', ''Bearer '' @ cl_apiKey c)]
      @ (if cl_workerID c \<noteq> [] then [(''X-Worker-ID'', cl_workerID c)] else [])"
  have "n_log (exec (doJSON ex c meth path body zero dec) n) = n_log n @
    [Sent \<lparr>hq_Method = meth, hq_URL = cl_baseURL c @ path, hq_Header = ?h, hq_Body = Some body\<rparr>]"
    using assms by (auto simp: doJSON_def run_Do Let_def split: sum.splits option.splits)
  then show ?thesis by blast
qed

lemma exec_wrap: "exec (wrap what m) n = exec m n"
  by (simp add: wrap_def split: prod.splits)

lemma log_updateStatus:
  assumes "urls_ok ex"
  shows "\<exists>q. n_log (exec (updateStatus ex x taskID st msg) n) = n_log n @ [Sent q]
    \<and> status_request x taskID (api_state st) msg q"
proof -
  have u: "url_error ex (cl_baseURL (x_client x) @ ''/api/v1/tasks/'' @ taskID @ ''/status'') = None"
    using assms by (simp add: urls_ok_def)
  have "exec (updateStatus ex x taskID st msg) n = exec (Client_UpdateTaskStatus ex (x_client x) taskID
      \<lparr>ts_State = api_state st, ts_ErrorMessage = msg\<rparr>) n"
    by (simp add: updateStatus_def split: prod.splits)
  with log_doJSON [OF u] show ?thesis
    by (fastforce simp: Client_UpdateTaskStatus_def exec_wrap status_request_def)
qed

subsection \<open>The last report tells the outcome\<close>

definition reports_outcome :: "Executor \<Rightarrow> string \<Rightarrow> 'e + unit \<Rightarrow> node \<Rightarrow> bool" where
  "reports_outcome x taskID r n \<longleftrightarrow> (\<exists>pre q msg. n_log n = pre @ [Sent q]
     \<and> status_request x taskID (case r of Inl _ \<Rightarrow> ''failed'' | Inr _ \<Rightarrow> ''completed'') msg q)"

definition tells :: "Executor \<Rightarrow> string \<Rightarrow> unit node_fallible \<Rightarrow> bool" where
  "tells x taskID m \<longleftrightarrow> (\<forall>n. reports_outcome x taskID (result m n) (exec m n))"

lemma tells_fail:
  assumes "urls_ok ex"
  shows "tells x taskID (fail_task ex x taskID msg err)"
  unfolding tells_def
proof
  fix n
  obtain n' where r: "run_state (updateStatus ex x taskID ''failed'' msg) n = ((), n')"
    by (cases "run_state (updateStatus ex x taskID ''failed'' msg) n") simp
  from log_updateStatus [OF assms, of x taskID "''failed''" msg n] r
  show "reports_outcome x taskID (result (fail_task ex x taskID msg err) n) (exec (fail_task ex x taskID msg err) n)"
    by (auto simp: fail_task_def reports_outcome_def api_state_def)
qed

lemma tells_completed:
  assumes "urls_ok ex"
  shows "tells x taskID (do { updateStatus ex x taskID ''completed'' msg; ret (Inr ()) })"
  unfolding tells_def
proof
  fix n
  obtain n' where r: "run_state (updateStatus ex x taskID ''completed'' msg) n = ((), n')"
    by (cases "run_state (updateStatus ex x taskID ''completed'' msg) n") simp
  from log_updateStatus [OF assms, of x taskID "''completed''" msg n] r
  show "reports_outcome x taskID (result (do { updateStatus ex x taskID ''completed'' msg; ret (Inr ()) }) n)
      (exec (do { updateStatus ex x taskID ''completed'' msg; ret (Inr ()) }) n)"
    by (auto simp: reports_outcome_def api_state_def)
qed

lemma tells_bind: "(\<And>a. tells x taskID (f a)) \<Longrightarrow> tells x taskID (State_Monad.bind m f)"
  by (simp add: tells_def split: prod.splits)

lemma tells_case_sum: "(\<And>e. tells x t (f e)) \<Longrightarrow> (\<And>y. tells x t (g y)) \<Longrightarrow>
    tells x t (case r of Inl e \<Rightarrow> f e | Inr y \<Rightarrow> g y)"
  by (cases r) simp_all

lemma tells_case_option: "tells x t m \<Longrightarrow> (\<And>y. tells x t (g y)) \<Longrightarrow>
    tells x t (case r of None \<Rightarrow> m | Some y \<Rightarrow> g y)"
  by (cases r) simp_all

lemma tells_if: "tells x t m \<Longrightarrow> tells x t m' \<Longrightarrow> tells x t (if b then m else m')"
  by simp

lemmas tells_intros = tells_case_sum tells_case_option tells_if tells_fail tells_completed

lemma tells_deliver: "urls_ok ex \<Longrightarrow> tells x (ta_TaskID task) (deliver ex x task ws res)"
  unfolding deliver_def Let_def
  by (intro tells_intros tells_bind [where m = "updateStatus ex x (ta_TaskID task) ''packing'' []"]
      tells_bind [where m = "Pack ex t w ws s as" for t w s as]
      tells_bind [where m = "updateStatus ex x (ta_TaskID task) ''reporting'' []"]
      tells_bind [where m = "Reporter_Submit ex c p" for c p])

lemma tells_scan_output: "urls_ok ex \<Longrightarrow> tells x (ta_TaskID task) (scan_output ex x task ws res)"
  unfolding scan_output_def Let_def
  by (intro tells_if tells_bind [where m = "updateStatus ex x (ta_TaskID task) ''scanning_post'' []"]
      tells_bind [where m = "ScanPatch s p" for s p] tells_fail tells_deliver)

lemma tells_run_agent: "urls_ok ex \<Longrightarrow> tells x (ta_TaskID task) (run_agent ex x task ws)"
  unfolding run_agent_def Let_def
  by (intro tells_case_option tells_case_sum tells_bind [where m = "updateStatus ex x (ta_TaskID task) ''executing'' []"]
      tells_bind [where m = "ad_Execute a q" for a q] tells_fail tells_scan_output)

lemma tells_scan_workspace: "urls_ok ex \<Longrightarrow> tells x (ta_TaskID task) (scan_workspace ex x paths task ws)"
  unfolding scan_workspace_def Let_def
  by (intro tells_if tells_case_sum tells_bind [where m = "updateStatus ex x (ta_TaskID task) ''scanning_pre'' []"]
      tells_bind [where m = "ScanDirectory s ps d" for s ps d] tells_fail tells_run_agent)

lemma tells_clone: "urls_ok ex \<Longrightarrow> tells x (ta_TaskID task) (clone_and_run ex x paths task ws)"
  unfolding clone_and_run_def Let_def
  by (intro tells_if tells_case_sum tells_bind [where m = "updateStatus ex x (ta_TaskID task) ''cloning'' []"]
      tells_bind [where m = "CloneRepo u b d" for u b d] tells_fail tells_scan_workspace)

text \<open>The clean-up sends nothing.\<close>

lemma log_Cleanup: "n_log (exec (Manager_Cleanup base taskID) n) = n_log n"
  by (auto simp: Manager_Cleanup_def run_oserr os_RemoveAll_def Let_def split: option.splits sum.splits)

lemma tells_cleanup:
  assumes "tells x taskID m"
  shows "tells x taskID (do { r \<leftarrow> m; if b then do { _ \<leftarrow> Manager_Cleanup base t; ret r } else ret r })"
  unfolding tells_def
proof
  fix n
  obtain r n' where r: "run_state m n = (r, n')" by fastforce
  have "reports_outcome x taskID r n'" using assms r unfolding tells_def by (metis fst_conv snd_conv)
  then show "reports_outcome x taskID (result (do { r \<leftarrow> m; if b then do { _ \<leftarrow> Manager_Cleanup base t; ret r } else ret r }) n)
      (exec (do { r \<leftarrow> m; if b then do { _ \<leftarrow> Manager_Cleanup base t; ret r } else ret r }) n)"
    using r log_Cleanup [of base t n'] by (auto simp: reports_outcome_def split: prod.splits)
qed

lemma tells_Execute: "urls_ok ex \<Longrightarrow> tells x (ta_TaskID task) (Execute ex x paths task)"
  unfolding Execute_def Let_def
  by (intro tells_case_sum tells_bind [where m = "updateStatus ex x (ta_TaskID task) ''preparing'' []"]
      tells_bind [where m = "Manager_Create b t" for b t] tells_fail tells_cleanup tells_clone)

subsection \<open>All events of an execution\<close>

definition statuses :: "string list" where
  "statuses = [''running'', ''completed'', ''failed'']"

definition authorised :: "Client \<Rightarrow> httpReq \<Rightarrow> bool" where
  "authorised c q \<longleftrightarrow> (''Authorization'', ''Bearer '' @ cl_apiKey c) \<in> set (hq_Header q)"

definition env_allowed :: "string list \<Rightarrow> bool" where
  "env_allowed es \<longleftrightarrow> (\<forall>e \<in> set es. \<exists>k \<in> set agent_env_keys. HasPrefix e (k @ ''=''))"

text \<open>
  What an execution may do: report one of the three states on its own task, submit output, start a
  process in the task's workspace with the allowed variables, clone into that workspace.
\<close>

definition task_event :: "Executor \<Rightarrow> string \<Rightarrow> event \<Rightarrow> bool" where
  "task_event x taskID e = (case e of
     Sent q \<Rightarrow> authorised (x_client x) q \<and>
       ((\<exists>st \<in> set statuses. \<exists>msg. status_request x taskID st msg q)
        \<or> (hq_Method q = ''POST'' \<and> hq_URL q = cl_baseURL (x_client x) @ ''/api/v1/outputs''))
   | Spawned c \<Rightarrow> cmd_Dir c = taskPath (x_basePath x) taskID \<and> env_allowed (cmd_Env c)
   | Cloned url ref dest \<Rightarrow> dest = taskPath (x_basePath x) taskID)"

interpretation te: event_safety "task_event x taskID" for x taskID .

lemma env_allowed_restricted: "env_restricted env es \<Longrightarrow> env_allowed es"
  by (fastforce simp: env_restricted_def env_allowed_def HasPrefix_iff)

lemma te_updateStatus:
  assumes "api_state st \<in> set statuses"
  shows "te.keeps x taskID (updateStatus ex x taskID st msg)"
  using assms unfolding updateStatus_def Client_UpdateTaskStatus_def doJSON_def Let_def
  by (intro te.keeps_intros te.keeps_wrap te.keeps_Do)
    (auto simp: task_event_def status_request_def authorised_def)

lemmas te_status = te_updateStatus [where st = "''preparing''"] te_updateStatus [where st = "''cloning''"]
  te_updateStatus [where st = "''scanning_pre''"] te_updateStatus [where st = "''executing''"]
  te_updateStatus [where st = "''scanning_post''"] te_updateStatus [where st = "''packing''"]
  te_updateStatus [where st = "''reporting''"] te_updateStatus [where st = "''failed''"]
  te_updateStatus [where st = "''completed''"]

lemmas te_statuses = te_status [simplified api_state_def statuses_def, simplified]

lemma te_fail: "te.keeps x taskID (fail_task ex x taskID msg err)"
  unfolding fail_task_def by (intro te.keeps_intros te_statuses)

lemma te_SubmitOutput: "te.keeps x taskID (Client_SubmitOutput ex (x_client x) sub)"
  unfolding Client_SubmitOutput_def Let_def
  by (intro te.keeps_intros te.keeps_Do) (auto simp: task_event_def authorised_def)

lemma te_Submit: "te.keeps x taskID (Reporter_Submit ex (x_client x) pkg)"
proof -
  have "te.keeps x taskID (submit_attempts ex (x_client x) sub k err)" for sub k err
    by (induction k arbitrary: err)
      (auto intro!: te.keeps_intros te_SubmitOutput te.keeps_cancelled)
  then show ?thesis by (simp add: Reporter_Submit_def)
qed

lemma te_packFile: "te.keeps x taskID (packFile p rel)"
  unfolding packFile_def io_step_def Let_def
  by (auto intro!: te.keeps_intros te.keeps_oserr split: entry.split option.split)

lemma te_pack_artifacts: "te.keeps x taskID (pack_artifacts ws rels)"
  by (induction rels) (auto intro!: te.keeps_intros te_packFile)

lemma te_Pack: "te.keeps x taskID (Pack ex t w ws s rels)"
  unfolding Pack_def by (intro te.keeps_intros te_pack_artifacts)

lemma te_deliver: "te.keeps x (ta_TaskID task) (deliver ex x task ws res)"
  unfolding deliver_def Let_def by (intro te.keeps_intros te_statuses te_Pack te_Submit te_fail)

lemma te_ScanPatch: "te.keeps x taskID (ScanPatch sc p)"
proof -
  have "te.keeps x taskID (patch_loop sc ls st)" for ls st
    by (induction ls arbitrary: st) (auto intro!: te.keeps_intros te.keeps_cancelled)
  then show ?thesis by (simp add: ScanPatch_def)
qed

lemma te_scan_output: "te.keeps x (ta_TaskID task) (scan_output ex x task ws res)"
  unfolding scan_output_def Let_def
  by (intro te.keeps_intros te_statuses te_ScanPatch te_fail te_deliver)

lemma te_run_cli:
  assumes "\<And>env. env_restricted env (menv env)" "dir = taskPath (x_basePath x) taskID"
  shows "te.keeps x taskID (run_cli what bin argv menv dir)"
  by (rule te.keeps_run_cli) (simp add: task_event_def assms(2) env_allowed_restricted [OF assms(1)])

lemma te_adapter:
  assumes "a \<in> {claude_adapter ex, copilot_adapter, gemini_adapter, chatgpt_adapter}"
    and "er_WorkspacePath req = taskPath (x_basePath x) taskID"
  shows "te.keeps x taskID (ad_Execute a req)"
  using assms(1) te_run_cli [OF _ assms(2)] minimalEnv_restricted
  by (auto simp: claude_adapter_def copilot_adapter_def gemini_adapter_def chatgpt_adapter_def
      claude_Execute_def copilot_Execute_def gemini_Execute_def chatgpt_Execute_def plain_result_def Let_def
      intro!: te.keeps_intros)

lemma te_run_agent:
  assumes "x_registry x = daemon_registry ex" "ws = taskPath (x_basePath x) (ta_TaskID task)"
  shows "te.keeps x (ta_TaskID task) (run_agent ex x task ws)"
proof (cases "Registry_Get (ta_AIAgent task) (daemon_registry ex)")
  case None
  then show ?thesis by (simp add: run_agent_def assms(1) te_fail Let_def)
next
  case (Some a)
  with daemon_registry_adapter [OF Some] show ?thesis
    unfolding run_agent_def Let_def assms(1)
    by (simp add: assms(2))
      (intro te.keeps_intros te_statuses te_adapter [where ex = ex] te_fail te_scan_output; simp)
qed

lemma te_ScanDirectory: "te.keeps x taskID (ScanDirectory sc paths d)"
proof -
  have "te.keeps x taskID (collect_files ps acc)" for ps acc
    by (induction ps arbitrary: acc) (auto intro!: te.keeps_intros te.keeps_cancelled te.keeps_oserr)
  moreover have "te.keeps x taskID (scan_files sc d k ps)" for k ps
    by (induction ps arbitrary: k) (auto intro!: te.keeps_intros te.keeps_cancelled te.keeps_files simp: Let_def)
  ultimately show ?thesis unfolding ScanDirectory_def by (intro te.keeps_intros)
qed

lemma te_scan_workspace:
  assumes "x_registry x = daemon_registry ex" "ws = taskPath (x_basePath x) (ta_TaskID task)"
  shows "te.keeps x (ta_TaskID task) (scan_workspace ex x paths task ws)"
  unfolding scan_workspace_def Let_def
  by (intro te.keeps_intros te_statuses te_ScanDirectory te_fail te_run_agent assms)

lemma te_PlainClone:
  "dest = taskPath (x_basePath x) taskID \<Longrightarrow> te.keeps x taskID (git_PlainClone url ref dest)"
  by (rule te.keepsI) (auto simp: git_PlainClone_def task_event_def split: prod.splits intro!: te.recorded_one)

lemma te_Checkout: "te.keeps x taskID git_Checkout"
  by (rule te.keepsI) (auto simp: git_Checkout_def split: prod.splits intro!: te.recorded_same)

lemma te_CloneRepo: "dest = taskPath (x_basePath x) taskID \<Longrightarrow> te.keeps x taskID (CloneRepo url branch dest)"
  unfolding CloneRepo_def by (intro te.keeps_intros te_PlainClone te_Checkout)

lemma te_clone_and_run:
  assumes "x_registry x = daemon_registry ex" "ws = taskPath (x_basePath x) (ta_TaskID task)"
  shows "te.keeps x (ta_TaskID task) (clone_and_run ex x paths task ws)"
  unfolding clone_and_run_def Let_def
  by (intro te.keeps_intros te_statuses te_CloneRepo te_fail te_scan_workspace assms)

lemma te_Cleanup: "te.keeps x taskID (Manager_Cleanup base t)"
  by (rule te.keepsI) (simp add: te.recorded_same log_Cleanup)

lemma Create_path: "result (Manager_Create base t) n = Inr ws \<Longrightarrow> ws = taskPath base t"
  by (auto simp: Manager_Create_def Let_def split: sum.splits prod.splits)

lemma te_Create: "te.keeps x taskID (Manager_Create base t)"
  unfolding Manager_Create_def Let_def by (intro te.keeps_intros te.keeps_files)

text \<open>The continuation of a step only has to be good for the results the step produces.\<close>

lemma te_bind_result:
  assumes "te.keeps x taskID m" "\<And>n a. result m n = a \<Longrightarrow> te.keeps x taskID (f a)"
  shows "te.keeps x taskID (State_Monad.bind m f)"
proof (rule te.keepsI)
  fix n
  obtain a n' where r: "run_state m n = (a, n')" by fastforce
  then have "te.recorded x taskID n n'" using te.keepsD [OF assms(1), of n] by simp
  moreover have "te.recorded x taskID n' (exec (f a) n')"
    using te.keepsD [OF assms(2) [of n a], of n'] r by simp
  ultimately show "te.recorded x taskID n (exec (State_Monad.bind m f) n)"
    using r te.R_trans by fastforce
qed

lemma te_Execute:
  assumes "x_registry x = daemon_registry ex"
  shows "te.keeps x (ta_TaskID task) (Execute ex x paths task)"
  unfolding Execute_def Let_def
proof (rule te.keeps_bind [OF te_statuses(1)], rule te_bind_result [OF te_Create])
  fix u n a
  assume a: "result (Manager_Create (x_basePath x) (ta_TaskID task)) n = a"
  show "te.keeps x (ta_TaskID task) (case a of
      Inl e \<Rightarrow> fail_task ex x (ta_TaskID task) (what_of ''create workspace'' e) (Wrap ''create workspace'' e)
    | Inr wsPath \<Rightarrow> do {
        r \<leftarrow> clone_and_run ex x paths task wsPath;
        if wsp_CleanupAfter (cfg_Workspace (x_cfg x))
        then do { _ \<leftarrow> Manager_Cleanup (x_basePath x) (ta_TaskID task); ret r } else ret r })"
  proof (cases a)
    case (Inr wsPath)
    with a Create_path have "wsPath = taskPath (x_basePath x) (ta_TaskID task)" by blast
    with Inr show ?thesis
      by (simp only: sum.case) (intro te.keeps_intros te_clone_and_run te_Cleanup assms refl)
  qed (simp add: te_fail)
qed

subsection \<open>A critical secret in the workspace\<close>

text \<open>No cancellation and no failing system call lie ahead.\<close>

definition quiet :: "node \<Rightarrow> bool" where
  "quiet n \<longleftrightarrow> never_cancelled n \<and> (\<forall>e \<in> set (n_oserrs n). e = None)"

definition calm :: "node \<Rightarrow> node \<Rightarrow> bool" where
  "calm n n' \<longleftrightarrow> n_fs n' = n_fs n \<and> n_log n' = n_log n \<and> (quiet n \<longrightarrow> quiet n')"

lemma calm_refl: "calm n n"
  by (simp add: calm_def)

lemma calm_trans: "calm n n' \<Longrightarrow> calm n' n'' \<Longrightarrow> calm n n''"
  by (simp add: calm_def)

interpretation calm: kept_relation calm
  by unfold_locales (blast intro: calm_refl calm_trans)+

lemma calm_oserr: "calm n (n\<lparr>n_oserrs := tl (n_oserrs n)\<rparr>)"
  by (cases "n_oserrs n") (auto simp: calm_def quiet_def never_cancelled_def)

lemma calm_cancelled: "calm n (n\<lparr>n_cancels := tl (n_cancels n)\<rparr>)"
  by (cases "n_cancels n") (auto simp: calm_def quiet_def never_cancelled_def)

lemma quiet_next: "quiet n \<Longrightarrow> next_of None (n_oserrs n) = None \<and> \<not> next_of False (n_cancels n)"
  by (cases "n_oserrs n"; cases "n_cancels n") (auto simp: quiet_def never_cancelled_def)

lemma calm_ReadFile: "calm n (exec (os_ReadFile p) n)"
  using calm_oserr [of n] by (auto simp: os_ReadFile_def run_oserr split: option.splits)

lemma collect_files_quiet:
  assumes "quiet n"
  shows "\<exists>n'. run_state (collect_files ps acc) n
    = (Inr (acc @ filter (\<lambda>p. file_size (n_fs n) p \<le> 10 * 1024 * 1024) ps), n') \<and> calm n n'"
  using assms
proof (induction ps arbitrary: acc n)
  case Nil
  then show ?case by (simp add: calm_refl)
next
  case (Cons p ps)
  let ?n1 = "n\<lparr>n_cancels := tl (n_cancels n)\<rparr>"
  let ?n2 = "?n1\<lparr>n_oserrs := tl (n_oserrs ?n1)\<rparr>"
  have c: "calm n ?n2" by (rule calm_trans [OF calm_cancelled calm_oserr])
  with Cons.prems have q: "quiet ?n2" and fs: "n_fs ?n2 = n_fs n" by (simp_all add: calm_def)
  from quiet_next [OF Cons.prems] have nx: "next_of None (n_oserrs n) = None" "\<not> next_of False (n_cancels n)" by auto
  let ?acc = "if file_size (n_fs n) p > 10 * 1024 * 1024 then acc else acc @ [p]"
  from Cons.IH [OF q, of ?acc] obtain n' where
    "run_state (collect_files ps ?acc) ?n2 = (Inr (?acc @ filter (\<lambda>p. file_size (n_fs n) p \<le> 10 * 1024 * 1024) ps), n')"
    and "calm ?n2 n'" by (auto simp: fs)
  with calm_trans [OF c] nx show ?case by (auto simp: run_cancelled run_oserr)
qed

definition file_findings :: "WScanner \<Rightarrow> string \<Rightarrow> (string \<rightharpoonup> entry) \<Rightarrow> string \<Rightarrow> WFinding list" where
  "file_findings sc d fs p =
     (let relPath = (case Rel d p of None \<Rightarrow> [] | Some r \<Rightarrow> r) in
      if isExcludedPath (rset_Paths (sc_ruleset sc)) relPath then []
      else case fs p of Some (File s) \<Rightarrow> worker_ScanText sc s relPath | _ \<Rightarrow> [])"

lemma scan_files_quiet:
  assumes "quiet n" "0 < k"
  shows "\<exists>n'. run_state (scan_files sc d k ps) n = (concat (map (file_findings sc d (n_fs n)) ps), n') \<and> calm n n'"
  using assms
proof (induction ps arbitrary: n)
  case Nil
  then show ?case by (simp add: calm_refl)
next
  case (Cons p ps)
  let ?rel = "case Rel d p of None \<Rightarrow> [] | Some r \<Rightarrow> r"
  let ?n1 = "n\<lparr>n_cancels := tl (n_cancels n)\<rparr>"
  have q1: "quiet ?n1" and nx: "\<not> next_of False (n_cancels n)"
    using Cons.prems calm_cancelled [of n] quiet_next [of n] by (auto simp: calm_def)
  show ?case
  proof (cases "isExcludedPath (rset_Paths (sc_ruleset sc)) ?rel")
    case True
    obtain n' where "run_state (scan_files sc d k ps) ?n1 = (concat (map (file_findings sc d (n_fs n)) ps), n')" "calm ?n1 n'"
      using Cons.IH [OF q1 Cons.prems(2)] by auto
    with True nx Cons.prems(2) calm_trans [OF calm_cancelled [of n]] show ?thesis
      by (auto simp: run_cancelled file_findings_def [of sc d _ p] Let_def)
  next
    case False
    let ?n2 = "?n1\<lparr>n_oserrs := tl (n_oserrs ?n1)\<rparr>"
    have c: "calm n ?n2" by (rule calm_trans [OF calm_cancelled calm_oserr])
    with Cons.prems have q: "quiet ?n2" by (simp add: calm_def)
    obtain n' where IH: "run_state (scan_files sc d k ps) ?n2 = (concat (map (file_findings sc d (n_fs n)) ps), n')" "calm ?n2 n'"
      using Cons.IH [OF q Cons.prems(2)] by auto
    from quiet_next [OF Cons.prems(1)] have os: "next_of None (n_oserrs n) = None" by simp
    have read: "run_state (os_ReadFile p) ?n1 = ((case n_fs n p of
         Some (File s) \<Rightarrow> Inr s
       | Some Dir \<Rightarrow> Inl (''read '' @ p @ '': is a directory'')
       | None \<Rightarrow> Inl (''open '' @ p @ '': no such file or directory'')), ?n2)"
      using os by (simp add: os_ReadFile_def run_oserr)
    from IH read nx False Cons.prems(2) calm_trans [OF c] show ?thesis
      by (auto simp: run_cancelled file_findings_def [of sc d _ p] Let_def split: option.splits entry.splits)
  qed
qed

lemma scan_rule_lines_hit:
  "line \<in> set ls \<Longrightarrow> \<not> isExcludedPattern (rset_Patterns (sc_ruleset sc)) line \<Longrightarrow> rule_hits rule line \<Longrightarrow>
     \<exists>f \<in> set (scan_rule_lines sc file rule i ls). wf_Severity f = rule_Severity rule"
proof (induction ls arbitrary: i)
  case (Cons l ls)
  show ?case
  proof (cases "line = l")
    case True
    with Cons.prems show ?thesis by (auto simp: rule_hits_def finding_def Let_def)
  next
    case False
    with Cons show ?thesis by fastforce
  qed
qed simp

text \<open>A file of the workspace holds a critical secret the scanner's exclusions do not cover.\<close>

definition holds_critical :: "WScanner \<Rightarrow> string \<Rightarrow> string list \<Rightarrow> (string \<rightharpoonup> entry) \<Rightarrow> bool" where
  "holds_critical sc d paths fs \<longleftrightarrow> (\<exists>p s line rule. p \<in> set paths \<and> below d p \<and> fs p = Some (File s)
     \<and> int (length s) \<le> 10 * 1024 * 1024
     \<and> \<not> isExcludedPath (rset_Paths (sc_ruleset sc)) (case Rel d p of None \<Rightarrow> [] | Some r \<Rightarrow> r)
     \<and> line \<in> set (Split CHR 0x0A s) \<and> \<not> isExcludedPattern (rset_Patterns (sc_ruleset sc)) line
     \<and> rule \<in> set (rset_Rules (sc_ruleset sc)) \<and> rule_Severity rule = ''critical'' \<and> rule_hits rule line)"

lemma ScanDirectory_critical:
  assumes "quiet n" "0 < sc_concurrency sc" "holds_critical sc d paths (n_fs n)"
  shows "\<exists>fs n'. run_state (ScanDirectory sc paths d) n = (Inr fs, n') \<and> hasCritical fs \<and> calm n n'"
proof -
  let ?files = "filter (\<lambda>p. file_size (n_fs n) p \<le> 10 * 1024 * 1024) (files_below d paths (n_fs n))"
  obtain n1 where c: "run_state (collect_files (files_below d paths (n_fs n)) []) n = (Inr ?files, n1)" "calm n n1"
    using collect_files_quiet [OF assms(1), of "files_below d paths (n_fs n)" "[]"] by auto
  then have "quiet n1" "n_fs n1 = n_fs n" using assms(1) by (simp_all add: calm_def)
  then obtain n2 where s: "run_state (scan_files sc d (sc_concurrency sc) ?files) n1
      = (concat (map (file_findings sc d (n_fs n)) ?files), n2)" "calm n1 n2"
    using scan_files_quiet [of n1 "sc_concurrency sc" sc d ?files] assms(2) by auto
  obtain p t line rule where h: "p \<in> set paths" "below d p" "n_fs n p = Some (File t)"
     "int (length t) \<le> 10 * 1024 * 1024"
     "\<not> isExcludedPath (rset_Paths (sc_ruleset sc)) (case Rel d p of None \<Rightarrow> [] | Some r \<Rightarrow> r)"
     "line \<in> set (Split CHR 0x0A t)" "\<not> isExcludedPattern (rset_Patterns (sc_ruleset sc)) line"
     "rule \<in> set (rset_Rules (sc_ruleset sc))" "rule_Severity rule = ''critical''" "rule_hits rule line"
    using assms(3) by (auto simp: holds_critical_def)
  have p: "p \<in> set ?files" using h(1-4) by (simp add: files_below_def file_size_def)
  let ?rel = "case Rel d p of None \<Rightarrow> [] | Some r \<Rightarrow> r"
  obtain f where f: "f \<in> set (scan_rule_lines sc ?rel rule 0 (Split CHR 0x0A t))" "wf_Severity f = ''critical''"
    using scan_rule_lines_hit [OF h(6,7,10), of ?rel 0] h(9) by auto
  then have "f \<in> set (file_findings sc d (n_fs n) p)"
    using h(3,5,8) by (auto simp: file_findings_def worker_ScanText_def Let_def)
  with p f(2) have "hasCritical (concat (map (file_findings sc d (n_fs n)) ?files))"
    by (auto simp: hasCritical_def simp del: set_filter)
  with c s calm_trans [OF c(2) s(2)] show ?thesis by (auto simp: ScanDirectory_def)
qed

text \<open>Status reports leave the scripts of the system calls and of the context alone.\<close>

lemma updateStatus_node:
  "n_fs (exec (updateStatus ex x taskID st msg) n) = n_fs n
   \<and> n_oserrs (exec (updateStatus ex x taskID st msg) n) = n_oserrs n
   \<and> n_cancels (exec (updateStatus ex x taskID st msg) n) = n_cancels n"
  by (auto simp: updateStatus_def Client_UpdateTaskStatus_def wrap_def doJSON_def run_Do Let_def
      split: option.splits sum.splits prod.splits)

definition only_reports :: "event \<Rightarrow> bool" where
  "only_reports e \<longleftrightarrow> (\<exists>q. e = Sent q \<and> hq_Method q = ''PATCH'')"

interpretation rep: event_safety only_reports .

lemma rep_updateStatus: "rep.keeps (updateStatus ex x taskID st msg)"
  unfolding updateStatus_def Client_UpdateTaskStatus_def doJSON_def Let_def
  by (intro rep.keeps_intros rep.keeps_wrap rep.keeps_Do) (simp add: only_reports_def)

lemma rep_fail: "rep.keeps (fail_task ex x taskID msg err)"
  unfolding fail_task_def by (intro rep.keeps_intros rep_updateStatus)

lemma run_fail_task:
  "run_state (fail_task ex x taskID msg err) n = (Inl err, exec (updateStatus ex x taskID ''failed'' msg) n)"
  by (simp add: fail_task_def split: prod.splits)

lemma scan_workspace_critical:
  assumes "sec_ScanEnabled (cfg_Security (x_cfg x))" "0 < sc_concurrency (x_scanner x)" "quiet n"
    and "holds_critical (x_scanner x) ws paths (n_fs n)"
  shows "\<exists>e n'. run_state (scan_workspace ex x paths task ws) n = (Inl e, n') \<and> rep.recorded n n'"
proof -
  let ?u = "updateStatus ex x (ta_TaskID task) ''scanning_pre'' []"
  obtain n1 where u: "run_state ?u n = ((), n1)" by (cases "run_state ?u n") simp
  have n1: "n_fs n1 = n_fs n" "quiet n1" "rep.recorded n n1"
    using updateStatus_node [of ex x "ta_TaskID task" "''scanning_pre''" "[]" n] u assms(3)
      rep.keepsD [OF rep_updateStatus, of n ex x "ta_TaskID task" "''scanning_pre''" "[]"]
    by (auto simp: quiet_def never_cancelled_def)
  then obtain fs n2 where s: "run_state (ScanDirectory (x_scanner x) paths ws) n1 = (Inr fs, n2)"
      "hasCritical fs" "calm n1 n2"
    using ScanDirectory_critical [of n1 "x_scanner x" ws paths] assms(2,4) by auto
  let ?f = "fail_task ex x (ta_TaskID task) (''pre-execution scan found critical secrets: '' @ formatFindings fs)
      (Err ''pre-execution scan: critical secrets found in repository'')"
  obtain n3 where f: "run_state ?f n2 = (Inl (Err ''pre-execution scan: critical secrets found in repository''), n3)"
    using run_fail_task by blast
  have "rep.recorded n1 n2" using s(3) by (simp add: calm_def rep.recorded_same)
  moreover have "rep.recorded n2 n3" using rep.keepsD [OF rep_fail, of n2] f by (metis snd_conv)
  ultimately have "rep.recorded n n3" using n1(3) rep.R_trans by blast
  with u s f assms(1) show ?thesis by (auto simp: scan_workspace_def Let_def)
qed

end
