(* ===== verification/Worker_Policy.thy ===== *)
theory Worker_Policy
  imports Worker_Client Go_Zone
begin

section \<open>Execution policy and manual approvals\<close>

text \<open>
  \<^verbatim>\<open>grid-worker/internal/policy\<close>: the engine that decides whether a task may run (\<^verbatim>\<open>engine.go\<close>) and the
  store of approvals (\<^verbatim>\<open>approval.go\<close>).
\<close>

subsection \<open>The policy engine\<close>

record Decision =
  dec_Allow :: bool
  dec_Reason :: string

text \<open>An unknown timezone closes the window.\<close>

definition worker_inWindow :: "tzdb \<Rightarrow> time \<Rightarrow> TimeWindowConfig \<Rightarrow> bool" where
  "worker_inWindow tz t w =
     (case (if win_Timezone w = [] then Some t else map_option (\<lambda>off. t + off t) (tz (win_Timezone w))) of
        None \<Rightarrow> False
      | Some local \<Rightarrow>
          if win_DayOfWeek w \<noteq> [] \<and> \<not> (\<exists>d \<in> set (win_DayOfWeek w). d = local_weekday local) then False
          else hour_in_window (win_StartHour w) (win_EndHour w) (local_hour local))"

definition Engine_IsInWindow :: "tzdb \<Rightarrow> time \<Rightarrow> Config \<Rightarrow> bool" where
  "Engine_IsInWindow tz now cfg =
     (if pol_Windows (cfg_Policy cfg) = [] then True
      else \<exists>w \<in> set (pol_Windows (cfg_Policy cfg)). worker_inWindow tz now w)"

definition Evaluate :: "tzdb \<Rightarrow> time \<Rightarrow> Config \<Rightarrow> TaskAssignment \<Rightarrow> Decision" where
  "Evaluate tz now cfg task =
     (let md = pol_Mode (cfg_Policy cfg); agents = exe_Agents (cfg_Execution cfg) in
      if md = ''paused'' then \<lparr>dec_Allow = False, dec_Reason = ''worker is in paused mode''\<rparr>
      else if agents \<noteq> [] \<and> \<not> (\<exists>a \<in> set agents. a = ta_AIAgent task)
      then \<lparr>dec_Allow = False, dec_Reason = ''agent '' @ Quote (ta_AIAgent task) @ '' is not in permitted agents list''\<rparr>
      else if md = ''manual''
      then \<lparr>dec_Allow = False, dec_Reason =
        ''worker is in manual approval mode '' @ [CHR 0xE2, CHR 0x80, CHR 0x94] @ '' use '' @ [CHR 0x27]
          @ ''grid-worker approve <task-id>'' @ [CHR 0x27]\<rparr>
      else if md = ''auto'' \<and> pol_Windows (cfg_Policy cfg) \<noteq> [] \<and> \<not> Engine_IsInWindow tz now cfg
      then \<lparr>dec_Allow = False, dec_Reason = ''current time is outside all configured execution windows''\<rparr>
      else \<lparr>dec_Allow = True, dec_Reason = ''policy allows task execution''\<rparr>)"

text \<open>When the engine allows a task, in one formula.\<close>

lemma Evaluate_Allow_iff:
  "dec_Allow (Evaluate tz now cfg task) \<longleftrightarrow>
     pol_Mode (cfg_Policy cfg) \<noteq> ''paused'' \<and> pol_Mode (cfg_Policy cfg) \<noteq> ''manual''
     \<and> (exe_Agents (cfg_Execution cfg) = [] \<or> ta_AIAgent task \<in> set (exe_Agents (cfg_Execution cfg)))
     \<and> (pol_Mode (cfg_Policy cfg) = ''auto'' \<longrightarrow> pol_Windows (cfg_Policy cfg) = []
         \<or> (\<exists>w \<in> set (pol_Windows (cfg_Policy cfg)). worker_inWindow tz now w))"
  by (auto simp: Evaluate_def Engine_IsInWindow_def Let_def)

subsection \<open>Approvals\<close>

record Approval =
  ap_TaskID :: string
  ap_RequestedAt :: time
  ap_ExpiresAt :: time

definition defaultApprovalTTL :: time where
  "defaultApprovalTTL = 30 * Minute"

record ApprovalStore =
  as_pending :: "string \<rightharpoonup> Approval"
  as_approved :: "string \<Rightarrow> bool"

definition NewApprovalStore :: ApprovalStore where
  "NewApprovalStore = \<lparr>as_pending = Map.empty, as_approved = (\<lambda>_. False)\<rparr>"

definition Request :: "time \<Rightarrow> string \<Rightarrow> ApprovalStore \<Rightarrow> Approval \<times> ApprovalStore" where
  "Request now tid s = (case as_pending s tid of
     Some existing \<Rightarrow> (existing, s)
   | None \<Rightarrow>
       let a = \<lparr>ap_TaskID = tid, ap_RequestedAt = now, ap_ExpiresAt = now + defaultApprovalTTL\<rparr>
       in (a, s\<lparr>as_pending := (as_pending s)(tid \<mapsto> a)\<rparr>))"

definition Approve :: "time \<Rightarrow> string \<Rightarrow> ApprovalStore \<Rightarrow> bool \<times> ApprovalStore" where
  "Approve now tid s = (case as_pending s tid of
     None \<Rightarrow> (False, s)
   | Some a \<Rightarrow>
       let s' = s\<lparr>as_pending := (as_pending s)(tid := None)\<rparr> in
       if ap_ExpiresAt a < now then (False, s')
       else (True, s'\<lparr>as_approved := (as_approved s)(tid := True)\<rparr>))"

definition Deny :: "string \<Rightarrow> ApprovalStore \<Rightarrow> bool \<times> ApprovalStore" where
  "Deny tid s = (case as_pending s tid of
     None \<Rightarrow> (False, s)
   | Some a \<Rightarrow> (True, s\<lparr>as_pending := (as_pending s)(tid := None), as_approved := (as_approved s)(tid := False)\<rparr>))"

definition IsApproved :: "string \<Rightarrow> ApprovalStore \<Rightarrow> bool" where
  "IsApproved tid s = as_approved s tid"

definition ConsumeApproval :: "string \<Rightarrow> ApprovalStore \<Rightarrow> ApprovalStore" where
  "ConsumeApproval tid s = s\<lparr>as_approved := (as_approved s)(tid := False)\<rparr>"

text \<open>The range over the map is in no particular order; \<open>ids\<close> is that order.\<close>

definition PendingList :: "time \<Rightarrow> string list \<Rightarrow> ApprovalStore \<Rightarrow> Approval list" where
  "PendingList now ids s = filter (\<lambda>a. now < ap_ExpiresAt a) (List.map_filter (as_pending s) ids)"

definition PurgeExpired :: "time \<Rightarrow> ApprovalStore \<Rightarrow> ApprovalStore" where
  "PurgeExpired now s = s\<lparr>as_pending := (\<lambda>tid. case as_pending s tid of
     Some a \<Rightarrow> if ap_ExpiresAt a < now then None else Some a | None \<Rightarrow> None)\<rparr>"

text \<open>The operations on the store as one step, for statements about histories of it.\<close>

datatype approval_op =
    OpRequest time string
  | OpApprove time string
  | OpDeny string
  | OpConsume string
  | OpPurge time

primrec approval_step :: "approval_op \<Rightarrow> ApprovalStore \<Rightarrow> ApprovalStore" where
  "approval_step (OpRequest now tid) s = snd (Request now tid s)"
| "approval_step (OpApprove now tid) s = snd (Approve now tid s)"
| "approval_step (OpDeny tid) s = snd (Deny tid s)"
| "approval_step (OpConsume tid) s = ConsumeApproval tid s"
| "approval_step (OpPurge now) s = PurgeExpired now s"

text \<open>Requests expire half an hour after they were made, and carry the id they are stored under.\<close>

definition approvals_ok :: "ApprovalStore \<Rightarrow> bool" where
  "approvals_ok s \<longleftrightarrow> (\<forall>tid a. as_pending s tid = Some a \<longrightarrow>
     ap_TaskID a = tid \<and> ap_ExpiresAt a = ap_RequestedAt a + defaultApprovalTTL)"

lemma pending_after:
  assumes "as_pending (approval_step op s) tid = Some a"
  shows "as_pending s tid = Some a \<or>
    (\<exists>now. op = OpRequest now tid \<and> as_pending s tid = None
       \<and> a = \<lparr>ap_TaskID = tid, ap_RequestedAt = now, ap_ExpiresAt = now + defaultApprovalTTL\<rparr>)"
proof (cases op)
  case (OpRequest now t)
  with assms show ?thesis
    by (cases "as_pending s t"; cases "t = tid") (simp_all add: Request_def Let_def)
next
  case (OpApprove now t)
  with assms show ?thesis
    by (cases "as_pending s t"; cases "t = tid") (auto simp: Approve_def Let_def split: if_splits)
next
  case (OpDeny t)
  with assms show ?thesis
    by (cases "as_pending s t"; cases "t = tid") (simp_all add: Deny_def)
next
  case (OpPurge now)
  with assms show ?thesis
    by (cases "as_pending s tid") (simp_all add: PurgeExpired_def split: if_splits)
qed (use assms in \<open>simp add: ConsumeApproval_def\<close>)

lemma approvals_ok_step: "approvals_ok s \<Longrightarrow> approvals_ok (approval_step op s)"
  unfolding approvals_ok_def
proof (intro allI impI)
  fix tid a
  assume ok: "\<forall>tid a. as_pending s tid = Some a \<longrightarrow>
      ap_TaskID a = tid \<and> ap_ExpiresAt a = ap_RequestedAt a + defaultApprovalTTL"
  assume "as_pending (approval_step op s) tid = Some a"
  from pending_after [OF this] ok
  show "ap_TaskID a = tid \<and> ap_ExpiresAt a = ap_RequestedAt a + defaultApprovalTTL" by fastforce
qed

lemma approvals_ok_steps: "approvals_ok (fold approval_step ops NewApprovalStore)"
proof -
  have step: "approvals_ok s \<Longrightarrow> approvals_ok (fold approval_step ops s)" for s
    by (induction ops arbitrary: s) (simp_all add: approvals_ok_step)
  show ?thesis by (rule step) (simp add: approvals_ok_def NewApprovalStore_def)
qed

text \<open>A task becomes approved only by an approval of a pending, unexpired request for it.\<close>

lemma approved_after:
  assumes "as_approved (approval_step op s) tid" "\<not> as_approved s tid"
  shows "\<exists>now a. op = OpApprove now tid \<and> as_pending s tid = Some a \<and> now \<le> ap_ExpiresAt a"
proof (cases op)
  case (OpRequest now t)
  with assms show ?thesis by (cases "as_pending s t") (simp_all add: Request_def Let_def)
next
  case (OpApprove now t)
  with assms show ?thesis
    by (cases "as_pending s t"; cases "t = tid") (auto simp: Approve_def Let_def split: if_splits)
next
  case (OpDeny t)
  with assms show ?thesis
    by (cases "as_pending s t") (auto simp: Deny_def split: if_splits)
next
  case (OpConsume t)
  with assms show ?thesis by (simp add: ConsumeApproval_def split: if_splits)
qed (use assms in \<open>simp_all add: PurgeExpired_def\<close>)

end
