(* ===== verification/Worker_Daemon.thy ===== *)
theory Worker_Daemon
  imports Worker_Policy
begin

section \<open>The worker daemon\<close>

text \<open>
  \<^verbatim>\<open>grid-worker/internal/daemon\<close>: the life-cycle state machine (\<^verbatim>\<open>lifecycle.go\<close>), the daemon's main
  loop and callbacks (\<^verbatim>\<open>daemon.go\<close>) and the control commands (\<^verbatim>\<open>handlers.go\<close>). The main loop, the
  heartbeat, the executing goroutine, the control connections and the signal handler run
  concurrently; the step relation interleaves what each does between two accesses of shared state.
\<close>

subsection \<open>The state machine\<close>

datatype State =
    StateInit
  | StatePreflight
  | StateIdle
  | StateExecuting
  | StatePaused
  | StateShutdown

primrec State_name :: "State \<Rightarrow> string" where
  "State_name StateInit = ''INIT''"
| "State_name StatePreflight = ''PREFLIGHT''"
| "State_name StateIdle = ''IDLE''"
| "State_name StateExecuting = ''EXECUTING''"
| "State_name StatePaused = ''PAUSED''"
| "State_name StateShutdown = ''SHUTDOWN''"

primrec allowedTransitions :: "State \<Rightarrow> State list" where
  "allowedTransitions StateInit = [StatePreflight]"
| "allowedTransitions StatePreflight = [StateIdle, StateShutdown]"
| "allowedTransitions StateIdle = [StateExecuting, StatePaused, StateShutdown]"
| "allowedTransitions StateExecuting = [StateIdle, StateShutdown]"
| "allowedTransitions StatePaused = [StateIdle, StateShutdown]"
| "allowedTransitions StateShutdown = []"

definition FSM_Transition :: "State \<Rightarrow> State \<Rightarrow> State \<Rightarrow> string + State" where
  "FSM_Transition from to cur =
     (if cur \<noteq> from
      then Inl (''FSM transition failed: expected current state '' @ State_name from @ '', got '' @ State_name cur)
      else if to = StateShutdown then Inr to
      else if \<exists>s \<in> set (allowedTransitions from). s = to then Inr to
      else Inl (''FSM transition '' @ State_name from @ '' '' @ [CHR 0xE2, CHR 0x86, CHR 0x92] @ '' ''
        @ State_name to @ '' is not allowed''))"

lemma FSM_Transition_Inr:
  "FSM_Transition from to cur = Inr s \<longleftrightarrow>
     cur = from \<and> s = to \<and> (to = StateShutdown \<or> to \<in> set (allowedTransitions from))"
  by (auto simp: FSM_Transition_def)

subsection \<open>The daemon\<close>

text \<open>
  The configurations are shared by pointers: the heap holds them, the daemon's own pointer moves on
  a reload, the policy engine and the executor keep the first one. The channel holds one task. The
  main loop is idle, holds a task it decided to run, or has returned; \<open>d_running\<close> is the task of the
  executing goroutine.
\<close>

datatype main_loop = Selecting | Decided TaskAssignment | ShuttingDown State | Returned

record daemon =
  d_fsm :: State
  d_heap :: "Config list"
  d_cfg :: nat
  d_approval :: ApprovalStore
  d_channel :: "TaskAssignment option"
  d_loop :: main_loop
  d_executing :: bool
  d_running :: "TaskAssignment option"
  d_now :: time

definition policyEng_cfg :: nat where
  "policyEng_cfg = 0"

definition engine_config :: "daemon \<Rightarrow> Config" where
  "engine_config d = d_heap d ! policyEng_cfg"

definition own_config :: "daemon \<Rightarrow> Config" where
  "own_config d = d_heap d ! d_cfg d"

definition set_own_mode :: "string \<Rightarrow> daemon \<Rightarrow> daemon" where
  "set_own_mode md d =
     (let c = own_config d in
      d\<lparr>d_heap := (d_heap d)[d_cfg d := c\<lparr>cfg_Policy := (cfg_Policy c)\<lparr>pol_Mode := md\<rparr>\<rparr>]\<rparr>)"

text \<open>A new daemon, after validation and the creation of its directories.\<close>

definition Daemon_New :: "time \<Rightarrow> (string + unit) \<Rightarrow> (string + unit) \<Rightarrow> Config \<Rightarrow> string + daemon" where
  "Daemon_New now dirs executor cfg = (case Validate cfg of
     Inl e \<Rightarrow> Inl (''invalid config: '' @ e)
   | Inr _ \<Rightarrow> (case dirs of
       Inl e \<Rightarrow> Inl (''ensure dirs: '' @ e)
     | Inr _ \<Rightarrow> (case executor of
         Inl e \<Rightarrow> Inl (''build executor: '' @ e)
       | Inr _ \<Rightarrow> Inr \<lparr>d_fsm = StateInit, d_heap = [cfg], d_cfg = 0, d_approval = NewApprovalStore,
           d_channel = None, d_loop = Selecting, d_executing = False, d_running = None, d_now = now\<rparr>)))"

text \<open>
  The first part of \<^verbatim>\<open>run\<close>: preflight. A fatal log entry exits the process, so the transition to
  \<^verbatim>\<open>SHUTDOWN\<close> that follows it in the source is never made; \<^verbatim>\<open>None\<close> is the exit.
\<close>

definition run_preflight :: "bool \<Rightarrow> daemon \<Rightarrow> daemon option" where
  "run_preflight failures d = (case FSM_Transition StateInit StatePreflight (d_fsm d) of
     Inl _ \<Rightarrow> None
   | Inr s \<Rightarrow>
       if failures then None
       else (case FSM_Transition StatePreflight StateIdle s of
           Inl _ \<Rightarrow> None
         | Inr s' \<Rightarrow> Some (d\<lparr>d_fsm := s'\<rparr>)))"

text \<open>
  \<^verbatim>\<open>handleTask\<close> up to the transition: not idle, denied, approved by hand, or allowed.
\<close>

definition decide_task :: "tzdb \<Rightarrow> TaskAssignment \<Rightarrow> daemon \<Rightarrow> bool \<times> daemon" where
  "decide_task tz task d =
     (if d_fsm d \<noteq> StateIdle then (False, d)
      else if \<not> dec_Allow (Evaluate tz (d_now d) (engine_config d) task) then
        (if pol_Mode (cfg_Policy (own_config d)) = ''manual'' \<and> IsApproved (ta_TaskID task) (d_approval d)
         then (True, d\<lparr>d_approval := ConsumeApproval (ta_TaskID task) (d_approval d)\<rparr>)
         else (False, d))
      else (True, d))"

text \<open>The rest of \<^verbatim>\<open>handleTask\<close>: the transition and the start of the goroutine.\<close>

definition begin_task :: "TaskAssignment \<Rightarrow> daemon \<Rightarrow> daemon" where
  "begin_task task d = (case FSM_Transition StateIdle StateExecuting (d_fsm d) of
     Inl _ \<Rightarrow> d
   | Inr s \<Rightarrow> d\<lparr>d_fsm := s, d_executing := True, d_running := Some task\<rparr>)"

definition handleTask :: "tzdb \<Rightarrow> TaskAssignment \<Rightarrow> daemon \<Rightarrow> daemon" where
  "handleTask tz task d = (case decide_task tz task d of (go, d') \<Rightarrow> if go then begin_task task d' else d')"

text \<open>The deferred function of the goroutine.\<close>

definition finish_task :: "daemon \<Rightarrow> daemon" where
  "finish_task d =
     (let d' = d\<lparr>d_executing := False, d_running := None\<rparr> in
      case FSM_Transition StateExecuting StateIdle (d_fsm d') of Inl _ \<Rightarrow> d' | Inr s \<Rightarrow> d'\<lparr>d_fsm := s\<rparr>)"

definition onTaskAssigned :: "TaskAssignment \<Rightarrow> daemon \<Rightarrow> daemon" where
  "onTaskAssigned task d = (case d_channel d of None \<Rightarrow> d\<lparr>d_channel := Some task\<rparr> | Some _ \<Rightarrow> d)"

definition collectStats :: "float64 \<Rightarrow> daemon \<Rightarrow> HeartbeatRequest" where
  "collectStats batteryPct d = \<lparr>hb_State = State_name (d_fsm d), hb_CPUPercent = 0, hb_RAMMBUsed = 0,
     hb_DiskFreeGB = 0, hb_BatteryPercent = batteryPct, hb_JobsToday = 0\<rparr>"

text \<open>A reload that succeeds moves the daemon's pointer to a new configuration; it is not validated.\<close>

definition onConfigReload :: "string + Config \<Rightarrow> daemon \<Rightarrow> daemon" where
  "onConfigReload loaded d = (case loaded of
     Inl _ \<Rightarrow> d
   | Inr c \<Rightarrow> d\<lparr>d_heap := d_heap d @ [c], d_cfg := length (d_heap d)\<rparr>)"

text \<open>
  \<^verbatim>\<open>shutdown\<close> reads the current state and then asks for the transition from that state, whose error
  it ignores; between the two the executing goroutine or a command may have moved the machine.
\<close>

definition shutdown_from :: "State \<Rightarrow> daemon \<Rightarrow> daemon" where
  "shutdown_from cur d =
     (if cur \<noteq> StateShutdown
      then (case FSM_Transition cur StateShutdown (d_fsm d) of Inl _ \<Rightarrow> d | Inr s \<Rightarrow> d\<lparr>d_fsm := s\<rparr>)
      else d)"

definition shutdown :: "daemon \<Rightarrow> daemon" where
  "shutdown d = shutdown_from (d_fsm d) d"

subsection \<open>Control commands\<close>

text \<open>The payload of \<^verbatim>\<open>approve\<close> is the decoder's error or the task id it carries.\<close>

datatype control_command =
    CmdStatus
  | CmdPause
  | CmdResume
  | CmdApprove "string + string"
  | CmdRevoke

text \<open>\<^verbatim>\<open>json.Marshal\<close> of the reply, a struct or a map.\<close>

definition handleStatusCmd :: "daemon \<Rightarrow> (string + json) \<times> daemon" where
  "handleStatusCmd d = (Inr (JObj [(''state'', JStr (State_name (d_fsm d))),
     (''policy_mode'', JStr (pol_Mode (cfg_Policy (own_config d)))),
     (''worker_id'', JStr (srv_WorkerID (cfg_Server (own_config d))))]), d)"

definition handlePauseCmd :: "daemon \<Rightarrow> (string + json) \<times> daemon" where
  "handlePauseCmd d =
     (if d_fsm d \<noteq> StateIdle
      then (Inl (''can only pause from IDLE state (current: '' @ State_name (d_fsm d) @ '')''), d)
      else case FSM_Transition StateIdle StatePaused (d_fsm d) of
          Inl e \<Rightarrow> (Inl e, d)
        | Inr s \<Rightarrow> (Inr (JObj [(''state'', JStr ''PAUSED'')]), set_own_mode ''paused'' (d\<lparr>d_fsm := s\<rparr>)))"

definition handleResumeCmd :: "daemon \<Rightarrow> (string + json) \<times> daemon" where
  "handleResumeCmd d =
     (if d_fsm d \<noteq> StatePaused
      then (Inl (''can only resume from PAUSED state (current: '' @ State_name (d_fsm d) @ '')''), d)
      else case FSM_Transition StatePaused StateIdle (d_fsm d) of
          Inl e \<Rightarrow> (Inl e, d)
        | Inr s \<Rightarrow> (Inr (JObj [(''state'', JStr ''IDLE'')]), set_own_mode ''auto'' (d\<lparr>d_fsm := s\<rparr>)))"

definition handleApproveCmd :: "string + string \<Rightarrow> daemon \<Rightarrow> (string + json) \<times> daemon" where
  "handleApproveCmd payload d = (case payload of
     Inl e \<Rightarrow> (Inl (''invalid approve payload: '' @ e), d)
   | Inr tid \<Rightarrow>
       if tid = [] then (Inl ''task_id is required'', d)
       else (case Approve (d_now d) tid (d_approval d) of (ok, st) \<Rightarrow>
         let d' = d\<lparr>d_approval := st\<rparr> in
         if \<not> ok then (Inl (''task '' @ Quote tid @ '' not found in pending approvals''), d')
         else (Inr (JObj [(''approved'', JStr tid)]), d')))"

definition handleRevokeCmd :: "daemon \<Rightarrow> (string + json) \<times> daemon" where
  "handleRevokeCmd d = (Inr (JObj [(''state'', JStr ''revoking'')]), d)"

primrec handle_command :: "control_command \<Rightarrow> daemon \<Rightarrow> (string + json) \<times> daemon" where
  "handle_command CmdStatus d = handleStatusCmd d"
| "handle_command CmdPause d = handlePauseCmd d"
| "handle_command CmdResume d = handleResumeCmd d"
| "handle_command (CmdApprove p) d = handleApproveCmd p d"
| "handle_command CmdRevoke d = handleRevokeCmd d"

end
