(* ===== verification/Worker_Lifecycle.thy ===== *)
theory Worker_Lifecycle
  imports Worker_Daemon
begin

section \<open>Runs of the daemon\<close>

text \<open>
  The steps of the daemon's goroutines once preflight has passed, and what every reachable state
  satisfies. The main loop takes a task from the channel and decides (\<^verbatim>\<open>Take\<close>), then begins it; the
  commands, the heartbeat's callback, the reload signal and the end of the execution come at any time; a
  cancelled context makes the loop read the state (\<^verbatim>\<open>Cancel\<close>) and then ask for the last transition (\<^verbatim>\<open>Stop\<close>).
\<close>

inductive daemon_step :: "tzdb \<Rightarrow> daemon \<Rightarrow> daemon \<Rightarrow> bool" for tz where
  Assigned: "daemon_step tz d (onTaskAssigned t d)"
| Take: "d_loop d = Selecting \<Longrightarrow> d_channel d = Some t \<Longrightarrow>
    decide_task tz t (d\<lparr>d_channel := None\<rparr>) = (go, d') \<Longrightarrow>
    daemon_step tz d (if go then d'\<lparr>d_loop := Decided t\<rparr> else d')"
| Begin: "d_loop d = Decided t \<Longrightarrow> daemon_step tz d ((begin_task t d)\<lparr>d_loop := Selecting\<rparr>)"
| Finish: "d_running d = Some t \<Longrightarrow> daemon_step tz d (finish_task d)"
| Command: "daemon_step tz d (snd (handle_command c d))"
| Reload: "daemon_step tz d (onConfigReload r d)"
| Cancel: "d_loop d = Selecting \<Longrightarrow> daemon_step tz d (d\<lparr>d_loop := ShuttingDown (d_fsm d)\<rparr>)"
| Stop: "d_loop d = ShuttingDown cur \<Longrightarrow> daemon_step tz d ((shutdown_from cur d)\<lparr>d_loop := Returned\<rparr>)"
| Clock: "0 \<le> dt \<Longrightarrow> daemon_step tz d (d\<lparr>d_now := d_now d + dt\<rparr>)"

abbreviation daemon_run :: "tzdb \<Rightarrow> daemon \<Rightarrow> daemon \<Rightarrow> bool" where
  "daemon_run tz \<equiv> (daemon_step tz)\<^sup>*\<^sup>*"

definition daemon_started :: "daemon \<Rightarrow> bool" where
  "daemon_started d \<longleftrightarrow> (\<exists>now cfg d0. Daemon_New now (Inr ()) (Inr ()) cfg = Inr d0 \<and> run_preflight False d0 = Some d)"

subsection \<open>The invariant\<close>

definition daemon_ok :: "daemon \<Rightarrow> bool" where
  "daemon_ok d \<longleftrightarrow> d_executing d = (d_running d \<noteq> None)
     \<and> (d_fsm d = StateExecuting \<longrightarrow> d_running d \<noteq> None)
     \<and> (d_running d \<noteq> None \<longrightarrow> d_fsm d = StateExecuting \<or> d_fsm d = StateShutdown)
     \<and> (d_fsm d = StateShutdown \<longrightarrow> d_loop d = Returned)
     \<and> (\<forall>cur. d_loop d = ShuttingDown cur \<longrightarrow> cur \<noteq> StateShutdown)
     \<and> d_fsm d \<noteq> StateInit \<and> d_fsm d \<noteq> StatePreflight
     \<and> d_cfg d < length (d_heap d)
     \<and> d_approval d = NewApprovalStore"

lemma daemon_ok_started:
  assumes "daemon_started d"
  shows "daemon_ok d"
proof -
  obtain now cfg d0 where "Daemon_New now (Inr ()) (Inr ()) cfg = Inr d0" "run_preflight False d0 = Some d"
    using assms by (auto simp: daemon_started_def)
  then show ?thesis
    by (cases "Validate cfg") (auto simp: Daemon_New_def run_preflight_def daemon_ok_def FSM_Transition_def)
qed

lemma set_own_mode_simps [simp]:
  "d_fsm (set_own_mode md d) = d_fsm d" "d_cfg (set_own_mode md d) = d_cfg d"
  "d_approval (set_own_mode md d) = d_approval d" "d_channel (set_own_mode md d) = d_channel d"
  "d_loop (set_own_mode md d) = d_loop d" "d_executing (set_own_mode md d) = d_executing d"
  "d_running (set_own_mode md d) = d_running d" "d_now (set_own_mode md d) = d_now d"
  "length (d_heap (set_own_mode md d)) = length (d_heap d)"
  by (simp_all add: set_own_mode_def Let_def)

text \<open>With no request for approval ever made, every approval is refused.\<close>

lemma Approve_New: "Approve now tid NewApprovalStore = (False, NewApprovalStore)"
  by (simp add: Approve_def NewApprovalStore_def)

lemma decide_task_ok:
  assumes "d_approval d = NewApprovalStore"
  shows "decide_task tz t d =
    (d_fsm d = StateIdle \<and> dec_Allow (Evaluate tz (d_now d) (engine_config d) t), d)"
  using assms by (simp add: decide_task_def IsApproved_def NewApprovalStore_def)

lemma daemon_ok_command: "daemon_ok d \<Longrightarrow> daemon_ok (snd (handle_command c d))"
proof (cases c)
  case CmdPause
  assume "daemon_ok d"
  with CmdPause show ?thesis by (auto simp: handlePauseCmd_def FSM_Transition_def daemon_ok_def)
next
  case CmdResume
  assume "daemon_ok d"
  with CmdResume show ?thesis by (auto simp: handleResumeCmd_def FSM_Transition_def daemon_ok_def)
next
  case (CmdApprove p)
  assume ok: "daemon_ok d"
  then have "d\<lparr>d_approval := NewApprovalStore\<rparr> = d" by (simp add: daemon_ok_def)
  with CmdApprove ok show ?thesis
    by (auto simp: handleApproveCmd_def daemon_ok_def Approve_New Let_def split: sum.splits)
qed (simp_all add: handleStatusCmd_def handleRevokeCmd_def)

lemma daemon_ok_step:
  assumes "daemon_step tz d d'" "daemon_ok d"
  shows "daemon_ok d'"
  using assms
proof (cases rule: daemon_step.cases)
  case (Assigned t)
  with assms(2) show ?thesis by (simp add: onTaskAssigned_def daemon_ok_def split: option.splits)
next
  case (Take t go d'')
  have "d_approval (d\<lparr>d_channel := None\<rparr>) = NewApprovalStore" using assms(2) by (simp add: daemon_ok_def)
  from decide_task_ok [OF this, of tz t] Take assms(2) show ?thesis by (auto simp: daemon_ok_def)
next
  case (Begin t)
  with assms(2) show ?thesis by (auto simp: begin_task_def FSM_Transition_def daemon_ok_def)
next
  case (Finish t)
  with assms(2) show ?thesis by (auto simp: finish_task_def FSM_Transition_def daemon_ok_def Let_def)
next
  case (Command c)
  with assms(2) show ?thesis by (simp add: daemon_ok_command)
next
  case (Reload r)
  with assms(2) show ?thesis by (auto simp: onConfigReload_def daemon_ok_def split: sum.splits)
next
  case Cancel
  with assms(2) show ?thesis by (auto simp: daemon_ok_def)
next
  case (Stop cur)
  with assms(2) show ?thesis by (auto simp: shutdown_from_def FSM_Transition_def daemon_ok_def)
next
  case (Clock dt)
  with assms(2) show ?thesis by (auto simp: daemon_ok_def)
qed

lemma daemon_ok_run: "daemon_run tz d d' \<Longrightarrow> daemon_ok d \<Longrightarrow> daemon_ok d'"
  by (induction rule: rtranclp_induct) (auto intro: daemon_ok_step)

lemma daemon_ok_reachable: "daemon_started d \<Longrightarrow> daemon_run tz d d' \<Longrightarrow> daemon_ok d'"
  by (blast intro: daemon_ok_run daemon_ok_started)

subsection \<open>How the state moves\<close>

text \<open>The edges of the state machine that are ever taken after preflight.\<close>

definition fsm_edge :: "State \<Rightarrow> State \<Rightarrow> bool" where
  "fsm_edge s s' \<longleftrightarrow> s' = s \<or> s' = StateShutdown \<or> s' \<in> set (allowedTransitions s)"

lemma fsm_step:
  assumes "daemon_step tz d d'" "daemon_ok d"
  shows "fsm_edge (d_fsm d) (d_fsm d')"
  using assms
proof (cases rule: daemon_step.cases)
  case (Take t go d'')
  have "d_approval (d\<lparr>d_channel := None\<rparr>) = NewApprovalStore" using assms(2) by (simp add: daemon_ok_def)
  from decide_task_ok [OF this, of tz t] Take show ?thesis by (auto simp: fsm_edge_def)
next
  case (Begin t)
  then show ?thesis by (auto simp: begin_task_def FSM_Transition_def fsm_edge_def)
next
  case (Finish t)
  then show ?thesis by (auto simp: finish_task_def FSM_Transition_def fsm_edge_def Let_def)
next
  case (Command c)
  then show ?thesis
    by (cases c) (auto simp: handleStatusCmd_def handlePauseCmd_def handleResumeCmd_def handleApproveCmd_def
        handleRevokeCmd_def FSM_Transition_def fsm_edge_def Let_def split: sum.splits prod.splits)
next
  case (Stop cur)
  then show ?thesis by (auto simp: shutdown_from_def FSM_Transition_def fsm_edge_def)
qed (auto simp: fsm_edge_def onTaskAssigned_def onConfigReload_def split: option.splits sum.splits)

lemma shutdown_stays:
  assumes "daemon_run tz d d'" "daemon_ok d" "d_fsm d = StateShutdown"
  shows "d_fsm d' = StateShutdown"
  using assms
proof (induction rule: rtranclp_induct)
  case (step d' d'')
  then have "daemon_ok d'" by (blast intro: daemon_ok_run)
  from fsm_step [OF step.hyps(2) this] step show ?case by (auto simp: fsm_edge_def)
qed

text \<open>A task starts only when nothing runs and the loop has decided for it.\<close>

lemma task_starts:
  assumes "daemon_step tz d d'" "daemon_ok d" "d_running d' = Some t" "d_running d \<noteq> Some t"
  shows "d_running d = None \<and> d_loop d = Decided t \<and> d_fsm d = StateIdle"
  using assms
proof (cases rule: daemon_step.cases)
  case (Take t' go d'')
  have "d_approval (d\<lparr>d_channel := None\<rparr>) = NewApprovalStore" using assms(2) by (simp add: daemon_ok_def)
  from decide_task_ok [OF this, of tz t'] Take assms show ?thesis by (auto split: if_splits)
next
  case (Begin t')
  with assms show ?thesis
    by (auto simp: begin_task_def FSM_Transition_def daemon_ok_def split: if_splits)
next
  case (Command c)
  with assms show ?thesis
    by (cases c) (auto simp: handleStatusCmd_def handlePauseCmd_def handleResumeCmd_def handleApproveCmd_def
        handleRevokeCmd_def FSM_Transition_def Let_def split: sum.splits prod.splits if_splits)
qed (auto simp: onTaskAssigned_def onConfigReload_def finish_task_def shutdown_from_def FSM_Transition_def Let_def
    split: option.splits sum.splits if_splits)

end
