(* ===== verification/Worker_Control.thy ===== *)
theory Worker_Control
  imports Worker_Daemon
begin

section \<open>The control socket\<close>

text \<open>
  \<^verbatim>\<open>grid-worker/internal/control/server.go\<close>: messages are a 4-byte big-endian length and that many
  bytes of JSON. A connection is the bytes the client has sent and those the server has written; the
  text of a JSON value and its parser are parameters (\<open>wext\<close>).
\<close>

record control_cmd =
  cc_Type :: string
  cc_Payload :: "json option"

record Response =
  cr_OK :: bool
  cr_Data :: "json option"
  cr_Error :: string

definition marshal_Command :: "control_cmd \<Rightarrow> json" where
  "marshal_Command c = JObj ((''type'', JStr (cc_Type c))
     # (case cc_Payload c of None \<Rightarrow> [] | Some p \<Rightarrow> [(''payload'', p)]))"

definition marshal_Response :: "Response \<Rightarrow> json" where
  "marshal_Response r = JObj ((''ok'', JBool (cr_OK r))
     # (case cr_Data r of None \<Rightarrow> [] | Some d \<Rightarrow> [(''data'', d)])
     @ unless_empty (cr_Error r = []) ''error'' (JStr (cr_Error r)))"

text \<open>A raw message keeps the JSON value as it is, null included.\<close>

definition raw_field :: "string \<Rightarrow> (string \<times> json) list \<Rightarrow> json option" where
  "raw_field name kvs = map_option snd (find (\<lambda>(k, v). EqualFold k name) (rev kvs))"

definition as_bool :: "json option \<Rightarrow> string + bool" where
  "as_bool v = (case v of None \<Rightarrow> Inr False | Some (JBool b) \<Rightarrow> Inr b
     | Some _ \<Rightarrow> Inl ''json: cannot unmarshal into Go struct field of type bool'')"

definition decode_Command :: "json \<Rightarrow> string + control_cmd" where
  "decode_Command j = (case j of
     JObj kvs \<Rightarrow> (case as_string (json_field ''type'' kvs) of
         Inl e \<Rightarrow> Inl e
       | Inr t \<Rightarrow> Inr \<lparr>cc_Type = t, cc_Payload = raw_field ''payload'' kvs\<rparr>)
   | JNull \<Rightarrow> Inr \<lparr>cc_Type = [], cc_Payload = None\<rparr>
   | _ \<Rightarrow> Inl ''json: cannot unmarshal into Go value of type control.Command'')"

definition decode_Response :: "json \<Rightarrow> string + Response" where
  "decode_Response j = (case j of
     JObj kvs \<Rightarrow> (case (as_bool (json_field ''ok'' kvs), as_string (json_field ''error'' kvs)) of
         (Inr b, Inr e) \<Rightarrow> Inr \<lparr>cr_OK = b, cr_Data = raw_field ''data'' kvs, cr_Error = e\<rparr>
       | _ \<Rightarrow> Inl ''json: cannot unmarshal into Go value of type control.Response'')
   | JNull \<Rightarrow> Inr \<lparr>cr_OK = False, cr_Data = None, cr_Error = []\<rparr>
   | _ \<Rightarrow> Inl ''json: cannot unmarshal into Go value of type control.Response'')"

subsection \<open>Frames\<close>

definition MaxMessage :: nat where
  "MaxMessage = 2 ^ 20"

definition frame :: "string \<Rightarrow> byte list" where
  "frame s = be32 (word_of_nat (length s)) @ bytes_of s"

definition string_of_bytes :: "byte list \<Rightarrow> string" where
  "string_of_bytes bs = map (\<lambda>b. char_of (unat b)) bs"

text \<open>The server reads one message: a length it accepts and a body that is all there.\<close>

definition read_frame :: "byte list \<Rightarrow> (string \<times> byte list) option" where
  "read_frame inp = (case read_be32 inp of
     None \<Rightarrow> None
   | Some (n, rest) \<Rightarrow>
       if n = 0 \<or> unat n > MaxMessage then None
       else if length rest < unat n then None
       else Some (string_of_bytes (take (unat n) rest), drop (unat n) rest))"

lemma read_frame_shorter: "read_frame inp = Some (s, rest) \<Longrightarrow> length rest < length inp"
  by (cases inp rule: read_be32.cases) (auto simp: read_frame_def split: if_splits)

subsection \<open>Dispatch\<close>

text \<open>A handler acts on the daemon and returns an error, nothing, or the JSON of its reply.\<close>

type_synonym handlers = "string \<Rightarrow> (json option \<Rightarrow> daemon \<Rightarrow> (string + json option) \<times> daemon) option"

definition control_Register :: "string \<Rightarrow> (json option \<Rightarrow> daemon \<Rightarrow> (string + json option) \<times> daemon) \<Rightarrow> handlers \<Rightarrow> handlers" where
  "control_Register cmdType h hs = hs(cmdType \<mapsto> h)"

definition control_dispatch :: "handlers \<Rightarrow> control_cmd \<Rightarrow> daemon \<Rightarrow> Response \<times> daemon" where
  "control_dispatch hs cmd d = (case hs (cc_Type cmd) of
     None \<Rightarrow> (\<lparr>cr_OK = False, cr_Data = None, cr_Error = ''unknown command type '' @ Quote (cc_Type cmd)\<rparr>, d)
   | Some h \<Rightarrow> (case h (cc_Payload cmd) d of
       (Inl e, d') \<Rightarrow> (\<lparr>cr_OK = False, cr_Data = None, cr_Error = e\<rparr>, d')
     | (Inr None, d') \<Rightarrow> (\<lparr>cr_OK = True, cr_Data = None, cr_Error = []\<rparr>, d')
     | (Inr (Some j), d') \<Rightarrow> (\<lparr>cr_OK = True, cr_Data = Some j, cr_Error = []\<rparr>, d')))"

definition writeResponse :: "wext \<Rightarrow> Response \<Rightarrow> byte list" where
  "writeResponse ex r = frame (json_Text ex (marshal_Response r))"

text \<open>\<^verbatim>\<open>handleConn\<close>: the messages in turn, until one is cut short, too long or not JSON.\<close>

function handleConn :: "wext \<Rightarrow> handlers \<Rightarrow> byte list \<Rightarrow> daemon \<Rightarrow> byte list \<times> daemon" where
  "handleConn ex hs inp d = (case read_frame inp of
     None \<Rightarrow> ([], d)
   | Some (text, rest) \<Rightarrow>
       (case (case json_Parse ex text of Inl e \<Rightarrow> Inl e | Inr j \<Rightarrow> decode_Command j) of
         Inl e \<Rightarrow> (writeResponse ex \<lparr>cr_OK = False, cr_Data = None, cr_Error = ''invalid JSON''\<rparr>, d)
       | Inr cmd \<Rightarrow>
           (case control_dispatch hs cmd d of (resp, d') \<Rightarrow>
             case handleConn ex hs rest d' of (out, d'') \<Rightarrow> (writeResponse ex resp @ out, d''))))"
  by pat_completeness auto
termination
  by (relation "measure (\<lambda>(ex, hs, inp, d). length inp)") (auto dest: read_frame_shorter)

declare handleConn.simps [simp del]

text \<open>
  \<^verbatim>\<open>SendCommand\<close>: the bytes the client sends, and how it reads the reply. The client does not
  bound the length of the reply.
\<close>

definition send_bytes :: "wext \<Rightarrow> control_cmd \<Rightarrow> byte list" where
  "send_bytes ex cmd = frame (json_Text ex (marshal_Command cmd))"

definition read_reply :: "wext \<Rightarrow> byte list \<Rightarrow> string + Response" where
  "read_reply ex inp = (case read_be32 inp of
     None \<Rightarrow> Inl ''read response length: unexpected EOF''
   | Some (n, rest) \<Rightarrow>
       if length rest < unat n then Inl ''read response body: unexpected EOF''
       else (case json_Parse ex (string_of_bytes (take (unat n) rest)) of
           Inl e \<Rightarrow> Inl (''parse response: '' @ e)
         | Inr j \<Rightarrow> (case decode_Response j of Inl e \<Rightarrow> Inl (''parse response: '' @ e) | Inr r \<Rightarrow> Inr r)))"

definition SendCommand :: "wext \<Rightarrow> handlers \<Rightarrow> control_cmd \<Rightarrow> daemon \<Rightarrow> (string + Response) \<times> daemon" where
  "SendCommand ex hs cmd d = (case handleConn ex hs (send_bytes ex cmd) d of (out, d') \<Rightarrow> (read_reply ex out, d'))"

text \<open>\<^verbatim>\<open>registerControlHandlers\<close>, with the payload of \<^verbatim>\<open>approve\<close> decoded by its handler.\<close>

definition decode_approve :: "json option \<Rightarrow> string + string" where
  "decode_approve p = (case p of
     None \<Rightarrow> Inl ''unexpected end of JSON input''
   | Some (JObj kvs) \<Rightarrow> as_string (json_field ''task_id'' kvs)
   | Some JNull \<Rightarrow> Inr []
   | Some _ \<Rightarrow> Inl ''json: cannot unmarshal into Go value of type daemon.approvePayload'')"

definition as_handler :: "(json option \<Rightarrow> control_command) \<Rightarrow> json option \<Rightarrow> daemon \<Rightarrow> (string + json option) \<times> daemon" where
  "as_handler f p d = (case handle_command (f p) d of
     (Inl e, d') \<Rightarrow> (Inl e, d') | (Inr j, d') \<Rightarrow> (Inr (Some j), d'))"

definition registerControlHandlers :: handlers where
  "registerControlHandlers =
     control_Register ''revoke'' (as_handler (\<lambda>_. CmdRevoke))
    (control_Register ''approve'' (as_handler (\<lambda>p. CmdApprove (decode_approve p)))
    (control_Register ''resume'' (as_handler (\<lambda>_. CmdResume))
    (control_Register ''pause'' (as_handler (\<lambda>_. CmdPause))
    (control_Register ''status'' (as_handler (\<lambda>_. CmdStatus)) Map.empty))))"

subsection \<open>Round trips\<close>

lemma string_of_bytes_of [simp]: "string_of_bytes (bytes_of s) = s"
proof -
  have "char_of (unat (of_nat (of_char c) :: byte)) = c" for c
  proof -
    have "(of_char c :: nat) < 256" using range_nat_of_char by (metis atLeastLessThan_iff rangeI)
    then have "unat (of_nat (of_char c) :: byte) = of_char c" by (simp add: unat_of_nat)
    then show ?thesis by simp
  qed
  then show ?thesis by (simp add: string_of_bytes_def bytes_of_def map_idI)
qed

lemma length_bytes_of [simp]: "length (bytes_of s) = length s"
  by (simp add: bytes_of_def)

lemma read_frame_frame:
  assumes "s \<noteq> []" "length s \<le> MaxMessage"
  shows "read_frame (frame s @ rest) = Some (s, rest)"
proof -
  have u: "unat (word_of_nat (length s) :: 32 word) = length s"
    using assms(2) by (simp add: unat_of_nat MaxMessage_def)
  then have "(word_of_nat (length s) :: 32 word) \<noteq> 0"
    using assms(1) by (metis length_0_conv unat_0)
  with u assms show ?thesis by (simp add: read_frame_def frame_def)
qed

lemma raw_field_simps:
  "raw_field name [] = None"
  "raw_field name (kvs @ [(k, v)]) = (if EqualFold k name then Some v else raw_field name kvs)"
  by (simp_all add: raw_field_def)

lemma decode_marshal_Command: "decode_Command (marshal_Command c) = Inr c"
  by (cases c; cases "cc_Payload c")
    (simp_all add: decode_Command_def marshal_Command_def json_field_def raw_field_def as_string_def EqualFold_def lower_def)

text \<open>
  A command sent over the socket is dispatched once and its reply comes back, when the parser reads
  back the two texts the writer produced and they fit the limits.
\<close>

lemma decode_marshal_Response: "decode_Response (marshal_Response r) = Inr r"
  by (cases r; cases "cr_Data r")
    (auto simp: decode_Response_def marshal_Response_def json_field_def raw_field_def as_string_def as_bool_def
      unless_empty_def EqualFold_def lower_def)

lemma SendCommand_dispatch:
  assumes "json_Parse ex (json_Text ex (marshal_Command cmd)) = Inr (marshal_Command cmd)"
    and "control_dispatch hs cmd d = (resp, d')"
    and "json_Parse ex (json_Text ex (marshal_Response resp)) = Inr (marshal_Response resp)"
    and "json_Text ex (marshal_Command cmd) \<noteq> []" "length (json_Text ex (marshal_Command cmd)) \<le> MaxMessage"
    and "length (json_Text ex (marshal_Response resp)) < 2 ^ 32"
  shows "SendCommand ex hs cmd d = (Inr resp, d')"
proof -
  have none: "read_frame [] = None" by (simp add: read_frame_def)
  have stop: "handleConn ex hs [] d' = ([], d')"
    by (subst handleConn.simps) (simp add: none)
  have conn: "handleConn ex hs (send_bytes ex cmd) d = (writeResponse ex resp, d')"
    using read_frame_frame [OF assms(4,5), of "[]"] assms(1,2) stop
    by (subst handleConn.simps) (simp add: send_bytes_def decode_marshal_Command)
  have "unat (word_of_nat (length (json_Text ex (marshal_Response resp))) :: 32 word)
      = length (json_Text ex (marshal_Response resp))"
    using assms(6) by (simp add: unat_of_nat)
  then have "read_reply ex (writeResponse ex resp) = Inr resp"
    using assms(3) by (simp add: read_reply_def writeResponse_def frame_def decode_marshal_Response)
  with conn show ?thesis by (simp add: SendCommand_def)
qed

end
