(* ===== verification/Worker_Heartbeat.thy ===== *)
theory Worker_Heartbeat
  imports Worker_Client
begin

section \<open>The heartbeat loop\<close>

text \<open>
  \<^verbatim>\<open>grid-worker/internal/controlplane/heartbeat.go\<close>: one heartbeat, the waiting time after server
  errors, and the loop, run for a given number of ticks of its timer.
\<close>

definition heartbeat_interval :: "int \<Rightarrow> int" where
  "heartbeat_interval intervalSec = (if intervalSec \<le> 0 then 30 else intervalSec)"

text \<open>One heartbeat: the task the reply carries is handed to \<^verbatim>\<open>onTask\<close>.\<close>

definition heartbeat_tick :: "wext \<Rightarrow> Client \<Rightarrow> HeartbeatRequest \<Rightarrow> TaskAssignment option node_fallible" where
  "heartbeat_tick ex c stats = Client_Heartbeat ex c stats"

definition maxBackoff :: time where
  "maxBackoff = 5 * Minute"

text \<open>The comparison of the two durations as floats is exact: both are far below \<open>2^53\<close>.\<close>

definition next_backoff :: "time \<Rightarrow> time" where
  "next_backoff backoff = (if backoff = 0 then 5 * Second else min (backoff * 2) maxBackoff)"

text \<open>
  What a tick of the timer does with the outcome: reset, stop the process (the \<^verbatim>\<open>Fatal\<close> log entry exits),
  wait longer, or log and go on.
\<close>

datatype loop_next = Go_On time | Exit_Process

definition after_tick :: "time \<Rightarrow> werror + 'a \<Rightarrow> loop_next" where
  "after_tick backoff r = (case r of
     Inr _ \<Rightarrow> Go_On 0
   | Inl err \<Rightarrow>
       if is_AuthError err then Exit_Process
       else if is_ServerError err then Go_On (next_backoff backoff)
       else Go_On backoff)"

text \<open>
  \<open>ticks k\<close> events of the timer: the waits before each heartbeat, the tasks handed over, and whether
  the process exited. A cancelled context ends the loop at its next check.
\<close>

record loop_result =
  lr_Waits :: "time list"
  lr_Tasks :: "TaskAssignment list"
  lr_Exit :: bool

primrec heartbeat_ticks :: "nat \<Rightarrow> wext \<Rightarrow> Client \<Rightarrow> (node \<Rightarrow> HeartbeatRequest) \<Rightarrow> time \<Rightarrow> loop_result node_effect" where
  "heartbeat_ticks 0 ex c stats backoff = ret \<lparr>lr_Waits = [], lr_Tasks = [], lr_Exit = False\<rparr>"
| "heartbeat_ticks (Suc k) ex c stats backoff = do {
     stop \<leftarrow> cancelled;
     if stop then ret \<lparr>lr_Waits = [], lr_Tasks = [], lr_Exit = False\<rparr>
     else do {
       req \<leftarrow> gets stats;
       r \<leftarrow> heartbeat_tick ex c req;
       let given = (case r of Inr (Some t) \<Rightarrow> [t] | _ \<Rightarrow> []);
       case after_tick backoff r of
         Exit_Process \<Rightarrow> ret \<lparr>lr_Waits = [backoff], lr_Tasks = given, lr_Exit = True\<rparr>
       | Go_On b \<Rightarrow> do {
           rest \<leftarrow> heartbeat_ticks k ex c stats b;
           ret (rest\<lparr>lr_Waits := backoff # lr_Waits rest, lr_Tasks := given @ lr_Tasks rest\<rparr>)
         }
     }
   }"

text \<open>\<^verbatim>\<open>Start\<close>: a heartbeat at once, whose outcome is ignored, then the ticks of the timer.\<close>

definition heartbeat_Start :: "nat \<Rightarrow> wext \<Rightarrow> Client \<Rightarrow> (node \<Rightarrow> HeartbeatRequest) \<Rightarrow> loop_result node_effect" where
  "heartbeat_Start k ex c stats = do {
     req \<leftarrow> gets stats;
     r \<leftarrow> heartbeat_tick ex c req;
     rest \<leftarrow> heartbeat_ticks k ex c stats 0;
     ret (rest\<lparr>lr_Tasks := (case r of Inr (Some t) \<Rightarrow> [t] | _ \<Rightarrow> []) @ lr_Tasks rest\<rparr>)
   }"

subsection \<open>The waiting time\<close>

lemma next_backoff_le: "0 \<le> b \<Longrightarrow> b \<le> maxBackoff \<Longrightarrow> 0 \<le> next_backoff b \<and> next_backoff b \<le> maxBackoff"
  by (auto simp: next_backoff_def maxBackoff_def Minute_def Second_def min_def)

text \<open>After \<open>Suc k\<close> server errors in a row the wait is five seconds doubled \<open>k\<close> times, capped.\<close>

lemma next_backoff_iterate: "(next_backoff ^^ Suc k) 0 = min (5 * Second * 2 ^ k) maxBackoff"
proof (induction k)
  case 0
  then show ?case by (simp add: next_backoff_def maxBackoff_def Minute_def Second_def)
next
  case (Suc k)
  have "(1::int) \<le> 2 ^ k" by simp
  then have pos: "min (5 * Second * 2 ^ k) maxBackoff \<noteq> 0"
    by (simp add: min_def maxBackoff_def Minute_def Second_def)
  have "(next_backoff ^^ Suc (Suc k)) 0 = next_backoff (min (5 * Second * 2 ^ k) maxBackoff)"
    using Suc by simp
  also have "\<dots> = min (5 * Second * 2 ^ Suc k) maxBackoff"
    using pos by (auto simp: next_backoff_def min_def maxBackoff_def Minute_def Second_def)
  finally show ?case .
qed

lemma after_tick_bound:
  "0 \<le> b \<Longrightarrow> b \<le> maxBackoff \<Longrightarrow> after_tick b r = Go_On b' \<Longrightarrow> 0 \<le> b' \<and> b' \<le> maxBackoff"
  using next_backoff_le [of b]
  by (auto simp: after_tick_def maxBackoff_def Minute_def Second_def split: sum.splits if_splits)

lemma heartbeat_waits_bound:
  assumes "0 \<le> b" "b \<le> maxBackoff" "x \<in> set (lr_Waits (result (heartbeat_ticks k ex c stats b) n))"
  shows "0 \<le> x \<and> x \<le> maxBackoff"
  using assms
proof (induction k arbitrary: b n)
  case (Suc k)
  let ?n = "n\<lparr>n_cancels := tl (n_cancels n)\<rparr>"
  obtain r n' where r: "run_state (heartbeat_tick ex c (stats ?n)) ?n = (r, n')" by fastforce
  show ?case
  proof (cases "after_tick b r")
    case (Go_On b')
    with after_tick_bound [OF Suc.prems(1,2)] have b': "0 \<le> b'" "b' \<le> maxBackoff" by auto
    have "x = b \<or> x \<in> set (lr_Waits (result (heartbeat_ticks k ex c stats b') n'))"
      using Suc.prems(3) r Go_On
      by (auto simp: run_cancelled Let_def split: if_splits prod.splits)
    with Suc.IH [OF b'] Suc.prems(1,2) show ?thesis by auto
  next
    case Exit_Process
    then show ?thesis using Suc.prems r by (auto simp: run_cancelled Let_def split: if_splits)
  qed
qed simp

end
