(* ===== verification/Worker_Preflight.thy ===== *)
theory Worker_Preflight
  imports Worker_Scanner Worker_Client
begin

section \<open>Preflight checks\<close>

text \<open>
  \<^verbatim>\<open>grid-worker/internal/preflight/checks.go\<close>: the ten checks a worker makes before it becomes idle.
  The last check may lower \<^verbatim>\<open>MaxJobs\<close> in the configuration, which the daemon shares; so the
  configuration is part of the result. What the hardware library reports is a parameter.
\<close>

record hardware =
  hw_DiskFree :: "string \<Rightarrow> string + 64 word"
  hw_CPUCounts :: "string + int"
  hw_MemTotal :: "string + 64 word"

record CheckResult =
  ck_ID :: string
  ck_Name :: string
  ck_Status :: string
  ck_Message :: string

definition check :: "string \<Rightarrow> string \<Rightarrow> string \<Rightarrow> string \<Rightarrow> CheckResult" where
  "check i nm st msg = \<lparr>ck_ID = i, ck_Name = nm, ck_Status = st, ck_Message = msg\<rparr>"

subsection \<open>The control plane\<close>

definition checkAPIKey :: "wext \<Rightarrow> Client \<Rightarrow> Config \<Rightarrow> CheckResult node_effect" where
  "checkAPIKey ex c cfg =
     (let r = check ''PF-01'' ''API Key Validation'' in
      if srv_APIKey (cfg_Server cfg) = [] then ret (r ''fail'' ''server.api_key is not configured'')
      else do {
        v \<leftarrow> ValidateAPIKey ex c;
        ret (case v of Inl e \<Rightarrow> r ''fail'' (''API key rejected by server: '' @ err_text e)
          | Inr _ \<Rightarrow> r ''pass'' ''API key present and validated by server'')
      })"

definition checkTLS :: "wext \<Rightarrow> Config \<Rightarrow> CheckResult node_effect" where
  "checkTLS ex cfg =
     (let r = check ''PF-02'' ''TLS Handshake''; serverURL = srv_URL (cfg_Server cfg) in
      if serverURL = [] then ret (r ''fail'' ''server.url is not configured'')
      else case url_error ex serverURL of
        Some e \<Rightarrow> ret (r ''fail'' (''failed to build request: '' @ e))
      | None \<Rightarrow> do {
          resp \<leftarrow> Do \<lparr>hq_Method = ''HEAD'', hq_URL = serverURL, hq_Header = [], hq_Body = None\<rparr>;
          ret (case resp of
            Inl e \<Rightarrow> r ''fail'' (''TLS connection failed: '' @ e)
          | Inr p \<Rightarrow> r ''pass'' (''TLS handshake successful (HTTP '' @ Itoa (hp_Status p) @ '')''))
        })"

definition checkOrgUnit :: "wext \<Rightarrow> Client \<Rightarrow> CheckResult node_effect" where
  "checkOrgUnit ex c =
     (let r = check ''PF-03'' ''Org Unit Resolution'' in do {
        v \<leftarrow> ValidateAPIKey ex c;
        ret (case v of
          Inl e \<Rightarrow> r ''fail'' (''org unit not resolvable (API key validation failed): '' @ err_text e)
        | Inr _ \<Rightarrow> r ''pass'' ''org unit resolved via API key validation'')
      })"

subsection \<open>The workspace\<close>

definition checkWorkspaceRW :: "Config \<Rightarrow> CheckResult node_effect" where
  "checkWorkspaceRW cfg =
     (let r = check ''PF-04'' ''Workspace Read/Write''; wsPath = wsp_BasePath (cfg_Workspace cfg);
          testFile = JoinPath [wsPath, ''.preflight-test''] in
      if wsPath = [] then ret (r ''fail'' ''workspace.base_path is not configured'')
      else do {
        made \<leftarrow> os_MkdirAll wsPath;
        case made of
          Inl e \<Rightarrow> ret (r ''fail'' (''cannot create workspace directory: '' @ e))
        | Inr _ \<Rightarrow> do {
            written \<leftarrow> os_WriteFile testFile ''test'';
            case written of
              Inl e \<Rightarrow> ret (r ''fail'' (''workspace not writable: '' @ e))
            | Inr _ \<Rightarrow> do {
                data \<leftarrow> os_ReadFile testFile;
                _ \<leftarrow> os_Remove testFile;
                ret (if data = Inr ''test''
                  then r ''pass'' (''workspace '' @ Quote wsPath @ '' is readable and writable'')
                  else r ''fail'' ''workspace not readable'')
              }
          }
      })"

definition checkDiskQuota :: "hardware \<Rightarrow> Config \<Rightarrow> CheckResult" where
  "checkDiskQuota hw cfg =
     (let r = check ''PF-05'' ''Disk Space''; wsPath = wsp_BasePath (cfg_Workspace cfg) in
      if wsPath = [] then r ''warn'' ''workspace.base_path is not configured, cannot check disk''
      else case hw_DiskFree hw wsPath of
        Inl e \<Rightarrow> r ''warn'' (''cannot determine disk usage: '' @ e)
      | Inr free \<Rightarrow>
          let freeGB = of_int (uint free) / 2 ^ 30; requiredGB = wsp_DiskQuotaGB (cfg_Workspace cfg) in
          if freeGB < requiredGB
          then r ''warn'' (''disk free '' @ fixed 2 freeGB @ '' GB is below quota '' @ fixed 2 requiredGB @ '' GB'')
          else r ''pass'' (''disk free '' @ fixed 2 freeGB @ '' GB (quota '' @ fixed 2 requiredGB @ '' GB)''))"

subsection \<open>Programs\<close>

definition agentBinaries :: "(string \<times> string list) list" where
  "agentBinaries = [(''claude'', [''claude'']), (''copilot'', [''gh'']), (''gemini'', [''gemini'']),
     (''chatgpt'', [''sgpt'']), (''custom'', [])]"

definition agent_lookups :: "(string \<rightharpoonup> string) \<Rightarrow> string list \<Rightarrow> (string \<times> string \<times> string option) list" where
  "agent_lookups path permitted = concat (map (\<lambda>agent. case map_of agentBinaries agent of
       None \<Rightarrow> [] | Some bins \<Rightarrow> map (\<lambda>bin. (agent, bin, path bin)) bins) permitted)"

definition checkAgentBinaries :: "Config \<Rightarrow> CheckResult node_effect" where
  "checkAgentBinaries cfg =
     (let r = check ''PF-06'' ''Agent Binaries''; permitted = exe_Agents (cfg_Execution cfg) in
      if permitted = [] then ret (r ''warn'' ''no agents configured in execution.agents'')
      else do {
        path \<leftarrow> gets n_path;
        let ls = agent_lookups path permitted;
            found = List.map_filter (\<lambda>(a, b, p). map_option (\<lambda>q. a @ '' ('' @ q @ '')'') p) ls;
            missing = List.map_filter (\<lambda>(a, b, p). if p = None then Some (a @ '' (binary: '' @ b @ '')'') else None) ls
        in ret (
          if found = [] \<and> missing \<noteq> []
          then r ''fail'' (''no agent binaries found on PATH: '' @ Join '', '' missing)
          else
            let msgs = (if found \<noteq> [] then [''found: '' @ Join '', '' found] else []) in
            if missing \<noteq> [] then r ''warn'' (Join ''; '' (msgs @ [''missing: '' @ Join '', '' missing]))
            else r ''pass'' (Join ''; '' msgs))
      })"

text \<open>The verdict on the output of \<^verbatim>\<open>git --version\<close>.\<close>

definition git_verdict :: "string \<Rightarrow> string \<Rightarrow> string \<times> string" where
  "git_verdict gitPath out =
     (let versionStr = TrimSpace out; parts = Fields versionStr in
      if length parts < 3 then (''warn'', ''unexpected git --version output: '' @ Quote versionStr)
      else let v = parts ! 2; verParts = Split CHR ''.'' v in
        if length verParts < 2 then (''warn'', ''cannot parse git version: '' @ Quote v)
        else case (Atoi (verParts ! 0), Atoi (verParts ! 1)) of
            (Some major, Some minor) \<Rightarrow>
              if major < 2 \<or> (major = 2 \<and> minor < 30)
              then (''fail'', ''git '' @ v @ '' is below required version 2.30'')
              else (''pass'', ''git '' @ v @ '' found at '' @ gitPath)
          | _ \<Rightarrow> (''warn'', ''cannot parse git version numbers: '' @ Quote v))"

definition checkGitVersion :: "CheckResult node_effect" where
  "checkGitVersion =
     (let r = check ''PF-07'' ''Git Version'' in do {
        path \<leftarrow> LookPath ''git'';
        case path of
          None \<Rightarrow> ret (r ''fail'' ''git not found on PATH'')
        | Some gitPath \<Rightarrow> do {
            out \<leftarrow> Run \<lparr>cmd_Path = gitPath, cmd_Args = [''--version''], cmd_Dir = [], cmd_Env = []\<rparr>;
            ret (case out of
              Inl e \<Rightarrow> r ''fail'' (''failed to run git --version: '' @ e)
            | Inr (code, stdout, stderr) \<Rightarrow>
                if code \<noteq> 0 then r ''fail'' (''failed to run git --version: exit status '' @ Itoa code)
                else (case git_verdict gitPath stdout of (st, msg) \<Rightarrow> r st msg))
          }
      })"

subsection \<open>Rules, clock and hardware\<close>

definition checkScannerRuleset :: "(string \<Rightarrow> string + rulesetYAML) \<Rightarrow> string \<Rightarrow> Config \<Rightarrow> CheckResult node_effect" where
  "checkScannerRuleset yaml embedded cfg =
     (let r = check ''PF-08'' ''Scanner Ruleset''; path = sec_RulesetPath (cfg_Security cfg);
          verdict = (\<lambda>rs msg. if rset_Rules rs = [] then r ''warn'' ''ruleset loaded but contains no rules''
            else r ''pass'' msg) in
      if \<not> sec_ScanEnabled (cfg_Security cfg) then ret (r ''pass'' ''secret scanning is disabled'')
      else if path \<noteq> [] then do {
        loaded \<leftarrow> LoadRuleset yaml path;
        ret (case loaded of
          Inl e \<Rightarrow> r ''fail'' (''failed to load ruleset from '' @ Quote path @ '': '' @ e)
        | Inr rs \<Rightarrow> verdict rs (''custom ruleset loaded from '' @ Quote path @ '' (''
            @ Itoa (int (length (rset_Rules rs))) @ '' rules)''))
      }
      else (let rs = DefaultRuleset yaml embedded in
        ret (verdict rs (''default ruleset loaded ('' @ Itoa (int (length (rset_Rules rs))) @ '' rules)''))))"

definition checkSystemTime :: "wext \<Rightarrow> Client \<Rightarrow> CheckResult node_effect" where
  "checkSystemTime ex c =
     (let r = check ''PF-09'' ''System Time Sync'' in do {
        t \<leftarrow> ServerTime ex c;
        case t of
          Inl e \<Rightarrow> ret (r ''warn'' (''cannot retrieve server time: '' @ err_text e))
        | Inr serverTime \<Rightarrow> do {
            localTime \<leftarrow> node_Now;
            let drift = (of_int \<bar>localTime - serverTime\<bar> / of_int Second :: rat);
            ret (if drift > 60
              then r ''fail'' (''clock drift '' @ fixed 1 drift @ ''s exceeds 60s limit (local: ''
                @ format_RFC3339 localTime @ '', server: '' @ format_RFC3339 serverTime @ '')'')
              else r ''pass'' (''clock drift '' @ fixed 1 drift @ ''s within limit''))
          }
      })"

text \<open>One shortage: the warning, and \<^verbatim>\<open>MaxJobs\<close> lowered to one.\<close>

definition shortage :: "bool \<Rightarrow> string \<Rightarrow> Config \<Rightarrow> string list \<times> Config" where
  "shortage short msg cfg =
     (if \<not> short then ([], cfg)
      else if wsp_MaxJobs (cfg_Workspace cfg) > 1
      then ([msg, ''MaxJobs reduced to 1''], cfg\<lparr>cfg_Workspace := (cfg_Workspace cfg)\<lparr>wsp_MaxJobs := 1\<rparr>\<rparr>)
      else ([msg], cfg))"

definition checkHardware :: "hardware \<Rightarrow> Config \<Rightarrow> CheckResult \<times> Config" where
  "checkHardware hw cfg =
     (let r = check ''PF-10'' ''Hardware Requirements'' in
      case hw_CPUCounts hw of
        Inl e \<Rightarrow> (r ''warn'' (''cannot determine CPU count: '' @ e), cfg)
      | Inr cpuCount \<Rightarrow> (case hw_MemTotal hw of
          Inl e \<Rightarrow> (r ''warn'' (''cannot determine RAM: '' @ e), cfg)
        | Inr memTotal \<Rightarrow>
            let ramGB = of_int (uint memTotal) / 2 ^ 30 in
            case shortage (cpuCount < 2) (''CPU cores: '' @ Itoa cpuCount @ '' (minimum 2 recommended)'') cfg of
              (ws1, cfg1) \<Rightarrow> (case shortage (ramGB < 4) (''RAM: '' @ fixed 1 ramGB @ '' GB (minimum 4 GB recommended)'') cfg1 of
                (ws2, cfg2) \<Rightarrow>
                  (if ws1 @ ws2 \<noteq> [] then r ''warn'' (Join ''; '' (ws1 @ ws2))
                   else r ''pass'' (''CPU: '' @ Itoa cpuCount @ '' cores, RAM: '' @ fixed 1 ramGB @ '' GB''), cfg2))))"

subsection \<open>All checks\<close>

definition RunAll :: "wext \<Rightarrow> (string \<Rightarrow> string + rulesetYAML) \<Rightarrow> string \<Rightarrow> hardware \<Rightarrow> Client \<Rightarrow> Config
    \<Rightarrow> (CheckResult list \<times> Config) node_effect" where
  "RunAll ex yaml embedded hw c cfg = do {
     r1 \<leftarrow> checkAPIKey ex c cfg;
     r2 \<leftarrow> checkTLS ex cfg;
     r3 \<leftarrow> checkOrgUnit ex c;
     r4 \<leftarrow> checkWorkspaceRW cfg;
     let r5 = checkDiskQuota hw cfg;
     r6 \<leftarrow> checkAgentBinaries cfg;
     r7 \<leftarrow> checkGitVersion;
     r8 \<leftarrow> checkScannerRuleset yaml embedded cfg;
     r9 \<leftarrow> checkSystemTime ex c;
     let (r10, cfg') = checkHardware hw cfg;
     ret ([r1, r2, r3, r4, r5, r6, r7, r8, r9, r10], cfg')
   }"

definition HasFailures :: "CheckResult list \<Rightarrow> bool" where
  "HasFailures results = (\<exists>r \<in> set results. ck_Status r = ''fail'')"

end
