(* ===== verification/Worker_Samples.thy ===== *)
theory Worker_Samples
  imports Worker_Execution Worker_Lifecycle Worker_Control Worker_Heartbeat Worker_Preflight
begin

section \<open>Concrete data for the worker\<close>

text \<open>The configuration, task, machine and daemon at which the properties are applied.\<close>

definition sample_wext :: wext where
  "sample_wext = \<lparr>url_error = (\<lambda>_. None), json_Parse = (\<lambda>_. Inl ''syntax error''), json_Text = (\<lambda>_. ''{}''),
     http_ParseTime = (\<lambda>_. Inl ''bad date'')\<rparr>"

definition sample_Config :: Config where
  "sample_Config =
     \<lparr>cfg_Server = \<lparr>srv_URL = ''http://cp'', srv_APIKey = ''k'', srv_WorkerID = ''w'', srv_HeartbeatSec = 30,
        srv_PollTimeoutSec = 30, srv_TLSSkipVerify = False, srv_RetryMax = 3\<rparr>,
      cfg_Workspace = \<lparr>wsp_BasePath = ''/ws'', wsp_DiskQuotaGB = 10, wsp_MaxJobs = 1, wsp_CleanupAfter = True\<rparr>,
      cfg_Security = \<lparr>sec_HMACSecret = replicate 32 (CHR ''s''), sec_ScanEnabled = True, sec_RulesetPath = [],
        sec_ScanConcurrency = 4\<rparr>,
      cfg_Execution = \<lparr>exe_TimeoutSec = 3600, exe_MaxCPUPercent = 80, exe_MaxRAMMB = 2048, exe_Agents = [''claude'']\<rparr>,
      cfg_Policy = \<lparr>pol_Mode = ''auto'', pol_Windows = []\<rparr>,
      cfg_Logging = \<lparr>lgc_Level = ''info'', lgc_Format = ''json'', lgc_File = []\<rparr>\<rparr>"

definition manual_Config :: Config where
  "manual_Config = sample_Config\<lparr>cfg_Policy := \<lparr>pol_Mode = ''manual'', pol_Windows = []\<rparr>\<rparr>"

definition sample_assignment :: TaskAssignment where
  "sample_assignment = \<lparr>ta_TaskID = ''t1'', ta_Title = ''t'', ta_Description = ''d'', ta_TaskType = ''code'',
     ta_AIAgent = ''claude'', ta_Options = [], ta_RepoURL = [], ta_Branch = [], ta_TimeoutSec = 60\<rparr>"

definition sample_node :: node where
  "sample_node = \<lparr>n_fs = Map.empty, n_env = (\<lambda>_. []), n_path = [''claude'' \<mapsto> ''/bin/claude''], n_cwd = ''/'',
     n_now = 0, n_oserrs = [], n_replies = [], n_procs = [], n_clones = [], n_cancels = [], n_log = []\<rparr>"

definition sample_client :: Client where
  "sample_client = Client_New (cfg_Server sample_Config)"

definition sample_executor :: Executor where
  "sample_executor = \<lparr>x_registry = daemon_registry sample_wext, x_basePath = ''/ws'',
     x_scanner = Scanner_New hardcodedRuleset 4, x_client = sample_client, x_cfg = sample_Config\<rparr>"

definition fresh_daemon :: "Config \<Rightarrow> daemon" where
  "fresh_daemon cfg = \<lparr>d_fsm = StateIdle, d_heap = [cfg], d_cfg = 0, d_approval = NewApprovalStore,
     d_channel = None, d_loop = Selecting, d_executing = False, d_running = None, d_now = 0\<rparr>"

lemmas worker_sample_defs = sample_wext_def sample_Config_def manual_Config_def sample_assignment_def
  sample_node_def sample_client_def sample_executor_def fresh_daemon_def

lemma started_fresh:
  assumes "config_ok cfg"
  shows "daemon_started (fresh_daemon cfg)"
proof -
  have v: "Validate cfg = Inr ()" using assms by (simp add: Validate_iff)
  have "Daemon_New 0 (Inr ()) (Inr ()) cfg = Inr ((fresh_daemon cfg)\<lparr>d_fsm := StateInit\<rparr>)"
    by (simp add: Daemon_New_def v fresh_daemon_def)
  moreover have "run_preflight False ((fresh_daemon cfg)\<lparr>d_fsm := StateInit\<rparr>) = Some (fresh_daemon cfg)"
    by (simp add: run_preflight_def FSM_Transition_def fresh_daemon_def)
  ultimately show ?thesis unfolding daemon_started_def by blast
qed

lemma sample_Config_ok: "config_ok sample_Config" "config_ok manual_Config"
  by (simp_all add: config_ok_def worker_sample_defs)

lemma sample_built: "result (buildExecutor sample_wext (\<lambda>_. Inl []) [] sample_Config sample_client) sample_node = Inr sample_executor"
  by (simp add: buildExecutor_def worker_sample_defs DefaultRuleset_def Let_def)

end
