(* ===== verification/Worker_Properties.thy ===== *)
theory Worker_Properties
  imports Worker_Samples
begin

section \<open>Properties of the worker\<close>

text \<open>
  What the worker's components promise, each with a concrete instance where it has hypotheses: the
  daemon's life cycle and policy, the execution of a task, the scanner, the output, the heartbeat and
  the control socket.
\<close>

subsection \<open>The daemon\<close>

text \<open>C33: In every run of a started daemon the state machine moves only along its edges (or to
  SHUTDOWN), the executing flag says whether a task runs, EXECUTING means that one does, and a task starts
  only from IDLE while no other task runs.\<close>

theorem daemon_lifecycle:
  assumes "daemon_started d0" "daemon_run tz d0 d" "daemon_step tz d d'"
  shows "fsm_edge (d_fsm d) (d_fsm d')
    \<and> d_executing d' = (d_running d' \<noteq> None)
    \<and> (d_fsm d' = StateExecuting \<longrightarrow> d_running d' \<noteq> None)
    \<and> (\<forall>t. d_running d' = Some t \<and> d_running d \<noteq> Some t \<longrightarrow> d_running d = None \<and> d_fsm d = StateIdle)"
proof -
  have ok: "daemon_ok d" by (rule daemon_ok_reachable [OF assms(1,2)])
  from daemon_ok_step [OF assms(3) ok] fsm_step [OF assms(3) ok] task_starts [OF assms(3) ok]
  show ?thesis by (auto simp: daemon_ok_def)
qed

theorem daemon_lifecycle_witness:
  "fsm_edge StateIdle (d_fsm (snd (handle_command CmdPause (fresh_daemon sample_Config))))"
  using daemon_lifecycle [OF started_fresh [OF sample_Config_ok(1)] rtranclp.rtrancl_refl
      daemon_step.Command [of _ _ CmdPause]]
  by (simp add: fresh_daemon_def)

text \<open>SHUTDOWN is final: once a run has reached it, no later step leaves it and no later step
  starts a task.\<close>

lemma shutdown_is_final:
  assumes "daemon_started d0" "daemon_run tz d0 d" "d_fsm d = StateShutdown" "daemon_run tz d d'"
  shows "d_fsm d' = StateShutdown \<and> (\<forall>d''. daemon_step tz d' d'' \<longrightarrow> d_running d'' = d_running d' \<or> d_running d'' = None)"
proof -
  have ok: "daemon_ok d" by (rule daemon_ok_reachable [OF assms(1,2)])
  have s: "d_fsm d' = StateShutdown" by (rule shutdown_stays [OF assms(4) ok assms(3)])
  have ok': "daemon_ok d'" by (rule daemon_ok_run [OF assms(4) ok])
  have "d_running d'' = d_running d' \<or> d_running d'' = None" if "daemon_step tz d' d''" for d''
  proof (cases "d_running d''")
    case (Some t)
    with task_starts [OF that ok' Some] s show ?thesis by force
  qed simp
  with s show ?thesis by blast
qed

subsection \<open>The daemon as a simpler machine\<close>

text \<open>
  The specification of the daemon: it is ready, works on one task, is held, or is down, possibly with a
  task that still runs.
\<close>

datatype phase = Ready | Working TaskAssignment | Held | Down "TaskAssignment option"

inductive phase_step :: "phase \<Rightarrow> phase \<Rightarrow> bool" where
  Starts: "phase_step Ready (Working t)"
| Ends: "phase_step (Working t) Ready"
| Holds: "phase_step Ready Held"
| Releases: "phase_step Held Ready"
| Ready_Down: "phase_step Ready (Down None)"
| Held_Down: "phase_step Held (Down None)"
| Working_Down: "phase_step (Working t) (Down (Some t))"
| Drained: "phase_step (Down (Some t)) (Down None)"

definition phase_of :: "daemon \<Rightarrow> phase" where
  "phase_of d = (case d_fsm d of
     StateExecuting \<Rightarrow> Working (the (d_running d))
   | StatePaused \<Rightarrow> Held
   | StateShutdown \<Rightarrow> Down (d_running d)
   | _ \<Rightarrow> Ready)"

lemma phase_of_cong: "d_fsm d' = d_fsm d \<Longrightarrow> d_running d' = d_running d \<Longrightarrow> phase_of d' = phase_of d"
  by (cases "d_fsm d") (simp_all add: phase_of_def)

lemma phase_refined:
  assumes "daemon_step tz d d'" "daemon_ok d"
  shows "phase_of d' = phase_of d \<or> phase_step (phase_of d) (phase_of d')"
  using assms
proof (cases rule: daemon_step.cases)
  case (Take t go d'')
  have "d_approval (d\<lparr>d_channel := None\<rparr>) = NewApprovalStore" using assms(2) by (simp add: daemon_ok_def)
  from decide_task_ok [OF this, of tz t] Take have "d_fsm d' = d_fsm d \<and> d_running d' = d_running d" by auto
  then show ?thesis using phase_of_cong by blast
next
  case (Begin t)
  with assms(2) show ?thesis
  proof (cases "d_fsm d = StateIdle")
    case True
    with Begin show ?thesis by (auto simp: begin_task_def FSM_Transition_def phase_of_def intro: phase_step.Starts)
  next
    case False
    with Begin have "d' = d\<lparr>d_loop := Selecting\<rparr>" by (simp add: begin_task_def FSM_Transition_def)
    then show ?thesis using phase_of_cong [of d' d] by simp
  qed
next
  case (Finish t)
  then have d': "d' = finish_task d" "d_running d = Some t" by simp_all
  from assms(2) d'(2) have "d_fsm d = StateExecuting \<or> d_fsm d = StateShutdown" by (auto simp: daemon_ok_def)
  with d' show ?thesis
    by (auto simp: finish_task_def FSM_Transition_def phase_of_def intro: phase_step.Ends phase_step.Drained)
next
  case (Command c)
  have "(d_fsm d' = d_fsm d \<and> d_running d' = d_running d) \<or> (d_fsm d = StateIdle \<and> d_fsm d' = StatePaused)
      \<or> (d_fsm d = StatePaused \<and> d_fsm d' = StateIdle)"
    unfolding Command
    by (cases c) (auto simp: handleStatusCmd_def handlePauseCmd_def handleResumeCmd_def handleApproveCmd_def
        handleRevokeCmd_def FSM_Transition_def Let_def split: sum.splits prod.splits)
  then show ?thesis
    using phase_of_cong [of d' d] by (auto simp: phase_of_def intro: phase_step.Holds phase_step.Releases)
next
  case (Stop cur)
  with assms(2) show ?thesis
    by (cases "d_fsm d"; cases "d_running d")
      (auto simp: shutdown_from_def FSM_Transition_def phase_of_def daemon_ok_def
        intro: phase_step.Ready_Down phase_step.Held_Down phase_step.Working_Down)
qed (auto intro!: phase_of_cong simp: onTaskAssigned_def onConfigReload_def split: option.splits sum.splits)

text \<open>C11: The daemon refines the simpler machine: every reachable state stands for a phase the machine
  reaches from Ready, and every step of the daemon keeps the phase or is a step of the machine.\<close>

theorem daemon_refines_phases:
  assumes "daemon_started d0" "daemon_run tz d0 d"
  shows "phase_step\<^sup>*\<^sup>* Ready (phase_of d)
    \<and> (\<forall>d'. daemon_step tz d d' \<longrightarrow> phase_of d' = phase_of d \<or> phase_step (phase_of d) (phase_of d'))"
proof -
  have "phase_of d0 = Ready"
    using assms(1) by (auto simp: daemon_started_def run_preflight_def FSM_Transition_def phase_of_def split: if_splits)
  moreover from assms(2) have "phase_step\<^sup>*\<^sup>* (phase_of d0) (phase_of d)"
  proof (induction rule: rtranclp_induct)
    case (step d1 d2)
    have "daemon_ok d1" by (rule daemon_ok_reachable [OF assms(1) step.hyps(1)])
    from phase_refined [OF step.hyps(2) this] step.IH show ?case by (auto intro: rtranclp.rtrancl_into_rtrancl)
  qed simp
  ultimately show ?thesis
    using phase_refined daemon_ok_reachable [OF assms] by auto
qed

theorem daemon_refines_phases_witness:
  "phase_step\<^sup>*\<^sup>* Ready (phase_of (snd (handle_command CmdPause (fresh_daemon sample_Config))))"
proof -
  let ?d = "fresh_daemon sample_Config" and ?step = "daemon_step (\<lambda>_. None)"
  have "?step ?d (snd (handle_command CmdPause ?d))" by (rule daemon_step.Command)
  then have "?step\<^sup>*\<^sup>* ?d (snd (handle_command CmdPause ?d))" by (rule r_into_rtranclp)
  from daemon_refines_phases [OF started_fresh [OF sample_Config_ok(1)] this] show ?thesis by blast
qed

text \<open>The shutdown can be missed: when the running task ends between the two halves of the shutdown,
  the transition is refused, its error ignored, and the daemon has stopped with its state machine at IDLE.\<close>

lemma shutdown_can_be_missed:
  assumes "daemon_started d0" "dec_Allow (Evaluate tz (d_now d0) (engine_config d0) t)"
  shows "\<exists>d. daemon_run tz d0 d \<and> d_loop d = Returned \<and> d_fsm d = StateIdle"
proof -
  have s: "d_fsm d0 = StateIdle" "d_loop d0 = Selecting" "d_channel d0 = None" "d_approval d0 = NewApprovalStore"
  proof -
    obtain now cfg i where i: "Daemon_New now (Inr ()) (Inr ()) cfg = Inr i" "run_preflight False i = Some d0"
      using assms(1) by (auto simp: daemon_started_def)
    then show "d_fsm d0 = StateIdle" "d_loop d0 = Selecting" "d_channel d0 = None" "d_approval d0 = NewApprovalStore"
      by (cases "Validate cfg"; auto simp: Daemon_New_def run_preflight_def FSM_Transition_def)+
  qed
  define d1 where "d1 = onTaskAssigned t d0"
  define d2 where "d2 = d0\<lparr>d_loop := Decided t\<rparr>"
  define d3 where "d3 = (begin_task t d2)\<lparr>d_loop := Selecting\<rparr>"
  define d4 where "d4 = d3\<lparr>d_loop := ShuttingDown StateExecuting\<rparr>"
  define d5 where "d5 = finish_task d4"
  define d6 where "d6 = (shutdown_from StateExecuting d5)\<lparr>d_loop := Returned\<rparr>"
  have "daemon_step tz d0 d1" unfolding d1_def by (rule daemon_step.Assigned)
  moreover have "daemon_step tz d1 d2"
  proof -
    have same: "d1\<lparr>d_channel := None\<rparr> = d0" using s by (simp add: d1_def onTaskAssigned_def)
    have "decide_task tz t (d1\<lparr>d_channel := None\<rparr>) = (True, d0)"
      unfolding same using decide_task_ok [OF s(4)] s(1) assms(2) by simp
    moreover have "d_loop d1 = Selecting" "d_channel d1 = Some t" using s by (simp_all add: d1_def onTaskAssigned_def)
    ultimately show ?thesis using daemon_step.Take [of d1 t tz True d0] by (simp add: d2_def)
  qed
  moreover have "daemon_step tz d2 d3" unfolding d3_def by (rule daemon_step.Begin) (simp add: d2_def)
  moreover have "daemon_step tz d3 d4"
    using daemon_step.Cancel [of d3 tz] s(1) by (simp add: d3_def d4_def d2_def begin_task_def FSM_Transition_def)
  moreover have "daemon_step tz d4 d5"
    unfolding d5_def by (rule daemon_step.Finish [of _ t])
      (use s(1) in \<open>simp add: d4_def d3_def d2_def begin_task_def FSM_Transition_def\<close>)
  moreover have loop: "d_loop d5 = ShuttingDown StateExecuting" and idle: "d_fsm d5 = StateIdle"
    using s(1) by (simp_all add: d5_def d4_def d3_def d2_def finish_task_def begin_task_def FSM_Transition_def Let_def)
  moreover have "daemon_step tz d5 d6" unfolding d6_def by (rule daemon_step.Stop [OF loop])
  ultimately have "daemon_run tz d0 d6" by (meson converse_rtranclp_into_rtranclp r_into_rtranclp)
  moreover have "d_loop d6 = Returned" "d_fsm d6 = StateIdle"
    using idle by (simp_all add: d6_def shutdown_from_def FSM_Transition_def)
  ultimately show ?thesis by blast
qed

text \<open>C39: Manual mode never runs anything: nothing in the daemon requests an approval, so in every
  reachable state every approve command is refused, and while the policy engine's mode is manual (or
  paused) the main loop denies every task.\<close>

theorem manual_mode_never_runs:
  assumes "daemon_started d0" "daemon_run tz d0 d"
  shows "(\<forall>tid. isl (fst (handle_command (CmdApprove (Inr tid)) d)))
    \<and> (pol_Mode (cfg_Policy (engine_config d)) \<in> {''manual'', ''paused''} \<longrightarrow> (\<forall>t. decide_task tz t d = (False, d)))"
proof -
  have a: "d_approval d = NewApprovalStore"
    using daemon_ok_reachable [OF assms] by (simp add: daemon_ok_def)
  have "isl (fst (handle_command (CmdApprove (Inr tid)) d))" for tid
    by (simp add: handleApproveCmd_def a Approve_New Let_def)
  with decide_task_ok [OF a] show ?thesis by (auto simp: Evaluate_Allow_iff)
qed

theorem manual_mode_never_runs_witness:
  "decide_task (\<lambda>_. None) sample_assignment (fresh_daemon manual_Config) = (False, fresh_daemon manual_Config)"
  using manual_mode_never_runs [OF started_fresh [OF sample_Config_ok(2)] rtranclp.rtrancl_refl]
  by (simp add: engine_config_def policyEng_cfg_def worker_sample_defs)

text \<open>Pausing and resuming switches a daemon in manual mode to auto: an idle daemon that has not
  reloaded its configuration and has no windows then runs any task for a permitted agent.\<close>

lemma resume_drops_manual_mode:
  assumes "d_fsm d = StateIdle" "d_cfg d = policyEng_cfg" "d_heap d \<noteq> []"
    and "pol_Windows (cfg_Policy (engine_config d)) = []"
    and "ta_AIAgent t \<in> set (exe_Agents (cfg_Execution (engine_config d)))"
  shows "let d' = snd (handle_command CmdResume (snd (handle_command CmdPause d))) in
    pol_Mode (cfg_Policy (engine_config d')) = ''auto'' \<and> fst (decide_task tz t d')"
proof -
  have "0 < length (d_heap d)" using assms(3) by simp
  then show ?thesis
    using assms by (auto simp: handlePauseCmd_def handleResumeCmd_def FSM_Transition_def decide_task_def
        set_own_mode_def own_config_def engine_config_def policyEng_cfg_def Evaluate_Allow_iff Let_def)
qed

text \<open>An approval stands for one decision of the last half hour: a task that is approved after any
  history of the store was requested and then approved at most thirty minutes later, and the
  approval has not been consumed since.\<close>

lemma approval_was_given:
  assumes "as_approved (fold approval_step ops NewApprovalStore) tid"
  shows "\<exists>as t1 bs t2 cs. ops = as @ OpRequest t1 tid # bs @ OpApprove t2 tid # cs
    \<and> t2 \<le> t1 + 30 * Minute \<and> OpConsume tid \<notin> set cs"
proof -
  have pend: "as_pending (fold approval_step ops NewApprovalStore) tid = Some a \<Longrightarrow>
      \<exists>as bs. ops = as @ OpRequest (ap_RequestedAt a) tid # bs" for ops tid a
  proof (induction ops rule: rev_induct)
    case (snoc op ops)
    then have "as_pending (approval_step op (fold approval_step ops NewApprovalStore)) tid = Some a" by simp
    from pending_after [OF this] show ?case
    proof
      assume "as_pending (fold approval_step ops NewApprovalStore) tid = Some a"
      with snoc.IH show ?thesis by fastforce
    next
      assume "\<exists>now. op = OpRequest now tid \<and> as_pending (fold approval_step ops NewApprovalStore) tid = None
          \<and> a = \<lparr>ap_TaskID = tid, ap_RequestedAt = now, ap_ExpiresAt = now + defaultApprovalTTL\<rparr>"
      then have "ops @ [op] = ops @ OpRequest (ap_RequestedAt a) tid # []" by auto
      then show ?thesis by blast
    qed
  qed (simp add: NewApprovalStore_def)
  show ?thesis
    using assms
  proof (induction ops rule: rev_induct)
    case (snoc op ops)
    let ?s = "fold approval_step ops NewApprovalStore"
    have now: "as_approved (approval_step op ?s) tid" using snoc.prems by simp
    show ?case
    proof (cases "as_approved ?s tid")
      case True
      have "op \<noteq> OpConsume tid" using now by (auto simp: ConsumeApproval_def)
      with snoc.IH [OF True] show ?thesis by fastforce
    next
      case False
      from approved_after [OF now False] obtain t2 a where a: "op = OpApprove t2 tid"
          "as_pending ?s tid = Some a" "t2 \<le> ap_ExpiresAt a" by blast
      moreover have "ap_ExpiresAt a = ap_RequestedAt a + 30 * Minute"
        using approvals_ok_steps [of ops] a(2) by (simp add: approvals_ok_def defaultApprovalTTL_def)
      moreover obtain as bs where "ops = as @ OpRequest (ap_RequestedAt a) tid # bs" using pend [OF a(2)] by blast
      ultimately have "ops @ [op] = as @ OpRequest (ap_RequestedAt a) tid # bs @ OpApprove t2 tid # []"
        "t2 \<le> ap_RequestedAt a + 30 * Minute" by simp_all
      then show ?thesis by (metis empty_iff empty_set)
    qed
  qed (simp add: NewApprovalStore_def)
qed

text \<open>The policy engine allows a task exactly when the mode is neither paused nor manual, the
  agent is permitted (an empty list permits all), and, in auto mode with windows, one of them is open.\<close>

lemma policy_allows_exactly:
  "dec_Allow (Evaluate tz now cfg task) \<longleftrightarrow>
     pol_Mode (cfg_Policy cfg) \<notin> {''paused'', ''manual''}
     \<and> (exe_Agents (cfg_Execution cfg) = [] \<or> ta_AIAgent task \<in> set (exe_Agents (cfg_Execution cfg)))
     \<and> (if pol_Mode (cfg_Policy cfg) = ''auto'' \<and> pol_Windows (cfg_Policy cfg) \<noteq> []
         then list_ex (worker_inWindow tz now) (pol_Windows (cfg_Policy cfg)) else True)"
  by (auto simp: Evaluate_Allow_iff list_ex_iff)

text \<open>A configuration passes validation exactly when it names a server and a key, its HMAC secret
  has 32 bytes or more, and mode and log format are known ones.\<close>

lemma Validate_exactly:
  "Validate cfg = Inr () \<longleftrightarrow> srv_URL (cfg_Server cfg) \<noteq> [] \<and> srv_APIKey (cfg_Server cfg) \<noteq> []
     \<and> 32 \<le> length (sec_HMACSecret (cfg_Security cfg))
     \<and> pol_Mode (cfg_Policy cfg) \<in> {''auto'', ''manual'', ''paused''}
     \<and> lgc_Format (cfg_Logging cfg) \<in> {''json'', ''text''}"
  by (simp add: Validate_iff config_ok_def)

subsection \<open>Executing a task\<close>

text \<open>C10: All an execution does to the outside: it reports one of the states running, completed and
  failed on its own task, submits to the outputs endpoint, both with the worker's key, clones into the
  task's workspace, and starts processes there with no variable beyond the allowed ones.\<close>

theorem execution_events:
  assumes "result (buildExecutor ex yaml embedded cfg c) n0 = Inr x"
  shows "\<exists>es. n_log (exec (Execute ex x paths task) n) = n_log n @ es \<and> list_all (task_event x (ta_TaskID task)) es"
proof -
  have "x_registry x = daemon_registry ex" using buildExecutor_Inr [OF assms] by simp
  then have "te.recorded x (ta_TaskID task) n (exec (Execute ex x paths task) n)"
    by (rule te.keepsD [OF te_Execute])
  then show ?thesis by (simp add: te.recorded_def list_all_iff)
qed

theorem execution_events_witness:
  "list_all (task_event sample_executor ''t1'') (n_log (exec (Execute sample_wext sample_executor [] sample_assignment) sample_node))"
  using execution_events [OF sample_built, of "[]" sample_assignment sample_node]
  by (simp add: sample_node_def sample_assignment_def)



text \<open>C9: A critical secret in a file of the workspace that no exclusion covers stops the task, when
  scanning is on and neither the system nor the context fails: no process is started, nothing is
  submitted, only status reports go out.\<close>

theorem critical_secret_stops_task:
  assumes "sec_ScanEnabled (cfg_Security (x_cfg x))" "0 < sc_concurrency (x_scanner x)" "quiet n"
    and "holds_critical (x_scanner x) ws paths (n_fs n)"
  shows "isl (result (scan_workspace ex x paths task ws) n)
    \<and> (\<exists>es. n_log (exec (scan_workspace ex x paths task ws) n) = n_log n @ es \<and> list_all only_reports es)"
  using scan_workspace_critical [OF assms, of ex task] by (auto simp: rep.recorded_def list_all_iff)

definition leaky_node :: node where
  "leaky_node = sample_node\<lparr>n_fs := [''/ws/t1/a'' \<mapsto> File (''k='' @ ''ghp_'' @ replicate 36 (CHR ''a''))]\<rparr>"

definition token_rule :: Rule where
  "token_rule = \<lparr>rule_ID = ''SEC-002'', rule_Name = ''GitHub Personal Access Token'',
     rule_Pattern = Seq (str ''ghp_'') (rep 36 (Cls alnum)), rule_RawPattern = [], rule_Severity = ''critical'', rule_Scope = ''all''\<rparr>"

definition strict_executor :: Executor where
  "strict_executor = sample_executor\<lparr>x_scanner := \<lparr>sc_ruleset = \<lparr>rset_Version = ''1'', rset_Rules = [token_rule],
     rset_Paths = [], rset_Patterns = []\<rparr>, sc_concurrency = 4\<rparr>\<rparr>"

theorem critical_secret_stops_task_witness:
  "isl (result (scan_workspace sample_wext strict_executor [''/ws/t1/a''] sample_assignment ''/ws/t1'') leaky_node)"
proof -
  let ?line = "''k='' @ ''ghp_'' @ replicate 36 (CHR ''a'')"
  have hit: "rule_hits token_rule ?line" by code_simp
  have "quiet leaky_node" by (simp add: quiet_def never_cancelled_def leaky_node_def sample_node_def)
  moreover have "sec_ScanEnabled (cfg_Security (x_cfg strict_executor))" "0 < sc_concurrency (x_scanner strict_executor)"
    by (simp_all add: strict_executor_def worker_sample_defs)
  moreover have "holds_critical (x_scanner strict_executor) ''/ws/t1'' [''/ws/t1/a''] (n_fs leaky_node)"
  proof -
    have "?line \<in> set (Split CHR 0x0A ?line)" by (subst Split_no_sep) auto
    then show ?thesis
      unfolding holds_critical_def
      by (intro exI [of _ "''/ws/t1/a''"] exI [of _ ?line] exI [of _ token_rule])
        (use hit in \<open>auto simp: strict_executor_def leaky_node_def token_rule_def below_def HasPrefix_def isExcludedPattern_def\<close>)
  qed
  ultimately show ?thesis using critical_secret_stops_task by blast
qed

subsection \<open>Scanning\<close>



text \<open>A line of 64 KiB or more hides the rest: whatever follows it in the output, secrets
  included, the scan gives the same result as for the lines before it, and no error.\<close>

lemma long_line_hides_rest:
  assumes "\<And>l. l \<in> set ls \<Longrightarrow> CHR 0x0A \<notin> set l \<and> length l < 65536"
    and "CHR 0x0A \<notin> set long" "65536 \<le> length long"
  shows "ScanPatch sc (concat (map (\<lambda>l. l @ [CHR 0x0A]) ls) @ long @ [CHR 0x0A] @ rest)
    = ScanPatch sc (concat (map (\<lambda>l. l @ [CHR 0x0A]) ls))"
proof -
  have "scan_lines 65536 (concat (map (\<lambda>l. l @ [CHR 0x0A]) ls) @ t) =
      map dropCR ls @ scan_lines 65536 t" for t
    using assms(1) by (induction ls) (simp_all add: scan_lines_step)
  moreover have "scan_lines 65536 (long @ CHR 0x0A # rest) = []"
    by (rule scan_lines_stops) (use assms(2,3) in auto)
  moreover from calculation(1) [of "[]"] have "scan_lines 65536 (concat (map (\<lambda>l. l @ [CHR 0x0A]) ls)) = map dropCR ls"
    by simp
  ultimately have "Scanner_lines (concat (map (\<lambda>l. l @ [CHR 0x0A]) ls) @ long @ [CHR 0x0A] @ rest)
      = Scanner_lines (concat (map (\<lambda>l. l @ [CHR 0x0A]) ls))"
    by (simp add: Scanner_lines_def MaxScanTokenSize_def)
  then show ?thesis by (simp only: ScanPatch_def)
qed

text \<open>The embedded ruleset and the hard-coded fallback are the same rules, and all six of their
  patterns compile.\<close>

lemma default_rules_agree:
  assumes "yaml embedded = Inr default_ruleset_doc"
  shows "DefaultRuleset yaml embedded = DefaultRuleset yaml []
    \<and> map rule_ID (rset_Rules (DefaultRuleset yaml embedded)) =
        [''SEC-001'', ''SEC-002'', ''SEC-003'', ''SEC-004'', ''SEC-005'', ''SEC-006'']"
  using DefaultRuleset_hardcoded [of yaml embedded, OF assms] hardcoded_compile
  by (simp add: DefaultRuleset_def [of yaml "[]"]) (simp add: hardcodedRuleset_def)

subsection \<open>Workspaces and output\<close>



text \<open>C20: A package that is made holds, for each listed artifact in order, a path that stays inside the
  workspace, the size and SHA-256 of the file there, and its content when that is below 1 MiB; its
  signature is the HMAC of everything else.\<close>

theorem package_is_faithful:
  assumes "IsAbs ws" "result (Pack ex taskID workerID ws secret rels) n = Inr pkg"
  shows "list_all2 (\<lambda>rel a. ae_RelPath a = rel
      \<and> (\<exists>rest. elems_of (JoinPath [ws, rel]) = elems_of ws @ rest \<and> list_all plain rest)
      \<and> (\<exists>s. n_fs n (JoinPath [ws, rel]) = Some (File s) \<and> ae_Size a = int (length s)
           \<and> ae_SHA256 a = hex_encode (sha256 (bytes_of s))
           \<and> ae_Content a = (if int (length s) < 2 ^ 20 then s else []))) rels (wp_Artifacts pkg)
    \<and> wp_HMACSha256 pkg = signPackage ex pkg secret"
proof -
  obtain as where as: "result (pack_artifacts ws rels) n = Inr as" and pkg: "wp_Artifacts pkg = as"
      "wp_HMACSha256 pkg = signPackage ex pkg secret"
    using assms(2) by (auto simp: Pack_def signPackage_def signing_payload_def Let_def split: sum.splits prod.splits)
  from pack_artifacts_Inr [OF as] show ?thesis
    unfolding pkg by (auto elim!: list_all2_mono simp: packed_ok_def maxInlineSize_def dest: artifact_allowed_below [OF assms(1)]) blast+
qed

theorem package_is_faithful_witness:
  "\<exists>pkg. result (Pack sample_wext ''t1'' ''w'' ''/ws/t1'' ''key'' [''a'']) leaky_node = Inr pkg
    \<and> wp_HMACSha256 pkg = signPackage sample_wext pkg ''key''"
proof -
  have allowed: "artifact_allowed ''/ws/t1'' ''a''" and path: "JoinPath [''/ws/t1'', ''a''] = ''/ws/t1/a''"
    by code_simp+
  obtain pkg where p: "result (Pack sample_wext ''t1'' ''w'' ''/ws/t1'' ''key'' [''a'']) leaky_node = Inr pkg"
    using allowed path
    by (auto simp: Pack_def packFile_def io_step_def run_oserr leaky_node_def sample_node_def maxInlineSize_def Let_def)
  moreover have "IsAbs ''/ws/t1''" by (simp add: IsAbs_def HasPrefix_def)
  ultimately show ?thesis using package_is_faithful by blast
qed

text \<open>A submission is never retried: the reporter sends at most one request and turns every failure
  into a permanent error, server errors and lost connections included.\<close>

lemma submission_is_never_retried:
  "\<exists>qs. n_log (exec (Reporter_Submit ex c pkg) n) = n_log n @ map Sent qs \<and> length qs \<le> 1
    \<and> (case result (Reporter_Submit ex c pkg) n of
         Inr _ \<Rightarrow> \<exists>resp. n_replies n \<noteq> [] \<and> hd (n_replies n) = Inr resp \<and> hp_Status resp \<in> {200, 202}
       | Inl e \<Rightarrow> \<exists>e'. e = Wrap ''submit output (permanent)'' e')"
proof (cases "url_error ex (cl_baseURL c @ ''/api/v1/outputs'')")
  case None
  then show ?thesis
    by (cases "n_replies n")
      (auto simp: Submit_once Client_SubmitOutput_def run_Do Let_def split: sum.splits
        intro!: exI [where x = "[q]" for q])
next
  case (Some e)
  then show ?thesis by (simp add: Submit_once Client_SubmitOutput_def Let_def)
qed

subsection \<open>Heartbeats, control socket, monitor and preflight\<close>

text \<open>The wait before a heartbeat never exceeds five minutes, and after \<open>k + 1\<close> server errors in a
  row it is five seconds doubled \<open>k\<close> times, cut at five minutes.\<close>

lemma heartbeat_backoff:
  "(\<forall>x. x \<in> set (lr_Waits (result (heartbeat_ticks m ex c stats 0) n)) \<longrightarrow> 0 \<le> x \<and> x \<le> 5 * Minute)
    \<and> (next_backoff ^^ Suc k) 0 = min (5 * Second * 2 ^ k) (5 * Minute)
    \<and> after_tick b (Inl (Wrap what (ServerError st msg))) = Go_On (next_backoff b)"
proof -
  have "0 \<le> maxBackoff" by (simp add: maxBackoff_def Minute_def Second_def)
  with heartbeat_waits_bound [of 0 _ m ex c stats n] next_backoff_iterate [of k] show ?thesis
    by (auto simp: maxBackoff_def after_tick_def)
qed

text \<open>C30: A command sent over the control socket is dispatched once, on the daemon's state, and the
  client receives the server's response unchanged, when the JSON library reads back what it wrote and
  the texts fit the limits.\<close>

theorem command_round_trip:
  assumes "json_Parse ex (json_Text ex (marshal_Command cmd)) = Inr (marshal_Command cmd)"
    and "control_dispatch hs cmd d = (resp, d')"
    and "json_Parse ex (json_Text ex (marshal_Response resp)) = Inr (marshal_Response resp)"
    and "json_Text ex (marshal_Command cmd) \<noteq> []" "length (json_Text ex (marshal_Command cmd)) \<le> 2 ^ 20"
    and "length (json_Text ex (marshal_Response resp)) < 2 ^ 32"
  shows "SendCommand ex hs cmd d = (Inr resp, d')"
  by (rule SendCommand_dispatch [OF assms(1-4) _ assms(6)]) (use assms(5) in \<open>simp add: MaxMessage_def\<close>)

definition pause_cmd :: control_cmd where
  "pause_cmd = \<lparr>cc_Type = ''pause'', cc_Payload = None\<rparr>"

definition paused_reply :: Response where
  "paused_reply = \<lparr>cr_OK = True, cr_Data = Some (JObj [(''state'', JStr ''PAUSED'')]), cr_Error = []\<rparr>"

definition two_texts :: wext where
  "two_texts = sample_wext\<lparr>json_Text := (\<lambda>j. if j = marshal_Command pause_cmd then ''C'' else ''R''),
     json_Parse := (\<lambda>s. Inr (if s = ''C'' then marshal_Command pause_cmd else marshal_Response paused_reply))\<rparr>"

theorem command_round_trip_witness:
  "fst (SendCommand two_texts registerControlHandlers pause_cmd (fresh_daemon sample_Config)) = Inr paused_reply"
proof -
  let ?d = "fresh_daemon sample_Config"
  have ne: "marshal_Response paused_reply \<noteq> marshal_Command pause_cmd"
    by (simp add: marshal_Response_def marshal_Command_def paused_reply_def pause_cmd_def unless_empty_def)
  have "control_dispatch registerControlHandlers pause_cmd ?d =
      (paused_reply, set_own_mode ''paused'' (?d\<lparr>d_fsm := StatePaused\<rparr>))"
    by (simp add: control_dispatch_def registerControlHandlers_def control_Register_def pause_cmd_def as_handler_def
        handlePauseCmd_def FSM_Transition_def fresh_daemon_def paused_reply_def)
  then have "SendCommand two_texts registerControlHandlers pause_cmd ?d =
      (Inr paused_reply, set_own_mode ''paused'' (?d\<lparr>d_fsm := StatePaused\<rparr>))"
    by (rule command_round_trip [rotated]) (use ne in \<open>simp_all add: two_texts_def\<close>)
  then show ?thesis by simp
qed

definition over :: "float64 \<Rightarrow> int \<Rightarrow> (float64 \<times> 64 word) list \<Rightarrow> nat \<Rightarrow> bool \<times> bool" where
  "over maxCPU maxRAM xs i =
     (0 < maxCPU \<and> maxCPU < fst (xs ! i), 0 < maxRAM \<and> maxRAM < uint (snd (xs ! i)) div 2 ^ 20)"

definition second_time :: "float64 \<Rightarrow> int \<Rightarrow> (float64 \<times> 64 word) list \<Rightarrow> nat \<Rightarrow> bool" where
  "second_time maxCPU maxRAM xs i \<longleftrightarrow> 0 < i \<and>
     (fst (over maxCPU maxRAM xs (i - 1)) \<and> fst (over maxCPU maxRAM xs i)
      \<or> snd (over maxCPU maxRAM xs (i - 1)) \<and> snd (over maxCPU maxRAM xs i))"

definition readings_of :: "(float64 \<times> 64 word) list \<Rightarrow> (float64 list option \<times> 64 word option) list" where
  "readings_of xs = map (\<lambda>(p, u). (Some [p], Some u)) xs"

lemma over_Cons [simp]:
  "over maxCPU maxRAM (x # xs) (Suc i) = over maxCPU maxRAM xs i"
  by (simp add: over_def)

lemma over_no_limit:
  "fst (over maxCPU maxRAM xs i) \<longrightarrow> 0 < maxCPU" "snd (over maxCPU maxRAM xs i) \<longrightarrow> 0 < maxRAM"
  by (simp_all add: over_def)

definition violations :: "bool \<Rightarrow> nat" where
  "violations b = (if b then 1 else 0)"

lemma monitor_run_step:
  assumes "pc \<longrightarrow> 0 < maxCPU" "pr \<longrightarrow> 0 < maxRAM"
  shows "monitor_run maxCPU maxRAM (readings_of (x # xs)) (violations pc) (violations pr) =
    (if pc \<and> fst (over maxCPU maxRAM (x # xs) 0) \<or> pr \<and> snd (over maxCPU maxRAM (x # xs) 0) then Some 0
     else map_option Suc (monitor_run maxCPU maxRAM (readings_of xs)
       (violations (fst (over maxCPU maxRAM (x # xs) 0))) (violations (snd (over maxCPU maxRAM (x # xs) 0)))))"
  using assms by (cases x) (auto simp: readings_of_def checkCPU_def checkRAM_def check_limit_def over_def violations_def Let_def)

definition hit :: "float64 \<Rightarrow> int \<Rightarrow> bool \<Rightarrow> bool \<Rightarrow> (float64 \<times> 64 word) list \<Rightarrow> nat \<Rightarrow> bool" where
  "hit maxCPU maxRAM pc pr xs i \<longleftrightarrow>
     (case i of 0 \<Rightarrow> pc | Suc j \<Rightarrow> fst (over maxCPU maxRAM xs j)) \<and> fst (over maxCPU maxRAM xs i)
     \<or> (case i of 0 \<Rightarrow> pr | Suc j \<Rightarrow> snd (over maxCPU maxRAM xs j)) \<and> snd (over maxCPU maxRAM xs i)"

lemma hit_Suc:
  "hit maxCPU maxRAM pc pr (x # xs) (Suc i) =
     hit maxCPU maxRAM (fst (over maxCPU maxRAM (x # xs) 0)) (snd (over maxCPU maxRAM (x # xs) 0)) xs i"
  by (cases i) (simp_all add: hit_def)

lemma monitor_run_first_hit:
  assumes "pc \<longrightarrow> 0 < maxCPU" "pr \<longrightarrow> 0 < maxRAM"
  shows "monitor_run maxCPU maxRAM (readings_of xs) (violations pc) (violations pr) = Some k \<longleftrightarrow>
    k < length xs \<and> hit maxCPU maxRAM pc pr xs k \<and> (\<forall>j<k. \<not> hit maxCPU maxRAM pc pr xs j)"
  using assms
proof (induction xs arbitrary: pc pr k)
  case Nil
  then show ?case by (simp add: readings_of_def)
next
  case (Cons x xs)
  let ?c = "fst (over maxCPU maxRAM (x # xs) 0)" and ?m = "snd (over maxCPU maxRAM (x # xs) 0)"
  note IH = Cons.IH [of ?c ?m, OF over_no_limit(1) over_no_limit(2)]
  show ?case
  proof (cases "pc \<and> ?c \<or> pr \<and> ?m")
    case True
    then have "hit maxCPU maxRAM pc pr (x # xs) 0" by (auto simp: hit_def)
    with True show ?thesis
      unfolding monitor_run_step [OF Cons.prems] by (cases k) auto
  next
    case False
    then have no: "\<not> hit maxCPU maxRAM pc pr (x # xs) 0" by (auto simp: hit_def)
    show ?thesis
    proof (cases k)
      case 0
      with False no show ?thesis unfolding monitor_run_step [OF Cons.prems] by auto
    next
      case (Suc i)
      with False no show ?thesis
        unfolding monitor_run_step [OF Cons.prems] if_not_P [OF False] by (simp add: IH hit_Suc All_less_Suc2)
    qed
  qed
qed

text \<open>On successful readings the monitor kills the task at the first tick at which the processor, or
  the memory, is above its limit for the second time in a row.\<close>

lemma monitor_kills_on_second:
  "monitor_Start maxCPU maxRAM (readings_of xs) = Some k \<longleftrightarrow>
     k < length xs \<and> second_time maxCPU maxRAM xs k \<and> (\<forall>j<k. \<not> second_time maxCPU maxRAM xs j)"
proof -
  have "hit maxCPU maxRAM False False xs i = second_time maxCPU maxRAM xs i" for i
    by (cases i) (simp_all add: hit_def second_time_def)
  with monitor_run_first_hit [of False maxCPU False maxRAM xs k] show ?thesis
    by (simp add: monitor_Start_def violations_def)
qed

end
