(* ===== verification/Worker_CLI.thy ===== *)
theory Worker_CLI
  imports Worker_Control Worker_Preflight "HOL-Library.AList"
begin

section \<open>The command line of the worker\<close>

text \<open>
  \<^verbatim>\<open>grid-worker/internal/cli\<close>: the commands that talk to the daemon, the listing of the log, the storing
  of a key and the report of the preflight checks; and of \<^verbatim>\<open>pkg/platform\<close> the directories and the
  battery level. Flags and usage texts belong to the library (\<^verbatim>\<open>cobra\<close>).
\<close>

subsection \<open>Commands to the daemon\<close>

text \<open>The part all five commands share: connect, send, and turn a refusal into an error.\<close>

definition cli_send :: "wext \<Rightarrow> handlers \<Rightarrow> string \<Rightarrow> json option \<Rightarrow> daemon \<Rightarrow> (string + Response) \<times> daemon" where
  "cli_send ex hs ty payload d = (case SendCommand ex hs \<lparr>cc_Type = ty, cc_Payload = payload\<rparr> d of
     (Inl e, d') \<Rightarrow> (Inl (''cannot connect to daemon: '' @ e), d')
   | (Inr resp, d') \<Rightarrow> (if \<not> cr_OK resp then Inl (''daemon error: '' @ cr_Error resp) else Inr resp, d'))"

definition say :: "string \<Rightarrow> (string + Response) \<times> daemon \<Rightarrow> (string + string) \<times> daemon" where
  "say msg r = (case r of (Inl e, d) \<Rightarrow> (Inl e, d) | (Inr _, d) \<Rightarrow> (Inr (msg @ [CHR 0x0A]), d))"

definition runPause :: "wext \<Rightarrow> handlers \<Rightarrow> daemon \<Rightarrow> (string + string) \<times> daemon" where
  "runPause ex hs d = say ''daemon paused'' (cli_send ex hs ''pause'' None d)"

definition runResume :: "wext \<Rightarrow> handlers \<Rightarrow> daemon \<Rightarrow> (string + string) \<times> daemon" where
  "runResume ex hs d = say ''daemon resumed'' (cli_send ex hs ''resume'' None d)"

definition runRevoke :: "wext \<Rightarrow> handlers \<Rightarrow> daemon \<Rightarrow> (string + string) \<times> daemon" where
  "runRevoke ex hs d = say ''current task revoked, daemon pausing'' (cli_send ex hs ''revoke'' None d)"

definition runApprove :: "wext \<Rightarrow> handlers \<Rightarrow> string \<Rightarrow> daemon \<Rightarrow> (string + string) \<times> daemon" where
  "runApprove ex hs taskID d = say (''task '' @ Quote taskID @ '' approved'')
     (cli_send ex hs ''approve'' (Some (JObj [(''task_id'', JStr taskID)])) d)"

text \<open>The status is printed as it came, or as a table whose rows have no fixed order.\<close>

datatype status_output = StatusText string | StatusTable "(string \<times> json) list"

definition runStatus :: "wext \<Rightarrow> handlers \<Rightarrow> bool \<Rightarrow> daemon \<Rightarrow> (string + status_output) \<times> daemon" where
  "runStatus ex hs jsonOutput d = (case cli_send ex hs ''status'' None d of
     (Inl e, d') \<Rightarrow> (Inl e, d')
   | (Inr resp, d') \<Rightarrow>
       ((let raw = (case cr_Data resp of None \<Rightarrow> [] | Some j \<Rightarrow> json_Text ex j) in
        Inr (if jsonOutput then StatusText (raw @ [CHR 0x0A])
             else case cr_Data resp of
                 Some (JObj kvs) \<Rightarrow> StatusTable kvs
               | Some JNull \<Rightarrow> StatusTable []
               | _ \<Rightarrow> StatusText (raw @ [CHR 0x0A]))), d'))"

subsection \<open>The log\<close>

text \<open>The window that is searched for line ends.\<close>

definition maxScan :: nat where
  "maxScan = 2 ^ 20"

text \<open>
  The positions of the newlines from the end; the loop stops once there are more than \<open>n\<close>.
  \<^verbatim>\<open>offsets[n-1]\<close> of an empty prefix is a panic, \<^verbatim>\<open>None\<close>.
\<close>

fun newline_offsets :: "string \<Rightarrow> nat \<Rightarrow> int \<Rightarrow> nat \<Rightarrow> nat list" where
  "newline_offsets buf 0 n found = []"
| "newline_offsets buf (Suc i) n found =
     (if buf ! i = CHR 0x0A
      then i # (if int (Suc found) > n then [] else newline_offsets buf i n (Suc found))
      else newline_offsets buf i n found)"

definition tailFile :: "string \<Rightarrow> int \<Rightarrow> string option" where
  "tailFile content n =
     (if content = [] then Some []
      else
        let buf = drop (length content - maxScan) content;
            offsets = newline_offsets buf (length buf) n 0 in
        if int (length offsets) \<ge> n
        then if n \<le> 0 then None else Some (drop (offsets ! nat (n - 1) + 1) buf)
        else Some buf)"

definition log_file :: "(string \<Rightarrow> string) \<Rightarrow> Config option \<Rightarrow> string" where
  "log_file env cfg = (case cfg of
     Some c \<Rightarrow> if lgc_File (cfg_Logging c) \<noteq> [] then lgc_File (cfg_Logging c) else JoinPath [LogDir env, ''grid-worker.log'']
   | None \<Rightarrow> JoinPath [LogDir env, ''grid-worker.log''])"

text \<open>\<^verbatim>\<open>runLogs\<close> without following; the inner \<^verbatim>\<open>None\<close> is the panic.\<close>

definition runLogs :: "Config option \<Rightarrow> int \<Rightarrow> (string + string option) node_effect" where
  "runLogs cfg lines = do {
     env \<leftarrow> gets n_env;
     let logFile = log_file env cfg;
     found \<leftarrow> gets (\<lambda>n. n_fs n logFile);
     e \<leftarrow> oserr;
     case e of
       Some m \<Rightarrow> ret (Inl (''open log file: '' @ m))
     | None \<Rightarrow> (case found of
         None \<Rightarrow> ret (Inl (''log file not found at '' @ Quote logFile @ '' (is the daemon running?)''))
       | Some Dir \<Rightarrow> ret (Inl (''tail log file: is a directory''))
       | Some (File s) \<Rightarrow> ret (Inr (tailFile s lines)))
   }"

text \<open>
  Following the log: one poll of the file, from the offset reached so far; the lines it prints and the
  new offset. At a line that does not fit the scanner's buffer, the buffer has been read and is lost.
\<close>

function scan_stop :: "nat \<Rightarrow> string \<Rightarrow> string option" where
  "scan_stop limit s =
     (if s = [] then None
      else let line = takeWhile (\<lambda>c. c \<noteq> CHR 0x0A) s; rest = dropWhile (\<lambda>c. c \<noteq> CHR 0x0A) s in
        if limit \<le> length line then Some s
        else (case rest of [] \<Rightarrow> None | _ # rest' \<Rightarrow> scan_stop limit rest'))"
  by pat_completeness auto
termination
proof (relation "measure (\<lambda>(limit, s). length s)", goal_cases)
  case (2 limit s x xa x21 x22)
  then have "length (x21 # x22) \<le> length s" by (metis length_dropWhile_le)
  then show ?case by simp
qed simp

declare scan_stop.simps [simp del]

definition follow_poll :: "string \<Rightarrow> nat \<Rightarrow> string list \<times> nat" where
  "follow_poll content offset =
     (if length content > offset
      then (Scanner_lines (drop offset content),
        case scan_stop MaxScanTokenSize (drop offset content) of
          None \<Rightarrow> length content
        | Some r \<Rightarrow> length content - length r + MaxScanTokenSize)
      else ([], offset))"

text \<open>The polls of a file whose content is given at each; after the listing, the offset is its length.\<close>

primrec follow :: "string list \<Rightarrow> nat \<Rightarrow> string list" where
  "follow [] offset = []"
| "follow (c # cs) offset = (case follow_poll c offset of (ls, offset') \<Rightarrow> ls @ follow cs offset')"

text \<open>The first line of a text, and what follows it.\<close>

lemma scan_first_line:
  assumes "CHR 0x0A \<notin> set a"
  shows "scan_lines limit (a @ CHR 0x0A # b) = (if limit \<le> length a then [] else dropCR a # scan_lines limit b)"
    and "scan_stop limit (a @ CHR 0x0A # b) = (if limit \<le> length a then Some (a @ CHR 0x0A # b) else scan_stop limit b)"
proof -
  have "takeWhile (\<lambda>c. c \<noteq> CHR 0x0A) (a @ CHR 0x0A # b) = a" "dropWhile (\<lambda>c. c \<noteq> CHR 0x0A) (a @ CHR 0x0A # b) = CHR 0x0A # b"
    using assms by (auto simp: takeWhile_append dropWhile_append)
  then show "scan_lines limit (a @ CHR 0x0A # b) = (if limit \<le> length a then [] else dropCR a # scan_lines limit b)"
    and "scan_stop limit (a @ CHR 0x0A # b) = (if limit \<le> length a then Some (a @ CHR 0x0A # b) else scan_stop limit b)"
    by (simp_all add: scan_lines.simps [of limit "a @ _"] scan_stop.simps [of limit "a @ _"] Let_def)
qed

lemma scan_lines_append:
  assumes "s = [] \<or> last s = CHR 0x0A" "scan_stop limit s = None"
  shows "scan_lines limit (s @ r) = scan_lines limit s @ scan_lines limit r"
  using assms
proof (induction "length s" arbitrary: s rule: less_induct)
  case less
  show ?case
  proof (cases "s = []")
    case False
    then have "CHR 0x0A \<in> set s" using less.prems(1) last_in_set by metis
    then obtain a b where s: "s = a @ CHR 0x0A # b" "CHR 0x0A \<notin> set a" by (meson split_list_first)
    have b: "scan_stop limit b = None" "\<not> limit \<le> length a" "b = [] \<or> last b = CHR 0x0A"
      using less.prems by (auto simp: s scan_first_line split: if_splits)
    then have "scan_lines limit (b @ r) = scan_lines limit b @ scan_lines limit r" using less.hyps [of b] by (simp add: s(1))
    with b(2) s show ?thesis by (simp add: scan_first_line)
  qed (simp add: scan_lines.simps)
qed

text \<open>
  When every poll finds whole lines that fit the buffer, following prints exactly the lines that were added;
  a line that is written in two parts is printed as two lines.
\<close>

primrec growing :: "string \<Rightarrow> string list \<Rightarrow> string list" where
  "growing old [] = []"
| "growing old (c # cs) = (old @ c) # growing (old @ c) cs"

lemma follow_prints_lines:
  assumes "\<forall>c \<in> set chunks. (c = [] \<or> last c = CHR 0x0A) \<and> scan_stop MaxScanTokenSize c = None"
  shows "follow (growing old chunks) (length old) = Scanner_lines (concat chunks)"
  using assms
proof (induction chunks arbitrary: old)
  case (Cons c chunks)
  have "follow_poll (old @ c) (length old) = (Scanner_lines c, length (old @ c))"
    using Cons.prems by (auto simp: follow_poll_def Scanner_lines_def scan_lines.simps)
  moreover have "Scanner_lines (c @ concat chunks) = Scanner_lines c @ Scanner_lines (concat chunks)"
    using Cons.prems by (simp add: Scanner_lines_def scan_lines_append)
  ultimately show ?case using Cons.IH [of "old @ c"] Cons.prems by simp
qed (simp add: Scanner_lines_def scan_lines.simps)

lemma follow_splits_line:
  "follow [''o'', ''one'' @ [CHR 0x0A]] 0 = [''o'', ''ne'']"
  by (simp add: follow_poll_def Scanner_lines_def scan_lines.simps scan_stop.simps MaxScanTokenSize_def dropCR_def)

subsection \<open>Storing a key\<close>

text \<open>
  The YAML library is a parameter: reading a document into an empty map gives its entries, leaves a
  nil map for a null document, or fails (the error is ignored); writing may fail.
\<close>

datatype yaml_map = YMap "(string \<times> json) list" | YNil | YError

definition set_entry :: "string \<Rightarrow> json \<Rightarrow> (string \<times> json) list \<Rightarrow> (string \<times> json) list" where
  "set_entry k v kvs = AList.update k v kvs"

definition config_with_key :: "string \<Rightarrow> (string \<times> json) list \<Rightarrow> (string \<times> json) list" where
  "config_with_key apiKey existing =
     (let server = (case map_of existing ''server'' of Some (JObj kvs) \<Rightarrow> kvs | _ \<Rightarrow> []) in
      set_entry ''server'' (JObj (set_entry ''api_key'' (JStr apiKey) server)) existing)"

text \<open>The inner \<^verbatim>\<open>None\<close> is the panic of a write to a nil map.\<close>

definition runSetKey :: "(string \<Rightarrow> yaml_map) \<Rightarrow> ((string \<times> json) list \<Rightarrow> string + string) \<Rightarrow> string \<Rightarrow> string
    \<Rightarrow> (string + string) option node_effect" where
  "runSetKey yaml_Unmarshal yaml_Marshal cfgFile apiKey =
     (if apiKey = [] then ret (Some (Inl ''api-key cannot be empty''))
      else do {
        env \<leftarrow> gets n_env;
        made \<leftarrow> os_MkdirAll (ConfigDir env);
        case made of
          Inl e \<Rightarrow> ret (Some (Inl (''create config directory: '' @ e)))
        | Inr _ \<Rightarrow> do {
            let configPath = (if cfgFile \<noteq> [] then cfgFile else JoinPath [ConfigDir env, ''config.yaml'']);
            data \<leftarrow> os_ReadFile configPath;
            case (case data of Inl _ \<Rightarrow> YMap [] | Inr s \<Rightarrow> yaml_Unmarshal s) of
              YNil \<Rightarrow> ret None
            | loaded \<Rightarrow>
                (case yaml_Marshal (config_with_key apiKey (case loaded of YMap kvs \<Rightarrow> kvs | _ \<Rightarrow> [])) of
                  Inl e \<Rightarrow> ret (Some (Inl (''marshal config: '' @ e)))
                | Inr text \<Rightarrow> do {
                    w \<leftarrow> os_WriteFile configPath text;
                    ret (Some (case w of Inl e \<Rightarrow> Inl (''write config: '' @ e)
                      | Inr _ \<Rightarrow> Inr (''API key saved to '' @ configPath @ [CHR 0x0A])))
                  })
          }
      })"

subsection \<open>Preflight\<close>

text \<open>The rows of the table, the line on the error stream, and whether the process exits with status 1.\<close>

definition status_icon :: "string \<Rightarrow> string" where
  "status_icon st = (if st = ''fail'' then [CHR 0xE2, CHR 0x9C, CHR 0x97]
     else if st = ''warn'' then ''!'' else [CHR 0xE2, CHR 0x9C, CHR 0x93])"

definition preflight_row :: "CheckResult \<Rightarrow> string list" where
  "preflight_row r = [ck_ID r, ck_Name r, status_icon (ck_Status r) @ '' '' @ ck_Status r, ck_Message r]"

definition runPreflight :: "wext \<Rightarrow> (string \<Rightarrow> string + rulesetYAML) \<Rightarrow> string \<Rightarrow> hardware \<Rightarrow> Config option
    \<Rightarrow> (string + string list list \<times> bool) node_effect" where
  "runPreflight ex yaml embedded hw cfg = (case cfg of
     None \<Rightarrow> ret (Inl ''configuration not loaded'')
   | Some c \<Rightarrow> do {
       (results, _) \<leftarrow> RunAll ex yaml embedded hw (Client_New (cfg_Server c)) c;
       ret (Inr ([''ID'', ''NAME'', ''STATUS'', ''MESSAGE''] # [''--'', ''----'', ''------'', ''-------''] # map preflight_row results,
         \<exists>r \<in> set results. ck_Status r = ''fail''))
     })"

subsection \<open>Directories and battery\<close>

primrec make_dirs :: "string list \<Rightarrow> (string + unit) node_effect" where
  "make_dirs [] = ret (Inr ())"
| "make_dirs (d # ds) = do {
     r \<leftarrow> os_MkdirAll d;
     case r of Inl e \<Rightarrow> ret (Inl (''failed to create directory '' @ Quote d @ '': '' @ e)) | Inr _ \<Rightarrow> make_dirs ds
   }"

definition EnsureDirs :: "(string + unit) node_effect" where
  "EnsureDirs = do { env \<leftarrow> gets n_env; make_dirs [ConfigDir env, WorkspaceDir env, LogDir env] }"

text \<open>The names in the directory are given (or the error of reading it); the parser of numbers is a parameter.\<close>

primrec battery_of :: "(string \<Rightarrow> float64 option) \<Rightarrow> string list \<Rightarrow> (float64 \<times> bool) node_effect" where
  "battery_of parseFloat [] = ret (0, False)"
| "battery_of parseFloat (name # names) =
     (let dir = ''/sys/class/power_supply'' in
      if \<not> HasPrefix (map upper name) ''BAT'' then battery_of parseFloat names
      else do {
        ty \<leftarrow> os_ReadFile (JoinPath [dir, name, ''type'']);
        case ty of
          Inl _ \<Rightarrow> battery_of parseFloat names
        | Inr s \<Rightarrow>
            if TrimSpace s \<noteq> ''Battery'' then battery_of parseFloat names
            else do {
              cap \<leftarrow> os_ReadFile (JoinPath [dir, name, ''capacity'']);
              case cap of
                Inl _ \<Rightarrow> battery_of parseFloat names
              | Inr c \<Rightarrow> (case parseFloat (TrimSpace c) of
                  None \<Rightarrow> battery_of parseFloat names | Some p \<Rightarrow> ret (p, True))
            }
      })"

definition readBatteryFromSystem :: "(string \<Rightarrow> float64 option) \<Rightarrow> string + string list \<Rightarrow> (float64 \<times> bool) node_effect" where
  "readBatteryFromSystem parseFloat entries = (case entries of
     Inl _ \<Rightarrow> ret (0, False) | Inr names \<Rightarrow> battery_of parseFloat names)"

subsection \<open>What the listing of the log shows\<close>

definition newlines :: "string \<Rightarrow> nat list" where
  "newlines s = filter (\<lambda>j. s ! j = CHR 0x0A) [0..<length s]"

definition with_newlines :: "string list \<Rightarrow> string" where
  "with_newlines ls = concat (map (\<lambda>l. l @ [CHR 0x0A]) ls)"

lemma newlines_append: "newlines (a @ b) = newlines a @ map (\<lambda>i. i + length a) (newlines b)"
proof -
  have "[0..<length (a @ b)] = [0..<length a] @ map (\<lambda>i. i + length a) [0..<length b]"
    using upt_add_eq_append [of 0 "length a" "length b"] by (simp add: map_add_upt add.commute)
  moreover have "filter (\<lambda>j. (a @ b) ! j = CHR 0x0A) [0..<length a] = newlines a"
    unfolding newlines_def by (rule filter_cong) (simp_all add: nth_append)
  moreover have "filter (\<lambda>j. (a @ b) ! j = CHR 0x0A) (map (\<lambda>i. i + length a) [0..<length b])
      = map (\<lambda>i. i + length a) (newlines b)"
    by (simp add: newlines_def filter_map o_def nth_append)
  ultimately show ?thesis by (simp only: newlines_def [of "a @ b"] filter_append)
qed

lemma newlines_none: "CHR 0x0A \<notin> set s \<Longrightarrow> newlines s = []"
  by (auto simp: newlines_def filter_empty_conv in_set_conv_nth)

lemma newlines_line:
  assumes "CHR 0x0A \<notin> set l"
  shows "newlines (l @ CHR 0x0A # s) = length l # map (\<lambda>i. i + (length l + 1)) (newlines s)"
proof -
  have "newlines [CHR 0x0A] = [0]" by (simp add: newlines_def)
  with newlines_append [of "l @ [CHR 0x0A]" s] newlines_append [of l "[CHR 0x0A]"] newlines_none [OF assms]
  show ?thesis by simp
qed

lemma length_newlines_lines:
  "(\<And>l. l \<in> set ls \<Longrightarrow> CHR 0x0A \<notin> set l) \<Longrightarrow> length (newlines (with_newlines ls)) = length ls"
proof (induction ls)
  case Nil
  then show ?case by (simp add: with_newlines_def newlines_def)
next
  case (Cons l ls)
  have "with_newlines (l # ls) = l @ CHR 0x0A # with_newlines ls" by (simp add: with_newlines_def)
  with Cons show ?case by (simp add: newlines_line)
qed

lemma newline_offsets_take:
  "int found \<le> n \<Longrightarrow> newline_offsets buf i n found
     = take (nat (n + 1) - found) (rev (filter (\<lambda>j. buf ! j = CHR 0x0A) [0..<i]))"
proof (induction i arbitrary: found)
  case (Suc i)
  show ?case
  proof (cases "buf ! i = CHR 0x0A")
    case True
    show ?thesis
    proof (cases "int (Suc found) > n")
      case True
      with Suc.prems have "n = int found" by simp
      moreover have "nat (int found + 1) - found = 1" by simp
      ultimately show ?thesis using \<open>buf ! i = CHR 0x0A\<close> by simp
    next
      case False
      then have "nat (n + 1) - found = Suc (nat (n + 1) - Suc found)" by linarith
      with False \<open>buf ! i = CHR 0x0A\<close> Suc.IH [of "Suc found"] show ?thesis by simp
    qed
  next
    case False
    with Suc.IH [OF Suc.prems] show ?thesis by simp
  qed
qed simp

lemma tailFile_newlines:
  assumes "s \<noteq> []" "length s \<le> maxScan" "0 < n"
  shows "tailFile s (int n) = Some (if n \<le> length (newlines s) then drop (rev (newlines s) ! (n - 1) + 1) s else s)"
proof -
  have o: "newline_offsets s (length s) (int n) 0 = take (Suc n) (rev (newlines s))"
    by (simp add: newline_offsets_take newlines_def nat_add_distrib)
  have "drop (length s - maxScan) s = s" using assms(2) by simp
  with assms o show ?thesis by (auto simp: tailFile_def Let_def nat_diff_distrib)
qed

lemma tailFile_lines:
  assumes "\<And>l. l \<in> set ls \<Longrightarrow> CHR 0x0A \<notin> set l" "length (with_newlines ls) \<le> maxScan" "0 < n" "n \<le> length ls"
  shows "tailFile (with_newlines ls) (int n) = Some (with_newlines (drop (length ls - (n - 1)) ls))"
proof -
  define k where "k = length ls - n"
  have k: "k < length ls" "length ls - (n - 1) = Suc k" using assms(3,4) by (auto simp: k_def)
  let ?a = "with_newlines (take k ls)" and ?b = "with_newlines (drop (Suc k) ls)"
  have ls: "ls = take k ls @ ls ! k # drop (Suc k) ls" using k(1) by (rule id_take_nth_drop)
  have app: "with_newlines (a @ l # b) = with_newlines a @ l @ CHR 0x0A # with_newlines b" for a l b
    by (simp add: with_newlines_def)
  have s: "with_newlines ls = ?a @ ls ! k @ CHR 0x0A # ?b"
    by (subst ls) (rule app)
  have "newlines (with_newlines ls) = (newlines ?a @ [length ?a + length (ls ! k)]) @
      map (\<lambda>i. i + (length (ls ! k) + 1) + length ?a) (newlines ?b)"
    using assms(1) k(1) unfolding s newlines_append [of ?a]
    by (simp add: newlines_line o_def)
  moreover have "length (newlines ?b) = n - 1"
    using assms(1,3,4) by (subst length_newlines_lines) (auto dest: in_set_dropD simp: k_def)
  ultimately have "rev (newlines (with_newlines ls)) ! (n - 1) = length ?a + length (ls ! k)"
    by (simp add: nth_append)
  moreover have "length (newlines (with_newlines ls)) = length ls"
    by (rule length_newlines_lines) (use assms(1) in blast)
  moreover have "with_newlines ls \<noteq> []" by (simp add: s)
  ultimately show ?thesis
    using tailFile_newlines [of "with_newlines ls" n] assms(2-4) k(2) s by simp
qed

end

