(* ===== verification/System_Properties.thy ===== *)
theory System_Properties
  imports Control_Plane_Properties Worker_Properties Worker_CLI
begin

section \<open>Properties across the two programs\<close>

text \<open>
  What the control plane writes and the worker reads, and the other way round; and the properties of
  the worker's command line.
\<close>

subsection \<open>A task reaches the worker\<close>

text \<open>
  The JSON of a heartbeat's reply: maps are written with sorted keys; \<open>ks\<close> are the keys of the options.
\<close>

definition assigned_json :: "string list \<Rightarrow> AssignedTask \<Rightarrow> json" where
  "assigned_json ks a = JObj
     [(''ai_agent'', JStr (at_AIAgent a)), (''branch'', JStr (at_Branch a)), (''description'', JStr (at_Description a)),
      (''options'', JObj (map (\<lambda>k. (k, JStr (the (at_Options a k)))) ks)), (''repo_url'', JStr (at_RepoURL a)),
      (''task_id'', JStr (at_TaskID a)), (''task_type'', JStr (at_TaskType a)), (''timeout_sec'', JInt (at_TimeoutSec a)),
      (''title'', JStr (at_Title a))]"

definition heartbeat_json :: "ext \<Rightarrow> string list \<Rightarrow> payload \<Rightarrow> json" where
  "heartbeat_json ex ks p = (case p of
     HeartbeatJSON wid ttl a \<Rightarrow> JObj ((case a of None \<Rightarrow> [] | Some b \<Rightarrow> [(''assigned_task'', assigned_json ks b)])
       @ [(''next_ttl_sec'', JInt ttl), (''ok'', JBool True), (''worker_id'', JStr (uuid_String ex wid))])
   | _ \<Rightarrow> JNull)"

lemma string_pairs_strings: "string_pairs (map (\<lambda>k. (k, JStr (f k))) ks) = Inr (map (\<lambda>k. (k, f k)) ks)"
  by (induction ks) simp_all

lemma decode_assigned:
  assumes "- (2 ^ 63) \<le> at_TimeoutSec a" "at_TimeoutSec a < 2 ^ 63"
  shows "decode_HeartbeatResponse (heartbeat_json ex ks (HeartbeatJSON wid ttl (Some a))) =
    Inr (Some \<lparr>ta_TaskID = at_TaskID a, ta_Title = at_Title a, ta_Description = at_Description a,
      ta_TaskType = at_TaskType a, ta_AIAgent = at_AIAgent a,
      ta_Options = map (\<lambda>k. (k, the (at_Options a k))) ks, ta_RepoURL = at_RepoURL a, ta_Branch = at_Branch a,
      ta_TimeoutSec = at_TimeoutSec a\<rparr>)"
proof -
  have "of_int (- (2 ^ 63)) \<le> (of_int (at_TimeoutSec a) :: rat)" "(of_int (at_TimeoutSec a) :: rat) < of_int (2 ^ 63)"
    unfolding of_int_le_iff of_int_less_iff by (rule assms)+
  then show ?thesis
    by (simp add: decode_HeartbeatResponse_def heartbeat_json_def assigned_json_def json_field_def EqualFold_def lower_def
        decode_TaskAssignment_def as_string_def as_string_map_def as_int_def JInt_def string_pairs_strings)
qed

lemma int_of_float_range: "- (2 ^ 63) \<le> int_of_float x \<and> int_of_float x < 2 ^ 63"
  by (simp add: int_of_float_def Let_def)

lemma assigned_timeout_range:
  "- (2 ^ 63) \<le> at_TimeoutSec (assigned_task ex t) \<and> at_TimeoutSec (assigned_task ex t) < 2 ^ 63"
  using int_of_float_range by (auto simp: assigned_task_def split: option.split json.split)

text \<open>
  A heartbeat is answered with an error, or with 200 and, if the reply carries a task, one that the worker
  of the path is assigned to and has not started.
\<close>

lemma heartbeat_cases:
  obtains (failed) c msg where "400 \<le> c" "rs_Status (result (WorkerHandler_Heartbeat ex ttl agents r) w) = c"
      "rs_Body (result (WorkerHandler_Heartbeat ex ttl agents r) w) = ErrorJSON msg"
  | (answered) wid a where "rs_Body (result (WorkerHandler_Heartbeat ex ttl agents r) w) = HeartbeatJSON wid ttl a"
      "uuid_Parse ex (URLParam r ''id'') = Some wid"
      "\<And>b. a = Some b \<Longrightarrow> \<exists>t \<in> set (tasks (wdb w)). t_AssignedWorkerID t = Some wid
        \<and> t_State t = TaskStateAssigned \<and> b = assigned_task ex t"
proof -
  note err = writeError_def writeJSON_def
  let ?H = "WorkerHandler_Heartbeat ex ttl agents r"
  have put: "tasks (wdb (exec (ignore_error (SetWorkerHeartbeat ex i ttl)) v)) = tasks (wdb v)" for i v
    by (auto simp: ignore_error_def SetWorkerHeartbeat_def run_redis_cmd split: sum.splits prod.splits if_splits)
  have upd: "tasks (wdb (exec (UpdateWorkerHeartbeat i as) v)) = tasks (wdb v)" for i as v
    by (auto simp: UpdateWorkerHeartbeat_def run_sql split: sum.splits prod.splits if_splits)
  have get: "tasks (wdb (exec (GetWorker i) v)) = tasks (wdb v)" for i v
    by (simp add: GetWorker_def run_sql_query)
  have fail: thesis if "result ?H w = result (writeError c msg) v" "400 \<le> c" for c msg v
    using that by (intro failed [of c msg]) (simp_all add: err)
  show thesis
  proof (cases "rq_OrgUnitID r")
    case None
    then show thesis by (intro fail [of 401 "''missing org context''" w]) (simp_all add: WorkerHandler_Heartbeat_def)
  next
    case oid: (Some oid)
    show thesis
    proof (cases "uuid_Parse ex (URLParam r ''id'')")
      case None
      with oid show thesis by (intro fail [of 400 "''invalid worker ID''" w]) (simp_all add: WorkerHandler_Heartbeat_def)
    next
      case i: (Some i)
      obtain f w1 where g: "run_state (GetWorker i) w = (f, w1)" by fastforce
      note H = WorkerHandler_Heartbeat_def oid i g
      show thesis
      proof (cases f)
        case (Inl e)
        then show thesis by (intro fail [of 404 "''worker not found''" w1]) (simp_all add: H)
      next
        case f: (Inr wk)
        show thesis
        proof (cases "wk_OrgUnitID wk = oid \<and> check_agents (elems agents) = None")
          case False
          then show thesis
            by (cases "wk_OrgUnitID wk = oid"; cases "check_agents (elems agents)")
              (auto simp: H f intro: fail [of 403 "''access denied''" w1] fail [of 400 _ w1])
        next
          case True
          obtain w2 where w2: "run_state (ignore_error (SetWorkerHeartbeat ex i ttl)) w1 = ((), w2)"
            by (cases "run_state (ignore_error (SetWorkerHeartbeat ex i ttl)) w1") simp
          let ?as = "case agents of None \<Rightarrow> wk_Agents wk | Some as \<Rightarrow> as"
          obtain u w3 where u: "run_state (UpdateWorkerHeartbeat i ?as) w2 = (u, w3)" by fastforce
          obtain q w4 where q: "run_state (GetAssignedTaskForWorker i) w3 = (q, w4)" by fastforce
          show thesis
          proof (cases u)
            case (Inl e)
            with True show thesis
              by (intro fail [of 500 "''failed to update heartbeat''" w3]) (simp_all add: H f w2 u)
          next
            case (Inr x)
            have same: "tasks (wdb w3) = tasks (wdb w)"
              using put [of i w1] upd [of i ?as w2] get [of i w] g u w2 by simp
            show thesis
            proof (rule answered [OF _ i])
              show "rs_Body (result ?H w) = HeartbeatJSON i ttl (case q of Inl err \<Rightarrow> None | Inr a \<Rightarrow> map_option (assigned_task ex) a)"
                using True Inr by (simp add: H f w2 u q err)
            next
              fix b assume "(case q of Inl err \<Rightarrow> None | Inr a \<Rightarrow> map_option (assigned_task ex) a) = Some b"
              then obtain t where t: "q = Inr (Some t)" "b = assigned_task ex t" by (auto split: sum.splits)
              have "limit1 (order_by (\<lambda>t. nulls_last (t_AssignedAt t))
                  (filter (\<lambda>t. t_AssignedWorkerID t = Some i \<and> t_State t = TaskStateAssigned) (tasks (wdb w3)))) = Some t"
                using q t(1) by (simp add: GetAssignedTaskForWorker_def run_sql_query split: if_splits)
              from limit1_Some_in [OF this] t(2)
              show "\<exists>t \<in> set (tasks (wdb w)). t_AssignedWorkerID t = Some i \<and> t_State t = TaskStateAssigned \<and> b = assigned_task ex t"
                by (auto simp: same)
            qed
          qed
        qed
      qed
    qed
  qed
qed

lemma heartbeat_reply_task:
  assumes "rs_Body (result (WorkerHandler_Heartbeat ex ttl agents r) w) = HeartbeatJSON wid ttl' (Some a)"
  shows "\<exists>t \<in> set (tasks (wdb w)). t_AssignedWorkerID t = Some wid \<and> t_State t = TaskStateAssigned \<and> a = assigned_task ex t"
  using assms by (cases rule: heartbeat_cases [of ex ttl agents r w]) auto


definition assigned_world :: world where
  "assigned_world = sample_world\<lparr>wdb := sample_db\<lparr>tasks :=
     [sample_task\<lparr>t_State := TaskStateAssigned, t_AssignedWorkerID := Some 2, t_AssignedAt := Some 0\<rparr>]\<rparr>\<rparr>"

definition heartbeat_request :: request where
  "heartbeat_request = sample_request\<lparr>rq_OrgUnitID := Some 1, rq_URLParams := [(''id'', ''2'')]\<rparr>"


subsection \<open>A report reaches the control plane\<close>



subsection \<open>Windows\<close>

text \<open>The same window, in the worker's record.\<close>

definition worker_window :: "TimeWindow \<Rightarrow> TimeWindowConfig" where
  "worker_window w = \<lparr>win_DayOfWeek = tw_DayOfWeek w, win_StartHour = tw_StartHour w, win_EndHour = tw_EndHour w,
     win_Timezone = tw_Timezone w\<rparr>"

text \<open>The window of an organisation's policy and that of a worker's configuration mean the same
  hours, except under a timezone the database does not know: there the control plane takes UTC and the
  worker keeps the window closed.\<close>

lemma windows_agree:
  "worker_inWindow tz t (worker_window w) =
     (if tw_Timezone w \<noteq> [] \<and> tz (tw_Timezone w) = None then False else inWindow tz t w)"
  by (auto simp: worker_inWindow_def inWindow_def worker_window_def containsInt_iff Let_def split: option.splits)

subsection \<open>The command line\<close>

text \<open>The listing of the log is one line short: of a log of complete lines within the window of
  1 MiB, asking for the last \<open>n\<close> lines shows the last \<open>n - 1\<close>, and asking for none of a log that is not
  empty panics.\<close>

lemma log_listing_is_one_short:
  assumes "\<And>l. l \<in> set ls \<Longrightarrow> CHR 0x0A \<notin> set l" "length (with_newlines ls) \<le> 2 ^ 20" "0 < n" "n \<le> length ls"
  shows "tailFile (with_newlines ls) (int n) = Some (with_newlines (drop (length ls - (n - 1)) ls))
    \<and> tailFile (with_newlines ls) 0 = None"
proof -
  have "with_newlines ls \<noteq> []"
    using assms(3,4) by (cases ls) (auto simp: with_newlines_def)
  then have "tailFile (with_newlines ls) 0 = None" by (simp add: tailFile_def Let_def)
  with tailFile_lines [OF assms(1) _ assms(3,4)] assms(2) show ?thesis by (simp add: maxScan_def)
qed

text \<open>System calls that succeed, and what storing a key does when it ends well.\<close>

lemma run_os_MkdirAll:
  "n_oserrs n = [] \<Longrightarrow> \<not> file_in_way p (n_fs n) \<Longrightarrow>
    run_state (os_MkdirAll p) n = (Inr (), n\<lparr>n_fs := mkdirs p (n_fs n)\<rparr>)"
  by (cases n) (simp add: os_MkdirAll_def run_oserr)

lemma run_os_ReadFile:
  "n_oserrs n = [] \<Longrightarrow> run_state (os_ReadFile path) n = (case n_fs n path of Some (File s) \<Rightarrow> Inr s
     | Some Dir \<Rightarrow> Inl (''read '' @ path @ '': is a directory'')
     | None \<Rightarrow> Inl (''open '' @ path @ '': no such file or directory''), n)"
  by (cases n) (simp add: os_ReadFile_def run_oserr)

lemma run_os_WriteFile:
  "n_oserrs n = [] \<Longrightarrow> run_state (os_WriteFile path enc) n =
     (if n_fs n path = Some Dir then (Inl (''open '' @ path @ '': is a directory''), n)
      else (Inr (), n\<lparr>n_fs := (n_fs n)(path \<mapsto> File enc)\<rparr>))"
  by (cases n) (simp add: os_WriteFile_def run_oserr)

lemma loaded_after_mkdirs:
  "(case (case mkdirs p fs path of Some (File s) \<Rightarrow> unm s | _ \<Rightarrow> YMap []) of YMap kvs \<Rightarrow> kvs | _ \<Rightarrow> []) =
   (case fs path of Some (File s) \<Rightarrow> (case unm s of YMap kvs \<Rightarrow> kvs | _ \<Rightarrow> []) | _ \<Rightarrow> [])"
  by (auto simp: mkdirs_def split: option.split entry.split)

lemma runSetKey_saves:
  assumes "result (runSetKey unm mar cfgFile key) n = Some (Inr msg)" "n_oserrs n = []"
    and "path = (if cfgFile \<noteq> [] then cfgFile else JoinPath [ConfigDir (n_env n), ''config.yaml''])"
    and "old = (case n_fs n path of Some (File s) \<Rightarrow> (case unm s of YMap kvs \<Rightarrow> kvs | _ \<Rightarrow> []) | _ \<Rightarrow> [])"
  shows "\<exists>enc. mar (config_with_key key old) = Inr enc
      \<and> n_fs (exec (runSetKey unm mar cfgFile key) n) path = Some (File enc)"
proof -
  let ?fs = "mkdirs (ConfigDir (n_env n)) (n_fs n)"
  let ?n = "n\<lparr>n_fs := ?fs\<rparr>"
  define loaded where "loaded = (case ?fs path of Some (File s) \<Rightarrow> unm s | _ \<Rightarrow> YMap [])"
  have key: "key \<noteq> []" using assms(1) by (auto simp: runSetKey_def)
  have made: "\<not> file_in_way (ConfigDir (n_env n)) (n_fs n)"
    using assms(1,2) key by (auto simp: runSetKey_def os_MkdirAll_def run_oserr)
  note read = run_os_ReadFile [of ?n path, simplified, OF assms(2)]
    and put = run_os_WriteFile [of ?n path, simplified, OF assms(2)]
  have old: "(case loaded of YMap kvs \<Rightarrow> kvs | _ \<Rightarrow> []) = old"
    unfolding loaded_def assms(4) by (rule loaded_after_mkdirs)
  have run: "run_state (runSetKey unm mar cfgFile key) n = (case loaded of
      YNil \<Rightarrow> (None, ?n)
    | _ \<Rightarrow> (case mar (config_with_key key (case loaded of YMap kvs \<Rightarrow> kvs | _ \<Rightarrow> [])) of
        Inl e \<Rightarrow> (Some (Inl (''marshal config: '' @ e)), ?n)
      | Inr enc \<Rightarrow> (if ?fs path = Some Dir then (Some (Inl (''write config: '' @ ''open '' @ path @ '': is a directory'')), ?n)
          else (Some (Inr (''API key saved to '' @ path @ [CHR 0x0A])), ?n\<lparr>n_fs := ?fs(path \<mapsto> File enc)\<rparr>))))"
  proof (cases "cfgFile = []")
    case True
    then have p: "path = JoinPath [ConfigDir (n_env n), ''config.yaml'']" using assms(3) by simp
    show ?thesis using key run_os_MkdirAll [OF assms(2) made] read put True
      by (simp add: runSetKey_def p [symmetric] loaded_def Let_def split: option.split entry.split yaml_map.split sum.split)
  next
    case False
    with assms(3) have "path = cfgFile" by simp
    with key run_os_MkdirAll [OF assms(2) made] read put False show ?thesis
      by (simp add: runSetKey_def loaded_def Let_def split: option.split entry.split yaml_map.split sum.split)
  qed
  show ?thesis
    using assms(1) unfolding run old by (auto split: yaml_map.splits sum.splits if_splits)
qed

lemma config_with_key_entries:
  "\<exists>section. map_of (config_with_key key old) ''server'' = Some (JObj section)
    \<and> map_of section ''api_key'' = Some (JStr key)
    \<and> (\<forall>k. k \<noteq> ''server'' \<longrightarrow> map_of (config_with_key key old) k = map_of old k)
    \<and> (\<forall>k. k \<noteq> ''api_key'' \<longrightarrow> map_of section k =
         (case map_of old ''server'' of Some (JObj kvs) \<Rightarrow> map_of kvs k | _ \<Rightarrow> None))"
  by (intro exI [of _ "set_entry ''api_key'' (JStr key)
        (case map_of old ''server'' of Some (JObj kvs) \<Rightarrow> kvs | _ \<Rightarrow> [])"])
     (auto simp: config_with_key_def set_entry_def update_conv' Let_def split: option.split json.split)

text \<open>Storing a key writes a configuration whose server section holds it, with every other entry of
  the file and of that section as before; of a file the YAML reader rejects nothing is kept.\<close>

lemma set_key_keeps_rest:
  assumes "result (runSetKey unm mar cfgFile key) n = Some (Inr msg)" "n_oserrs n = []"
    and "path = (if cfgFile \<noteq> [] then cfgFile else JoinPath [ConfigDir (n_env n), ''config.yaml''])"
    and "old = (case n_fs n path of Some (File s) \<Rightarrow> (case unm s of YMap kvs \<Rightarrow> kvs | _ \<Rightarrow> []) | _ \<Rightarrow> [])"
  shows "\<exists>new enc section. mar new = Inr enc \<and> n_fs (exec (runSetKey unm mar cfgFile key) n) path = Some (File enc)
      \<and> map_of new ''server'' = Some (JObj section) \<and> map_of section ''api_key'' = Some (JStr key)
      \<and> (\<forall>k. k \<noteq> ''server'' \<longrightarrow> map_of new k = map_of old k)
      \<and> (\<forall>k. k \<noteq> ''api_key'' \<longrightarrow> map_of section k =
           (case map_of old ''server'' of Some (JObj kvs) \<Rightarrow> map_of kvs k | _ \<Rightarrow> None))"
proof -
  from runSetKey_saves [OF assms] obtain enc where "mar (config_with_key key old) = Inr enc"
    "n_fs (exec (runSetKey unm mar cfgFile key) n) path = Some (File enc)" by blast
  then show ?thesis using config_with_key_entries [of key old] by blast
qed

end
