(* ===== verification/Grid_System.thy ===== *)
theory Grid_System
  imports System_Properties
begin

section \<open>The grid as one system\<close>

text \<open>
  The control plane and any number of worker processes, joined by heartbeats. The steps are those of
  the control plane (Frame.thy), those of each daemon (Worker\_Lifecycle.thy), a heartbeat that reaches
  the server, and a reply that reaches its worker. Replies may be late, come more than once or never:
  a reply stays on the wire after it was delivered, and may not be delivered at all. Requests that get lost are requests that
  are not made; requests whose reply gets lost are steps of the control plane.
\<close>

subsection \<open>Messages\<close>

text \<open>
  A request as the server sees it: the method, the path after the base URL, the headers and the text of
  the body. A reply as the client sees it: its status, and a body from which the worker's JSON parser
  reads what the server's encoder was given, or fails, as when the text was cut at \<open>MaxReply\<close>.
\<close>

definition arrives :: "wext \<Rightarrow> Client \<Rightarrow> httpReq \<Rightarrow> request \<Rightarrow> bool" where
  "arrives wx c q r \<longleftrightarrow> rq_Method r = hq_Method q \<and> cl_baseURL c @ rq_Path r = hq_URL q
     \<and> (\<forall>(h, v) \<in> set (hq_Header q). rq_Header r h = v)
     \<and> rq_Body r = (case hq_Body q of None \<Rightarrow> [] | Some j \<Rightarrow> json_Text wx j)"

definition option_keys :: "payload \<Rightarrow> string set" where
  "option_keys p = (case p of HeartbeatJSON wid ttl (Some a) \<Rightarrow> dom (at_Options a) | _ \<Rightarrow> {})"

definition on_wire :: "ext \<Rightarrow> wext \<Rightarrow> response \<Rightarrow> httpResp \<Rightarrow> bool" where
  "on_wire ex wx resp hp \<longleftrightarrow> hp_Status hp = int (rs_Status resp)
     \<and> (case rs_Body resp of
          HeartbeatJSON wid ttl a \<Rightarrow> \<exists>ks. distinct ks \<and> set ks = option_keys (rs_Body resp)
            \<and> (case json_Parse wx (take MaxReply (hp_Body hp)) of Inl _ \<Rightarrow> True
               | Inr j \<Rightarrow> j = heartbeat_json ex ks (rs_Body resp))
        | _ \<Rightarrow> True)"

subsection \<open>States and steps\<close>

record grid =
  g_world :: world
  g_daemon :: "nat \<Rightarrow> daemon"
  g_wire :: "(nat \<times> httpResp) list"

definition hand_over :: "werror + TaskAssignment option \<Rightarrow> daemon \<Rightarrow> daemon" where
  "hand_over out dm = (case out of Inr (Some ta) \<Rightarrow> onTaskAssigned ta dm | _ \<Rightarrow> dm)"

text \<open>
  A daemon's own step takes no task in: tasks come by \<open>Deliver\<close> only.
\<close>

inductive grid_step :: "ext \<Rightarrow> RouterDeps \<Rightarrow> decoders \<Rightarrow> wext \<Rightarrow> tzdb \<Rightarrow> (nat \<Rightarrow> Client) \<Rightarrow> grid \<Rightarrow> grid \<Rightarrow> bool"
  for ex :: ext and d :: RouterDeps and dec :: decoders and wx :: wext and tz :: tzdb and clients :: "nat \<Rightarrow> Client" where
  Server: "cp_step ex d dec (g_world g) v \<Longrightarrow> grid_step ex d dec wx tz clients g (g\<lparr>g_world := v\<rparr>)"
| Local: "daemon_step tz (g_daemon g i) dm \<Longrightarrow> d_channel dm \<in> {None, d_channel (g_daemon g i)} \<Longrightarrow>
    grid_step ex d dec wx tz clients g (g\<lparr>g_daemon := (g_daemon g)(i := dm)\<rparr>)"
| Ask: "n_log (exec (heartbeat_tick wx (clients i) stats) n) = n_log n @ [Sent q] \<Longrightarrow>
    arrives wx (clients i) q r \<Longrightarrow> run_state (serve ex d dec r) (g_world g) = (resp, v) \<Longrightarrow>
    on_wire ex wx resp hp \<Longrightarrow>
    grid_step ex d dec wx tz clients g (g\<lparr>g_world := v, g_wire := (i, hp) # g_wire g\<rparr>)"
| Deliver: "(i, hp) \<in> set (g_wire g) \<Longrightarrow>
    result (heartbeat_tick wx (clients i) stats) (n\<lparr>n_replies := [Inr hp]\<rparr>) = out \<Longrightarrow>
    grid_step ex d dec wx tz clients g (g\<lparr>g_daemon := (g_daemon g)(i := hand_over out (g_daemon g i))\<rparr>)"

abbreviation grid_run :: "ext \<Rightarrow> RouterDeps \<Rightarrow> decoders \<Rightarrow> wext \<Rightarrow> tzdb \<Rightarrow> (nat \<Rightarrow> Client) \<Rightarrow> grid \<Rightarrow> grid \<Rightarrow> bool" where
  "grid_run ex d dec wx tz clients \<equiv> (grid_step ex d dec wx tz clients)\<^sup>*\<^sup>*"

definition grid_started :: "grid \<Rightarrow> bool" where
  "grid_started g \<longleftrightarrow> g_wire g = [] \<and> (\<forall>i. daemon_started (g_daemon g i))"

text \<open>The tasks a daemon holds: in its channel, decided for, or running.\<close>

definition holds :: "daemon \<Rightarrow> TaskAssignment \<Rightarrow> bool" where
  "holds dm ta \<longleftrightarrow> d_channel dm = Some ta \<or> d_loop dm = Decided ta \<or> d_running dm = Some ta"

text \<open>An assignment and the row it was made from.\<close>

definition same_task :: "ext \<Rightarrow> Task \<Rightarrow> TaskAssignment \<Rightarrow> bool" where
  "same_task ex t ta \<longleftrightarrow> ta_TaskID ta = uuid_String ex (t_ID t) \<and> ta_Title ta = t_Title t
     \<and> ta_Description ta = t_Description t \<and> ta_TaskType ta = t_TaskType t \<and> ta_AIAgent ta = t_AIAgent t
     \<and> map_of (ta_Options ta) = string_option (t_Options t)
     \<and> ta_TimeoutSec ta = (case t_Options t ''timeout_sec'' of Some (JNum x) \<Rightarrow> int_of_float x | _ \<Rightarrow> 3600)"

subsection \<open>What a heartbeat is answered\<close>

lemma result_Audit: "result (Audit ex nxt r) w = result (nxt r) w"
  by (simp add: Audit_def Let_def ignore_error_def split: prod.splits)

lemma result_RateLimit:
  assumes "rs_Status (result (RateLimit ex rate nxt r) w) \<noteq> 429"
  obtains u where "business_same w u" "rs_Status (result (RateLimit ex rate nxt r) w) = rs_Status (result (nxt r) u)"
    "rs_Body (result (RateLimit ex rate nxt r) w) = rs_Body (result (nxt r) u)"
proof (cases "rq_OrgUnitID r")
  case None
  then show ?thesis by (intro that [of w]) (simp_all add: RateLimit_def bs.R_refl)
next
  case (Some oid)
  obtain c u where c: "run_state (RateLimitIncr (ratelimit_key ex oid) Minute) w = (c, u)" by fastforce
  have "business_same w u"
    using bs.keepsD [OF bs.keeps_RateLimitIncr, of w "ratelimit_key ex oid" Minute] c by simp
  note lim = RateLimit_def add_headers_def Some c
  show ?thesis
  proof (cases c)
    case (Inl e)
    with \<open>business_same w u\<close> show ?thesis by (intro that [of u]) (simp_all add: lim)
  next
    case (Inr n)
    obtain resp v where nxt: "run_state (nxt r) u = (resp, v)" by fastforce
    have "n \<le> rate" using assms by (rule contrapos_np) (simp add: lim Inr)
    with Inr \<open>business_same w u\<close> show ?thesis by (intro that [of u]) (simp_all add: lim nxt)
  qed
qed

lemma find_heartbeat_route:
  "find_route d ''POST'' [''workers'', i, ''heartbeat''] =
     (if i = [] then None else Some (mk_route ''POST'' [Lit ''workers'', IdParam, Lit ''heartbeat'']
        (Some ''workers:heartbeat'') Ep_Heartbeat))"
  by (simp add: find_route_def routes_def collection_def mk_route_def)

lemma serve_heartbeat:
  assumes "rq_Method r = ''POST''"
    and "Split CHR ''/'' (rq_Path r) = [[], ''api'', ''v1'', ''workers'', i, ''heartbeat'']"
    and "rs_Status (result (serve ex d dec r) w) < 400"
  shows "\<exists>wid ttl a. rs_Body (result (serve ex d dec r) w) = HeartbeatJSON wid ttl a \<and> uuid_Parse ex i = Some wid
    \<and> (\<forall>b. a = Some b \<longrightarrow> (\<exists>t \<in> set (tasks (wdb w)). t_AssignedWorkerID t = Some wid
        \<and> t_State t = TaskStateAssigned \<and> b = assigned_task ex t))"
proof -
  let ?segs = "[''workers'', i, ''heartbeat'']"
  let ?r = "r\<lparr>rq_URLParams := route_params d ''POST'' ?segs\<rparr>"
  let ?h = "dispatch ex d dec ?segs"
  have serve: "serve ex d dec r = Auth ex (Audit ex (RateLimit ex (rd_RatePerMin d) ?h)) ?r"
    using assms(1,2) by (simp add: serve_def Let_def)
  show ?thesis
  proof (cases rule: Auth_cases [of ex "Audit ex (RateLimit ex (rd_RatePerMin d) ?h)" ?r w])
    case 1
    with assms(3) show ?thesis by (simp add: serve)
  next
    case (2 k u)
    have res: "result (serve ex d dec r) w = result (RateLimit ex (rd_RatePerMin d) ?h (with_key k ?r)) u"
      using 2(5) result_Audit [of ex "RateLimit ex (rd_RatePerMin d) ?h" "with_key k ?r" u] by (simp add: serve)
    have "rs_Status (result (RateLimit ex (rd_RatePerMin d) ?h (with_key k ?r)) u) \<noteq> 429"
      using assms(3) res by auto
    then obtain v where v: "business_same u v"
      "rs_Status (result (serve ex d dec r) w) = rs_Status (result (?h (with_key k ?r)) v)"
      "rs_Body (result (serve ex d dec r) w) = rs_Body (result (?h (with_key k ?r)) v)"
      unfolding res by (rule result_RateLimit)
    have tasks: "tasks (wdb v) = tasks (wdb w)"
      using v(1) 2(2) by (simp add: business_same_def)
    show ?thesis
    proof (cases "i \<noteq> [] \<and> (\<exists>sc. rq_Scopes (with_key k ?r) = Some sc \<and> (\<exists>s \<in> set sc. s = ''workers:heartbeat'' \<or> s = ''admin''))")
      case False
      then have "400 \<le> rs_Status (result (?h (with_key k ?r)) v)"
        using assms(1) by (auto simp: dispatch_def find_heartbeat_route run_route_def mk_route_def ScopeRequired_def with_key_def
            not_found_def method_not_allowed_def http_Error_def writeForbidden_def split: option.split)
      with v(2) assms(3) show ?thesis by simp
    next
      case True
      then have h: "?h (with_key k ?r) = WorkerHandler_Heartbeat ex (rd_HeartbeatTTLSec d)
          (dec_heartbeat dec (rq_Body r)) (with_key k ?r)"
        using assms(1) by (auto simp: dispatch_def find_heartbeat_route run_route_def mk_route_def ScopeRequired_def with_key_def
            run_endpoint_def)
      have id: "URLParam (with_key k ?r) ''id'' = i"
        using True by (simp add: URLParam_def with_key_def route_params_def find_heartbeat_route mk_route_def)
      show ?thesis
      proof (cases rule: heartbeat_cases [of ex "rd_HeartbeatTTLSec d" "dec_heartbeat dec (rq_Body r)" "with_key k ?r" v])
        case (failed c msg)
        with v(2) assms(3) h show ?thesis by simp
      next
        case (answered wid a)
        with v(3) h id tasks show ?thesis by auto
      qed
    qed
  qed
qed

subsection \<open>From the row to the assignment\<close>

lemma sent_heartbeat:
  assumes "n_log (exec (heartbeat_tick wx c stats) n) = n_log n @ [Sent q]"
  shows "hq_Method q = ''POST'' \<and> hq_URL q = cl_baseURL c @ ''/api/v1/workers/'' @ cl_workerID c @ ''/heartbeat''"
  using assms
  by (auto simp: heartbeat_tick_def Client_Heartbeat_def wrap_def doJSON_def run_Do Let_def
      split: option.splits sum.splits if_splits)

lemma heartbeat_path:
  assumes "CHR ''/'' \<notin> set i"
  shows "Split CHR ''/'' (''/api/v1/workers/'' @ i @ ''/heartbeat'') = [[], ''api'', ''v1'', ''workers'', i, ''heartbeat'']"
  using assms by (simp add: Split_append_sep Split_no_sep)

lemma received_heartbeat:
  assumes "result (heartbeat_tick wx c stats) (n\<lparr>n_replies := [Inr hp]\<rparr>) = Inr (Some ta)"
  shows "hp_Status hp < 400 \<and> (\<exists>j. json_Parse wx (take MaxReply (hp_Body hp)) = Inr j
    \<and> decode_HeartbeatResponse j = Inr (Some ta))"
  using assms
  by (auto simp: heartbeat_tick_def Client_Heartbeat_def wrap_def doJSON_def run_Do Let_def
      split: option.splits sum.splits if_splits)

lemma decode_same_task:
  assumes "distinct ks" "set ks = dom (at_Options (assigned_task ex t))"
    and "decode_HeartbeatResponse (heartbeat_json ex ks (HeartbeatJSON wid ttl (Some (assigned_task ex t)))) = Inr (Some ta)"
  shows "same_task ex t ta"
proof -
  let ?a = "assigned_task ex t"
  have "map_of (map (\<lambda>k. (k, the (at_Options ?a k))) ks) = at_Options ?a"
    using assms(2) by (auto simp: map_of_map_restrict restrict_map_def fun_eq_iff o_def domIff)
  with decode_assigned [of ?a ex ks wid ttl] assigned_timeout_range [of ex t] assms(3)
  show ?thesis by (auto simp: same_task_def assigned_task_def)
qed

text \<open>A reply with a task, delivered to the worker whose id the request's path names.\<close>

lemma delivered_task:
  assumes "n_log (exec (heartbeat_tick wx c stats) n) = n_log n @ [Sent q]" "arrives wx c q r"
    and "run_state (serve ex d dec r) w = (resp, v)" "on_wire ex wx resp hp"
    and "result (heartbeat_tick wx c stats') (n'\<lparr>n_replies := [Inr hp]\<rparr>) = Inr (Some ta)"
    and "cl_workerID c = uuid_String ex wid" "uuid_Parse ex (uuid_String ex wid) = Some wid"
    and "CHR ''/'' \<notin> set (uuid_String ex wid)"
  shows "\<exists>t \<in> set (tasks (wdb w)). t_AssignedWorkerID t = Some wid \<and> t_State t = TaskStateAssigned \<and> same_task ex t ta"
proof -
  have q: "hq_Method q = ''POST''" "hq_URL q = cl_baseURL c @ ''/api/v1/workers/'' @ cl_workerID c @ ''/heartbeat''"
    using sent_heartbeat [OF assms(1)] by auto
  have r: "rq_Method r = ''POST''" "rq_Path r = ''/api/v1/workers/'' @ uuid_String ex wid @ ''/heartbeat''"
    using assms(2,6) q by (auto simp: arrives_def)
  obtain j where j: "hp_Status hp < 400" "json_Parse wx (take MaxReply (hp_Body hp)) = Inr j"
    "decode_HeartbeatResponse j = Inr (Some ta)"
    using received_heartbeat [OF assms(5)] by blast
  have st: "rs_Status (result (serve ex d dec r) w) < 400"
    using j(1) assms(3,4) by (simp add: on_wire_def)
  have path: "Split CHR ''/'' (rq_Path r) = [[], ''api'', ''v1'', ''workers'', uuid_String ex wid, ''heartbeat'']"
    using heartbeat_path [OF assms(8)] r(2) by simp
  obtain wid' ttl a where a: "rs_Body resp = HeartbeatJSON wid' ttl a" "wid' = wid"
    "\<And>b. a = Some b \<Longrightarrow> \<exists>t \<in> set (tasks (wdb w)). t_AssignedWorkerID t = Some wid \<and> t_State t = TaskStateAssigned
        \<and> b = assigned_task ex t"
    using serve_heartbeat [OF r(1) path st] assms(3,7) by auto
  then obtain ks where ks: "distinct ks" "set ks = option_keys (rs_Body resp)" "j = heartbeat_json ex ks (rs_Body resp)"
    using assms(4) j(2) by (auto simp: on_wire_def)
  show ?thesis
  proof (cases a)
    case None
    with a(1) ks(3) j(3) show ?thesis
      by (simp add: heartbeat_json_def decode_HeartbeatResponse_def json_field_def EqualFold_def lower_def)
  next
    case (Some b)
    with a(3) obtain t where t: "t \<in> set (tasks (wdb w))" "t_AssignedWorkerID t = Some wid" "t_State t = TaskStateAssigned"
      "b = assigned_task ex t" by blast
    have "same_task ex t ta"
      using decode_same_task [OF ks(1), of ex t wid' ttl ta] ks a(1) j(3) Some t(4) by (simp add: option_keys_def)
    with t show ?thesis by blast
  qed
qed

subsection \<open>Where the tasks of a worker come from\<close>

lemma holds_step:
  assumes "daemon_step tz dm dm'" "d_channel dm' \<in> {None, d_channel dm}" "holds dm' ta"
  shows "holds dm ta"
  using assms
proof (cases rule: daemon_step.cases)
  case (Assigned t)
  with assms show ?thesis by (auto simp: onTaskAssigned_def holds_def split: option.splits)
next
  case (Take t go d'')
  with assms show ?thesis
    by (auto simp: decide_task_def holds_def split: if_splits prod.splits)
next
  case (Begin t)
  with assms show ?thesis by (auto simp: begin_task_def FSM_Transition_def holds_def split: if_splits)
next
  case (Finish t)
  with assms show ?thesis by (auto simp: finish_task_def FSM_Transition_def holds_def Let_def split: if_splits)
next
  case (Command c)
  with assms show ?thesis
    by (cases c) (auto simp: handleStatusCmd_def handlePauseCmd_def handleResumeCmd_def handleApproveCmd_def
        handleRevokeCmd_def FSM_Transition_def holds_def Let_def split: sum.splits prod.splits if_splits)
qed (auto simp: onConfigReload_def shutdown_from_def FSM_Transition_def holds_def split: sum.splits if_splits)

lemma holds_onTaskAssigned: "holds (onTaskAssigned t dm) ta \<Longrightarrow> holds dm ta \<or> ta = t"
  by (auto simp: onTaskAssigned_def holds_def split: option.splits)

lemma started_holds_nothing: "daemon_started dm \<Longrightarrow> \<not> holds dm ta"
  by (auto simp: daemon_started_def Daemon_New_def run_preflight_def FSM_Transition_def holds_def
      split: if_splits sum.splits)

lemma grid_tasks_kept: "grid_step ex d dec wx tz clients g g' \<Longrightarrow> tasks_kept (g_world g) (g_world g')"
proof (induction rule: grid_step.induct)
  case (Server g v)
  then show ?case by (simp add: tk.step_keeps)
next
  case (Ask i stats n q r g resp v hp)
  then show ?case using tk.keepsD [OF tk.keeps_serve, of "g_world g" ex d dec r] by simp
qed (simp_all add: tk.R_refl)

lemma grid_run_tasks_kept: "grid_run ex d dec wx tz clients g g' \<Longrightarrow> tasks_kept (g_world g) (g_world g')"
  by (induction rule: rtranclp_induct) (blast intro: tk.R_refl tk.R_trans grid_tasks_kept)+

text \<open>The task was assigned to the worker, with this content, at some point of the run from \<open>g0\<close> to \<open>g\<close>.\<close>

definition assigned_before :: "(grid \<Rightarrow> grid \<Rightarrow> bool) \<Rightarrow> ext \<Rightarrow> uuid \<Rightarrow> grid \<Rightarrow> grid \<Rightarrow> TaskAssignment \<Rightarrow> bool" where
  "assigned_before run ex wid g0 g ta \<longleftrightarrow> (\<exists>g' t. run g0 g' \<and> run g' g \<and> t \<in> set (tasks (wdb (g_world g')))
     \<and> t_AssignedWorkerID t = Some wid \<and> t_State t = TaskStateAssigned \<and> same_task ex t ta)"

lemma assigned_before_later:
  "assigned_before (grid_run ex d dec wx tz clients) ex wid g0 g ta \<Longrightarrow> grid_step ex d dec wx tz clients g g' \<Longrightarrow>
     assigned_before (grid_run ex d dec wx tz clients) ex wid g0 g' ta"
  unfolding assigned_before_def by (meson rtranclp.rtrancl_into_rtrancl)

text \<open>What may be delivered, and what a worker holds.\<close>

definition pending :: "wext \<Rightarrow> (nat \<Rightarrow> Client) \<Rightarrow> nat \<Rightarrow> grid \<Rightarrow> TaskAssignment \<Rightarrow> bool" where
  "pending wx clients i g ta \<longleftrightarrow> (\<exists>hp stats n. (i, hp) \<in> set (g_wire g)
     \<and> result (heartbeat_tick wx (clients i) stats) (n\<lparr>n_replies := [Inr hp]\<rparr>) = Inr (Some ta))"

lemma pending_world [simp]: "pending wx clients i (g\<lparr>g_world := v\<rparr>) ta = pending wx clients i g ta"
  by (simp add: pending_def)

lemma pending_daemon [simp]: "pending wx clients i (g\<lparr>g_daemon := f\<rparr>) ta = pending wx clients i g ta"
  by (simp add: pending_def)

lemma origin:
  assumes "grid_run ex d dec wx tz clients g0 g" "grid_started g0"
    and "cl_workerID (clients i) = uuid_String ex wid" "uuid_Parse ex (uuid_String ex wid) = Some wid"
    and "CHR ''/'' \<notin> set (uuid_String ex wid)"
    and "pending wx clients i g ta \<or> holds (g_daemon g i) ta"
  shows "assigned_before (grid_run ex d dec wx tz clients) ex wid g0 g ta"
  using assms(1,6)
proof (induction arbitrary: ta rule: rtranclp_induct)
  case base
  have "\<not> holds (g_daemon g0 i) ta"
    using assms(2) by (simp add: grid_started_def started_holds_nothing)
  with base assms(2) show ?case by (simp add: pending_def grid_started_def)
next
  case (step g g')
  let ?origin = "assigned_before (grid_run ex d dec wx tz clients) ex wid g0"
  show ?case
  proof (cases "pending wx clients i g ta \<or> holds (g_daemon g i) ta")
    case True
    from step.IH [OF True] step.hyps(2) show ?thesis by (rule assigned_before_later)
  next
    case False
    from step.hyps(2) show ?thesis
    proof (cases rule: grid_step.cases)
      case (Server v)
      with False step.prems show ?thesis by simp
    next
      case (Local j dm)
      with False step.prems holds_step [OF Local(2,3)] show ?thesis by (auto split: if_splits)
    next
      case (Ask j stats n q r resp v hp)
      with False step.prems obtain stats' n' where "j = i"
        "result (heartbeat_tick wx (clients i) stats') (n'\<lparr>n_replies := [Inr hp]\<rparr>) = Inr (Some ta)"
        by (auto simp: pending_def)
      with delivered_task [OF _ _ Ask(4,5)] Ask(2,3) assms(3-5)
      have "\<exists>t \<in> set (tasks (wdb (g_world g))). t_AssignedWorkerID t = Some wid \<and> t_State t = TaskStateAssigned
          \<and> same_task ex t ta" by blast
      with step.hyps show ?thesis unfolding assigned_before_def by (meson r_into_rtranclp)
    next
      case (Deliver j hp stats n out)
      with False step.prems have "j = i" "out = Inr (Some ta)"
        by (auto simp: pending_def hand_over_def split: if_splits sum.splits option.splits dest: holds_onTaskAssigned)
      with Deliver False show ?thesis by (auto simp: pending_def)
    qed
  qed
qed

subsection \<open>Properties\<close>

text \<open>C2: In every run of the grid, with any number of workers, any requests and failures, and heartbeat replies
  that are late, repeated or lost, a task that a worker runs was assigned to that worker in the control
  plane's table at some earlier point of the run, with the id, texts, options and timeout the worker
  runs it with; and its row is still there, unchanged but for its state, its worker and the instants.\<close>

theorem worker_runs_assigned_tasks:
  assumes "grid_run ex d dec wx tz clients g0 g" "grid_started g0"
    and "cl_workerID (clients i) = uuid_String ex wid" "uuid_Parse ex (uuid_String ex wid) = Some wid"
    and "CHR ''/'' \<notin> set (uuid_String ex wid)"
    and "d_running (g_daemon g i) = Some ta"
  shows "\<exists>g' t. grid_run ex d dec wx tz clients g0 g' \<and> grid_run ex d dec wx tz clients g' g
    \<and> t \<in> set (tasks (wdb (g_world g'))) \<and> t_AssignedWorkerID t = Some wid \<and> t_State t = TaskStateAssigned
    \<and> same_task ex t ta \<and> (\<exists>t' \<in> set (tasks (wdb (g_world g))). frozen t' = frozen t)"
proof -
  from assms(6) have "holds (g_daemon g i) ta" by (simp add: holds_def)
  with origin [OF assms(1-5)] obtain g' t where g': "grid_run ex d dec wx tz clients g0 g'"
    "grid_run ex d dec wx tz clients g' g" and t: "t \<in> set (tasks (wdb (g_world g')))"
    "t_AssignedWorkerID t = Some wid" "t_State t = TaskStateAssigned" "same_task ex t ta"
    unfolding assigned_before_def by blast
  have "frozen t \<in> set (map frozen (tasks (wdb (g_world g'))))" using t(1) by simp
  then have "frozen t \<in> set (map frozen (tasks (wdb (g_world g))))"
    using grid_run_tasks_kept [OF g'(2)] unfolding tasks_kept_def appended_iff by (metis UnCI set_append)
  with g' t show ?thesis by force
qed

text \<open>A run in which a worker gets a task and begins it.\<close>

definition grid_client :: Client where
  "grid_client = \<lparr>cl_baseURL = ''http://cp'', cl_apiKey = ''gw_ABCDEFGHxyz'', cl_workerID = ''2'',
     cl_TimeoutSec = 30, cl_SkipVerify = False\<rparr>"

definition grid_request :: request where
  "grid_request = \<lparr>rq_Method = ''POST'', rq_Path = ''/api/v1/workers/2/heartbeat'',
     rq_Header = (\<lambda>h. if h = ''Authorization'' then ''Bearer gw_ABCDEFGHxyz''
       else if h = ''Content-Type'' then ''application/json'' else if h = ''X-Worker-ID'' then ''2'' else []),
     rq_RemoteAddr = ''10.0.0.1:99'', rq_URLParams = [], rq_Query = (\<lambda>_. []), rq_Body = ''{}'',
     rq_OrgUnitID = None, rq_WorkerID = None, rq_APIKeyID = None, rq_Scopes = None\<rparr>"

definition grid_world :: world where
  "grid_world = assigned_world\<lparr>wdb := (wdb assigned_world)\<lparr>api_keys := [sample_key\<lparr>k_Scopes := [''workers:heartbeat'']\<rparr>]\<rparr>\<rparr>"

definition grid_task :: Task where
  "grid_task = sample_task\<lparr>t_State := TaskStateAssigned, t_AssignedWorkerID := Some 2, t_AssignedAt := Some 0\<rparr>"

definition grid_reply :: payload where
  "grid_reply = HeartbeatJSON 2 60 (Some (assigned_task sample_ext grid_task))"

lemma grid_served:
  "rs_Status (result (serve sample_ext sample_deps sample_decoders grid_request) grid_world) = 200
    \<and> rs_Body (result (serve sample_ext sample_deps sample_decoders grid_request) grid_world) = grid_reply"
proof -
  let ?segs = "[''workers'', ''2'', ''heartbeat'']"
  let ?r = "grid_request\<lparr>rq_URLParams := route_params sample_deps ''POST'' ?segs\<rparr>"
  let ?key = "sample_key\<lparr>k_Scopes := [''workers:heartbeat'']\<rparr>"
  let ?h = "dispatch sample_ext sample_deps sample_decoders ?segs"
  have serve: "serve sample_ext sample_deps sample_decoders grid_request =
      Auth sample_ext (Audit sample_ext (RateLimit sample_ext 300 ?h)) ?r"
    by (simp add: serve_def Let_def grid_request_def sample_deps_def)
  have verify: "VerifyAPIKey sample_ext ''gw_ABCDEFGHxyz'' (k_KeyHash ?key)" by code_simp
  have bearer: "bearer_token ?r = Inr ''gw_ABCDEFGHxyz''"
    by (simp add: bearer_token_Bearer grid_request_def KeyPrefix_def KeyPrefixLen_def)
  let ?u = "grid_world\<lparr>wdb := (wdb grid_world)\<lparr>api_keys := [?key\<lparr>k_LastUsedAt := Some 1000\<rparr>]\<rparr>\<rparr>"
  have found: "run_state (GetAPIKeyByPrefix ''gw_ABCDEFGH'') grid_world = (Inr ?key, grid_world)"
    by (simp add: GetAPIKeyByPrefix_def run_sql_query grid_world_def assigned_world_def sample_defs failing_def next_fault_def usable_key_def)
  let ?k = "with_key ?key ?r"
  have prefix: "take (length KeyPrefix + KeyPrefixLen) ''gw_ABCDEFGHxyz'' = ''gw_ABCDEFGH''"
    by (simp add: KeyPrefix_def KeyPrefixLen_def)
  have used: "run_state (ignore_error (UpdateAPIKeyLastUsed (k_ID ?key))) grid_world = ((), ?u)"
    by (simp add: ignore_error_def UpdateAPIKeyLastUsed_def run_sql
        failing_def next_fault_def rows_affected_def grid_world_def assigned_world_def sample_defs)
  have auth: "result (Auth sample_ext nxt ?r) grid_world = result (nxt ?k) ?u" for nxt :: handler
    unfolding Auth_def bearer using verify used found by (simp add: prefix Let_def)
  let ?v = "?u\<lparr>wredis := (wredis ?u)\<lparr>r_keys := (r_keys (wredis ?u))(ratelimit_key sample_ext 1 \<mapsto> (1, Some (1000 + Minute)))\<rparr>\<rparr>"
  have incr: "run_state (RateLimitIncr (ratelimit_key sample_ext 1) Minute) ?u = (Inr 1, ?v)"
    by (simp add: RateLimitIncr_def run_redis_cmd failing_def next_fault_def live_key_def Let_def grid_world_def
        assigned_world_def sample_world_def)
  have org: "rq_OrgUnitID ?k = Some 1" by (simp add: with_key_def sample_key_def)
  have limit: "rs_Status (result (RateLimit sample_ext 300 nxt ?k) ?u) = rs_Status (result (nxt ?k) ?v)
      \<and> rs_Body (result (RateLimit sample_ext 300 nxt ?k) ?u) = rs_Body (result (nxt ?k) ?v)" for nxt :: handler
    unfolding RateLimit_def add_headers_def org option.case using incr by (cases "run_state (nxt ?k) ?v") simp
  have h: "?h ?k = WorkerHandler_Heartbeat sample_ext 60 None ?k"
    by (simp add: dispatch_def find_heartbeat_route run_route_def mk_route_def ScopeRequired_def with_key_def
        run_endpoint_def sample_deps_def sample_decoders_def grid_request_def)
  have id: "Atoi ''2'' = Some 2" by code_simp
  have "rs_Status (result (WorkerHandler_Heartbeat sample_ext 60 None ?k) ?v) = 200
    \<and> rs_Body (result (WorkerHandler_Heartbeat sample_ext 60 None ?k) ?v) = grid_reply"
    by (simp add: WorkerHandler_Heartbeat_def grid_request_def with_key_def grid_world_def assigned_world_def sample_defs
        URLParam_def route_params_def find_heartbeat_route mk_route_def id GetWorker_def run_sql_query failing_def
        next_fault_def ignore_error_def SetWorkerHeartbeat_def run_redis_cmd UpdateWorkerHeartbeat_def run_sql
        rows_affected_def GetAssignedTaskForWorker_def limit1_def order_by_def writeJSON_def check_agents_def elems_def
        grid_reply_def grid_task_def)
  with serve auth limit h show ?thesis by (simp add: result_Audit)
qed

definition grid_wext :: wext where
  "grid_wext = sample_wext\<lparr>json_Parse := (\<lambda>_. Inr (heartbeat_json sample_ext [] grid_reply))\<rparr>"

definition grid_assignment :: TaskAssignment where
  "grid_assignment = \<lparr>ta_TaskID = uuid_String sample_ext 3, ta_Title = ''t'', ta_Description = ''d'', ta_TaskType = ''code'',
     ta_AIAgent = ''claude'', ta_Options = [], ta_RepoURL = [], ta_Branch = [], ta_TimeoutSec = 3600\<rparr>"

definition grid0 :: grid where
  "grid0 = \<lparr>g_world = grid_world, g_daemon = (\<lambda>_. fresh_daemon sample_Config), g_wire = []\<rparr>"

definition grid_http :: httpResp where
  "grid_http = \<lparr>hp_Status = 200, hp_Header = (\<lambda>_. []), hp_Body = ''x'', hp_ReadError = None\<rparr>"

lemma grid_tick:
  "result (heartbeat_tick grid_wext grid_client stats) (sample_node\<lparr>n_replies := [Inr grid_http]\<rparr>) = Inr (Some grid_assignment)"
proof -
  have "decode_HeartbeatResponse (heartbeat_json sample_ext [] grid_reply) = Inr (Some grid_assignment)"
    unfolding grid_reply_def using assigned_timeout_range [of sample_ext grid_task]
    by (subst decode_assigned) (simp_all add: grid_assignment_def assigned_task_def grid_task_def sample_task_def
        string_option_def)
  then show ?thesis
    by (simp add: heartbeat_tick_def Client_Heartbeat_def wrap_def doJSON_def run_Do Let_def grid_wext_def sample_wext_def
        grid_http_def MaxReply_def sample_node_def)
qed

abbreviation sample_grid_run :: "grid \<Rightarrow> grid \<Rightarrow> bool" where
  "sample_grid_run \<equiv> grid_run sample_ext sample_deps sample_decoders grid_wext (\<lambda>_. None) (\<lambda>_. grid_client)"

lemma grid_ask:
  obtains w where "sample_grid_run grid0 (grid0\<lparr>g_world := w, g_wire := [(0, grid_http)]\<rparr>)"
proof -
  obtain stats :: HeartbeatRequest where True by blast
  let ?q = "\<lparr>hq_Method = ''POST'', hq_URL = ''http://cp/api/v1/workers/2/heartbeat'',
    hq_Header = [(''Content-Type'', ''application/json''), (''Authorization'', ''Bearer gw_ABCDEFGHxyz''), (''X-Worker-ID'', ''2'')],
    hq_Body = Some (marshal_HeartbeatRequest stats)\<rparr>"
  obtain resp w where served: "run_state (serve sample_ext sample_deps sample_decoders grid_request) grid_world = (resp, w)"
    by fastforce
  have "n_log (exec (heartbeat_tick grid_wext grid_client stats) sample_node) = n_log sample_node @ [Sent ?q]"
    by (simp add: heartbeat_tick_def Client_Heartbeat_def wrap_def doJSON_def run_Do Let_def grid_wext_def sample_wext_def
        grid_client_def sample_node_def)
  moreover have "arrives grid_wext grid_client ?q grid_request"
    by (simp add: arrives_def grid_client_def grid_request_def grid_wext_def sample_wext_def)
  moreover have "on_wire sample_ext grid_wext resp grid_http"
    using grid_served served
    by (auto simp: on_wire_def grid_http_def grid_wext_def grid_reply_def option_keys_def assigned_task_def grid_task_def
        sample_task_def string_option_def dom_def)
  ultimately have "grid_step sample_ext sample_deps sample_decoders grid_wext (\<lambda>_. None) (\<lambda>_. grid_client) grid0
      (grid0\<lparr>g_world := w, g_wire := (0, grid_http) # g_wire grid0\<rparr>)"
    using served by (intro grid_step.Ask) (simp_all add: grid0_def)
  then show ?thesis by (intro that [of w] r_into_rtranclp) (simp add: grid0_def)
qed

lemma grid_begins:
  obtains g where "sample_grid_run grid0 g" "d_running (g_daemon g 0) = Some grid_assignment"
proof -
  obtain w where ask: "sample_grid_run grid0 (grid0\<lparr>g_world := w, g_wire := [(0, grid_http)]\<rparr>)"
    by (rule grid_ask)
  let ?g = "\<lambda>dm. \<lparr>g_world = w, g_daemon = (\<lambda>_. fresh_daemon sample_Config)(0 := dm), g_wire = [(0, grid_http)]\<rparr>"
  let ?step = "grid_step sample_ext sample_deps sample_decoders grid_wext (\<lambda>_. None) (\<lambda>_. grid_client)"
  let ?d1 = "(fresh_daemon sample_Config)\<lparr>d_channel := Some grid_assignment\<rparr>"
  let ?d2 = "(fresh_daemon sample_Config)\<lparr>d_loop := Decided grid_assignment\<rparr>"
  let ?d3 = "(begin_task grid_assignment ?d2)\<lparr>d_loop := Selecting\<rparr>"
  have g1: "grid0\<lparr>g_world := w, g_wire := [(0, grid_http)]\<rparr> = ?g (fresh_daemon sample_Config)"
    by (auto simp: grid0_def)
  obtain stats :: HeartbeatRequest where True by blast
  have "?step (?g (fresh_daemon sample_Config)) (?g ?d1)"
    using grid_step.Deliver [of 0 grid_http "?g (fresh_daemon sample_Config)" grid_wext "\<lambda>_. grid_client" stats sample_node,
        OF _ grid_tick]
    by (simp add: hand_over_def onTaskAssigned_def fresh_daemon_def)
  moreover have "?step (?g ?d1) (?g ?d2)"
  proof -
    have go: "decide_task (\<lambda>_. None) grid_assignment ((?d1)\<lparr>d_channel := None\<rparr>) = (True, fresh_daemon sample_Config)"
      by (simp add: decide_task_def Evaluate_def engine_config_def policyEng_cfg_def grid_assignment_def sample_Config_def fresh_daemon_def Let_def)
    have "daemon_step (\<lambda>_. None) ?d1 (if True then (fresh_daemon sample_Config)\<lparr>d_loop := Decided grid_assignment\<rparr> else fresh_daemon sample_Config)"
      by (rule daemon_step.Take [OF _ _ go]) (simp_all add: fresh_daemon_def)
    then show ?thesis
      using grid_step.Local [of "\<lambda>_. None" "?g ?d1" 0 ?d2] by (simp add: fresh_daemon_def)
  qed
  moreover have "?step (?g ?d2) (?g ?d3)"
  proof -
    have "daemon_step (\<lambda>_. None) ?d2 ?d3" by (rule daemon_step.Begin) simp
    then show ?thesis
      using grid_step.Local [of "\<lambda>_. None" "?g ?d2" 0 ?d3]
      by (simp add: fresh_daemon_def begin_task_def FSM_Transition_def)
  qed
  ultimately have "sample_grid_run grid0 (?g ?d3)"
    using ask unfolding g1 by (meson rtranclp.rtrancl_into_rtrancl)
  moreover have "d_running ?d3 = Some grid_assignment"
    by (simp add: begin_task_def FSM_Transition_def fresh_daemon_def)
  ultimately show ?thesis by (intro that [of "?g ?d3"]) simp_all
qed

theorem worker_runs_assigned_tasks_witness:
  "\<exists>g g' t. sample_grid_run grid0 g' \<and> sample_grid_run g' g \<and> d_running (g_daemon g 0) = Some grid_assignment
    \<and> t \<in> set (tasks (wdb (g_world g'))) \<and> t_AssignedWorkerID t = Some 2 \<and> same_task sample_ext t grid_assignment"
proof -
  obtain g where g: "sample_grid_run grid0 g" "d_running (g_daemon g 0) = Some grid_assignment" by (rule grid_begins)
  have "grid_started grid0"
    using started_fresh [OF sample_Config_ok(1)] by (simp add: grid_started_def grid0_def)
  moreover have "uuid_String sample_ext 2 = ''2''" "uuid_Parse sample_ext (uuid_String sample_ext 2) = Some 2" by code_simp+
  ultimately show ?thesis
    using worker_runs_assigned_tasks [OF g(1) _ _ _ _ g(2), of 2] g(2) by (fastforce simp: grid_client_def)
qed

end
