(* ===== verification/Responses.thy ===== *)
theory Responses
  imports Frame
begin

section \<open>The type of a response\<close>

text \<open>
  What a client may rely on, endpoint by endpoint: which status goes with which kind of body, and
  what the values of the body range over. The server writes bodies as untyped values
  (\<^verbatim>\<open>writeJSON(w, code, any)\<close>), so nothing but the handlers' code fixes this. The definitions state
  the contract; the lemmas show each handler and each middleware to keep it.
\<close>

subsection \<open>Results of effects\<close>

definition yields :: "('a \<Rightarrow> bool) \<Rightarrow> 'a effect \<Rightarrow> bool" where
  "yields P m \<longleftrightarrow> (\<forall>w. P (result m w))"

lemma yieldsI: "(\<And>w. P (result m w)) \<Longrightarrow> yields P m"
  by (simp add: yields_def)

lemma yieldsD: "yields P m \<Longrightarrow> P (result m w)"
  by (simp add: yields_def)

lemma yields_ret: "P x \<Longrightarrow> yields P (ret x)"
  by (simp add: yields_def)

lemma yields_bind_with:
  assumes "yields Q m" and "\<And>x. Q x \<Longrightarrow> yields P (f x)"
  shows "yields P (State_Monad.bind m f)"
proof (rule yieldsI)
  fix w
  obtain x v where xv: "run_state m w = (x, v)" by fastforce
  have "Q x" using yieldsD [OF assms(1), of w] xv by simp
  then show "P (result (State_Monad.bind m f) w)"
    using yieldsD [OF assms(2), of x v] xv by simp
qed

lemma yields_bind: "(\<And>x. yields P (f x)) \<Longrightarrow> yields P (State_Monad.bind m f)"
  by (rule yields_bind_with [where Q = "\<lambda>_. True"]) (simp_all add: yields_def)

lemma yields_if: "(b \<Longrightarrow> yields P m) \<Longrightarrow> (\<not> b \<Longrightarrow> yields P n) \<Longrightarrow> yields P (if b then m else n)"
  by simp

lemma yields_case_option:
  "(z = None \<Longrightarrow> yields P m) \<Longrightarrow> (\<And>x. z = Some x \<Longrightarrow> yields P (f x)) \<Longrightarrow>
     yields P (case z of None \<Rightarrow> m | Some x \<Rightarrow> f x)"
  by (cases z) simp_all

lemma yields_case_sum:
  "(\<And>x. z = Inl x \<Longrightarrow> yields P (f x)) \<Longrightarrow> (\<And>y. z = Inr y \<Longrightarrow> yields P (g y)) \<Longrightarrow>
     yields P (case z of Inl x \<Rightarrow> f x | Inr y \<Rightarrow> g y)"
  by (cases z) simp_all

lemma yields_case_prod: "(\<And>x y. z = (x, y) \<Longrightarrow> yields P (f x y)) \<Longrightarrow> yields P (case z of (x, y) \<Rightarrow> f x y)"
  by (cases z) simp

lemma yields_weaken: "yields P m \<Longrightarrow> (\<And>x. P x \<Longrightarrow> Q x) \<Longrightarrow> yields Q m"
  by (simp add: yields_def)

text \<open>What a query returns is what its statement computes from some tables.\<close>

lemma yields_sql_query:
  "(\<And>d now x. f d now = Inr x \<Longrightarrow> Q x) \<Longrightarrow> yields (\<lambda>z. case z of Inl err \<Rightarrow> True | Inr x \<Rightarrow> Q x) (sql_query ctx f)"
  by (rule yieldsI) (auto simp: run_sql_query split: sum.splits)

lemma yields_or_empty:
  "yields (\<lambda>z. case z of Inl err \<Rightarrow> True | Inr x \<Rightarrow> Q x) q \<Longrightarrow> Q [] \<Longrightarrow> yields Q (or_empty q)"
  unfolding or_empty_def by (erule yields_bind_with) (auto intro: yields_ret split: sum.splits)

lemmas yields_intros = yields_bind yields_if yields_case_option yields_case_sum yields_case_prod

subsection \<open>The contract of the endpoints\<close>

text \<open>The status codes of an endpoint's own error bodies, as JSON and as the text of \<^verbatim>\<open>http.Error\<close>.\<close>

primrec json_failures :: "endpoint \<Rightarrow> nat list" where
  "json_failures Ep_ListTasks = [401, 500]"
| "json_failures Ep_CreateTask = [400, 401, 422, 500]"
| "json_failures Ep_GetTask = [400, 401, 403, 404]"
| "json_failures Ep_UpdateTaskStatus = [400, 401, 403, 404, 500]"
| "json_failures Ep_ListWorkers = [401, 500]"
| "json_failures Ep_GetWorker = [400, 401, 403, 404]"
| "json_failures Ep_Register = [400, 401, 500]"
| "json_failures Ep_Heartbeat = [400, 401, 403, 404, 500]"
| "json_failures Ep_CreateAPIKey = [400, 401, 500]"
| "json_failures Ep_RotateAPIKey = [400, 401, 404, 500]"
| "json_failures Ep_RevokeAPIKey = [400, 401, 404]"
| "json_failures Ep_Stream = [401]"
| "json_failures Ep_Snapshot = [401]"
| "json_failures Ep_ListOrgs = []"
| "json_failures Ep_CreateOrg = []"
| "json_failures Ep_GetOrg = []"
| "json_failures Ep_UpdatePolicy = []"
| "json_failures Ep_ListAudit = []"
| "json_failures Ep_Leaderboard = []"
| "json_failures Ep_Submit = []"
| "json_failures Ep_Review = []"

primrec text_failures :: "endpoint \<Rightarrow> nat list" where
  "text_failures Ep_ListTasks = []"
| "text_failures Ep_CreateTask = []"
| "text_failures Ep_GetTask = []"
| "text_failures Ep_UpdateTaskStatus = []"
| "text_failures Ep_ListWorkers = []"
| "text_failures Ep_GetWorker = []"
| "text_failures Ep_Register = []"
| "text_failures Ep_Heartbeat = []"
| "text_failures Ep_CreateAPIKey = []"
| "text_failures Ep_RotateAPIKey = []"
| "text_failures Ep_RevokeAPIKey = []"
| "text_failures Ep_Stream = [503]"
| "text_failures Ep_Snapshot = []"
| "text_failures Ep_ListOrgs = [500]"
| "text_failures Ep_CreateOrg = [400, 500]"
| "text_failures Ep_GetOrg = [400, 404]"
| "text_failures Ep_UpdatePolicy = [400, 500]"
| "text_failures Ep_ListAudit = [401, 500]"
| "text_failures Ep_Leaderboard = [401, 500]"
| "text_failures Ep_Submit = [400, 403, 422, 500]"
| "text_failures Ep_Review = [400, 401, 403, 404, 500]"

text \<open>The status of an endpoint's success.\<close>

definition success_status :: "endpoint \<Rightarrow> nat" where
  "success_status ep =
     (if ep \<in> {Ep_CreateTask, Ep_Register, Ep_CreateAPIKey, Ep_CreateOrg} then 201
      else if ep = Ep_Submit then 202
      else if ep \<in> {Ep_RevokeAPIKey, Ep_UpdatePolicy, Ep_Review} then 204 else 200)"

text \<open>The values of its body.\<close>

definition success_body :: "RouterDeps \<Rightarrow> endpoint \<Rightarrow> payload \<Rightarrow> bool" where
  "success_body d ep p = (case ep of
     Ep_ListTasks \<Rightarrow> (case p of TasksJSON ts limit offset \<Rightarrow>
         1 \<le> limit \<and> limit \<le> 100 \<and> 0 \<le> offset \<and> int (length ts) \<le> limit | _ \<Rightarrow> False)
   | Ep_CreateTask \<Rightarrow> (case p of TaskJSON t \<Rightarrow>
         fresh_task t \<and> t_Title t \<noteq> [] \<and> t_Description t \<noteq> [] \<and> t_AIAgent t \<noteq> [] \<and> t_TaskType t \<noteq> []
           \<and> t_Priority t \<noteq> 0 \<and> t_MaxRetries t \<noteq> 0 | _ \<Rightarrow> False)
   | Ep_GetTask \<Rightarrow> (case p of TaskJSON t \<Rightarrow> True | _ \<Rightarrow> False)
   | Ep_UpdateTaskStatus \<Rightarrow> (case p of StateJSON s \<Rightarrow> report_state (TaskState_of_string s) | _ \<Rightarrow> False)
   | Ep_ListWorkers \<Rightarrow> (case p of WorkersJSON ws \<Rightarrow> True | _ \<Rightarrow> False)
   | Ep_GetWorker \<Rightarrow> (case p of WorkerJSON wk \<Rightarrow> True | _ \<Rightarrow> False)
   | Ep_Register \<Rightarrow> (case p of RegisteredJSON wid st \<Rightarrow> st = WorkerStateIdle | _ \<Rightarrow> False)
   | Ep_Heartbeat \<Rightarrow> (case p of HeartbeatJSON wid ttl a \<Rightarrow> ttl = rd_HeartbeatTTLSec d | _ \<Rightarrow> False)
   | Ep_CreateAPIKey \<Rightarrow> (case p of CreatedKeyJSON kid plain prefix name scopes now expires \<Rightarrow> name \<noteq> [] | _ \<Rightarrow> False)
   | Ep_RotateAPIKey \<Rightarrow> (case p of RotatedKeyJSON kid plain prefix name \<Rightarrow> True | _ \<Rightarrow> False)
   | Ep_RevokeAPIKey \<Rightarrow> p = NoBody
   | Ep_Stream \<Rightarrow> (case p of Raw s \<Rightarrow> True | _ \<Rightarrow> False)
   | Ep_Snapshot \<Rightarrow> (case p of SnapshotJSON s \<Rightarrow>
         length (ds_QueuedTasks s) \<le> 50 \<and> length (ds_RunningTasks s) \<le> 50
           \<and> length (ds_RecentCompleted s) \<le> 20 \<and> length (ds_TopBrownieEarners s) \<le> 10
           \<and> length (ds_RecentSecurityEvents s) \<le> 20 | _ \<Rightarrow> False)
   | Ep_ListOrgs \<Rightarrow> (case p of OrgsJSON os \<Rightarrow> True | _ \<Rightarrow> False)
   | Ep_CreateOrg \<Rightarrow> (case p of OrgJSON og \<Rightarrow> org_Name og \<noteq> [] \<and> org_PlanTier og \<noteq> [] | _ \<Rightarrow> False)
   | Ep_GetOrg \<Rightarrow> (case p of OrgJSON og \<Rightarrow> True | _ \<Rightarrow> False)
   | Ep_UpdatePolicy \<Rightarrow> p = NoBody
   | Ep_ListAudit \<Rightarrow> (case p of AuditJSON evs \<Rightarrow> length evs \<le> 1000 | _ \<Rightarrow> False)
   | Ep_Leaderboard \<Rightarrow> (case p of LeaderboardJSON es \<Rightarrow> length es \<le> 100 | _ \<Rightarrow> False)
   | Ep_Submit \<Rightarrow> (case p of OutputJSON oid \<Rightarrow> True | _ \<Rightarrow> False)
   | Ep_Review \<Rightarrow> p = NoBody)"

text \<open>The media type that goes with a body: values are sent as JSON, literal texts of errors are not.\<close>

definition media_ok :: "response \<Rightarrow> bool" where
  "media_ok resp = (case rs_Body resp of
     NoBody \<Rightarrow> True
   | Raw s \<Rightarrow> ''Content-Type'' \<in> fst ` set (rs_Header resp)
   | _ \<Rightarrow> (''Content-Type'', ''application/json'') \<in> set (rs_Header resp))"

definition reply_typed :: "RouterDeps \<Rightarrow> endpoint \<Rightarrow> response \<Rightarrow> bool" where
  "reply_typed d ep resp \<longleftrightarrow> media_ok resp \<and>
     (rs_Status resp = success_status ep \<and> success_body d ep (rs_Body resp)
      \<or> (case rs_Body resp of
           ErrorJSON msg \<Rightarrow> rs_Status resp \<in> set (json_failures ep) \<and> msg \<noteq> []
         | Raw s \<Rightarrow> rs_Status resp \<in> set (text_failures ep)
         | _ \<Rightarrow> False))"


text \<open>What the middleware answers in the handler's place.\<close>

definition refusal :: "string option \<Rightarrow> response \<Rightarrow> bool" where
  "refusal scope resp \<longleftrightarrow> (''Content-Type'', ''application/json'') \<in> set (rs_Header resp) \<and>
     (case rs_Body resp of
        Raw s \<Rightarrow> rs_Status resp = 401 \<or> rs_Status resp = 429 \<or> scope \<noteq> None \<and> rs_Status resp = 403
      | _ \<Rightarrow> False)"

definition health_typed :: "string \<Rightarrow> response \<Rightarrow> bool" where
  "health_typed path resp = (case rs_Body resp of
     StatusJSON s \<Rightarrow> path = ''/healthz'' \<and> rs_Status resp = 200 \<and> s = ''ok''
   | ReadyJSON s checks now \<Rightarrow> path = ''/readyz'' \<and> map fst checks = [''postgres'', ''redis''] \<and>
       (if list_all (\<lambda>c. snd c = ''ok'') checks then rs_Status resp = 200 \<and> s = ''ok''
        else rs_Status resp = 503 \<and> s = ''degraded'')
   | _ \<Rightarrow> False)"

definition response_typed :: "RouterDeps \<Rightarrow> request \<Rightarrow> response \<Rightarrow> bool" where
  "response_typed d r resp =
     (let path = Split CHR ''/'' (rq_Path r) in
      if take 3 path = [[], ''api'', ''v1''] then
        (case find_route d (rq_Method r) (drop 3 path) of
           Some ro \<Rightarrow> refusal (ro_Scope ro) resp \<or> reply_typed d (ro_Endpoint ro) resp
         | None \<Rightarrow> refusal None resp \<or> rs_Status resp = 404 \<or> rs_Status resp = 405)
      else if rq_Path r \<in> {''/healthz'', ''/readyz''} \<and> rq_Method r = ''GET''
      then health_typed (rq_Path r) resp
      else rs_Status resp = 404 \<or> rs_Status resp = 405)"

subsection \<open>The handlers keep it\<close>

lemmas response_defs = writeJSON_def writeError_def http_Error_def no_content_def reply_typed_def
  media_ok_def success_status_def success_body_def

lemma yields_ListTasksByOrg:
  "yields (\<lambda>z. case z of Inl err \<Rightarrow> True | Inr ts \<Rightarrow> int (length ts) \<le> max 0 limit) (ListTasksByOrg oid limit offset)"
  unfolding ListTasksByOrg_def
  by (rule yields_sql_query) (auto split: if_splits intro!: order.trans [OF of_nat_mono [OF length_page_le]])

lemma yields_QueryAuditLog:
  "yields (\<lambda>z. case z of Inl err \<Rightarrow> True | Inr ts \<Rightarrow> int (length ts) \<le> max 0 limit)
     (QueryAuditLog oid from_t to_t limit offset)"
  unfolding QueryAuditLog_def
  by (rule yields_sql_query) (auto split: if_splits intro!: order.trans [OF of_nat_mono [OF length_page_le]])

lemma yields_GetLeaderboard:
  "yields (\<lambda>z. case z of Inl err \<Rightarrow> True | Inr ts \<Rightarrow> int (length ts) \<le> max 0 limit) (GetLeaderboard oid limit)"
  unfolding GetLeaderboard_def
  by (rule yields_sql_query) (auto split: if_splits intro!: order.trans [OF of_nat_mono [OF length_page_le]])

lemma int_param_in: "P dflt \<Longrightarrow> (\<And>n. ok n \<Longrightarrow> P n) \<Longrightarrow> P (int_param s ok dflt)"
  by (auto simp: int_param_def split: option.splits)

lemma list_tasks_typed: "yields (reply_typed d Ep_ListTasks) (TaskHandler_ListTasks r)"
proof -
  let ?limit = "int_param (rq_Query r ''limit'') (\<lambda>n. 0 < n \<and> n \<le> 100) 20"
  let ?offset = "int_param (rq_Query r ''offset'') (\<lambda>n. 0 \<le> n) 0"
  have limit: "1 \<le> ?limit \<and> ?limit \<le> 100" by (rule int_param_in) auto
  have offset: "0 \<le> ?offset" by (rule int_param_in) auto
  show ?thesis
    unfolding TaskHandler_ListTasks_def Let_def
    by (intro yields_case_option yields_bind_with [OF yields_ListTasksByOrg] yields_case_sum)
      (use limit offset in \<open>auto simp: response_defs intro!: yields_ret\<close>)
qed

lemma create_task_typed: "yields (reply_typed d Ep_CreateTask) (TaskHandler_CreateTask ex sc body r)"
  unfolding TaskHandler_CreateTask_def Let_def
  by (intro yields_intros) (auto simp: response_defs fresh_task_def intro!: yields_ret)

lemma get_task_typed: "yields (reply_typed d Ep_GetTask) (TaskHandler_GetTask ex r)"
  unfolding TaskHandler_GetTask_def
  by (intro yields_intros) (auto simp: response_defs intro!: yields_ret)

lemma update_task_typed: "yields (reply_typed d Ep_UpdateTaskStatus) (TaskHandler_UpdateTaskStatus ex body r)"
  unfolding TaskHandler_UpdateTaskStatus_def Let_def
  by (intro yields_intros)
    (auto simp: response_defs validateStateTransition_def report_state_def intro!: yields_ret split: if_splits)

lemma worker_reads_typed:
  "yields (reply_typed d Ep_ListWorkers) (WorkerHandler_List r)"
  "yields (reply_typed d Ep_GetWorker) (WorkerHandler_Get ex r)"
  unfolding WorkerHandler_List_def WorkerHandler_Get_def
  by (intro yields_intros; auto simp: response_defs intro!: yields_ret)+

lemma check_agents_message: "check_agents as = Some msg \<Longrightarrow> msg \<noteq> []"
  by (auto simp: check_agents_def split: if_splits)

lemma register_typed: "yields (reply_typed d Ep_Register) (WorkerHandler_Register ex ttl body r)"
  unfolding WorkerHandler_Register_def Let_def
  by (intro yields_intros) (auto simp: response_defs intro!: yields_ret dest!: check_agents_message)

lemma heartbeat_typed: "yields (reply_typed d Ep_Heartbeat) (WorkerHandler_Heartbeat ex (rd_HeartbeatTTLSec d) agents r)"
  unfolding WorkerHandler_Heartbeat_def
  by (intro yields_intros) (auto simp: response_defs intro!: yields_ret dest!: check_agents_message)

lemma key_handlers_typed:
  "yields (reply_typed d Ep_CreateAPIKey) (APIKeyHandler_CreateAPIKey ex argon kbody r)"
  "yields (reply_typed d Ep_RotateAPIKey) (APIKeyHandler_RotateAPIKey ex argon r)"
  "yields (reply_typed d Ep_RevokeAPIKey) (APIKeyHandler_RevokeAPIKey ex r)"
  unfolding APIKeyHandler_CreateAPIKey_def APIKeyHandler_RotateAPIKey_def APIKeyHandler_RevokeAPIKey_def
  by (intro yields_intros; auto simp: response_defs intro!: yields_ret)+

lemma output_handlers_typed:
  "yields (reply_typed d Ep_Submit) (OutputHandler_Submit ex sbody r)"
  "yields (reply_typed d Ep_Review) (OutputHandler_Review ex rbody r)"
  unfolding OutputHandler_Submit_def OutputHandler_Review_def
  by (intro yields_intros; auto simp: response_defs intro!: yields_ret)+

lemma org_handlers_typed:
  "yields (reply_typed d Ep_ListOrgs) (OrgHandler_List r)"
  "yields (reply_typed d Ep_CreateOrg) (OrgHandler_Create obody r)"
  "yields (reply_typed d Ep_GetOrg) (OrgHandler_Get ex r)"
  "yields (reply_typed d Ep_UpdatePolicy) (OrgHandler_UpdatePolicy ex pbody r)"
  unfolding OrgHandler_List_def OrgHandler_Create_def OrgHandler_Get_def OrgHandler_UpdatePolicy_def Let_def
  by (intro yields_intros; auto simp: response_defs intro!: yields_ret)+

lemma audit_typed: "yields (reply_typed d Ep_ListAudit) (AuditHandler_List r)"
proof -
  have limit: "max 0 (int_param (rq_Query r ''limit'') (\<lambda>v. 0 < v \<and> v \<le> 1000) 100) \<le> 1000"
    by (rule int_param_in) auto
  show ?thesis
    unfolding AuditHandler_List_def
    by (intro yields_case_option yields_bind [where m = time_Now] yields_bind_with [OF yields_QueryAuditLog] yields_case_sum)
      (use limit in \<open>auto simp: response_defs intro!: yields_ret\<close>)
qed

lemma leaderboard_typed: "yields (reply_typed d Ep_Leaderboard) (BrownieHandler_Leaderboard r)"
proof -
  have limit: "max 0 (int_param (rq_Query r ''limit'') (\<lambda>v. 0 < v \<and> v \<le> 100) 10) \<le> 100"
    by (rule int_param_in) auto
  show ?thesis
    unfolding BrownieHandler_Leaderboard_def
    by (intro yields_case_option yields_bind_with [OF yields_GetLeaderboard] yields_case_sum)
      (use limit in \<open>auto simp: response_defs intro!: yields_ret\<close>)
qed

lemma stream_typed: "yields (reply_typed d Ep_Stream) (DashboardHandler_Stream ex marshal r)"
  unfolding DashboardHandler_Stream_def ServeSSE_def
  by (intro yields_intros) (auto simp: response_defs intro!: yields_ret)

lemma snapshot_typed: "yields (reply_typed d Ep_Snapshot) (DashboardHandler_Snapshot r)"
proof -
  have panels: "length (filter P xs) \<le> length xs" for xs :: "'a list" and P by simp
  show ?thesis
    unfolding DashboardHandler_Snapshot_def
    by (intro yields_case_option yields_bind [where m = time_Now] yields_bind [where m = "or_empty (ListWorkers _)"]
        yields_bind_with [OF yields_or_empty [OF yields_ListTasksByOrg]]
        yields_bind_with [OF yields_or_empty [OF yields_GetLeaderboard]]
        yields_bind_with [OF yields_or_empty [OF yields_QueryAuditLog]])
      (auto simp: response_defs intro!: yields_ret order.trans [OF panels])
qed

lemmas handlers_typed = list_tasks_typed create_task_typed get_task_typed update_task_typed
  worker_reads_typed register_typed heartbeat_typed key_handlers_typed output_handlers_typed
  org_handlers_typed audit_typed leaderboard_typed stream_typed snapshot_typed

lemma run_endpoint_typed: "yields (reply_typed d ep) (run_endpoint ex d dec ep r)"
  by (cases ep) (simp_all add: run_endpoint_def handlers_typed)

subsection \<open>The middleware keeps it\<close>

lemma yields_refusal:
  "yields (refusal sc) (writeUnauthorized msg)" "yields (refusal (Some scope)) (writeForbidden msg)"
  by (simp_all add: yields_def refusal_def writeUnauthorized_def writeForbidden_def)

text \<open>A type of responses that contains the refusals and does not depend on added headers.\<close>

definition open_type :: "string option \<Rightarrow> (response \<Rightarrow> bool) \<Rightarrow> bool" where
  "open_type scope P \<longleftrightarrow> (\<forall>resp. refusal scope resp \<longrightarrow> P resp)
     \<and> (\<forall>resp hs. P resp \<longrightarrow> P (resp\<lparr>rs_Header := hs @ rs_Header resp\<rparr>))"

lemma yields_Auth:
  "open_type sc P \<Longrightarrow> (\<And>k. yields P (nxt (with_key k r))) \<Longrightarrow> yields P (Auth ex nxt r)"
  unfolding Auth_def Let_def
  by (intro yields_intros) (auto simp: open_type_def intro!: yields_weaken [OF yields_refusal(1)])

lemma yields_ScopeRequired:
  "open_type (Some scope) P \<Longrightarrow> yields P (nxt r) \<Longrightarrow> yields P (ScopeRequired scope nxt r)"
  unfolding ScopeRequired_def
  by (intro yields_intros) (auto simp: open_type_def intro!: yields_weaken [OF yields_refusal(2)])

lemma yields_Audit: "yields P (nxt r) \<Longrightarrow> yields P (Audit ex nxt r)"
  unfolding Audit_def Let_def
  by (rule yields_if, (intro yields_bind yields_bind_with [of P "nxt r"] | assumption | rule yields_ret)+)

lemma yields_RateLimit:
  assumes "open_type sc P" and "yields P (nxt r)"
  shows "yields P (RateLimit ex rate nxt r)"
proof -
  have header: "yields P (add_headers hs m)" if "yields P m" for hs m
    unfolding add_headers_def using that assms(1)
    by (auto intro!: yields_bind_with [of P] yields_ret simp: open_type_def)
  show ?thesis
    unfolding RateLimit_def
    by (intro yields_intros header assms(2) yields_ret)
      (use assms(1) in \<open>simp add: open_type_def refusal_def\<close>)
qed

lemma open_reply_typed: "open_type sc (\<lambda>resp. refusal sc resp \<or> reply_typed d ep resp)"
  by (auto simp: open_type_def refusal_def reply_typed_def media_ok_def split: payload.splits)

lemma open_no_route: "open_type None (\<lambda>resp. refusal None resp \<or> rs_Status resp = 404 \<or> rs_Status resp = 405)"
  by (auto simp: open_type_def refusal_def split: payload.splits)

lemma run_route_typed:
  "yields (\<lambda>resp. refusal (ro_Scope ro) resp \<or> reply_typed d (ro_Endpoint ro) resp) (run_route ex d dec ro r)"
  using open_reply_typed [of "ro_Scope ro" d "ro_Endpoint ro"]
  by (auto simp: run_route_def intro!: yields_ScopeRequired yields_weaken [OF run_endpoint_typed] split: option.splits)

lemma yields_no_route: "yields (\<lambda>resp. rs_Status resp = 404) not_found"
  "yields (\<lambda>resp. rs_Status resp = 405) method_not_allowed"
  by (simp_all add: yields_def not_found_def method_not_allowed_def http_Error_def)

lemma health_handlers_typed:
  "yields (health_typed ''/healthz'') (HealthHandler_Liveness r)"
  "yields (health_typed ''/readyz'') (HealthHandler_Readiness pgErr redisErr r)"
proof -
  show "yields (health_typed ''/healthz'') (HealthHandler_Liveness r)"
    by (simp add: HealthHandler_Liveness_def health_typed_def writeJSON_def yields_ret)
  have detail: "ping_detail p = ''ok'' \<longleftrightarrow> p = Inr ()" for p
    by (cases p) (simp_all add: ping_detail_def)
  show "yields (health_typed ''/readyz'') (HealthHandler_Readiness pgErr redisErr r)"
    unfolding HealthHandler_Readiness_def Let_def
    by (intro yields_bind) (auto simp: writeJSON_def health_typed_def detail intro!: yields_ret)
qed


end
