(* ===== verification/Registrations.thy ===== *)
theory Registrations
  imports Samples Scheduling
begin

section \<open>Who makes a worker idle\<close>

text \<open>
  A scheduling round serves idle workers and marks them busy; the reaper marks silent ones offline.
  What makes a worker idle again is a question about all the code that writes the table of workers.
\<close>

definition engaged :: "uuid \<Rightarrow> Worker list \<Rightarrow> bool" where
  "engaged wid ws \<longleftrightarrow> wid \<in> wk_ID ` set ws \<and> (\<forall>wk \<in> set ws. wk_ID wk = wid \<longrightarrow> wk_State wk \<noteq> WorkerStateIdle)"

definition stays_engaged :: "uuid \<Rightarrow> world \<Rightarrow> world \<Rightarrow> bool" where
  "stays_engaged wid w v \<longleftrightarrow> (engaged wid (workers (wdb w)) \<longrightarrow> engaged wid (workers (wdb v)))"

lemma engaged_update:
  assumes "engaged wid ws" and "\<And>wk. wk_ID (f wk) = wk_ID wk"
    and "\<And>wk. P wk \<Longrightarrow> wk_ID wk = wid \<Longrightarrow> wk_State wk \<noteq> WorkerStateIdle \<Longrightarrow> wk_State (f wk) \<noteq> WorkerStateIdle"
  shows "engaged wid (update_where P f ws)"
proof -
  have "wk_ID ` set (update_where P f ws) = wk_ID ` set ws"
    using assms(2) by (metis list.set_map map_update_where)
  with assms show ?thesis by (auto simp: engaged_def set_update_where)
qed

interpretation se: world_relation "stays_engaged wid" for wid
  by unfold_locales (auto simp: stays_engaged_def)

interpretation se: control_plane_service "stays_engaged wid" for wid
  by unfold_locales
    (auto simp: row_simps stays_engaged_def served_state_def simp del: ClaimNextTask_def RotateAPIKey_row_def
      intro!: se.keeps_sql se.keeps_claim_tx se.keeps_rotate_tx se.keeps_redis_cmd engaged_update
      split: if_splits option.splits)

text \<open>A registration that ends the engagement of a worker is one that returned its id.\<close>

lemma registration_of_engaged:
  assumes "integrity (wdb w)" "engaged wid (workers (wdb w))"
    and "\<not> engaged wid (workers (wdb (exec (RegisterWorker new agents) w)))"
  shows "result (RegisterWorker new agents) w = Inr wid"
proof -
  obtain z v where run: "run_state (RegisterWorker new agents) w = (z, v)" by fastforce
  show ?thesis
  proof (cases z)
    case (Inl e)
    with RegisterWorker_failed run assms(2,3) show ?thesis by fastforce
  next
    case z: (Inr i)
    from run [unfolded z] show ?thesis
    proof (cases rule: RegisterWorker_cases)
      case (fresh as)
      with assms(2,3) run show ?thesis by (auto simp: engaged_def worker_exists_def)
    next
      case (known as row)
      from find_SomeD [OF known(2)] have row: "same_host (new\<lparr>wk_Agents := as\<rparr>) row" "row \<in> set (workers (wdb w))" by auto
      have "wk_ID row = wid"
      proof (rule ccontr)
        assume other: "wk_ID row \<noteq> wid"
        have "wk_ID wk \<noteq> wid" if "same_host (new\<lparr>wk_Agents := as\<rparr>) wk" "wk \<in> set (workers (wdb w))" for wk
        proof -
          have "inj_on (\<lambda>w. (wk_OrgUnitID w, wk_HostnameHash w)) (set (workers (wdb w)))"
            using assms(1) by (simp add: integrity_def distinct_map)
          from inj_onD [OF this _ that(2) row(2)] that(1) row(1) have "wk = row" by (simp add: same_host_def)
          with other show ?thesis by simp
        qed
        then have "engaged wid (workers (wdb v))"
          unfolding known(4) using assms(2) by (auto simp: engaged_def set_update_where image_iff)
        with assms(3) run show False by simp
      qed
      with known(3) run z show ?thesis by simp
    qed
  qed
qed

lemma statements_are_run: "statement\<^sup>*\<^sup>* w v \<Longrightarrow> cp_run ex d dec w v"
  by (induction rule: rtranclp_induct) (auto intro: rtranclp.rtrancl_into_rtrancl cp_step.Statement)

text \<open>C14: A worker that is busy or offline is never served again unless it is registered again. In
  every run of the control plane, with any requests, rounds, reaping cycles and failures in any order and
  interleaving, a worker that was not idle and is idle later was registered in between, by a statement that returned its
  id; neither the report that its task is completed nor its heartbeats free it. Scheduling rounds
  only serve idle workers.\<close>

theorem idle_again_only_by_registration:
  assumes "cp_run ex d dec w v" "integrity (wdb w)"
    and "wk \<in> set (workers (wdb w))" "wk_State wk \<noteq> WorkerStateIdle"
    and "wk' \<in> set (workers (wdb v))" "wk_ID wk' = wk_ID wk" "wk_State wk' = WorkerStateIdle"
  shows "\<exists>u new agents. cp_run ex d dec w u \<and> result (RegisterWorker new agents) u = Inr (wk_ID wk)
    \<and> cp_run ex d dec (exec (RegisterWorker new agents) u) v"
proof -
  have "inj_on wk_ID (set (workers (wdb w)))" using assms(2) by (simp add: integrity_def distinct_map)
  then have engaged: "engaged (wk_ID wk) (workers (wdb w))"
    using assms(3,4) by (auto simp: engaged_def dest: inj_onD)
  have "\<not> stays_engaged (wk_ID wk) w v" using engaged assms(5-7) by (auto simp: stays_engaged_def engaged_def)
  with se.kept_until_registration [OF sr.run_keeps [OF assms(1)]] obtain u new agents where
    u: "statement\<^sup>*\<^sup>* w u" "stays_engaged (wk_ID wk) w u"
      "\<not> stays_engaged (wk_ID wk) u (exec (RegisterWorker new agents) u)"
      "statement\<^sup>*\<^sup>* (exec (RegisterWorker new agents) u) v" by metis
  note runs = statements_are_run [OF u(1), of ex d dec] statements_are_run [OF u(4), of ex d dec]
  have "integrity (wdb u)" using ik.run_keeps [OF runs(1)] assms(2) by (simp add: integrity_kept_def)
  with u(3) have "result (RegisterWorker new agents) u = Inr (wk_ID wk)"
    by (intro registration_of_engaged) (auto simp: stays_engaged_def)
  with runs show ?thesis by blast
qed

text \<open>A worker that was given a task, and its next registration.\<close>

definition busy_world :: world where
  "busy_world = sample_world\<lparr>wdb := sample_db\<lparr>workers := [sample_worker\<lparr>wk_State := WorkerStateBusy\<rparr>],
     tasks := [sample_task\<lparr>t_State := TaskStateCompleted, t_AssignedWorkerID := Some 2, t_AssignedAt := Some 0,
       t_CompletedAt := Some 1\<rparr>]\<rparr>\<rparr>"

theorem idle_again_only_by_registration_witness:
  "\<exists>u new agents. cp_run sample_ext sample_deps sample_decoders busy_world u
    \<and> result (RegisterWorker new agents) u = Inr 2"
proof -
  let ?v = "exec (RegisterWorker sample_worker (Some [''claude''])) busy_world"
  have run: "cp_run sample_ext sample_deps sample_decoders busy_world ?v"
    by (blast intro: cp_step.Statement Worker_registered)
  have ok: "integrity (wdb busy_world)"
    by (simp add: busy_world_def sample_defs integrity_def lifecycle_def task_refs_def org_exists_def worker_exists_def)
  have v: "workers (wdb ?v) = [sample_worker]"
    by (simp add: busy_world_def sample_defs RegisterWorker_def run_sql failing_def next_fault_def org_exists_def
        fits_int4_def same_host_def refresh_worker_def)
  have busy: "sample_worker\<lparr>wk_State := WorkerStateBusy\<rparr> \<in> set (workers (wdb busy_world))"
    by (simp add: busy_world_def)
  have "sample_worker \<in> set (workers (wdb ?v))" unfolding v by simp
  from idle_again_only_by_registration [OF run ok busy _ this] show ?thesis
    by (auto simp: sample_worker_def)
qed

end
