(* ===== verification/Policies.thy ===== *)
theory Policies
  imports Samples
begin

section \<open>What depends on the policies of organisations\<close>

text \<open>
  Nothing does. Two worlds that differ only in the policies of their organisations (and when these were last written) cannot be told
  apart by any request but those that print an organisation, and the scheduler and the reaper do
  the same in both.
\<close>

subsection \<open>Two runs of the same code\<close>

locale two_runs =
  fixes E :: "'s \<Rightarrow> 's \<Rightarrow> bool"
begin

definition alike :: "('a \<Rightarrow> 'a \<Rightarrow> bool) \<Rightarrow> ('s, 'a) state \<Rightarrow> bool" where
  "alike Q m \<longleftrightarrow> (\<forall>s t. E s t \<longrightarrow> Q (result m s) (result m t) \<and> E (exec m s) (exec m t))"

abbreviation same :: "('s, 'a) state \<Rightarrow> bool" where
  "same \<equiv> alike (=)"

lemma alikeI: "(\<And>s t. E s t \<Longrightarrow> Q (result m s) (result m t) \<and> E (exec m s) (exec m t)) \<Longrightarrow> alike Q m"
  by (simp add: alike_def)

lemma alikeD: "alike Q m \<Longrightarrow> E s t \<Longrightarrow> Q (result m s) (result m t) \<and> E (exec m s) (exec m t)"
  by (simp add: alike_def)

lemma alike_ret: "Q x x \<Longrightarrow> alike Q (ret x)"
  by (simp add: alike_def)

lemma same_gets: "(\<And>s t. E s t \<Longrightarrow> f s = f t) \<Longrightarrow> same (gets f)"
  by (simp add: alike_def)

lemma same_modify: "(\<And>s t. E s t \<Longrightarrow> E (f s) (f t)) \<Longrightarrow> same (modify f)"
  by (simp add: alike_def)

lemma alike_bind:
  assumes "same m" and "\<And>x. alike Q (f x)"
  shows "alike Q (State_Monad.bind m f)"
proof (rule alikeI)
  fix s t assume st: "E s t"
  obtain x s' y t' where run: "run_state m s = (x, s')" "run_state m t = (y, t')" by fastforce
  with alikeD [OF assms(1) st] have "x = y" "E s' t'" by simp_all
  with alikeD [OF assms(2), of s' t'] show "Q (result (State_Monad.bind m f) s) (result (State_Monad.bind m f) t)
      \<and> E (exec (State_Monad.bind m f) s) (exec (State_Monad.bind m f) t)"
    by (simp add: run)
qed

lemma alike_bind_ret:
  assumes "alike Q m" and "\<And>x y. Q x y \<Longrightarrow> Q (g x) (g y)"
  shows "alike Q (State_Monad.bind m (\<lambda>x. ret (g x)))"
  using assms by (auto simp: alike_def split: prod.split) (metis prod.collapse fst_conv snd_conv)+

lemma alike_if: "(b \<Longrightarrow> alike Q m) \<Longrightarrow> (\<not> b \<Longrightarrow> alike Q n) \<Longrightarrow> alike Q (if b then m else n)"
  by simp

lemma alike_case_sum:
  "(\<And>e. alike Q (f e)) \<Longrightarrow> (\<And>x. alike Q (g x)) \<Longrightarrow> alike Q (case r of Inl e \<Rightarrow> f e | Inr x \<Rightarrow> g x)"
  by (cases r) simp_all

lemma alike_case_option:
  "alike Q m \<Longrightarrow> (\<And>x. alike Q (g x)) \<Longrightarrow> alike Q (case r of None \<Rightarrow> m | Some x \<Rightarrow> g x)"
  by (cases r) simp_all

lemma alike_case_prod: "(\<And>x y. alike Q (f x y)) \<Longrightarrow> alike Q (case p of (x, y) \<Rightarrow> f x y)"
  by (cases p) simp

lemma same_for_each: "(\<And>x. same (body x)) \<Longrightarrow> same (for_each xs body)"
  by (induction xs) (simp_all add: alike_ret alike_bind)

lemma alike_weaken: "same m \<Longrightarrow> (\<And>x. Q x x) \<Longrightarrow> alike Q m"
  by (auto simp: alike_def)

lemmas alike_intros = alike_bind alike_if alike_case_sum alike_case_option alike_case_prod same_for_each

end

subsection \<open>Worlds that differ in policies\<close>

definition forget_policy :: "OrgUnit \<Rightarrow> OrgUnit" where
  "forget_policy og = og\<lparr>org_Policy := Map.empty, org_UpdatedAt := 0\<rparr>"

definition other_policies :: "OrgUnit list \<Rightarrow> OrgUnit list \<Rightarrow> bool" where
  "other_policies os os' \<longleftrightarrow> map forget_policy os = map forget_policy os'"

definition same_tables :: "db \<Rightarrow> db \<Rightarrow> bool" where
  "same_tables d d' \<longleftrightarrow> other_policies (orgs d) (orgs d') \<and> workers d' = workers d \<and> tasks d' = tasks d
     \<and> api_keys d' = api_keys d \<and> outputs d' = outputs d \<and> ledger d' = ledger d
     \<and> audit_log d' = audit_log d \<and> brownie_leaderboard d' = brownie_leaderboard d"

definition same_but_policies :: "world \<Rightarrow> world \<Rightarrow> bool" where
  "same_but_policies w v \<longleftrightarrow> same_tables (wdb w) (wdb v) \<and> wredis v = wredis w \<and> wnow v = wnow w
     \<and> wuuids v = wuuids w \<and> wctr v = wctr w \<and> wrand v = wrand w \<and> wrpos v = wrpos w \<and> wfaults v = wfaults w
     \<and> wrow_locks v = wrow_locks w \<and> wadv_locks v = wadv_locks w \<and> whub v = whub w"

interpretation pol: two_runs same_but_policies .

lemma same_tables_exists:
  assumes "same_tables d d'"
  shows "org_exists d' = org_exists d" "worker_exists d' = worker_exists d"
proof -
  have "map org_ID (map forget_policy (orgs d)) = map org_ID (map forget_policy (orgs d'))"
    using assms by (simp add: same_tables_def other_policies_def)
  then have "map org_ID (orgs d) = map org_ID (orgs d')" by (simp add: forget_policy_def o_def)
  then show "org_exists d' = org_exists d" unfolding org_exists_iff by simp
  show "worker_exists d' = worker_exists d" using assms by (simp add: same_tables_def worker_exists_def fun_eq_iff)
qed

lemma same_failing: "same_but_policies w v \<Longrightarrow> failing v = failing w"
  by (simp add: failing_def same_but_policies_def)

lemma same_next_fault: "same_but_policies w v \<Longrightarrow> same_but_policies (next_fault w) (next_fault v)"
  by (simp add: next_fault_def same_but_policies_def)

lemma pol_fault: "pol.same fault"
  by (rule pol.alikeI) (simp add: run_fault same_failing same_next_fault)

lemma pol_time_Now: "pol.same time_Now"
  by (rule pol.alikeI) (simp add: run_time_Now same_but_policies_def)

lemma pol_uuid_New: "pol.same uuid_New"
  by (rule pol.alikeI) (simp add: run_uuid_New same_but_policies_def)

lemma pol_rand_Read: "pol.same (rand_Read n)"
  by (rule pol.alikeI) (simp add: run_rand_Read same_failing same_but_policies_def next_fault_def failing_def)

text \<open>A statement that treats the two tables alike.\<close>

definition alike_tables :: "error + db \<times> 'a \<Rightarrow> error + db \<times> 'a \<Rightarrow> bool" where
  "alike_tables x y \<longleftrightarrow> rel_sum (=) (rel_prod same_tables (=)) x y"

lemma pol_sql:
  assumes "\<And>d d' now. same_tables d d' \<Longrightarrow> alike_tables (f d now) (f d' now)"
  shows "pol.same (sql ctx f)"
proof (rule pol.alikeI)
  fix w v assume E: "same_but_policies w v"
  then have "same_tables (wdb w) (wdb v)" "wnow v = wnow w" by (simp_all add: same_but_policies_def)
  with assms [of "wdb w" "wdb v" "wnow w"] have "alike_tables (f (wdb w) (wnow w)) (f (wdb v) (wnow v))" by simp
  with E same_next_fault [OF E] same_failing [OF E]
  show "result (sql ctx f) w = result (sql ctx f) v \<and> same_but_policies (exec (sql ctx f) w) (exec (sql ctx f) v)"
    by (cases "f (wdb w) (wnow w)"; cases "f (wdb v) (wnow v)")
      (auto simp: alike_tables_def run_sql same_but_policies_def)
qed

lemma pol_sql_query:
  assumes "\<And>d d' now. same_tables d d' \<Longrightarrow> f d' now = f d now"
  shows "pol.same (sql_query ctx f)"
  using assms same_next_fault same_failing
  by (intro pol.alikeI) (auto simp: run_sql_query same_but_policies_def)

lemma pol_redis_cmd: "pol.same (redis_cmd ctx f)"
  by (rule pol.alikeI)
    (auto simp: run_redis_cmd same_failing next_fault_def same_but_policies_def failing_def split: sum.splits)

lemma pol_WithTx: "pol.same m \<Longrightarrow> pol.same (WithTx m)"
proof (rule pol.alikeI)
  fix w v assume m: "pol.same m" and E: "same_but_policies w v"
  obtain x w' y v' where run: "run_state m (next_fault w) = (x, w')" "run_state m (next_fault v) = (y, v')" by fastforce
  with pol.alikeD [OF m same_next_fault [OF E]] have "x = y" "same_but_policies w' v'" by simp_all
  with E same_failing [OF E] same_failing [of w' v'] same_next_fault [of w' v'] same_next_fault [OF E]
  show "result (WithTx m) w = result (WithTx m) v \<and> same_but_policies (exec (WithTx m) w) (exec (WithTx m) v)"
    by (auto simp: run_WithTx run same_but_policies_def split: sum.splits)
qed

subsection \<open>The stores\<close>

lemma same_tables_rows:
  assumes "same_tables d d'"
  shows "workers d' = workers d" "tasks d' = tasks d" "api_keys d' = api_keys d" "outputs d' = outputs d"
    "ledger d' = ledger d" "audit_log d' = audit_log d" "brownie_leaderboard d' = brownie_leaderboard d"
    "stale_tasks deadline d' = stale_tasks deadline d" "task_row_ok d' t = task_row_ok d t"
proof -
  show rows: "workers d' = workers d" "tasks d' = tasks d" "api_keys d' = api_keys d" "outputs d' = outputs d"
    "ledger d' = ledger d" "audit_log d' = audit_log d" "brownie_leaderboard d' = brownie_leaderboard d"
    using assms by (simp_all add: same_tables_def)
  show "stale_tasks deadline d' = stale_tasks deadline d" "task_row_ok d' t = task_row_ok d t"
    unfolding stale_tasks_def task_row_ok_def rows same_tables_exists [OF assms] by (rule refl)+
qed

lemma pol_reads:
  "pol.same (GetTask tid)" "pol.same (ListTasksByOrg oid limit offset)"
  "pol.same (GetAssignedTaskForWorker wid)" "pol.same (GetStaleTasks deadline)" "pol.same (GetWorker wid)"
  "pol.same (ListWorkers oid)" "pol.same ListIdleWorkers" "pol.same (GetAPIKeyByPrefix prefix)"
  "pol.same (GetOutput pid)" "pol.same (GetLeaderboard oid limit)"
  "pol.same (QueryAuditLog oid from_t to_t limit offset)"
  unfolding store_defs by (rule pol_sql_query, simp only: same_tables_rows)+

text \<open>Writes: what a statement checks is the same on both sides, and so is what it writes.\<close>

lemma alike_tables_if: "alike_tables (if b then x else y) (if b then x' else y') \<longleftrightarrow> (if b then alike_tables x x' else alike_tables y y')"
  by simp

lemma alike_tables_simps:
  "alike_tables (Inl e) (Inl e') \<longleftrightarrow> e = e'" "alike_tables (Inr (a, x)) (Inr (b, y)) \<longleftrightarrow> same_tables a b \<and> x = y"
  by (simp_all add: alike_tables_def)

lemma same_tables_update:
  assumes "same_tables d d'"
  shows "same_tables (d\<lparr>tasks := ts\<rparr>) (d'\<lparr>tasks := ts\<rparr>)" "same_tables (d\<lparr>workers := ws\<rparr>) (d'\<lparr>workers := ws\<rparr>)"
    "same_tables (d\<lparr>api_keys := ks\<rparr>) (d'\<lparr>api_keys := ks\<rparr>)" "same_tables (d\<lparr>outputs := ps\<rparr>) (d'\<lparr>outputs := ps\<rparr>)"
    "same_tables (d\<lparr>ledger := es\<rparr>) (d'\<lparr>ledger := es\<rparr>)" "same_tables (d\<lparr>audit_log := as\<rparr>) (d'\<lparr>audit_log := as\<rparr>)"
  using assms by (simp_all add: same_tables_def)

lemma pol_update:
  assumes "\<And>d d' now. \<lbrakk>same_tables d d'; workers d' = workers d; tasks d' = tasks d; api_keys d' = api_keys d;
    outputs d' = outputs d; ledger d' = ledger d; audit_log d' = audit_log d; org_exists d' = org_exists d;
    worker_exists d' = worker_exists d; \<And>t. task_row_ok d' t = task_row_ok d t\<rbrakk> \<Longrightarrow> alike_tables (f d now) (f d' now)"
  shows "pol.same (sql ctx f)"
  by (rule pol_sql, rule assms) (assumption | rule same_tables_rows same_tables_exists)+

lemma pol_writes:
  "pol.same (CreateTask t)" "pol.same (UpdateTaskState tid st wid)" "pol.same (RegisterWorker wk agents)"
  "pol.same (UpdateWorkerState i wst)" "pol.same (UpdateWorkerHeartbeat i as)"
  "pol.same (CreateAPIKey_row k scopes)" "pol.same (RevokeAPIKey_row kid oid)" "pol.same (UpdateAPIKeyLastUsed kid)"
  "pol.same (CreateOutput p)" "pol.same (UpdateOutputReview pid status reviewer)" "pol.same (WriteLedgerEntry ev)"
  "pol.same (WriteAuditEvent aev)"
  unfolding CreateTask_def UpdateTaskState_def RegisterWorker_def UpdateWorkerState_def UpdateWorkerHeartbeat_def
    CreateAPIKey_row_def RevokeAPIKey_row_def UpdateAPIKeyLastUsed_def CreateOutput_def UpdateOutputReview_def
    WriteLedgerEntry_def WriteAuditEvent_def Let_def
  by (rule pol_update; auto simp: alike_tables_simps same_tables_update split: option.split)+

lemma forget_policy_simps [simp]:
  "org_ID (forget_policy og) = org_ID og" "org_Name (forget_policy og) = org_Name og"
  "forget_policy (og\<lparr>org_Policy := p, org_UpdatedAt := now\<rparr>) = forget_policy og"
  by (simp_all add: forget_policy_def)

lemma other_policies_bex:
  assumes "other_policies os os'" and "\<And>og. P (forget_policy og) \<longleftrightarrow> P og"
  shows "(\<exists>og \<in> set os'. P og) \<longleftrightarrow> (\<exists>og \<in> set os. P og)"
proof -
  have mapped: "(\<exists>og \<in> set xs. P og) \<longleftrightarrow> (\<exists>og \<in> set (map forget_policy xs). P og)" for xs by (simp add: assms(2))
  show ?thesis unfolding mapped [of os] mapped [of os'] using assms(1) by (simp only: other_policies_def)
qed

lemma other_policies_update:
  "other_policies os os' \<Longrightarrow> other_policies (update_where P (\<lambda>og. og\<lparr>org_Policy := p, org_UpdatedAt := now\<rparr>) os)
     (update_where P (\<lambda>og. og\<lparr>org_Policy := p, org_UpdatedAt := now\<rparr>) os')"
  by (simp add: other_policies_def map_update_where)

lemma pol_orgs: "pol.same (CreateOrg og)" "pol.same (UpdateOrgPolicy oid policy)"
proof -
  show "pol.same (CreateOrg og)"
    unfolding CreateOrg_def
  proof (rule pol_sql)
    fix d d' :: db and now :: time assume same: "same_tables d d'"
    then have "(\<exists>r \<in> set (orgs d'). org_ID r = org_ID og \<or> org_Name r = org_Name og)
      \<longleftrightarrow> (\<exists>r \<in> set (orgs d). org_ID r = org_ID og \<or> org_Name r = org_Name og)"
      unfolding same_tables_def by (intro other_policies_bex) auto
    with same show "alike_tables (if \<exists>r \<in> set (orgs d). org_ID r = org_ID og \<or> org_Name r = org_Name og
        then Inl (Driver ''orgs: create'') else Inr (d\<lparr>orgs := orgs d @ [og]\<rparr>, ()))
      (if \<exists>r \<in> set (orgs d'). org_ID r = org_ID og \<or> org_Name r = org_Name og
        then Inl (Driver ''orgs: create'') else Inr (d'\<lparr>orgs := orgs d' @ [og]\<rparr>, ()))"
      by (simp add: alike_tables_simps same_tables_def other_policies_def)
  qed
  show "pol.same (UpdateOrgPolicy oid policy)"
    unfolding UpdateOrgPolicy_def
  proof (rule pol_sql)
    fix d d' :: db and now :: time assume same: "same_tables d d'"
    then have "(\<exists>r \<in> set (orgs d'). org_ID r = oid) \<longleftrightarrow> (\<exists>r \<in> set (orgs d). org_ID r = oid)"
      unfolding same_tables_def by (intro other_policies_bex) auto
    then have none: "rows_affected (\<lambda>og. org_ID og = oid) (orgs d') = 0 \<longleftrightarrow> rows_affected (\<lambda>og. org_ID og = oid) (orgs d) = 0"
      by (auto simp: rows_affected_0_iff)
    from same show "alike_tables (if rows_affected (\<lambda>og. org_ID og = oid) (orgs d) = 0
        then Inl (NotFound ''orgs: not found'' oid)
        else Inr (d\<lparr>orgs := update_where (\<lambda>og. org_ID og = oid) (\<lambda>og. og\<lparr>org_Policy := policy, org_UpdatedAt := now\<rparr>) (orgs d)\<rparr>, ()))
      (if rows_affected (\<lambda>og. org_ID og = oid) (orgs d') = 0
        then Inl (NotFound ''orgs: not found'' oid)
        else Inr (d'\<lparr>orgs := update_where (\<lambda>og. org_ID og = oid) (\<lambda>og. og\<lparr>org_Policy := policy, org_UpdatedAt := now\<rparr>) (orgs d')\<rparr>, ()))"
      unfolding none by (simp add: alike_tables_simps same_tables_def other_policies_update)
  qed
qed

lemma pol_redis:
  "pol.same (SetWorkerHeartbeat ex wid ttl)" "pol.same (GetWorkerHeartbeat ex wid)" "pol.same (RateLimitIncr key window)"
  "pol.same QueueLength" "pol.same (Enqueue ex taskID pri qat)"
  unfolding SetWorkerHeartbeat_def GetWorkerHeartbeat_def RateLimitIncr_def QueueLength_def Enqueue_def Let_def
  by (intro pol.alike_if pol_redis_cmd pol.alike_ret refl)+

lemma pol_transactions:
  "pol.same (WithTx (ClaimNextTask wid agents))" "pol.same (RotateAPIKey_row kid oid hash prefix)"
proof -
  have "pol.same (ClaimNextTask wid agents)"
    unfolding ClaimNextTask_def
    by (intro pol.alike_intros pol.same_gets pol_fault pol_time_Now pol.alike_ret refl pol_update)
      (auto simp: alike_tables_simps same_tables_update same_but_policies_def same_tables_def)
  then show "pol.same (WithTx (ClaimNextTask wid agents))" by (rule pol_WithTx)
  show "pol.same (RotateAPIKey_row kid oid hash prefix)"
    unfolding RotateAPIKey_row_def Let_def
    by (intro pol_WithTx pol_update) (simp add: alike_tables_simps same_tables_update split: option.split)
qed

subsection \<open>The handlers, the scheduler and the reaper\<close>

lemma pol_responses:
  "pol.same (writeJSON c v)" "pol.same (writeError c msg)" "pol.same (http_Error msg c)" "pol.same no_content"
  "pol.same (writeUnauthorized msg)" "pol.same (writeForbidden msg)" "pol.same not_found" "pol.same method_not_allowed"
  by (simp_all add: writeJSON_def writeError_def http_Error_def no_content_def writeUnauthorized_def
      writeForbidden_def not_found_def method_not_allowed_def pol.alike_ret)

lemma pol_ignore_error: "pol.same m \<Longrightarrow> pol.same (ignore_error m)"
  unfolding ignore_error_def by (intro pol.alike_intros pol.alike_ret refl)

lemma pol_or_empty: "pol.same q \<Longrightarrow> pol.same (or_empty q)"
  unfolding or_empty_def by (intro pol.alike_intros pol.alike_ret refl)

lemma pol_writeAuthAuditEvent: "pol.same (writeAuthAuditEvent r actor oid action detail)"
  unfolding writeAuthAuditEvent_def by (intro pol.alike_intros pol_uuid_New pol_time_Now pol_ignore_error pol_writes)

lemma pol_brownie: "pol.same (Award wid oid pts reason ref)" "pol.same (Deduct wid oid pts reason ref)"
  unfolding Award_def Deduct_def brownie_write_def by (intro pol.alike_intros pol.alike_ret refl pol_uuid_New pol_time_Now pol_writes)+

lemma pol_GenerateAPIKey: "pol.same (GenerateAPIKeyWithParams ex p)"
  unfolding GenerateAPIKeyWithParams_def hashArgon2id_def Let_def by (intro pol.alike_intros pol.alike_ret refl pol_rand_Read)

lemma pol_review_points: "pol.same (review_points status wid orgID oid)"
  unfolding review_points_def by (intro pol.alike_intros pol.alike_ret refl pol_ignore_error pol_brownie)

lemma pol_hub: "pol.same (gets whub)" "pol.same (modify (\<lambda>w. w\<lparr>whub := f (whub w)\<rparr>))"
  by (auto simp: pol.alike_def same_but_policies_def)

lemmas pol_calls = pol.alike_intros pol.alike_ret refl pol_responses pol_fault pol_time_Now pol_uuid_New pol_reads
  pol_writes pol_redis pol_transactions pol_ignore_error pol_or_empty pol_writeAuthAuditEvent pol_brownie
  pol_GenerateAPIKey pol_review_points pol_orgs pol_hub

lemma pol_task_handlers:
  "pol.same (TaskHandler_CreateTask ex sc tbody r)" "pol.same (TaskHandler_GetTask ex r)"
  "pol.same (TaskHandler_UpdateTaskStatus ex ubody r)" "pol.same (TaskHandler_ListTasks r)"
  unfolding TaskHandler_CreateTask_def TaskHandler_GetTask_def TaskHandler_UpdateTaskStatus_def TaskHandler_ListTasks_def Let_def
  by (intro pol_calls)+

lemma pol_worker_handlers:
  "pol.same (WorkerHandler_Register ex ttl wbody r)" "pol.same (WorkerHandler_List r)"
  "pol.same (WorkerHandler_Get ex r)" "pol.same (WorkerHandler_Heartbeat ex ttl agents r)"
  unfolding WorkerHandler_Register_def WorkerHandler_List_def WorkerHandler_Get_def WorkerHandler_Heartbeat_def Let_def
  by (intro pol_calls)+

lemma pol_key_handlers:
  "pol.same (APIKeyHandler_CreateAPIKey ex argon kbody r)" "pol.same (APIKeyHandler_RotateAPIKey ex argon r)"
  "pol.same (APIKeyHandler_RevokeAPIKey ex r)"
  unfolding APIKeyHandler_CreateAPIKey_def APIKeyHandler_RotateAPIKey_def APIKeyHandler_RevokeAPIKey_def
  by (intro pol_calls)+

lemma pol_output_handlers:
  "pol.same (OutputHandler_Submit ex sbody r)" "pol.same (OutputHandler_Review ex rbody r)"
  unfolding OutputHandler_Submit_def OutputHandler_Review_def by (intro pol_calls)+

lemma pol_other_handlers:
  "pol.same (OrgHandler_Create obody r)" "pol.same (OrgHandler_UpdatePolicy ex pbody r)" "pol.same (AuditHandler_List r)"
  "pol.same (BrownieHandler_Leaderboard r)" "pol.same (DashboardHandler_Snapshot r)"
  "pol.same (DashboardHandler_Stream ex marshal r)" "pol.same (HealthHandler_Liveness r)"
  "pol.same (HealthHandler_Readiness pgErr redisErr r)"
  unfolding OrgHandler_Create_def OrgHandler_UpdatePolicy_def AuditHandler_List_def BrownieHandler_Leaderboard_def
    DashboardHandler_Snapshot_def DashboardHandler_Stream_def ServeSSE_def HealthHandler_Liveness_def
    HealthHandler_Readiness_def Ping_def Let_def
  by (intro pol_calls)+

lemmas pol_handlers = pol_task_handlers pol_worker_handlers pol_key_handlers pol_output_handlers pol_other_handlers

lemma pol_tick: "pol.same tick"
proof -
  have "pol.same (tick_loop ws q)" for ws q
    by (induction ws arbitrary: q) (auto intro!: pol_calls)
  then show ?thesis unfolding tick_def by (intro pol_calls)
qed

lemma pol_reap: "pol.same (reap ex brownie ttl)"
  unfolding reap_def reap_one_def reap_requeue_def reap_finish_def by (intro pol_calls)

subsection \<open>Requests\<close>

text \<open>The endpoints that print an organisation answer with the same status.\<close>

definition prints_org :: "endpoint \<Rightarrow> bool" where
  "prints_org ep \<longleftrightarrow> ep \<in> {Ep_ListOrgs, Ep_GetOrg}"

abbreviation same_status :: "response \<Rightarrow> response \<Rightarrow> bool" where
  "same_status a b \<equiv> rs_Status a = rs_Status b"

lemma pol_print_orgs: "pol.alike same_status (OrgHandler_Get ex r)" "pol.alike same_status (OrgHandler_List r)"
proof -
  have found: "(\<exists>og \<in> set (orgs (wdb v)). org_ID og = oid) \<longleftrightarrow> (\<exists>og \<in> set (orgs (wdb w)). org_ID og = oid)"
    if "same_but_policies w v" for w v oid
    using that unfolding same_but_policies_def same_tables_def by (intro other_policies_bex) auto
  have none: "(find (\<lambda>og. org_ID og = oid) (orgs (wdb v)) = None) = (find (\<lambda>og. org_ID og = oid) (orgs (wdb w)) = None)"
    if "same_but_policies w v" for w v oid
    using found [OF that, of oid] by (auto simp: find_None_iff)
  show "pol.alike same_status (OrgHandler_Get ex r)"
  proof (cases "uuid_Parse ex (URLParam r ''id'')")
    case None
    then show ?thesis by (simp add: OrgHandler_Get_def http_Error_def pol.alike_ret)
  next
    case (Some oid)
    show ?thesis
    proof (rule pol.alikeI)
      fix w v assume E: "same_but_policies w v"
      note f = none [OF E, of oid] same_failing [OF E] same_next_fault [OF E]
      show "same_status (result (OrgHandler_Get ex r) w) (result (OrgHandler_Get ex r) v)
          \<and> same_but_policies (exec (OrgHandler_Get ex r) w) (exec (OrgHandler_Get ex r) v)"
        using f by (cases "find (\<lambda>og. org_ID og = oid) (orgs (wdb w))"; cases "find (\<lambda>og. org_ID og = oid) (orgs (wdb v))")
          (auto simp: OrgHandler_Get_def Some GetOrg_def run_sql_query http_Error_def writeJSON_def)
    qed
  qed
  show "pol.alike same_status (OrgHandler_List r)"
    by (rule pol.alikeI) (auto simp: OrgHandler_List_def ListOrgs_def run_sql_query http_Error_def writeJSON_def
        same_failing same_next_fault)
qed

lemma pol_run_endpoint:
  "\<not> prints_org ep \<Longrightarrow> pol.same (run_endpoint ex d dec ep r)"
  "pol.alike same_status (run_endpoint ex d dec ep r)"
proof -
  show same: "pol.same (run_endpoint ex d dec ep r)" if "\<not> prints_org ep"
    using that by (cases ep) (simp_all add: run_endpoint_def pol_handlers prints_org_def)
  show "pol.alike same_status (run_endpoint ex d dec ep r)"
    using same by (cases "prints_org ep") (auto simp: prints_org_def run_endpoint_def pol_print_orgs intro: pol.alike_weaken)
qed

text \<open>A relation of responses that is reflexive and does not depend on added headers.\<close>

definition reply_relation :: "(response \<Rightarrow> response \<Rightarrow> bool) \<Rightarrow> bool" where
  "reply_relation Q \<longleftrightarrow> (\<forall>x. Q x x) \<and> (\<forall>x y hs. Q x y \<longrightarrow> Q (x\<lparr>rs_Header := hs @ rs_Header x\<rparr>) (y\<lparr>rs_Header := hs @ rs_Header y\<rparr>))"

lemma pol_Auth: "reply_relation Q \<Longrightarrow> (\<And>k. pol.alike Q (nxt (with_key k r))) \<Longrightarrow> pol.alike Q (Auth ex nxt r)"
  unfolding Auth_def Let_def
  by (intro pol.alike_intros pol_calls pol.alike_weaken [OF pol_responses(5)]) (auto simp: reply_relation_def)

lemma pol_ScopeRequired: "reply_relation Q \<Longrightarrow> pol.alike Q (nxt r) \<Longrightarrow> pol.alike Q (ScopeRequired scope nxt r)"
  unfolding ScopeRequired_def
  by (intro pol.alike_intros pol.alike_weaken [OF pol_responses(6)]) (auto simp: reply_relation_def)

lemma pol_Audit:
  assumes "reply_relation Q" and "pol.alike Q (nxt r)" and "rq_Method r \<in> set mutatingMethods \<Longrightarrow> pol.same (nxt r)"
  shows "pol.alike Q (Audit ex nxt r)"
proof (cases "rq_Method r \<in> set mutatingMethods")
  case True
  have "pol.same (Audit ex nxt r)" unfolding Audit_def Let_def by (intro pol_calls assms(3) True)
  with assms(1) show ?thesis by (auto simp: reply_relation_def intro: pol.alike_weaken)
qed (simp add: Audit_def assms(2))

lemma pol_add_headers: "reply_relation Q \<Longrightarrow> pol.alike Q m \<Longrightarrow> pol.alike Q (add_headers hs m)"
  unfolding add_headers_def by (erule pol.alike_bind_ret) (simp add: reply_relation_def)

lemma pol_RateLimit: "reply_relation Q \<Longrightarrow> pol.alike Q (nxt r) \<Longrightarrow> pol.alike Q (RateLimit ex rate nxt r)"
  unfolding RateLimit_def
  by (intro pol.alike_case_option pol.alike_bind [OF pol_redis(3)] pol.alike_case_sum pol_add_headers pol.alike_if pol.alike_ret)
    (auto simp: reply_relation_def)

lemma printed_by_GET: "ro \<in> set (routes d) \<Longrightarrow> prints_org (ro_Endpoint ro) \<Longrightarrow> ro_Method ro \<notin> set mutatingMethods"
  by (auto simp: routes_def collection_def mk_route_def prints_org_def mutatingMethods_def split: if_splits)

lemma pol_run_route:
  "\<not> prints_org (ro_Endpoint ro) \<Longrightarrow> pol.same (run_route ex d dec ro r)"
  "pol.alike same_status (run_route ex d dec ro r)"
  unfolding run_route_def
  by (auto split: option.split intro!: pol_run_endpoint pol_ScopeRequired simp: reply_relation_def)

text \<open>The route a request is dispatched to.\<close>

definition route_of :: "RouterDeps \<Rightarrow> request \<Rightarrow> route option" where
  "route_of d r = (let path = Split CHR ''/'' (rq_Path r) in
     if take 3 path = [[], ''api'', ''v1''] then find_route d (rq_Method r) (drop 3 path) else None)"

definition route_prints_org :: "RouterDeps \<Rightarrow> request \<Rightarrow> bool" where
  "route_prints_org d r \<longleftrightarrow> (case route_of d r of None \<Rightarrow> False | Some ro \<Rightarrow> prints_org (ro_Endpoint ro))"

lemma pol_serve: "\<not> route_prints_org d r \<Longrightarrow> pol.same (serve ex d dec r)"
    "pol.alike same_status (serve ex d dec r)"
proof -
  define segs where "segs = drop 3 (Split CHR ''/'' (rq_Path r))"
  let ?r = "r\<lparr>rq_URLParams := route_params d (rq_Method r) segs\<rparr>"
  let ?disp = "\<lambda>k. dispatch ex d dec segs (with_key k ?r)"
  have same: "pol.same (?disp k)" if "\<not> (\<exists>ro. find_route d (rq_Method r) segs = Some ro \<and> prints_org (ro_Endpoint ro))" for k
    using that by (auto simp: dispatch_def with_key_def pol_responses intro: pol_run_route split: option.split)
  have status: "pol.alike same_status (?disp k)" for k
    by (auto simp: dispatch_def with_key_def pol_run_route pol.alike_weaken [OF pol_responses(7)]
        pol.alike_weaken [OF pol_responses(8)] split: option.split)
  have mutating: "\<not> (\<exists>ro. find_route d (rq_Method r) segs = Some ro \<and> prints_org (ro_Endpoint ro))"
    if "rq_Method r \<in> set mutatingMethods"
  proof
    assume "\<exists>ro. find_route d (rq_Method r) segs = Some ro \<and> prints_org (ro_Endpoint ro)"
    then obtain ro where ro: "find_route d (rq_Method r) segs = Some ro" "prints_org (ro_Endpoint ro)" by blast
    from find_SomeD [OF ro(1) [unfolded find_route_def]] printed_by_GET [OF _ ro(2), of d] that show False by auto
  qed
  have chain: "pol.alike Q (Auth ex (Audit ex (RateLimit ex (rd_RatePerMin d) (dispatch ex d dec segs))) ?r)"
    if "reply_relation Q" "\<And>k. pol.alike Q (?disp k)" for Q
  proof (rule pol_Auth [OF that(1)])
    fix k
    have limited: "pol.same (RateLimit ex (rd_RatePerMin d) (dispatch ex d dec segs) (with_key k ?r))"
      if "rq_Method (with_key k ?r) \<in> set mutatingMethods"
      using that same [OF mutating] by (intro pol_RateLimit) (simp_all add: reply_relation_def with_key_def)
    show "pol.alike Q (Audit ex (RateLimit ex (rd_RatePerMin d) (dispatch ex d dec segs)) (with_key k ?r))"
    proof (rule pol_Audit)
      show "pol.alike Q (RateLimit ex (rd_RatePerMin d) (dispatch ex d dec segs) (with_key k ?r))"
        by (rule pol_RateLimit) (rule that)+
    qed (fact that(1), fact limited)
  qed
  show "pol.same (serve ex d dec r)" if "\<not> route_prints_org d r"
    using that chain [of "(=)"] same
    unfolding serve_def Let_def segs_def [symmetric] route_prints_org_def route_of_def
    by (auto simp: pol_other_handlers pol_responses reply_relation_def segs_def split: if_splits option.splits)
  show "pol.alike same_status (serve ex d dec r)"
    using chain [of same_status] status
    unfolding serve_def Let_def segs_def [symmetric]
    by (auto simp: reply_relation_def intro: pol.alike_weaken [OF pol_responses(7)] pol.alike_weaken [OF pol_responses(8)]
        pol.alike_weaken [OF pol_other_handlers(7)] pol.alike_weaken [OF pol_other_handlers(8)])
qed

text \<open>C15: The policies of organisations have no effect. Take two worlds that differ only in the policies
  stored with the organisations (execution windows, allowed agents, number of concurrent jobs, retries, ...).
  Then a scheduling round, a reaping cycle and any request whatever do the same in both: the worlds after it again differ only
  in policies, the status of the answer is the same, and so is the whole answer except on the two routes that
  print an organisation.\<close>

theorem policies_have_no_effect:
  assumes "same_but_policies w v"
  shows "same_but_policies (exec tick w) (exec tick v)
    \<and> same_but_policies (exec (reap ex brownie ttl) w) (exec (reap ex brownie ttl) v)
    \<and> same_but_policies (exec (serve ex d dec r) w) (exec (serve ex d dec r) v)
    \<and> rs_Status (result (serve ex d dec r) w) = rs_Status (result (serve ex d dec r) v)
    \<and> (\<not> route_prints_org d r \<longrightarrow> result (serve ex d dec r) w = result (serve ex d dec r) v)"
  using pol.alikeD [OF pol_tick assms] pol.alikeD [OF pol_reap assms] pol.alikeD [OF pol_serve(2) assms]
    pol.alikeD [OF pol_serve(1) assms] by blast

text \<open>An organisation that allows no agent but one its task does not use, and never any work.\<close>

definition closed_world :: world where
  "closed_world = sample_world\<lparr>wdb := sample_db\<lparr>orgs := [sample_org\<lparr>org_Policy :=
     marshal_OrgPolicy \<lparr>op_ExecutionWindows = [\<lparr>tw_DayOfWeek = [], tw_StartHour = 0, tw_EndHour = 0, tw_Timezone = []\<rparr>],
       op_MaxConcurrentJobs = 0, op_AllowedAgents = [''gemini''], op_AutoMerge = False, op_RequireReview = True,
       op_MaxRetries = 0\<rparr>\<rparr>]\<rparr>\<rparr>"

theorem policies_have_no_effect_witness:
  "tasks (wdb (exec tick closed_world)) = tasks (wdb (exec tick sample_world))"
proof -
  have "same_but_policies sample_world closed_world"
    by (simp add: same_but_policies_def same_tables_def other_policies_def forget_policy_def closed_world_def sample_defs)
  from policies_have_no_effect [OF this] show ?thesis by (simp add: same_but_policies_def same_tables_def)
qed

end
