(* ===== verification/Tenancy.thy ===== *)
theory Tenancy
  imports Samples Access
begin

section \<open>Organisations are kept apart\<close>

text \<open>
  What a request may write: rows of the organisation its key belongs to. The relation compares what
  two worlds hold of all other organisations. An output belongs to the organisation of its task;
  \<open>own\<close> are the tasks of the caller's. Organisations themselves are administered across organisations.
\<close>

definition foreign_kept :: "uuid \<Rightarrow> uuid set \<Rightarrow> world \<Rightarrow> world \<Rightarrow> bool" where
  "foreign_kept oid own w v \<longleftrightarrow>
     filter (\<lambda>t. t_OrgUnitID t \<noteq> oid) (tasks (wdb v)) = filter (\<lambda>t. t_OrgUnitID t \<noteq> oid) (tasks (wdb w))
     \<and> filter (\<lambda>wk. wk_OrgUnitID wk \<noteq> oid) (workers (wdb v)) = filter (\<lambda>wk. wk_OrgUnitID wk \<noteq> oid) (workers (wdb w))
     \<and> filter (\<lambda>k. k_OrgUnitID k \<noteq> oid) (map key_core (api_keys (wdb v)))
         = filter (\<lambda>k. k_OrgUnitID k \<noteq> oid) (map key_core (api_keys (wdb w)))
     \<and> filter (\<lambda>ev. be_OrgUnitID ev \<noteq> oid) (ledger (wdb v)) = filter (\<lambda>ev. be_OrgUnitID ev \<noteq> oid) (ledger (wdb w))
     \<and> appended (filter (\<lambda>p. o_TaskID p \<notin> own) (outputs (wdb w))) (filter (\<lambda>p. o_TaskID p \<notin> own) (outputs (wdb v)))"

interpretation fk: world_relation "foreign_kept oid own" for oid own
  by unfold_locales (auto simp: foreign_kept_def intro: appended_trans)

lemma business_foreign: "business_same w v \<Longrightarrow> foreign_kept oid own w v"
  by (simp add: business_same_def foreign_kept_def)

lemma filter_update_own:
  "(\<And>x. x \<in> set xs \<Longrightarrow> P x \<Longrightarrow> \<not> Q x \<and> \<not> Q (f x)) \<Longrightarrow> filter Q (update_where P f xs) = filter Q xs"
  by (induction xs) auto

lemma map_key_core_update:
  "filter Q (map key_core (update_where P f ks)) = filter Q (map key_core ks)"
  if "\<And>k. P k \<Longrightarrow> \<not> Q (key_core k) \<and> \<not> Q (key_core (f k))"
  using that by (induction ks) auto

lemma key_core_org [simp]: "k_OrgUnitID (key_core k) = k_OrgUnitID k"
  by (simp add: key_core_def)

interpretation fk: middleware_frame "foreign_kept oid own" for oid own
  by unfold_locales
    (auto simp: UpdateAPIKeyLastUsed_def WriteAuditEvent_def foreign_kept_def key_core_def
      intro!: fk.keeps_sql split: if_splits)

subsection \<open>Statements that name the organisation\<close>

lemma fk_writes:
  "t_OrgUnitID t = oid \<Longrightarrow> fk.keeps oid own (CreateTask t)"
  "wk_OrgUnitID wk = oid \<Longrightarrow> fk.keeps oid own (RegisterWorker wk agents)"
  "k_OrgUnitID k = oid \<Longrightarrow> fk.keeps oid own (CreateAPIKey_row k scopes)"
  "fk.keeps oid own (RevokeAPIKey_row kid oid)" "fk.keeps oid own (CreateOutput p)"
  "be_OrgUnitID ev = oid \<Longrightarrow> fk.keeps oid own (WriteLedgerEntry ev)"
  "fk.keeps oid own (CreateOrg og)" "fk.keeps oid own (UpdateOrgPolicy i policy)"
  unfolding CreateTask_def RegisterWorker_def CreateAPIKey_row_def RevokeAPIKey_row_def CreateOutput_def
    WriteLedgerEntry_def CreateOrg_def UpdateOrgPolicy_def Let_def
  by (rule fk.keeps_sql; auto simp: foreign_kept_def same_host_def intro!: filter_update_own map_key_core_update
      split: if_splits option.splits)+

lemma fk_Enqueue: "fk.keeps oid own (Enqueue ex taskID pri qat)"
  unfolding Enqueue_def by (auto intro!: fk.keeps_redis_cmd simp: foreign_kept_def)

lemma fk_RotateAPIKey: "fk.keeps oid own (RotateAPIKey_row kid oid h p)"
  by (rule fk.keeps_rotate_tx) (auto simp: foreign_kept_def intro!: map_key_core_update)

lemma fk_brownie: "fk.keeps oid own (Award i oid pts reason ref)" "fk.keeps oid own (Deduct i oid pts reason ref)"
  unfolding Award_def Deduct_def brownie_write_def by (intro fk.keeps_intros fk.keeps_uuid_New fk_writes; simp)+

lemma fk_GenerateAPIKey: "fk.keeps oid own (GenerateAPIKeyWithParams ex p)"
  unfolding GenerateAPIKeyWithParams_def hashArgon2id_def by (intro fk.keeps_intros fk.keeps_rand_Read)

lemmas fk_calls = fk.keeps_calls fk_Enqueue fk_RotateAPIKey fk_brownie fk_GenerateAPIKey

lemma fk_naming_handlers:
  assumes "rq_OrgUnitID r = Some oid"
  shows "fk.keeps oid own (TaskHandler_CreateTask ex sc tbody r)"
    "fk.keeps oid own (WorkerHandler_Register ex ttl wbody r)"
    "fk.keeps oid own (APIKeyHandler_CreateAPIKey ex argon kbody r)" "fk.keeps oid own (APIKeyHandler_RotateAPIKey ex argon r)"
    "fk.keeps oid own (APIKeyHandler_RevokeAPIKey ex r)" "fk.keeps oid own (OutputHandler_Submit ex sbody r)"
    "fk.keeps oid own (OrgHandler_Create obody r)" "fk.keeps oid own (OrgHandler_UpdatePolicy ex pbody r)"
  unfolding TaskHandler_CreateTask_def WorkerHandler_Register_def APIKeyHandler_CreateAPIKey_def
    APIKeyHandler_RotateAPIKey_def APIKeyHandler_RevokeAPIKey_def OutputHandler_Submit_def OrgHandler_Create_def
    OrgHandler_UpdatePolicy_def assms option.case Let_def
  by (intro fk.keeps_intros fk_calls fk_writes; simp)+

subsection \<open>Statements that name a row\<close>

text \<open>
  A report, a heartbeat and a review name a row by its id and look up its organisation first. Ids are
  those of single rows.
\<close>

definition ids_single :: "db \<Rightarrow> bool" where
  "ids_single d \<longleftrightarrow> distinct (map t_ID (tasks d)) \<and> distinct (map wk_ID (workers d)) \<and> distinct (map o_ID (outputs d))"

lemma found_only:
  assumes "distinct (map key xs)" "find (\<lambda>x. key x = i) xs = Some y" "x \<in> set xs" "key x = i"
  shows "x = y"
  using assms find_SomeD [OF assms(2)] by (metis distinct_map inj_onD)

lemma fk_report:
  assumes "find (\<lambda>t. t_ID t = tid) (tasks (wdb w)) = Some t" "t_OrgUnitID t = oid" "ids_single (wdb w)"
  shows "foreign_kept oid own w (exec (UpdateTaskState tid st i) w)"
proof -
  have "t_OrgUnitID s = oid" if "s \<in> set (tasks (wdb w))" "t_ID s = tid" for s
    using found_only [OF _ assms(1) that] assms(2,3) by (simp add: ids_single_def)
  then show ?thesis
    by (auto simp: UpdateTaskState_def run_sql foreign_kept_def set_task_state_def intro!: filter_update_own)
qed

lemma fk_heartbeat:
  assumes "find (\<lambda>wk. wk_ID wk = i) (workers (wdb w)) = Some wk" "wk_OrgUnitID wk = oid" "ids_single (wdb w)"
  shows "foreign_kept oid own w (exec (UpdateWorkerHeartbeat i as) w)"
proof -
  have "wk_OrgUnitID x = oid" if "x \<in> set (workers (wdb w))" "wk_ID x = i" for x
    using found_only [OF _ assms(1) that] assms(2,3) by (simp add: ids_single_def)
  then show ?thesis
    by (auto simp: UpdateWorkerHeartbeat_def run_sql foreign_kept_def intro!: filter_update_own)
qed

lemma fk_review:
  assumes "find (\<lambda>p. o_ID p = pid) (outputs (wdb w)) = Some p" "o_TaskID p \<in> own" "ids_single (wdb w)"
  shows "foreign_kept oid own w (exec (UpdateOutputReview pid status reviewer) w)"
proof -
  have "o_TaskID x \<in> own" if "x \<in> set (outputs (wdb w))" "o_ID x = pid" for x
    using found_only [OF _ assms(1) that] assms(2,3) by (simp add: ids_single_def)
  then have "filter (\<lambda>p. o_TaskID p \<notin> own) (update_where (\<lambda>p. o_ID p = pid)
      (\<lambda>p. p\<lparr>o_ReviewStatus := status, o_ReviewerID := Some reviewer, o_ReviewedAt := Some now\<rparr>) (outputs (wdb w)))
    = filter (\<lambda>p. o_TaskID p \<notin> own) (outputs (wdb w))" for now
    by (intro filter_update_own) auto
  then show ?thesis
    by (simp add: UpdateOutputReview_def run_sql foreign_kept_def)
qed

text \<open>A statement after a lookup: the lookup changes no table, so what it found is still there.\<close>

lemma fk_query:
  assumes "\<And>e. foreign_kept oid own (next_fault w) (exec (g (Inl e)) (next_fault w))"
    and "\<And>x. f (wdb w) (wnow w) = Inr x \<Longrightarrow> foreign_kept oid own (next_fault w) (exec (g (Inr x)) (next_fault w))"
  shows "foreign_kept oid own w (exec (State_Monad.bind (sql_query ctx f) g) w)"
proof -
  have run: "exec (State_Monad.bind (sql_query ctx f) g) w =
      exec (g (if failing w then Inl (Driver ctx) else f (wdb w) (wnow w))) (next_fault w)"
    by (simp add: run_sql_query)
  show ?thesis
    unfolding run using assms by (cases "f (wdb w) (wnow w)") (auto intro: fk.R_trans [OF fk.R_next_fault])
qed

lemma fk_if:
  "(b \<Longrightarrow> foreign_kept oid own w (exec m w)) \<Longrightarrow> (\<not> b \<Longrightarrow> foreign_kept oid own w (exec n w)) \<Longrightarrow>
     foreign_kept oid own w (exec (if b then m else n) w)"
  by simp

lemma fk_then:
  assumes "foreign_kept oid own w (exec m w)" and "\<And>x. fk.keeps oid own (g x)"
  shows "foreign_kept oid own w (exec (State_Monad.bind m g) w)"
proof -
  obtain x v where run: "run_state m w = (x, v)" by fastforce
  with fk.R_trans [OF assms(1) fk.keepsD [OF assms(2), of _ x]] show ?thesis by simp
qed

lemma fk_TaskHandler_UpdateTaskStatus:
  assumes "rq_OrgUnitID r = Some oid" "ids_single (wdb w)"
  shows "foreign_kept oid own w (exec (TaskHandler_UpdateTaskStatus ex body r) w)"
proof (cases "\<exists>wid tid req u. rq_WorkerID r = Some (Some wid) \<and> uuid_Parse ex (URLParam r ''id'') = Some tid \<and> body = Inr req
    \<and> validateStateTransition (TaskState_of_string (ut_State req)) = Inr u")
  case False
  then have "exec (TaskHandler_UpdateTaskStatus ex body r) w = w"
    using assms(1) by (auto simp: TaskHandler_UpdateTaskStatus_def writeError_def writeJSON_def Let_def
        split: option.splits sum.splits)
  then show ?thesis by (simp add: fk.R_refl)
next
  case True
  then obtain wid tid req u where args: "rq_WorkerID r = Some (Some wid)" "uuid_Parse ex (URLParam r ''id'') = Some tid"
    "body = Inr req" "validateStateTransition (TaskState_of_string (ut_State req)) = Inr u" by blast
  show ?thesis
    unfolding TaskHandler_UpdateTaskStatus_def assms(1) args option.case sum.case Let_def GetTask_def
  proof (rule fk_query, unfold sum.case)
    fix t assume "(case find (\<lambda>t. t_ID t = tid) (tasks (wdb w)) of
        None \<Rightarrow> Inl (NotFound ''tasks: not found'' tid) | Some t \<Rightarrow> Inr t) = Inr t"
    then have "find (\<lambda>t. t_ID t = tid) (tasks (wdb (next_fault w))) = Some t" by (auto split: option.splits)
    note report = fk_report [OF this]
    show "foreign_kept oid own (next_fault w) (exec (if t_OrgUnitID t \<noteq> oid then writeError 403 ''access denied''
        else if t_AssignedWorkerID t \<noteq> Some wid then writeError 403 ''task not assigned to this worker''
        else State_Monad.bind (UpdateTaskState tid (TaskState_of_string (ut_State req)) (Some wid)) (\<lambda>updated. case updated of
            Inl err \<Rightarrow> writeError 500 ''failed to update task state''
          | Inr _ \<Rightarrow> writeJSON 200 (StateJSON (string_of_TaskState (TaskState_of_string (ut_State req)))))) (next_fault w))"
      using assms(2) by (intro fk_if fk_then report fk.keeps_intros fk.keeps_responses fk.keepsD [OF fk.keeps_responses(2)]) simp_all
  qed (rule fk.keepsD [OF fk.keeps_responses(2)])
qed

lemma fk_after:
  assumes "\<And>x v. wdb v = wdb w \<Longrightarrow> foreign_kept oid own v (exec (g x) v)"
    and "wdb (exec m w) = wdb w" and "fk.keeps oid own m"
  shows "foreign_kept oid own w (exec (State_Monad.bind m g) w)"
proof -
  obtain x v where run: "run_state m w = (x, v)" by fastforce
  with fk.keepsD [OF assms(3), of w] assms(1) [of v x] assms(2) show ?thesis by (auto intro: fk.R_trans)
qed

lemma SetWorkerHeartbeat_wdb: "wdb (exec (ignore_error (SetWorkerHeartbeat ex i ttl)) w) = wdb w"
  by (auto simp: ignore_error_def SetWorkerHeartbeat_def run_redis_cmd split: sum.splits prod.splits if_splits)

lemma fk_WorkerHandler_Heartbeat:
  assumes "rq_OrgUnitID r = Some oid" "ids_single (wdb w)"
  shows "foreign_kept oid own w (exec (WorkerHandler_Heartbeat ex ttl agents r) w)"
proof (cases "uuid_Parse ex (URLParam r ''id'')")
  case None
  then show ?thesis
    by (simp add: WorkerHandler_Heartbeat_def assms(1) fk.keepsD [OF fk.keeps_responses(2)])
next
  case (Some i)
  show ?thesis
    unfolding WorkerHandler_Heartbeat_def assms(1) Some option.case GetWorker_def
  proof (rule fk_query, unfold sum.case)
    fix wk assume "(case find (\<lambda>wk. wk_ID wk = i) (workers (wdb w)) of
        None \<Rightarrow> Inl (NotFound ''workers: not found'' i) | Some wk \<Rightarrow> Inr wk) = Inr wk"
    then have found: "find (\<lambda>wk. wk_ID wk = i) (workers (wdb w)) = Some wk" by (auto split: option.splits)
    let ?rest = "\<lambda>updated. case updated of
        Inl err \<Rightarrow> writeError 500 ''failed to update heartbeat''
      | Inr _ \<Rightarrow> State_Monad.bind (GetAssignedTaskForWorker i) (\<lambda>assigned. writeJSON 200 (HeartbeatJSON i ttl
          (case assigned of Inl err \<Rightarrow> None | Inr a \<Rightarrow> map_option (assigned_task ex) a)))"
    have beat: "foreign_kept oid own v (exec (State_Monad.bind (UpdateWorkerHeartbeat i as) ?rest) v)"
      if "wk_OrgUnitID wk = oid" "wdb v = wdb w" for as v
      using that assms(2) found by (intro fk_then fk_heartbeat fk.keeps_intros fk.keeps_responses fk.keeps_reads) simp_all
    show "foreign_kept oid own (next_fault w) (exec (if wk_OrgUnitID wk \<noteq> oid then writeError 403 ''access denied''
        else case check_agents (elems agents) of
          Some msg \<Rightarrow> writeError 400 msg
        | None \<Rightarrow> State_Monad.bind (ignore_error (SetWorkerHeartbeat ex i ttl)) (\<lambda>_.
            State_Monad.bind (UpdateWorkerHeartbeat i (case agents of None \<Rightarrow> wk_Agents wk | Some as \<Rightarrow> as)) ?rest)) (next_fault w))"
    proof (cases "wk_OrgUnitID wk = oid")
      case True
      have "foreign_kept oid own (next_fault w) (exec (State_Monad.bind (ignore_error (SetWorkerHeartbeat ex i ttl)) (\<lambda>_.
          State_Monad.bind (UpdateWorkerHeartbeat i (case agents of None \<Rightarrow> wk_Agents wk | Some as \<Rightarrow> as)) ?rest)) (next_fault w))"
      proof (rule fk_after)
        fix x :: unit and v :: world assume "wdb v = wdb (next_fault w)"
        then have "wdb v = wdb w" by simp
        then show "foreign_kept oid own v (exec (State_Monad.bind (UpdateWorkerHeartbeat i
            (case agents of None \<Rightarrow> wk_Agents wk | Some as \<Rightarrow> as)) ?rest) v)" by (rule beat [OF True])
      qed (intro SetWorkerHeartbeat_wdb fk.keeps_ignore_error fk.keeps_SetWorkerHeartbeat)+
      with True show ?thesis
        by (cases "check_agents (elems agents)") (simp_all add: fk.keepsD [OF fk.keeps_responses(2)] del: bind.simps)
    qed (simp add: fk.keepsD [OF fk.keeps_responses(2)])
  qed (rule fk.keepsD [OF fk.keeps_responses(2)])
qed

lemma fk_review_points: "fk.keeps oid own (review_points status i oid pid)"
  unfolding review_points_def by (intro fk.keeps_intros fk.keeps_ignore_error fk_brownie)

lemma fk_OutputHandler_Review:
  assumes "rq_OrgUnitID r = Some oid" "ids_single (wdb w)"
    and own: "\<And>t. t \<in> set (tasks (wdb w)) \<Longrightarrow> t_OrgUnitID t = oid \<Longrightarrow> t_ID t \<in> own"
  shows "foreign_kept oid own w (exec (OutputHandler_Review ex body r) w)"
proof (cases "\<exists>key pid req. rq_APIKeyID r = Some key \<and> key \<noteq> 0 \<and> uuid_Parse ex (URLParam r ''id'') = Some pid
    \<and> body = Inr req \<and> rv_ReviewStatus req \<in> set validStatuses")
  case False
  then have "exec (OutputHandler_Review ex body r) w = w"
    using assms(1) by (auto simp: OutputHandler_Review_def http_Error_def split: option.splits sum.splits)
  then show ?thesis by (simp add: fk.R_refl)
next
  case True
  then obtain key pid req where args: "rq_APIKeyID r = Some key" "key \<noteq> 0" "uuid_Parse ex (URLParam r ''id'') = Some pid"
    "body = Inr req" "rv_ReviewStatus req \<in> set validStatuses" by blast
  have key: "(rq_APIKeyID r = None \<or> rq_APIKeyID r = Some 0) = False" "(rv_ReviewStatus req \<notin> set validStatuses) = False"
    using args by auto
  note error = fk.keepsD [OF fk.keeps_responses(3)]
  show ?thesis
    unfolding OutputHandler_Review_def assms(1) key args(3,4) option.case sum.case if_False GetOutput_def
  proof (rule fk_query, unfold sum.case)
    fix p assume "(case find (\<lambda>p. o_ID p = pid) (outputs (wdb w)) of
        None \<Rightarrow> Inl (NotFound ''outputs: not found'' pid) | Some p \<Rightarrow> Inr p) = Inr p"
    then have p: "find (\<lambda>p. o_ID p = pid) (outputs (wdb w)) = Some p" by (auto split: option.splits)
    show "foreign_kept oid own (next_fault w) (exec (State_Monad.bind (GetTask (o_TaskID p)) (\<lambda>task. case task of
        Inl err \<Rightarrow> http_Error (error_text ''internal error'') 500
      | Inr t \<Rightarrow> if t_OrgUnitID t \<noteq> oid then http_Error (error_text ''access denied'') 403
          else State_Monad.bind (UpdateOutputReview pid (ReviewStatus_of_string (rv_ReviewStatus req)) (the (rq_APIKeyID r)))
            (\<lambda>updated. case updated of
              Inl err \<Rightarrow> http_Error (error_text ''internal error'') 500
            | Inr _ \<Rightarrow> State_Monad.bind (review_points (rv_ReviewStatus req) (o_WorkerID p) oid pid) (\<lambda>_. no_content)))) (next_fault w))"
      unfolding GetTask_def
    proof (rule fk_query, unfold sum.case)
      fix t assume "(case find (\<lambda>t. t_ID t = o_TaskID p) (tasks (wdb (next_fault w))) of
          None \<Rightarrow> Inl (NotFound ''tasks: not found'' (o_TaskID p)) | Some t \<Rightarrow> Inr t) = Inr t"
      then have t: "find (\<lambda>t. t_ID t = o_TaskID p) (tasks (wdb w)) = Some t" by (auto split: option.splits)
      have mine: "o_TaskID p \<in> own" if "t_OrgUnitID t = oid"
        using find_SomeD [OF t] own [of t] that by simp
      show "foreign_kept oid own (next_fault (next_fault w)) (exec (if t_OrgUnitID t \<noteq> oid
          then http_Error (error_text ''access denied'') 403
          else State_Monad.bind (UpdateOutputReview pid (ReviewStatus_of_string (rv_ReviewStatus req)) (the (rq_APIKeyID r)))
            (\<lambda>updated. case updated of
              Inl err \<Rightarrow> http_Error (error_text ''internal error'') 500
            | Inr _ \<Rightarrow> State_Monad.bind (review_points (rv_ReviewStatus req) (o_WorkerID p) oid pid) (\<lambda>_. no_content)))
          (next_fault (next_fault w)))"
        using p mine assms(2)
        by (intro fk_if error fk_then fk_review [where p = p] fk.keeps_intros fk.keeps_responses fk_review_points) simp_all
    qed (rule error)
  qed (rule error)
qed

subsection \<open>Requests\<close>

lemma fk_run_endpoint:
  assumes "rq_OrgUnitID r = Some oid" "ids_single (wdb w)"
    and "\<And>t. t \<in> set (tasks (wdb w)) \<Longrightarrow> t_OrgUnitID t = oid \<Longrightarrow> t_ID t \<in> own"
  shows "foreign_kept oid own w (exec (run_endpoint ex d dec ep r) w)"
proof -
  have naming: "foreign_kept oid own w (exec (run_endpoint ex d dec ep r) w)" if "fk.keeps oid own (run_endpoint ex d dec ep r)"
    using fk.keepsD [OF that] .
  show ?thesis
    using fk_TaskHandler_UpdateTaskStatus [OF assms(1,2)] fk_WorkerHandler_Heartbeat [OF assms(1,2)]
      fk_OutputHandler_Review [OF assms]
    by (cases ep) (auto simp: run_endpoint_def fk_naming_handlers [OF assms(1)] fk.keeps_task_handlers fk.keeps_worker_reads
        fk.keeps_org_reads fk.keeps_read_handlers intro: fk.keepsD)
qed

lemma fk_ScopeRequired:
  "foreign_kept oid own w (exec (nxt r) w) \<Longrightarrow> foreign_kept oid own w (exec (ScopeRequired scope nxt r) w)"
  by (auto simp: ScopeRequired_def intro: fk.keepsD [OF fk.keeps_responses(6)] split: option.split)

lemma fk_dispatch:
  assumes "rq_OrgUnitID r = Some oid" "ids_single (wdb w)"
    and "\<And>t. t \<in> set (tasks (wdb w)) \<Longrightarrow> t_OrgUnitID t = oid \<Longrightarrow> t_ID t \<in> own"
  shows "foreign_kept oid own w (exec (dispatch ex d dec segs r) w)"
  using fk_run_endpoint [OF assms] fk.keepsD [OF fk.keeps_responses(7)] fk.keepsD [OF fk.keeps_responses(8)]
  by (auto simp: dispatch_def run_route_def intro: fk_ScopeRequired split: option.split)

lemma fk_RateLimit:
  assumes "\<And>u. business_same w u \<Longrightarrow> foreign_kept oid own u (exec (nxt r) u)"
  shows "foreign_kept oid own w (exec (RateLimit ex rate nxt r) w)"
proof (cases "rq_OrgUnitID r")
  case None
  with assms [of w] show ?thesis by (simp add: RateLimit_def bs.R_refl)
next
  case (Some org)
  obtain c u where c: "run_state (RateLimitIncr (ratelimit_key ex org) Minute) w = (c, u)" by fastforce
  then have u: "business_same w u" using bs.keepsD [OF bs.keeps_RateLimitIncr, of w "ratelimit_key ex org" Minute] by simp
  have "foreign_kept oid own u (exec (add_headers hs (if b then ret resp else nxt r)) u)" for hs b resp
    unfolding add_headers_def using assms [OF u] by (intro fk_then fk_if fk.keeps_intros) (simp_all add: fk.R_refl)
  then have "foreign_kept oid own u (exec (RateLimit ex rate nxt r) w)"
    using assms [OF u] c Some by (cases c) (simp_all add: RateLimit_def)
  with business_foreign [OF u] show ?thesis by (rule fk.R_trans)
qed

lemma fk_Audit:
  "foreign_kept oid own w (exec (nxt r) w) \<Longrightarrow> foreign_kept oid own w (exec (Audit ex nxt r) w)"
  unfolding Audit_def Let_def
  by (intro fk_if fk_then fk.keeps_intros fk.keeps_uuid_New fk.keeps_time_Now fk.keeps_ignore_error fk.keeps_WriteAuditEvent)

text \<open>The organisation a request acts for: that of the key it presents.\<close>

lemma serve_foreign:
  assumes ids: "ids_single (wdb w)"
  shows "business_same w (exec (serve ex d dec r) w) \<or> (\<exists>k. presents ex w r k
    \<and> foreign_kept (k_OrgUnitID k) {t_ID t | t. t \<in> set (tasks (wdb w)) \<and> t_OrgUnitID t = k_OrgUnitID k}
        w (exec (serve ex d dec r) w))"
proof (cases "take 3 (Split CHR ''/'' (rq_Path r)) = [[], ''api'', ''v1'']")
  case False
  then have "bs.keeps (serve ex d dec r)"
    unfolding serve_def Let_def by (simp add: bs.keeps_responses bs.keeps_read_handlers)
  then show ?thesis by (blast intro: bs.keepsD)
next
  case True
  let ?segs = "drop 3 (Split CHR ''/'' (rq_Path r))"
  let ?r = "r\<lparr>rq_URLParams := route_params d (rq_Method r) ?segs\<rparr>"
  let ?chain = "Audit ex (RateLimit ex (rd_RatePerMin d) (dispatch ex d dec ?segs))"
  have run: "run_state (serve ex d dec r) w = run_state (Auth ex ?chain ?r) w"
    using True by (simp add: serve_def Let_def)
  from Auth_cases [of ex ?chain ?r w] show ?thesis
  proof cases
    case 1
    with run show ?thesis by simp
  next
    case (2 k u)
    let ?oid = "k_OrgUnitID k"
    let ?own = "{t_ID t | t. t \<in> set (tasks (wdb w)) \<and> t_OrgUnitID t = ?oid}"
    have at: "foreign_kept ?oid ?own u (exec (?chain (with_key k ?r)) u)"
    proof (intro fk_Audit fk_RateLimit fk_dispatch)
      fix v assume "business_same u v"
      with 2(2) have v: "business_same w v" by (rule bs.R_trans)
      with ids show "ids_single (wdb v)" by (simp add: business_same_def ids_single_def)
      show "t_ID t \<in> ?own" if "t \<in> set (tasks (wdb v))" "t_OrgUnitID t = ?oid" for t
        using that v by (auto simp: business_same_def)
    qed (simp add: with_key_def)
    have "presents ex w r k" using 2(1) by (simp add: presents_def bearer_token_def)
    with fk.R_trans [OF business_foreign [OF 2(2)] at] run 2(5) show ?thesis by auto
  qed
qed


text \<open>A second organisation beside the one whose worker reports.\<close>

definition shared_world :: world where
  "shared_world = stale_world\<lparr>wdb := (wdb stale_world)\<lparr>tasks := [running_task, sample_task\<lparr>t_ID := 9, t_OrgUnitID := 7\<rparr>]\<rparr>\<rparr>"


end
