(* ===== verification/Audit_Trail.thy ===== *)
theory Audit_Trail
  imports Samples Access
begin

section \<open>Changes are on record\<close>

text \<open>
  No handler writes to the audit log, and none moves the clock: what the middleware writes after the
  handler is one event, and it is the only one.
\<close>

definition audit_untouched :: "world \<Rightarrow> world \<Rightarrow> bool" where
  "audit_untouched w v \<longleftrightarrow> audit_log (wdb v) = audit_log (wdb w) \<and> wnow v = wnow w"

interpretation au: world_relation audit_untouched
  by unfold_locales (auto simp: audit_untouched_def)

interpretation au: handler_frame audit_untouched
  by unfold_locales
    (auto simp: row_simps audit_untouched_def simp del: ClaimNextTask_def RotateAPIKey_row_def
      intro!: au.keeps_sql au.keeps_claim_tx au.keeps_rotate_tx au.keeps_redis_cmd
      split: if_splits option.splits)

subsection \<open>Requests that read\<close>

lemma unaudited_endpoint_reads:
  assumes "ro \<in> set (routes d)" "ro_Method ro \<notin> set mutatingMethods"
  shows "bs.keeps (run_endpoint ex d dec (ro_Endpoint ro) r)"
proof -
  have "ro_Endpoint ro \<in> {Ep_ListTasks, Ep_GetTask, Ep_ListWorkers, Ep_GetWorker, Ep_Stream,
      Ep_Snapshot, Ep_ListAudit, Ep_Leaderboard, Ep_ListOrgs, Ep_GetOrg}"
    using assms by (auto simp: routes_def collection_def mk_route_def mutatingMethods_def split: if_splits)
  then show ?thesis
    by (auto simp: run_endpoint_def bs.keeps_task_handlers bs.keeps_worker_reads bs.keeps_read_handlers bs.keeps_org_reads)
qed

lemma unaudited_dispatch_reads:
  assumes "rq_Method r \<notin> set mutatingMethods"
  shows "bs.keeps (dispatch ex d dec segs r)"
proof (cases "find_route d (rq_Method r) segs")
  case None
  then show ?thesis by (simp add: dispatch_def bs.keeps_responses)
next
  case (Some ro)
  with find_SomeD [OF Some [unfolded find_route_def]] assms have "bs.keeps (run_endpoint ex d dec (ro_Endpoint ro) r)" for r
    by (intro unaudited_endpoint_reads) auto
  with Some show ?thesis
    by (auto simp: dispatch_def run_route_def intro!: bs.keeps_ScopeRequired split: option.split)
qed

subsection \<open>The event of a request\<close>

text \<open>\<open>ev\<close> is the event of a request that presented the key \<open>k\<close> and was answered with \<open>status\<close>.\<close>

definition records :: "ext \<Rightarrow> request \<Rightarrow> APIKey \<Rightarrow> nat \<Rightarrow> time \<Rightarrow> AuditEvent \<Rightarrow> bool" where
  "records ex r k status now ev \<longleftrightarrow> ev_OrgUnitID ev = k_OrgUnitID k
     \<and> ev_ActorType ev = ActorTypeAPIKey \<and> ev_ActorID ev = uuid_String ex (k_ID k)
     \<and> ev_Action ev = rq_Method r @ '' '' @ rq_Path r \<and> ev_IPAddress ev = realIP r
     \<and> ev_Details ev ''status'' = Some (JNum (of_nat status)) \<and> ev_OccurredAt ev = now"

lemma Audit_records:
  assumes "rq_Method r \<in> set mutatingMethods" "au.keeps (nxt (with_key k r))"
  shows "\<exists>u ev. audit_untouched w u \<and> business_same (exec (nxt (with_key k r)) w) u
    \<and> exec (Audit ex nxt (with_key k r)) w = exec (WriteAuditEvent ev) u
    \<and> records ex r k (rs_Status (result (Audit ex nxt (with_key k r)) w)) (wnow w) ev"
proof -
  obtain resp v where run: "run_state (nxt (with_key k r)) w = (resp, v)" by fastforce
  with au.keepsD [OF assms(2), of w] have v: "audit_untouched w v" by simp
  let ?u = "exec uuid_New v"
  have u: "audit_untouched v ?u" "business_same v ?u"
    by (simp_all add: run_uuid_New audit_untouched_def business_same_def)
  have req: "rq_Method (with_key k r) = rq_Method r" "rq_Path (with_key k r) = rq_Path r"
    "rq_OrgUnitID (with_key k r) = Some (k_OrgUnitID k)" "rq_APIKeyID (with_key k r) = Some (k_ID k)"
    "realIP (with_key k r) = realIP r"
    by (simp_all add: with_key_def realIP_def split: option.split)
  let ?ev = "\<lparr>ev_ID = result uuid_New v, ev_OrgUnitID = k_OrgUnitID k,
    ev_ActorType = ActorTypeAPIKey, ev_ActorID = uuid_String ex (k_ID k), ev_Action = rq_Method r @ '' '' @ rq_Path r,
    ev_ResourceType = fst (extractResource (with_key k r)), ev_ResourceID = snd (extractResource (with_key k r)),
    ev_Details = [''status'' \<mapsto> JNum (of_nat (rs_Status resp)), ''duration_ms'' \<mapsto> JNum 0,
      ''user_agent'' \<mapsto> JStr (rq_Header (with_key k r) ''User-Agent'')],
    ev_IPAddress = realIP r, ev_OccurredAt = wnow ?u\<rparr>"
  have ran: "exec (Audit ex nxt (with_key k r)) w = exec (WriteAuditEvent ?ev) ?u"
    "result (Audit ex nxt (with_key k r)) w = resp"
    using assms(1) run by (simp_all add: Audit_def req Let_def ignore_error_def run_uuid_New run_time_Now split: prod.split)
  moreover have "records ex r k (rs_Status resp) (wnow w) ?ev"
    using u(1) v by (simp add: records_def audit_untouched_def)
  ultimately show ?thesis using u au.R_trans [OF v u(1)] run by (intro exI conjI) auto
qed

text \<open>C5: Every change is on record. A request that changes an organisation, a worker, a task, a key, an
  output, the ledger or the queue ends with the statement that writes its event, with the organisation and the id of
  the key it presented, its method, path and address, the status of its answer and the instant; nothing
  else has been written to the log. The log has the event unless that one statement fails (the code does not
  care) or an event of the same id and instant is there. (The statement is the goroutine of the middleware, which
  the model runs right after the handler.)\<close>

theorem changes_are_audited:
  assumes "\<not> business_same w (exec (serve ex d dec r) w)"
  shows "\<exists>k u ev. presents ex w r k \<and> exec (serve ex d dec r) w = exec (WriteAuditEvent ev) u
    \<and> ev_OrgUnitID ev = k_OrgUnitID k \<and> ev_ActorType ev = ActorTypeAPIKey \<and> ev_ActorID ev = uuid_String ex (k_ID k)
    \<and> ev_Action ev = rq_Method r @ '' '' @ rq_Path r \<and> ev_IPAddress ev = realIP r
    \<and> ev_Details ev ''status'' = Some (JNum (of_nat (rs_Status (result (serve ex d dec r) w))))
    \<and> ev_OccurredAt ev = wnow w
    \<and> audit_log (wdb (exec (serve ex d dec r) w)) =
        (if failing u \<or> (\<exists>e \<in> set (audit_log (wdb w)). ev_ID e = ev_ID ev \<and> ev_OccurredAt e = wnow w)
         then audit_log (wdb w) else audit_log (wdb w) @ [ev])"
proof -
  let ?segs = "drop 3 (Split CHR ''/'' (rq_Path r))"
  let ?r = "r\<lparr>rq_URLParams := route_params d (rq_Method r) ?segs\<rparr>"
  let ?nxt = "RateLimit ex (rd_RatePerMin d) (dispatch ex d dec ?segs)"
  have api: "take 3 (Split CHR ''/'' (rq_Path r)) = [[], ''api'', ''v1'']"
  proof (rule ccontr)
    assume "\<not> ?thesis"
    then have "bs.keeps (serve ex d dec r)"
      unfolding serve_def Let_def by (simp add: bs.keeps_responses bs.keeps_read_handlers)
    with assms bs.keepsD show False by blast
  qed
  then have run: "run_state (serve ex d dec r) w = run_state (Auth ex (Audit ex ?nxt) ?r) w"
    by (simp add: serve_def Let_def)
  from Auth_cases [of ex "Audit ex ?nxt" ?r w] show ?thesis
  proof cases
    case 1
    with assms run show ?thesis by simp
  next
    case (2 k u0)
    have "rq_Method r \<in> set mutatingMethods"
    proof (rule ccontr)
      assume "rq_Method r \<notin> set mutatingMethods"
      then have "bs.keeps (Audit ex ?nxt (with_key k ?r))"
        by (intro bs.keeps_Audit bs.keeps_RateLimit unaudited_dispatch_reads) (simp add: with_key_def)
      from bs.R_trans [OF 2(2) bs.keepsD [OF this]] assms run 2(5) show False by simp
    qed
    then have changing: "rq_Method ?r \<in> set mutatingMethods" by simp
    have kept: "au.keeps (?nxt (with_key k ?r))" by (rule au.keeps_RateLimit) (rule au.keeps_dispatch)
    obtain u ev where u: "audit_untouched u0 u" "exec (Audit ex ?nxt (with_key k ?r)) u0 = exec (WriteAuditEvent ev) u"
      "records ex ?r k (rs_Status (result (Audit ex ?nxt (with_key k ?r)) u0)) (wnow u0) ev"
      using Audit_records [where r = ?r and nxt = ?nxt and k = k and ex = ex and w = u0, OF changing kept] by blast
    have log: "audit_log (wdb u) = audit_log (wdb w)" "wnow u = wnow w"
      using u(1) 2(4,6) by (simp_all add: audit_untouched_def)
    have served: "exec (serve ex d dec r) w = exec (WriteAuditEvent ev) u"
      "rs_Status (result (serve ex d dec r) w) = rs_Status (result (Audit ex ?nxt (with_key k ?r)) u0)"
      using run 2(5) u(2) by simp_all
    have "realIP ?r = realIP r" by (simp add: realIP_def split: option.split)
    then have ev: "records ex r k (rs_Status (result (serve ex d dec r) w)) (wnow w) ev"
      using u(3) 2(4) unfolding served(2) by (simp add: records_def)
    have "presents ex w r k" using 2(1) by (simp add: presents_def bearer_token_def)
    moreover have "audit_log (wdb (exec (WriteAuditEvent ev) u)) =
        (if failing u \<or> (\<exists>e \<in> set (audit_log (wdb w)). ev_ID e = ev_ID ev \<and> ev_OccurredAt e = wnow w)
         then audit_log (wdb w) else audit_log (wdb w) @ [ev])"
      using ev log by (auto simp: WriteAuditEvent_def run_sql records_def)
    ultimately show ?thesis
      using ev served(1) unfolding records_def by (intro exI [of _ k] exI [of _ u] exI [of _ ev]) auto
  qed
qed

theorem changes_are_audited_witness:
  "\<exists>u ev. exec (serve sample_ext sample_deps sample_decoders sample_request) stale_world = exec (WriteAuditEvent ev) u
    \<and> ev_OrgUnitID ev = 1 \<and> ev_Action ev = rq_Method sample_request @ '' '' @ rq_Path sample_request"
proof -
  let ?v = "exec (serve sample_ext sample_deps sample_decoders sample_request) stale_world"
  have "tasks (wdb ?v) \<noteq> tasks (wdb stale_world)"
  proof
    assume "tasks (wdb ?v) = tasks (wdb stale_world)"
    with sample_report have "map t_State (tasks (wdb stale_world)) = [TaskStateCompleted]" by simp
    then show False by (simp add: stale_world_def sample_defs)
  qed
  then have "\<not> business_same stale_world ?v" by (simp add: business_same_def)
  from changes_are_audited [OF this] obtain k u ev where "presents sample_ext stale_world sample_request k"
    "?v = exec (WriteAuditEvent ev) u" "ev_OrgUnitID ev = k_OrgUnitID k"
    "ev_Action ev = rq_Method sample_request @ '' '' @ rq_Path sample_request" by blast
  moreover from this(1) have "k_OrgUnitID k = 1" by (auto simp: presents_def stale_world_def sample_defs)
  ultimately show ?thesis by auto
qed

end
