(* ===== verification/Failed_Requests.thy ===== *)
theory Failed_Requests
  imports Responses Access Samples
begin

section \<open>Requests that fail\<close>

text \<open>
  A request that is answered with an error has done nothing: no handler writes before its last
  check, and a write that fails is the last thing a handler does. Only what the middleware books (the audit log, the use of the
  key, the counters) and the heartbeat key of a worker may have changed.
\<close>

subsection \<open>Effects without consequences unless they succeed\<close>

definition clean :: "response effect \<Rightarrow> bool" where
  "clean m \<longleftrightarrow> (\<forall>w. 400 \<le> rs_Status (result m w) \<longrightarrow> business_same w (exec m w))"

lemma cleanI: "(\<And>w. 400 \<le> rs_Status (result m w) \<Longrightarrow> business_same w (exec m w)) \<Longrightarrow> clean m"
  by (simp add: clean_def)

lemma cleanD: "clean m \<Longrightarrow> 400 \<le> rs_Status (result m w) \<Longrightarrow> business_same w (exec m w)"
  by (simp add: clean_def)

lemma clean_keeps: "bs.keeps m \<Longrightarrow> clean m"
  by (simp add: clean_def bs.keepsD)

lemma clean_bind:
  assumes "bs.keeps m" and "\<And>x. clean (f x)"
  shows "clean (State_Monad.bind m f)"
proof (rule cleanI)
  fix w assume failed: "400 \<le> rs_Status (result (State_Monad.bind m f) w)"
  obtain x v where run: "run_state m w = (x, v)" by fastforce
  have "business_same w v" using bs.keepsD [OF assms(1), of w] run by simp
  moreover have "business_same v (exec (f x) v)" using cleanD [OF assms(2)] failed run by simp
  ultimately show "business_same w (exec (State_Monad.bind m f) w)" using run by (auto intro: bs.R_trans)
qed

text \<open>A write is followed by an error when it failed and by a success when it did not.\<close>

definition all_or_nothing :: "'a fallible \<Rightarrow> bool" where
  "all_or_nothing m \<longleftrightarrow> (\<forall>w. case result m w of Inl e \<Rightarrow> business_same w (exec m w) | Inr x \<Rightarrow> True)"

definition succeeds :: "response effect \<Rightarrow> bool" where
  "succeeds m \<longleftrightarrow> yields (\<lambda>resp. rs_Status resp < 400) m"

lemma clean_write:
  assumes "all_or_nothing m" and "\<And>e. bs.keeps (f e)" and "\<And>x. succeeds (g x)"
  shows "clean (State_Monad.bind m (\<lambda>z. case z of Inl e \<Rightarrow> f e | Inr x \<Rightarrow> g x))"
proof (rule cleanI)
  fix w assume failed: "400 \<le> rs_Status (result (State_Monad.bind m (\<lambda>z. case z of Inl e \<Rightarrow> f e | Inr x \<Rightarrow> g x)) w)"
  obtain z v where run: "run_state m w = (z, v)" by fastforce
  show "business_same w (exec (State_Monad.bind m (\<lambda>z. case z of Inl e \<Rightarrow> f e | Inr x \<Rightarrow> g x)) w)"
  proof (cases z)
    case (Inl e)
    then have "business_same w v" using assms(1) [unfolded all_or_nothing_def, rule_format, of w] run by simp
    with Inl run show ?thesis by (auto intro: bs.R_trans bs.keepsD [OF assms(2)])
  next
    case (Inr x)
    with failed run yieldsD [OF assms(3) [unfolded succeeds_def], of x v] show ?thesis by simp
  qed
qed

lemma clean_if: "(b \<Longrightarrow> clean m) \<Longrightarrow> (\<not> b \<Longrightarrow> clean n) \<Longrightarrow> clean (if b then m else n)"
  by simp

lemma clean_case_sum: "(\<And>e. clean (f e)) \<Longrightarrow> (\<And>x. clean (g x)) \<Longrightarrow> clean (case z of Inl e \<Rightarrow> f e | Inr x \<Rightarrow> g x)"
  by (cases z) simp_all

lemma clean_case_option: "clean m \<Longrightarrow> (\<And>x. clean (g x)) \<Longrightarrow> clean (case z of None \<Rightarrow> m | Some x \<Rightarrow> g x)"
  by (cases z) simp_all

lemma clean_case_prod: "(\<And>x y. clean (f x y)) \<Longrightarrow> clean (case p of (x, y) \<Rightarrow> f x y)"
  by (cases p) simp

lemma all_or_nothing_sql: "all_or_nothing (sql ctx f)"
  using bs.R_next_fault by (auto simp: all_or_nothing_def run_sql split: sum.split prod.split)

lemma all_or_nothing_stores:
  "all_or_nothing (CreateTask t)" "all_or_nothing (UpdateTaskState tid st wid)" "all_or_nothing (RegisterWorker wk agents)"
  "all_or_nothing (UpdateWorkerHeartbeat i as)" "all_or_nothing (CreateAPIKey_row k scopes)"
  "all_or_nothing (RevokeAPIKey_row kid oid)" "all_or_nothing (CreateOutput p)"
  "all_or_nothing (UpdateOutputReview pid status reviewer)" "all_or_nothing (CreateOrg og)"
  "all_or_nothing (UpdateOrgPolicy oid policy)"
  by (simp_all add: store_defs all_or_nothing_sql)

lemma all_or_nothing_rotate: "all_or_nothing (RotateAPIKey_row kid oid hash prefix)"
  unfolding all_or_nothing_def RotateAPIKey_row_def Let_def
  by (auto simp: run_WithTx run_sql business_same_def next_fault_def split: sum.split option.split)

lemma succeeds_intros:
  "c < 400 \<Longrightarrow> succeeds (writeJSON c v)" "succeeds no_content" "(\<And>x. succeeds (f x)) \<Longrightarrow> succeeds (State_Monad.bind m f)"
  by (auto simp: succeeds_def writeJSON_def no_content_def intro: yields_ret yields_bind)

lemmas clean_writes = all_or_nothing_stores [THEN clean_write] all_or_nothing_rotate [THEN clean_write]

lemma bs_GenerateAPIKey: "bs.keeps (GenerateAPIKeyWithParams ex p)"
  unfolding GenerateAPIKeyWithParams_def hashArgon2id_def Let_def by (intro bs.keeps_intros bs.keeps_rand_Read)

lemmas clean_reads = bs.keeps_reads [THEN clean_bind] bs.effect_keeps [THEN clean_bind]
  bs.keeps_ignore_error [OF bs.keeps_SetWorkerHeartbeat, THEN clean_bind] bs_GenerateAPIKey [THEN clean_bind]

lemmas clean_intros = clean_if clean_case_option clean_case_prod clean_writes clean_reads clean_case_sum
  clean_keeps [OF bs.keeps_responses(1)] clean_keeps [OF bs.keeps_responses(2)] clean_keeps [OF bs.keeps_responses(3)]
  clean_keeps [OF bs.keeps_responses(4)] bs.keeps_responses succeeds_intros

subsection \<open>The handlers\<close>

lemma clean_task_handlers:
  "clean (TaskHandler_CreateTask ex sc tbody r)" "clean (TaskHandler_UpdateTaskStatus ex ubody r)"
  unfolding TaskHandler_CreateTask_def TaskHandler_UpdateTaskStatus_def Let_def
  by (intro clean_intros; simp)+

lemma clean_worker_handlers:
  "clean (WorkerHandler_Register ex ttl wbody r)" "clean (WorkerHandler_Heartbeat ex ttl agents r)"
  unfolding WorkerHandler_Register_def WorkerHandler_Heartbeat_def Let_def
  by (intro clean_intros; simp)+

lemma clean_key_handlers:
  "clean (APIKeyHandler_CreateAPIKey ex argon kbody r)" "clean (APIKeyHandler_RotateAPIKey ex argon r)"
  "clean (APIKeyHandler_RevokeAPIKey ex r)"
  unfolding APIKeyHandler_CreateAPIKey_def APIKeyHandler_RotateAPIKey_def APIKeyHandler_RevokeAPIKey_def
  by (intro clean_intros; simp)+

lemma clean_output_handlers:
  "clean (OutputHandler_Submit ex sbody r)" "clean (OutputHandler_Review ex rbody r)"
  unfolding OutputHandler_Submit_def OutputHandler_Review_def
  by (intro clean_intros; simp)+

lemma clean_org_handlers:
  "clean (OrgHandler_Create obody r)" "clean (OrgHandler_UpdatePolicy ex pbody r)"
  unfolding OrgHandler_Create_def OrgHandler_UpdatePolicy_def Let_def
  by (intro clean_intros; simp)+

lemma clean_run_endpoint: "clean (run_endpoint ex d dec ep r)"
  by (cases ep) (simp_all add: run_endpoint_def clean_task_handlers clean_worker_handlers clean_key_handlers
    clean_output_handlers clean_org_handlers bs.keeps_task_handlers bs.keeps_worker_reads bs.keeps_org_reads
    bs.keeps_read_handlers clean_keeps)

subsection \<open>Requests\<close>

lemma clean_ScopeRequired: "clean (nxt r) \<Longrightarrow> clean (ScopeRequired scope nxt r)"
  unfolding ScopeRequired_def by (intro clean_if clean_case_option clean_keeps [OF bs.keeps_responses(6)])

lemma clean_dispatch: "clean (dispatch ex d dec segs r)"
  by (auto simp: dispatch_def run_route_def clean_run_endpoint clean_keeps bs.keeps_responses
      intro!: clean_ScopeRequired split: option.split)

text \<open>What follows the handler only books its answer.\<close>

lemma clean_then:
  assumes "clean m" and "\<And>resp. bs.keeps (f resp)" and "\<And>resp. yields (\<lambda>x. rs_Status x = rs_Status resp) (f resp)"
  shows "clean (State_Monad.bind m f)"
proof (rule cleanI)
  fix w assume failed: "400 \<le> rs_Status (result (State_Monad.bind m f) w)"
  obtain resp v where run: "run_state m w = (resp, v)" by fastforce
  with failed yieldsD [OF assms(3), of resp v] have "400 \<le> rs_Status resp" by simp
  with cleanD [OF assms(1), of w] run have "business_same w v" by simp
  with bs.keepsD [OF assms(2), of v resp] run show "business_same w (exec (State_Monad.bind m f) w)"
    by (auto intro: bs.R_trans)
qed

lemma clean_Audit: "clean (nxt r) \<Longrightarrow> clean (Audit ex nxt r)"
  unfolding Audit_def Let_def
  by (intro clean_if clean_then bs.keeps_intros bs.keeps_calls bs.keeps_booking yields_bind yields_ret refl)

lemma clean_RateLimit: "clean (nxt r) \<Longrightarrow> clean (RateLimit ex rate nxt r)"
  unfolding RateLimit_def add_headers_def
  by (intro clean_case_option clean_bind [OF bs.keeps_RateLimitIncr] clean_case_sum clean_then clean_if
      clean_keeps [OF bs.keeps_ret] bs.keeps_ret yields_ret) simp_all

lemma clean_Auth: "(\<And>k. clean (nxt (with_key k r))) \<Longrightarrow> clean (Auth ex nxt r)"
  unfolding Auth_def Let_def
  by (intro clean_case_sum clean_bind [OF bs.keeps_reads(8)] clean_bind [OF bs.keeps_writeAuthAuditEvent] clean_if
      clean_bind [OF bs.keeps_ignore_error [OF bs.keeps_UpdateAPIKeyLastUsed]]
      clean_keeps [OF bs.keeps_responses(5)])

text \<open>C6: A request that is answered with an error has no effect: whatever was asked for and whatever failed,
  when the status is 400 or above no organisation, worker, task, key (but for the instant of its last
  use), output, ledger entry or queue entry has changed.\<close>

theorem errors_have_no_effect:
  assumes "400 \<le> rs_Status (result (serve ex d dec r) w)"
  shows "business_same w (exec (serve ex d dec r) w)"
proof -
  have "clean (serve ex d dec r)"
    unfolding serve_def Let_def
    by (intro clean_if clean_Auth clean_Audit clean_RateLimit clean_dispatch clean_keeps bs.keeps_responses bs.keeps_read_handlers)
  from this assms show ?thesis by (rule cleanD)
qed

theorem errors_have_no_effect_witness:
  "tasks (wdb (exec (serve sample_ext sample_deps sample_decoders (sample_request\<lparr>rq_Header := (\<lambda>_. [])\<rparr>)) stale_world))
     = [running_task]"
proof -
  let ?r = "sample_request\<lparr>rq_Header := (\<lambda>_. [])\<rparr>"
  have path: "take 3 (Split CHR ''/'' (rq_Path sample_request)) = [[], ''api'', ''v1'']" by code_simp
  have "rs_Status (result (serve sample_ext sample_deps sample_decoders ?r) stale_world) = 401"
    by (simp add: serve_def Let_def path Auth_def bearer_token_def writeUnauthorized_def)
  then have "400 \<le> rs_Status (result (serve sample_ext sample_deps sample_decoders ?r) stale_world)" by simp
  from errors_have_no_effect [OF this] show ?thesis by (simp add: business_same_def stale_world_def)
qed

end
