(* ===== verification/Migrations.thy ===== *)
theory Migrations
  imports Go_Path Domain
begin

section \<open>Schema migrations\<close>

text \<open>
  \<^verbatim>\<open>control-plane/cmd/migrate/main.go\<close>: the files of a directory are applied in the order of their
  names, each in a transaction that also records its name. The contents of the database beside the
  table of names are a value of any type; what a script does to them is a parameter. A statement may
  fail, and one that commits may fail after it took effect (the reply is lost); reading the names
  may stop early, since the loop over the rows does not ask for their error. One migrator runs at a
  time.
\<close>

record 'd migrator =
  mg_tracking :: "string list option"
  mg_data :: 'd
  mg_faults :: "(string \<times> bool) option list"
  mg_cuts :: "nat option list"

text \<open>A file has its content; \<^verbatim>\<open>None\<close> is a directory. \<^verbatim>\<open>os.ReadDir\<close> gives distinct names.\<close>

type_synonym dir_entries = "(string \<times> string option) list"

definition content_of :: "dir_entries \<Rightarrow> string \<Rightarrow> string" where
  "content_of entries f = (case map_of entries f of Some (Some s) \<Rightarrow> s | _ \<Rightarrow> [])"

definition sql_files :: "dir_entries \<Rightarrow> string list" where
  "sql_files entries = sort (map fst (filter (\<lambda>(f, c). c \<noteq> None \<and> HasSuffix f ''.sql'') entries))"

subsection \<open>Statements\<close>

definition next_fault :: "('d migrator, (string \<times> bool) option) state" where
  "next_fault = State (\<lambda>m. (case mg_faults m of [] \<Rightarrow> (None, m) | f # fs \<Rightarrow> (f, m\<lparr>mg_faults := fs\<rparr>)))"

definition next_cut :: "('d migrator, nat option) state" where
  "next_cut = State (\<lambda>m. (case mg_cuts m of [] \<Rightarrow> (None, m) | c # cs \<Rightarrow> (c, m\<lparr>mg_cuts := cs\<rparr>)))"

text \<open>A call whose failure ends the run with a wrapped error.\<close>

definition stmt :: "string \<Rightarrow> ('d migrator, string + 'a) state \<Rightarrow> ('d migrator, string + 'a) state" where
  "stmt what k = do {
     e \<leftarrow> next_fault;
     case e of Some (msg, _) \<Rightarrow> ret (Inl (what @ '': '' @ msg)) | None \<Rightarrow> k
   }"

text \<open>A call that changes the database; it may have done so although it fails.\<close>

definition effect_stmt :: "string \<Rightarrow> ('d migrator \<Rightarrow> 'd migrator) \<Rightarrow> ('d migrator, string + 'a) state
    \<Rightarrow> ('d migrator, string + 'a) state" where
  "effect_stmt what f k = do {
     e \<leftarrow> next_fault;
     case e of
       Some (msg, done) \<Rightarrow> do { (if done then modify f else ret ()); ret (Inl (what @ '': '' @ msg)) }
     | None \<Rightarrow> do { modify f; k }
   }"

subsection \<open>Running the migrations\<close>

text \<open>One file: the script and the row with its name are one transaction.\<close>

definition apply_migration :: "(string \<Rightarrow> 'd \<Rightarrow> string + 'd) \<Rightarrow> string \<Rightarrow> string \<Rightarrow> ('d migrator, string + unit) state" where
  "apply_migration run_sql f content =
     stmt (''begin tx for '' @ f) (stmt (''execute '' @ f) (do {
       d \<leftarrow> gets mg_data;
       case run_sql content d of
         Inl e \<Rightarrow> ret (Inl (''execute '' @ f @ '': '' @ e))
       | Inr d' \<Rightarrow> stmt (''record migration '' @ f) (do {
           tracking \<leftarrow> gets mg_tracking;
           case tracking of
             None \<Rightarrow> ret (Inl (''record migration '' @ f @ '': relation does not exist''))
           | Some names \<Rightarrow>
               if f \<in> set names
               then ret (Inl (''record migration '' @ f @ '': duplicate key value violates unique constraint''))
               else effect_stmt (''commit '' @ f)
                 (\<lambda>m. m\<lparr>mg_data := d', mg_tracking := Some (names @ [f])\<rparr>) (ret (Inr ()))
         })
     }))"

primrec apply_pending :: "(string \<Rightarrow> 'd \<Rightarrow> string + 'd) \<Rightarrow> dir_entries \<Rightarrow> string list \<Rightarrow> string list
    \<Rightarrow> ('d migrator, string + unit) state" where
  "apply_pending run_sql entries applied [] = ret (Inr ())"
| "apply_pending run_sql entries applied (f # fs) =
     (if f \<in> set applied then apply_pending run_sql entries applied fs
      else stmt (''read '' @ f) (do {
        r \<leftarrow> apply_migration run_sql f (content_of entries f);
        case r of Inl e \<Rightarrow> ret (Inl e) | Inr _ \<Rightarrow> apply_pending run_sql entries applied fs
      }))"

definition create_tracking :: "'d migrator \<Rightarrow> 'd migrator" where
  "create_tracking m = (case mg_tracking m of None \<Rightarrow> m\<lparr>mg_tracking := Some []\<rparr> | Some _ \<Rightarrow> m)"

definition runMigrations :: "(string \<Rightarrow> 'd \<Rightarrow> string + 'd) \<Rightarrow> string \<Rightarrow> dir_entries \<Rightarrow> ('d migrator, string + unit) state" where
  "runMigrations run_sql dir entries =
     effect_stmt ''create schema_migrations'' create_tracking
     (stmt ''query applied migrations'' (do {
        names \<leftarrow> gets (\<lambda>m. case mg_tracking m of None \<Rightarrow> [] | Some ns \<Rightarrow> ns);
        cut \<leftarrow> next_cut;
        let applied = (case cut of None \<Rightarrow> names | Some k \<Rightarrow> take k names);
        stmt ''scan migration filename'' (stmt (''read migrations dir '' @ Quote dir)
          (apply_pending run_sql entries applied (sql_files entries)))
      }))"

text \<open>
  The program: it needs the address of the database, takes the directory from the environment or the
  default, and ends with a fatal log entry at the first failure. Opening the pool and the ping fail as
  given; \<open>dirs\<close> are the directories of the host.
\<close>

definition migrate_main :: "(string \<Rightarrow> 'd \<Rightarrow> string + 'd) \<Rightarrow> (string \<Rightarrow> string) \<Rightarrow> bool \<Rightarrow> bool
    \<Rightarrow> (string \<Rightarrow> dir_entries) \<Rightarrow> ('d migrator, string + unit) state" where
  "migrate_main run_sql env pool_fails ping_fails dirs =
     (if env ''GRID_DATABASE_DSN'' = []
      then ret (Inl ''GRID_DATABASE_DSN environment variable is required'')
      else
        let migrationsDir = (if env ''MIGRATIONS_DIR'' = [] then ''migrations'' else env ''MIGRATIONS_DIR'') in
        if pool_fails then ret (Inl ''failed to connect to database'')
        else if ping_fails then ret (Inl ''database ping failed'')
        else do {
          r \<leftarrow> runMigrations run_sql migrationsDir (dirs migrationsDir);
          case r of Inl e \<Rightarrow> ret (Inl ''migration failed'') | Inr _ \<Rightarrow> ret (Inr ())
        })"

lemma migrate_main_runs:
  "exec (migrate_main run_sql env pool_fails ping_fails dirs) m =
     (if env ''GRID_DATABASE_DSN'' = [] \<or> pool_fails \<or> ping_fails then m
      else let dir = (if env ''MIGRATIONS_DIR'' = [] then ''migrations'' else env ''MIGRATIONS_DIR'')
        in exec (runMigrations run_sql dir (dirs dir)) m)"
  by (simp add: migrate_main_def Let_def split: sum.split prod.split)

subsection \<open>What a run leaves behind\<close>

text \<open>The scripts of a list of files, executed in turn.\<close>

primrec replay :: "(string \<Rightarrow> 'd \<Rightarrow> string + 'd) \<Rightarrow> string list \<Rightarrow> 'd \<Rightarrow> string + 'd" where
  "replay run_sql [] d = Inr d"
| "replay run_sql (s # ss) d = (case run_sql s d of Inl e \<Rightarrow> Inl e | Inr d' \<Rightarrow> replay run_sql ss d')"

lemma replay_snoc:
  "replay run_sql (ss @ [s]) d = (case replay run_sql ss d of Inl e \<Rightarrow> Inl e | Inr d' \<Rightarrow> run_sql s d')"
  by (induction ss arbitrary: d) (auto split: sum.splits)

text \<open>The invariant: the recorded names are the first files, and their scripts made the data.\<close>

definition applied_upto :: "(string \<Rightarrow> 'd \<Rightarrow> string + 'd) \<Rightarrow> dir_entries \<Rightarrow> 'd \<Rightarrow> nat \<Rightarrow> 'd migrator \<Rightarrow> bool" where
  "applied_upto run_sql entries d0 k m \<longleftrightarrow> k \<le> length (sql_files entries)
     \<and> mg_tracking m = Some (take k (sql_files entries))
     \<and> replay run_sql (map (content_of entries) (take k (sql_files entries))) d0 = Inr (mg_data m)"

definition migrated :: "(string \<Rightarrow> 'd \<Rightarrow> string + 'd) \<Rightarrow> dir_entries \<Rightarrow> 'd \<Rightarrow> 'd migrator \<Rightarrow> bool" where
  "migrated run_sql entries d0 m \<longleftrightarrow>
     (mg_tracking m = None \<and> mg_data m = d0) \<or> (\<exists>k. applied_upto run_sql entries d0 k m)"

lemma distinct_sql_files: "distinct (map fst entries) \<Longrightarrow> distinct (sql_files entries)"
  by (simp add: sql_files_def distinct_map_filter)

lemma applied_upto_cong:
  "mg_tracking m' = mg_tracking m \<Longrightarrow> mg_data m' = mg_data m \<Longrightarrow>
     applied_upto run_sql entries d0 k m' = applied_upto run_sql entries d0 k m"
  by (simp add: applied_upto_def)

lemma run_next_fault:
  "run_state next_fault m = (case mg_faults m of [] \<Rightarrow> None | f # _ \<Rightarrow> f, m\<lparr>mg_faults := tl (mg_faults m)\<rparr>)"
  by (cases "mg_faults m") (simp_all add: next_fault_def)

lemma run_next_cut:
  "run_state next_cut m = (case mg_cuts m of [] \<Rightarrow> None | c # _ \<Rightarrow> c, m\<lparr>mg_cuts := tl (mg_cuts m)\<rparr>)"
  by (cases "mg_cuts m") (simp_all add: next_cut_def)

text \<open>A statement either fails and changes no data, or goes on with the same data.\<close>

lemma stmt_cases:
  obtains (fail) e where "run_state (stmt what k) m = (Inl e, m\<lparr>mg_faults := tl (mg_faults m)\<rparr>)"
  | (ok) "run_state (stmt what k) m = run_state k (m\<lparr>mg_faults := tl (mg_faults m)\<rparr>)"
proof (cases "case mg_faults m of [] \<Rightarrow> None | f # _ \<Rightarrow> f")
  case None
  then show ?thesis by (intro ok) (simp add: stmt_def run_next_fault)
next
  case (Some p)
  then show ?thesis by (cases p) (simp add: stmt_def run_next_fault fail)
qed

lemma effect_stmt_cases:
  obtains (fail) e where "run_state (effect_stmt what f k) m = (Inl e, m\<lparr>mg_faults := tl (mg_faults m)\<rparr>)"
  | (late) e where "run_state (effect_stmt what f k) m = (Inl e, f (m\<lparr>mg_faults := tl (mg_faults m)\<rparr>))"
  | (ok) "run_state (effect_stmt what f k) m = run_state k (f (m\<lparr>mg_faults := tl (mg_faults m)\<rparr>))"
proof (cases "case mg_faults m of [] \<Rightarrow> None | f # _ \<Rightarrow> f")
  case None
  then show ?thesis by (intro ok) (simp add: effect_stmt_def run_next_fault)
next
  case (Some p)
  then show ?thesis by (cases p; cases "snd p") (simp_all add: effect_stmt_def run_next_fault fail late)
qed

lemma take_Suc_files:
  "i < length fs \<Longrightarrow> take (Suc i) fs = take i fs @ [fs ! i]"
  by (rule take_Suc_conv_app_nth)

lemma nth_in_take:
  assumes "distinct fs" "i < length fs"
  shows "fs ! i \<in> set (take k fs) \<longleftrightarrow> i < k"
proof
  assume "fs ! i \<in> set (take k fs)"
  then obtain j where "j < k" "j < length fs" "fs ! j = fs ! i"
    by (auto simp: in_set_conv_nth)
  with assms show "i < k" by (simp add: nth_eq_iff_index_eq)
qed (use assms in \<open>auto simp: in_set_conv_nth intro!: exI [of _ i]\<close>)

lemma apply_migration_keeps:
  assumes "applied_upto run_sql entries d0 k m" "distinct (map fst entries)"
    and "i \<le> k" "i < length (sql_files entries)"
    and "run_state (apply_migration run_sql (sql_files entries ! i) (content_of entries (sql_files entries ! i))) m = (r, m')"
  shows "\<exists>k' \<ge> k. applied_upto run_sql entries d0 k' m' \<and> (r = Inr () \<longrightarrow> Suc i \<le> k')"
proof -
  let ?fs = "sql_files entries" and ?f = "sql_files entries ! i"
  have keep: "applied_upto run_sql entries d0 k x" if "mg_tracking x = mg_tracking m" "mg_data x = mg_data m" for x
    using assms(1) applied_upto_cong [OF that] by simp
  show ?thesis
  proof (cases "run_sql (content_of entries ?f) (mg_data m)")
    case (Inl e)
    then have "isl r \<and> mg_tracking m' = mg_tracking m \<and> mg_data m' = mg_data m"
      using assms(5) by (auto simp: apply_migration_def stmt_def run_next_fault split: option.splits list.splits)
    with keep [of m'] show ?thesis by auto
  next
    case (Inr d')
    show ?thesis
    proof (cases "i < k")
      case True
      then have "?f \<in> set (take k ?fs)"
        using nth_in_take [OF distinct_sql_files [OF assms(2)] assms(4)] by simp
      then have "isl r \<and> mg_tracking m' = mg_tracking m \<and> mg_data m' = mg_data m"
        using assms(5) Inr assms(1)
        by (auto simp: apply_migration_def stmt_def run_next_fault applied_upto_def split: option.splits list.splits)
      with keep [of m'] show ?thesis by auto
    next
      case False
      with assms(3) have ik: "i = k" by simp
      have tr: "mg_tracking m = Some (take k ?fs)" using assms(1) by (simp add: applied_upto_def)
      have new: "?f \<notin> set (take k ?fs)"
        using nth_in_take [OF distinct_sql_files [OF assms(2)] assms(4), of k] ik by simp
      have forward: "applied_upto run_sql entries d0 (Suc k) x"
        if "mg_tracking x = Some (take k ?fs @ [?f])" "mg_data x = d'" for x
        using that assms(1,4) Inr ik by (simp add: applied_upto_def take_Suc_files replay_snoc)
      have "(isl r \<and> mg_tracking m' = mg_tracking m \<and> mg_data m' = mg_data m)
          \<or> (mg_tracking m' = Some (take k ?fs @ [?f]) \<and> mg_data m' = d')"
        using assms(5) Inr tr new
        by (auto simp: apply_migration_def stmt_def effect_stmt_def run_next_fault split: option.splits list.splits if_splits)
      then show ?thesis
      proof
        assume "isl r \<and> mg_tracking m' = mg_tracking m \<and> mg_data m' = mg_data m"
        with keep [of m'] show ?thesis by auto
      next
        assume "mg_tracking m' = Some (take k ?fs @ [?f]) \<and> mg_data m' = d'"
        with forward [of m'] ik show ?thesis by (intro exI [of _ "Suc k"]) simp
      qed
    qed
  qed
qed

lemma apply_pending_keeps:
  assumes "distinct (map fst entries)" "applied_upto run_sql entries d0 k m" "i \<le> k"
    and "set applied \<subseteq> set (take k (sql_files entries))"
    and "run_state (apply_pending run_sql entries applied (drop i (sql_files entries))) m = (r, m')"
  shows "\<exists>k' \<ge> k. applied_upto run_sql entries d0 k' m' \<and> (r = Inr () \<longrightarrow> length (sql_files entries) \<le> k')"
  using assms(2-)
proof (induction "length (sql_files entries) - i" arbitrary: i k m)
  case 0
  then show ?case by auto
next
  case (Suc n)
  let ?fs = "sql_files entries"
  have i: "i < length ?fs" using Suc.hyps(2) by simp
  then have d: "drop i ?fs = ?fs ! i # drop (Suc i) ?fs" by (rule Cons_nth_drop_Suc [symmetric])
  have n: "n = length ?fs - Suc i" using Suc.hyps(2) by simp
  show ?case
  proof (cases "?fs ! i \<in> set applied")
    case True
    with Suc.prems(3) have "?fs ! i \<in> set (take k ?fs)" by blast
    then have "Suc i \<le> k"
      using nth_in_take [OF distinct_sql_files [OF assms(1)] i] by simp
    with Suc.hyps(1) [OF n Suc.prems(1) _ Suc.prems(3)] True Suc.prems(4) d show ?thesis by simp
  next
    case False
    let ?k = "apply_migration run_sql (?fs ! i) (content_of entries (?fs ! i))"
    let ?rest = "do { r \<leftarrow> ?k; case r of Inl e \<Rightarrow> ret (Inl e)
      | Inr _ \<Rightarrow> apply_pending run_sql entries applied (drop (Suc i) ?fs) }"
    have run: "run_state (stmt (''read '' @ ?fs ! i) ?rest) m = (r, m')"
      using Suc.prems(4) False d by simp
    show ?thesis
    proof (cases rule: stmt_cases [of "''read '' @ ?fs ! i" ?rest m])
      case (fail e)
      with run Suc.prems(1) show ?thesis by (auto simp: applied_upto_def)
    next
      case ok
      let ?m = "m\<lparr>mg_faults := tl (mg_faults m)\<rparr>"
      obtain r1 m1 where r1: "run_state ?k ?m = (r1, m1)" by fastforce
      have "applied_upto run_sql entries d0 k ?m"
        using Suc.prems(1) by (simp add: applied_upto_def)
      from apply_migration_keeps [OF this assms(1) Suc.prems(2) i r1]
      obtain k1 where k1: "k \<le> k1" "applied_upto run_sql entries d0 k1 m1" "r1 = Inr () \<longrightarrow> Suc i \<le> k1" by blast
      show ?thesis
      proof (cases r1)
        case (Inl e)
        with run ok r1 k1 show ?thesis by auto
      next
        case (Inr u)
        have "set (take k ?fs) \<subseteq> set (take k1 ?fs)" using k1(1) by (rule set_take_subset_set_take)
        with Suc.prems(3) have "set applied \<subseteq> set (take k1 ?fs)" by blast
        moreover have "run_state (apply_pending run_sql entries applied (drop (Suc i) ?fs)) m1 = (r, m')"
          using run ok r1 Inr by simp
        ultimately have "\<exists>k' \<ge> k1. applied_upto run_sql entries d0 k' m' \<and> (r = Inr () \<longrightarrow> length ?fs \<le> k')"
          using Suc.hyps(1) [OF n k1(2)] k1(3) Inr by simp
        with k1(1) show ?thesis by (meson le_trans)
      qed
    qed
  qed
qed

lemma runMigrations_keeps:
  assumes "distinct (map fst entries)" "migrated run_sql entries d0 m"
    and "run_state (runMigrations run_sql dir entries) m = (r, m')"
  shows "migrated run_sql entries d0 m' \<and> (r = Inr () \<longrightarrow> mg_tracking m' = Some (sql_files entries))"
proof -
  let ?pop = "\<lambda>m. m\<lparr>mg_faults := tl (mg_faults m)\<rparr>"
  let ?pending = "\<lambda>applied. apply_pending run_sql entries applied (sql_files entries)"
  let ?scan = "\<lambda>applied. stmt ''scan migration filename'' (stmt (''read migrations dir '' @ Quote dir) (?pending applied))"
  let ?read = "do {
        names \<leftarrow> gets (\<lambda>m. case mg_tracking m of None \<Rightarrow> [] | Some ns \<Rightarrow> ns);
        cut \<leftarrow> next_cut;
        ?scan (case cut of None \<Rightarrow> names | Some k \<Rightarrow> take k names)
      }"
  have run: "run_state (effect_stmt ''create schema_migrations'' create_tracking (stmt ''query applied migrations'' ?read)) m = (r, m')"
    using assms(3) by (simp add: runMigrations_def Let_def)
  have pop: "migrated run_sql entries d0 (?pop m)"
    using assms(2) by (simp add: migrated_def applied_upto_def)
  have mono: "applied_upto run_sql entries d0 k (?pop x)" if "applied_upto run_sql entries d0 k x" for k x
    using that by (simp add: applied_upto_def)
  obtain k where k: "applied_upto run_sql entries d0 k (create_tracking (?pop m))"
  proof (cases "mg_tracking m")
    case None
    with pop have "applied_upto run_sql entries d0 0 (create_tracking (?pop m))"
      by (auto simp: migrated_def applied_upto_def create_tracking_def)
    then show ?thesis by (rule that)
  next
    case (Some ns)
    with pop that show ?thesis by (auto simp: migrated_def create_tracking_def applied_upto_def)
  qed
  have fin: "migrated run_sql entries d0 m' \<and> (r = Inr () \<longrightarrow> mg_tracking m' = Some (sql_files entries))"
    if "applied_upto run_sql entries d0 k x" "set applied \<subseteq> set (take k (sql_files entries))"
      "run_state (?pending applied) x = (r, m')" for applied x
  proof -
    from apply_pending_keeps [OF assms(1) that(1) _ that(2), of 0 r m'] that(3)
    show ?thesis by (auto simp: migrated_def applied_upto_def)
  qed
  show ?thesis
  proof (cases rule: effect_stmt_cases [of "''create schema_migrations''" create_tracking "stmt ''query applied migrations'' ?read" m])
    case (fail e)
    with run pop show ?thesis by auto
  next
    case (late e)
    with run k show ?thesis by (auto simp: migrated_def)
  next
    case ok
    let ?m1 = "create_tracking (?pop m)"
    show ?thesis
    proof (cases rule: stmt_cases [of "''query applied migrations''" ?read ?m1])
      case (fail e)
      with run ok mono [OF k] show ?thesis by (auto simp: migrated_def)
    next
      case ok2: ok
      obtain m2 applied where m2: "run_state ?read (?pop ?m1) = run_state (?scan applied) m2"
        and m2k: "applied_upto run_sql entries d0 k m2"
        and ap: "set applied \<subseteq> set (take k (sql_files entries))"
      proof (rule that)
        let ?c = "case mg_cuts ?m1 of [] \<Rightarrow> None | c # _ \<Rightarrow> c" and ?n = "take k (sql_files entries)"
        have tr: "mg_tracking ?m1 = Some ?n" using k by (simp add: applied_upto_def)
        show "run_state ?read (?pop ?m1) = run_state (?scan (case ?c of None \<Rightarrow> ?n | Some j \<Rightarrow> take j ?n))
            ((?pop ?m1)\<lparr>mg_cuts := tl (mg_cuts ?m1)\<rparr>)"
          by (simp add: run_next_cut tr)
        show "applied_upto run_sql entries d0 k ((?pop ?m1)\<lparr>mg_cuts := tl (mg_cuts ?m1)\<rparr>)"
          using mono [OF k] by (simp add: applied_upto_def)
        show "set (case ?c of None \<Rightarrow> ?n | Some j \<Rightarrow> take j ?n) \<subseteq> set ?n"
          using set_take_subset [of _ "take k (sql_files entries)"]
          by (auto split: option.splits simp del: take_take)
      qed
      show ?thesis
      proof (cases rule: stmt_cases [of "''scan migration filename''" "stmt (''read migrations dir '' @ Quote dir) (?pending applied)" m2])
        case (fail e)
        with run ok ok2 m2 mono [OF m2k] show ?thesis by (auto simp: migrated_def)
      next
        case ok3: ok
        show ?thesis
        proof (cases rule: stmt_cases [of "''read migrations dir '' @ Quote dir" "?pending applied" "?pop m2"])
          case (fail e)
          with run ok ok2 m2 ok3 mono [OF mono [OF m2k]] show ?thesis by (auto simp: migrated_def)
        next
          case ok4: ok
          with run ok ok2 m2 ok3 have "run_state (?pending applied) (?pop (?pop m2)) = (r, m')" by simp
          with fin [OF mono [OF mono [OF m2k]] ap] show ?thesis by blast
        qed
      qed
    qed
  qed
qed

lemma runs_migrated:
  assumes "distinct (map fst entries)" "migrated run_sql entries d0 m"
  shows "migrated run_sql entries d0 ((exec (runMigrations run_sql dir entries) ^^ n) m)"
proof (induction n)
  case (Suc n)
  then show ?case
    using runMigrations_keeps [OF assms(1) Suc.IH, of dir] by (simp add: prod_eq_iff)
qed (simp add: assms(2))

text \<open>Without failures a run completes, when the scripts can be executed in order.\<close>

lemma replay_append:
  "replay run_sql (ss @ ts) d = (case replay run_sql ss d of Inl e \<Rightarrow> Inl e | Inr d' \<Rightarrow> replay run_sql ts d')"
  by (induction ss arbitrary: d) (auto split: sum.splits)

lemma stmt_ok: "mg_faults m = [] \<Longrightarrow> run_state (stmt what k) m = run_state k m"
  by (cases m) (simp add: stmt_def run_next_fault)

lemma effect_stmt_ok: "mg_faults m = [] \<Longrightarrow> run_state (effect_stmt what f k) m = run_state k (f m)"
  by (cases m) (simp add: effect_stmt_def run_next_fault)

lemma next_cut_ok: "mg_cuts m = [] \<Longrightarrow> run_state next_cut m = (None, m)"
  by (cases m) (simp add: run_next_cut)

lemma apply_pending_completes:
  assumes "distinct (map fst entries)" "replay run_sql (map (content_of entries) (sql_files entries)) d0 = Inr d1"
    and "applied_upto run_sql entries d0 k m" "mg_faults m = []" "i < k0 \<and> k = k0 \<or> i = k \<and> k0 \<le> k"
  shows "result (apply_pending run_sql entries (take k0 (sql_files entries)) (drop i (sql_files entries))) m = Inr ()"
  using assms(3-)
proof (induction "length (sql_files entries) - i" arbitrary: i k m)
  case 0
  then show ?case by simp
next
  case (Suc n)
  let ?fs = "sql_files entries"
  have i: "i < length ?fs" using Suc.hyps(2) by simp
  then have d: "drop i ?fs = ?fs ! i # drop (Suc i) ?fs" by (rule Cons_nth_drop_Suc [symmetric])
  have n: "n = length ?fs - Suc i" using Suc.hyps(2) by simp
  note inset = nth_in_take [OF distinct_sql_files [OF assms(1)] i]
  show ?case
  proof (cases "i < k0")
    case True
    have "Suc i < k0 \<and> k = k0 \<or> Suc i = k \<and> k0 \<le> k" using True Suc.prems(3) by auto
    with Suc.hyps(1) [OF n Suc.prems(1,2)] True d inset [of k0] show ?thesis by simp
  next
    case False
    with Suc.prems(3) have ik: "i = k" "k0 \<le> k" by auto
    have data: "replay run_sql (map (content_of entries) (take k ?fs)) d0 = Inr (mg_data m)"
      and tr: "mg_tracking m = Some (take k ?fs)"
      using Suc.prems(1) by (simp_all add: applied_upto_def)
    have "map (content_of entries) ?fs = map (content_of entries) (take k ?fs) @ content_of entries (?fs ! i)
        # map (content_of entries) (drop (Suc i) ?fs)"
      using d ik by (metis append_take_drop_id list.simps(9) map_append)
    with assms(2) data obtain d' where d': "run_sql (content_of entries (?fs ! i)) (mg_data m) = Inr d'"
      by (auto simp: replay_append split: sum.splits)
    let ?m = "m\<lparr>mg_data := d', mg_tracking := Some (take k ?fs @ [?fs ! i])\<rparr>"
    have run: "run_state (apply_migration run_sql (?fs ! i) (content_of entries (?fs ! i))) m = (Inr (), ?m)"
      using Suc.prems(2) d' tr inset [of k] ik
      by (simp add: apply_migration_def stmt_def effect_stmt_def run_next_fault)
    have "applied_upto run_sql entries d0 (Suc k) ?m"
      using Suc.prems(1) i ik data d' by (simp add: applied_upto_def take_Suc_files replay_snoc)
    then have "result (apply_pending run_sql entries (take k0 ?fs) (drop (Suc i) ?fs)) ?m = Inr ()"
      using Suc.hyps(1) [OF n, of "Suc k" ?m] Suc.prems(2) ik by simp
    with d inset [of k0] False run Suc.prems(2) show ?thesis
      by (simp add: stmt_ok)
  qed
qed

lemma runMigrations_completes:
  assumes "distinct (map fst entries)" "migrated run_sql entries d0 m" "mg_faults m = []" "mg_cuts m = []"
    and "replay run_sql (map (content_of entries) (sql_files entries)) d0 = Inr d1"
  shows "result (runMigrations run_sql dir entries) m = Inr ()"
proof -
  obtain k where k: "applied_upto run_sql entries d0 k (create_tracking m)"
  proof (cases "mg_tracking m")
    case None
    with assms(2) have "applied_upto run_sql entries d0 0 (create_tracking m)"
      by (auto simp: migrated_def applied_upto_def create_tracking_def)
    then show ?thesis by (rule that)
  next
    case (Some ns)
    with assms(2) that show ?thesis by (auto simp: migrated_def create_tracking_def applied_upto_def)
  qed
  have no: "mg_faults (create_tracking m) = []" "mg_cuts (create_tracking m) = []"
    using assms(3,4) by (simp_all add: create_tracking_def split: option.split)
  have "result (apply_pending run_sql entries (take k (sql_files entries)) (drop 0 (sql_files entries))) (create_tracking m) = Inr ()"
    by (rule apply_pending_completes [OF assms(1,5) k no(1)]) auto
  with k no assms(3) show ?thesis
    by (simp add: runMigrations_def stmt_ok effect_stmt_ok next_cut_ok applied_upto_def)
qed

text \<open>C22: Migrations are applied in the order of their names, each exactly once and completely or not
  at all: after any number of runs, whatever statements failed (a commit that took effect but whose reply
  was lost, or a list of applied names that was cut short, included), the recorded names are the first
  files of the directory and the data are what their scripts make of the initial data; a run that
  succeeds has applied every file, and a run without failures succeeds when the scripts can be executed.\<close>

theorem migrations_are_prefix:
  assumes "distinct (map fst entries)" "mg_tracking m0 = None"
    and "m = (exec (runMigrations run_sql dir entries) ^^ n) m0"
  shows "(case mg_tracking m of
        None \<Rightarrow> mg_data m = mg_data m0
      | Some names \<Rightarrow> (\<exists>k. names = take k (sql_files entries))
          \<and> replay run_sql (map (content_of entries) names) (mg_data m0) = Inr (mg_data m))
    \<and> (result (runMigrations run_sql dir entries) m = Inr () \<longrightarrow>
        mg_tracking (exec (runMigrations run_sql dir entries) m) = Some (sql_files entries))
    \<and> (mg_faults m = [] \<and> mg_cuts m = []
        \<and> \<not> isl (replay run_sql (map (content_of entries) (sql_files entries)) (mg_data m0)) \<longrightarrow>
        result (runMigrations run_sql dir entries) m = Inr ())"
proof -
  have "migrated run_sql entries (mg_data m0) m0" using assms(2) by (simp add: migrated_def)
  then have m: "migrated run_sql entries (mg_data m0) m"
    unfolding assms(3) by (rule runs_migrated [OF assms(1)])
  have "mg_tracking (exec (runMigrations run_sql dir entries) m) = Some (sql_files entries)"
    if "result (runMigrations run_sql dir entries) m = Inr ()"
    using that runMigrations_keeps [OF assms(1) m, of dir] by (simp add: prod_eq_iff)
  moreover have "result (runMigrations run_sql dir entries) m = Inr ()"
    if fine: "mg_faults m = []" "mg_cuts m = []"
      "\<not> isl (replay run_sql (map (content_of entries) (sql_files entries)) (mg_data m0))"
  proof -
    obtain d1 where "replay run_sql (map (content_of entries) (sql_files entries)) (mg_data m0) = Inr d1"
      using fine(3) by (cases "replay run_sql (map (content_of entries) (sql_files entries)) (mg_data m0)") auto
    with fine show ?thesis by (intro runMigrations_completes [OF assms(1) m])
  qed
  moreover from m have "case mg_tracking m of
        None \<Rightarrow> mg_data m = mg_data m0
      | Some names \<Rightarrow> (\<exists>k. names = take k (sql_files entries))
          \<and> replay run_sql (map (content_of entries) names) (mg_data m0) = Inr (mg_data m)"
    by (auto simp: migrated_def applied_upto_def)
  ultimately show ?thesis by blast
qed

definition two_files :: dir_entries where
  "two_files = [(''001_a.sql'', Some ''a''), (''002_b.sql'', Some ''b'')]"

definition log_sql :: "string \<Rightarrow> string list \<Rightarrow> string + string list" where
  "log_sql s d = Inr (d @ [s])"

text \<open>The reply to the first commit is lost, and the next run reads no name.\<close>

definition lossy :: "string list migrator" where
  "lossy = \<lparr>mg_tracking = None, mg_data = [],
     mg_faults = replicate 8 None @ [Some (''connection reset'', True)], mg_cuts = [None, Some 0]\<rparr>"

theorem migrations_are_prefix_witness:
  "mg_tracking ((exec (runMigrations log_sql ''m'' two_files) ^^ 2) lossy) = Some [''001_a.sql'']
    \<and> mg_data ((exec (runMigrations log_sql ''m'' two_files) ^^ 2) lossy) = [''a'']"
proof -
  let ?m = "(exec (runMigrations log_sql ''m'' two_files) ^^ 2) lossy"
  have files: "sql_files two_files = [''001_a.sql'', ''002_b.sql'']" by code_simp
  have tr: "mg_tracking ?m = Some [''001_a.sql'']" by code_simp
  have "distinct (map fst two_files)" "mg_tracking lossy = None"
    by (simp_all add: two_files_def lossy_def)
  from migrations_are_prefix [OF this refl, where run_sql = log_sql and dir = "''m''" and n = 2] tr
  have "replay log_sql (map (content_of two_files) [''001_a.sql'']) [] = Inr (mg_data ?m)"
    by (simp add: lossy_def)
  with tr show ?thesis by (simp add: log_sql_def content_of_def two_files_def)
qed

end
