(* ===== verification/Projector.thy ===== *)
theory Projector
  imports Hub Go_Lib "HOL-Library.Sublist" "HOL-Library.Product_Lexorder" "HOL-Library.List_Lexorder" "HOL-Library.Char_ord"
begin

section \<open>The projector of dashboard events\<close>

text \<open>
  \<^verbatim>\<open>control-plane/internal/dashboard/projector.go\<close>: events of an organisation are published to a Redis
  stream; a projector reads the stream as the only consumer of its group, at most ten messages at a
  time, broadcasts each to the clients of the hub and acknowledges it. A stream keeps its entries in
  the order of their ids, the last id it gave out, and of the group the last id delivered and the ids
  delivered but not acknowledged. The text of a JSON value and its parser are parameters.
\<close>

record message =
  ms_ID :: "nat \<times> nat"
  ms_Values :: "(string \<times> string) list"

record stream =
  st_entries :: "message list"
  st_last :: "nat \<times> nat"
  st_group :: "(nat \<times> nat) option"
  st_pending :: "(nat \<times> nat) list"

definition empty_stream :: stream where
  "empty_stream = \<lparr>st_entries = [], st_last = (0, 0), st_group = None, st_pending = []\<rparr>"

definition id_text :: "nat \<times> nat \<Rightarrow> string" where
  "id_text i = Itoa (int (fst i)) @ ''-'' @ Itoa (int (snd i))"

subsection \<open>The commands\<close>

text \<open>\<^verbatim>\<open>XADD\<close> with a capped length: \<open>excess\<close> of the oldest entries go, but never below the cap.\<close>

definition stream_cap :: nat where
  "stream_cap = 1000"

definition next_id :: "nat \<Rightarrow> stream \<Rightarrow> nat \<times> nat" where
  "next_id ms s = (if st_last s < (ms, 0) then (ms, 0) else (fst (st_last s), Suc (snd (st_last s))))"

definition XAdd :: "nat \<Rightarrow> nat \<Rightarrow> (string \<times> string) list \<Rightarrow> stream \<Rightarrow> stream" where
  "XAdd ms excess vals s =
     (let i = next_id ms s; es = st_entries s @ [\<lparr>ms_ID = i, ms_Values = vals\<rparr>] in
      s\<lparr>st_entries := drop (min excess (length es - stream_cap)) es, st_last := i\<rparr>)"

text \<open>\<^verbatim>\<open>XGROUP CREATE ... $ MKSTREAM\<close>; for a group that exists it is an error, which is ignored.\<close>

definition XGroupCreate :: "stream \<Rightarrow> stream" where
  "XGroupCreate s = (case st_group s of None \<Rightarrow> s\<lparr>st_group := Some (st_last s)\<rparr> | Some _ \<Rightarrow> s)"

definition unread :: "stream \<Rightarrow> message list" where
  "unread s = (case st_group s of None \<Rightarrow> [] | Some g \<Rightarrow> filter (\<lambda>m. g < ms_ID m) (st_entries s))"

definition XReadGroup :: "nat \<Rightarrow> stream \<Rightarrow> message list \<times> stream" where
  "XReadGroup n s =
     (let ms = take n (unread s) in
      (ms, if ms = [] then s
           else s\<lparr>st_group := Some (ms_ID (last ms)), st_pending := st_pending s @ map ms_ID ms\<rparr>))"

definition XAck :: "nat \<times> nat \<Rightarrow> stream \<Rightarrow> stream" where
  "XAck i s = s\<lparr>st_pending := filter (\<lambda>j. j \<noteq> i) (st_pending s)\<rparr>"

subsection \<open>Publishing and projecting\<close>

text \<open>
  A JSON value read into \<^verbatim>\<open>any\<close>: objects become maps, which keep the last value of a key and are
  written with their keys sorted.
\<close>

fun as_any :: "json \<Rightarrow> json" where
  "as_any (JArr xs) = JArr (map as_any xs)"
| "as_any (JObj kvs) = JObj (sort_key fst
     (rev (fold (\<lambda>(k, v) acc. (k, v) # filter (\<lambda>(k', _). k' \<noteq> k) acc) (map (\<lambda>(k, v). (k, as_any v)) kvs) [])))"
| "as_any j = j"

definition event_data :: "(string \<Rightarrow> string + json) \<Rightarrow> string \<Rightarrow> json" where
  "event_data parse s =
     (if s = [] then JNull
      else case parse s of
          Inr (JObj kvs) \<Rightarrow> as_any (JObj kvs)
        | Inr JNull \<Rightarrow> JNull
        | _ \<Rightarrow> JStr s)"

definition value_of :: "string \<Rightarrow> message \<Rightarrow> string" where
  "value_of k m = (case map_of (ms_Values m) k of None \<Rightarrow> [] | Some s \<Rightarrow> s)"

definition message_event :: "(string \<Rightarrow> string + json) \<Rightarrow> message \<Rightarrow> Event" where
  "message_event parse m = \<lparr>he_ID = id_text (ms_ID m), he_Type = value_of ''type'' m,
     he_Data = event_data parse (value_of ''data'' m)\<rparr>"

definition processMessage :: "(string \<Rightarrow> string + json) \<Rightarrow> uuid \<Rightarrow> message \<Rightarrow> hub \<Rightarrow> hub option" where
  "processMessage parse orgID m h = Broadcast orgID (message_event parse m) h"

definition PublishEvent :: "(json \<Rightarrow> string) \<Rightarrow> nat \<Rightarrow> nat \<Rightarrow> string \<Rightarrow> json \<Rightarrow> stream \<Rightarrow> stream" where
  "PublishEvent text ms excess eventType data s =
     XAdd ms excess [(''type'', eventType), (''data'', text data)] s"

text \<open>The messages of one reply: each is broadcast, then acknowledged. \<^verbatim>\<open>None\<close> is the hub's panic.\<close>

primrec project :: "(string \<Rightarrow> string + json) \<Rightarrow> uuid \<Rightarrow> message list \<Rightarrow> stream \<Rightarrow> hub \<Rightarrow> (stream \<times> hub) option" where
  "project parse orgID [] s h = Some (s, h)"
| "project parse orgID (m # ms) s h = (case processMessage parse orgID m h of
     None \<Rightarrow> None | Some h' \<Rightarrow> project parse orgID ms (XAck (ms_ID m) s) h')"

text \<open>
  One turn of the loop. With \<open>Some k\<close> the process dies after \<open>k\<close> of the messages it was given; the
  process that replaces it continues with the group's next messages.
\<close>

definition Run_round :: "(string \<Rightarrow> string + json) \<Rightarrow> uuid \<Rightarrow> nat option \<Rightarrow> stream \<Rightarrow> hub \<Rightarrow> (stream \<times> hub) option" where
  "Run_round parse orgID dies s h = (case XReadGroup 10 s of (ms, s') \<Rightarrow>
     project parse orgID (case dies of None \<Rightarrow> ms | Some k \<Rightarrow> take k ms) s' h)"

datatype stream_op =
    Publish nat nat string json
  | Round "nat option"

primrec stream_step :: "(string \<Rightarrow> string + json) \<Rightarrow> (json \<Rightarrow> string) \<Rightarrow> uuid \<Rightarrow> stream_op \<Rightarrow> stream \<times> hub
    \<Rightarrow> (stream \<times> hub) option" where
  "stream_step parse text orgID (Publish ms excess ty data) sh = Some (PublishEvent text ms excess ty data (fst sh), snd sh)"
| "stream_step parse text orgID (Round dies) sh = Run_round parse orgID dies (fst sh) (snd sh)"

primrec stream_run :: "(string \<Rightarrow> string + json) \<Rightarrow> (json \<Rightarrow> string) \<Rightarrow> uuid \<Rightarrow> stream_op list \<Rightarrow> stream \<times> hub
    \<Rightarrow> (stream \<times> hub) option" where
  "stream_run parse text orgID [] sh = Some sh"
| "stream_run parse text orgID (op # ops) sh = (case stream_step parse text orgID op sh of
     None \<Rightarrow> None | Some sh' \<Rightarrow> stream_run parse text orgID ops sh')"

text \<open>The payload of an event: what was published, without the id Redis gave it.\<close>

definition payload_of :: "Event \<Rightarrow> string \<times> json" where
  "payload_of ev = (he_Type ev, he_Data ev)"

fun published :: "(string \<Rightarrow> string + json) \<Rightarrow> (json \<Rightarrow> string) \<Rightarrow> stream_op list \<Rightarrow> (string \<times> json) list" where
  "published parse text [] = []"
| "published parse text (Publish ms excess ty data # ops) = (ty, event_data parse (text data)) # published parse text ops"
| "published parse text (Round dies # ops) = published parse text ops"

primrec broadcasts :: "uuid \<Rightarrow> Event list \<Rightarrow> hub \<Rightarrow> hub option" where
  "broadcasts orgID [] h = Some h"
| "broadcasts orgID (ev # evs) h = (case Broadcast orgID ev h of None \<Rightarrow> None | Some h' \<Rightarrow> broadcasts orgID evs h')"

subsection \<open>Order and loss\<close>

definition stream_ok :: "stream \<Rightarrow> bool" where
  "stream_ok s \<longleftrightarrow> sorted_wrt (<) (map ms_ID (st_entries s))
     \<and> (\<forall>m \<in> set (st_entries s). ms_ID m \<le> st_last s)
     \<and> (case st_group s of None \<Rightarrow> True | Some g \<Rightarrow> g \<le> st_last s)"

lemma next_id_gt: "st_last s < next_id ms s"
  by (cases "st_last s") (auto simp: next_id_def less_prod_def)

lemma sorted_wrt_drop: "sorted_wrt P xs \<Longrightarrow> sorted_wrt P (drop n xs)"
  by (metis append_take_drop_id sorted_wrt_append)

lemma XAdd_ok:
  assumes "stream_ok s"
  shows "stream_ok (XAdd ms excess vals s)"
proof -
  let ?es = "st_entries s @ [\<lparr>ms_ID = next_id ms s, ms_Values = vals\<rparr>]"
  have old: "ms_ID m < next_id ms s" if "m \<in> set (st_entries s)" for m
    using assms that next_id_gt [of s ms] by (auto simp: stream_ok_def intro: le_less_trans)
  then have "sorted_wrt (<) (map ms_ID ?es)"
    using assms by (auto simp: stream_ok_def sorted_wrt_append)
  then have "sorted_wrt (<) (map ms_ID (drop k ?es))" for k
    by (metis drop_map sorted_wrt_drop)
  moreover have "ms_ID m \<le> next_id ms s" if "m \<in> set (drop k ?es)" for m k
    using old in_set_dropD [OF that] by (auto intro: less_imp_le)
  moreover have "case st_group s of None \<Rightarrow> True | Some g \<Rightarrow> g \<le> next_id ms s"
    using assms next_id_gt [of s ms] by (auto simp: stream_ok_def intro: order.trans less_imp_le split: option.splits)
  ultimately show ?thesis by (cases "st_group s") (simp_all add: stream_ok_def XAdd_def Let_def)
qed

lemma unread_XAdd:
  assumes "stream_ok s" "st_group s = Some g"
  shows "\<exists>j. unread (XAdd ms excess vals s) = drop j (unread s @ [\<lparr>ms_ID = next_id ms s, ms_Values = vals\<rparr>])
    \<and> (length (st_entries s) < 1000 \<longrightarrow> j = 0)"
proof -
  let ?m = "\<lparr>ms_ID = next_id ms s, ms_Values = vals\<rparr>" and ?P = "\<lambda>m. g < ms_ID m"
  let ?es = "st_entries s @ [?m]"
  let ?k = "min excess (length ?es - stream_cap)"
  have "g < next_id ms s"
    using assms next_id_gt [of s ms] by (auto simp: stream_ok_def intro: le_less_trans)
  then have all: "filter ?P ?es = unread s @ [?m]" using assms(2) by (simp add: unread_def)
  have "unread (XAdd ms excess vals s) = filter ?P (drop ?k ?es)"
    using assms(2) by (simp add: unread_def XAdd_def Let_def)
  also have "\<dots> = drop (length (filter ?P (take ?k ?es))) (filter ?P ?es)"
    by (metis append_eq_conv_conj append_take_drop_id filter_append)
  finally have "unread (XAdd ms excess vals s) = drop (length (filter ?P (take ?k ?es))) (unread s @ [?m])"
    by (simp only: all)
  moreover have "length (st_entries s) < 1000 \<Longrightarrow> length (filter ?P (take ?k ?es)) = 0"
    by (simp add: stream_cap_def)
  ultimately show ?thesis by blast
qed

lemma XReadGroup_reads:
  assumes "stream_ok s" "st_group s = Some g" "XReadGroup n s = (ms, s')"
  shows "ms = take n (unread s) \<and> unread s' = drop n (unread s) \<and> stream_ok s'
    \<and> (\<exists>g'. st_group s' = Some g') \<and> st_entries s' = st_entries s"
proof -
  let ?us = "unread s"
  have ms: "ms = take n ?us" using assms(3) by (auto simp: XReadGroup_def Let_def)
  show ?thesis
  proof (cases "ms = []")
    case True
    with assms ms show ?thesis by (auto simp: XReadGroup_def Let_def)
  next
    case False
    let ?g = "ms_ID (last ms)"
    have s': "s' = s\<lparr>st_group := Some ?g, st_pending := st_pending s @ map ms_ID ms\<rparr>"
      using assms(3) False by (auto simp: XReadGroup_def Let_def)
    have us: "?us = ms @ drop n ?us" unfolding ms by simp
    have last: "last ms \<in> set ?us" using False us by (metis UnCI last_in_set set_append)
    then have g: "g < ?g" and inE: "last ms \<in> set (st_entries s)" using assms(2) by (auto simp: unread_def)
    have "sorted_wrt (\<lambda>a b. ms_ID a < ms_ID b) ?us"
      using assms(1,2) by (simp add: stream_ok_def unread_def sorted_wrt_map sorted_wrt_filter)
    then have sorted: "sorted_wrt (\<lambda>a b. ms_ID a < ms_ID b) (ms @ drop n ?us)" using us by simp
    have low: "\<not> ?g < ms_ID m" if m: "m \<in> set ms" for m
    proof -
      have "sorted_wrt (\<lambda>a b. ms_ID a < ms_ID b) (butlast ms @ [last ms])"
        using sorted False by (simp add: sorted_wrt_append)
      then have "ms_ID m < ?g" if "m \<in> set (butlast ms)" using that by (simp add: sorted_wrt_append)
      with m False show ?thesis by (metis append_butlast_last_id in_set_conv_decomp less_asym less_irrefl
          rotate1.simps(2) set_ConsD set_rotate1)
    qed
    have high: "?g < ms_ID m" if "m \<in> set (drop n ?us)" for m
      using sorted that last_in_set [OF False] by (simp add: sorted_wrt_append)
    have "unread s' = filter (\<lambda>m. ?g < ms_ID m) ?us"
      using g assms(2) by (auto simp: s' unread_def intro: filter_cong less_trans)
    also have "\<dots> = filter (\<lambda>m. ?g < ms_ID m) ms @ filter (\<lambda>m. ?g < ms_ID m) (drop n ?us)"
      using us by (metis filter_append)
    also have "\<dots> = drop n ?us"
      using low high by (simp add: filter_empty_conv filter_id_conv)
    finally show ?thesis using ms s' assms(1) inE by (auto simp: stream_ok_def)
  qed
qed

lemma project_broadcasts:
  "project parse orgID ms s h = Some (s', h') \<Longrightarrow>
     broadcasts orgID (map (message_event parse) ms) h = Some h'
     \<and> st_entries s' = st_entries s \<and> st_group s' = st_group s \<and> st_last s' = st_last s"
  by (induction ms arbitrary: s h) (auto simp: processMessage_def XAck_def split: option.splits)

lemma project_unread:
  "project parse orgID ms s h = Some (s', h') \<Longrightarrow> unread s' = unread s \<and> stream_ok s' = stream_ok s"
  using project_broadcasts [of parse orgID ms s h s' h'] by (cases "st_group s") (simp_all add: unread_def stream_ok_def)

lemma broadcasts_append:
  "broadcasts orgID (xs @ ys) h = (case broadcasts orgID xs h of None \<Rightarrow> None | Some h' \<Rightarrow> broadcasts orgID ys h')"
  by (induction xs arbitrary: h) (auto split: option.splits)

definition message_payload :: "(string \<Rightarrow> string + json) \<Rightarrow> message \<Rightarrow> string \<times> json" where
  "message_payload parse m = payload_of (message_event parse m)"

lemma message_payload_published:
  "message_payload parse \<lparr>ms_ID = i, ms_Values = [(''type'', ty), (''data'', text data)]\<rparr> = (ty, event_data parse (text data))"
  by (simp add: message_payload_def payload_of_def message_event_def value_of_def)

text \<open>
  One step: what it broadcasts and what stays unread is, in order, a part of what was unread and what
  it published; all of it when no message is trimmed and the process does not die.
\<close>

definition step_published :: "(string \<Rightarrow> string + json) \<Rightarrow> (json \<Rightarrow> string) \<Rightarrow> stream_op \<Rightarrow> (string \<times> json) list" where
  "step_published parse text op = published parse text [op]"

definition lossless :: "stream_op \<Rightarrow> bool" where
  "lossless op = (case op of Publish _ _ _ _ \<Rightarrow> True | Round dies \<Rightarrow> dies = None)"

definition grows :: "stream_op \<Rightarrow> nat" where
  "grows op = (case op of Publish _ _ _ _ \<Rightarrow> 1 | Round _ \<Rightarrow> 0)"

lemma stream_step_order:
  assumes "stream_ok s" "st_group s = Some g" "stream_step parse text orgID op (s, h) = Some (s', h')"
  obtains outs g' where "broadcasts orgID outs h = Some h'" "stream_ok s'" "st_group s' = Some g'"
    "length (st_entries s') \<le> length (st_entries s) + grows op"
    "subseq (map payload_of outs @ map (message_payload parse) (unread s'))
      (map (message_payload parse) (unread s) @ step_published parse text op)"
    "lossless op \<and> length (st_entries s) + grows op \<le> 1000 \<longrightarrow>
      map payload_of outs @ map (message_payload parse) (unread s') =
      map (message_payload parse) (unread s) @ step_published parse text op"
proof (cases op)
  case (Publish ms excess ty data)
  let ?vals = "[(''type'', ty), (''data'', text data)]"
  let ?m = "\<lparr>ms_ID = next_id ms s, ms_Values = ?vals\<rparr>"
  have s': "s' = XAdd ms excess ?vals s" "h' = h"
    using assms(3) Publish by (simp_all add: PublishEvent_def)
  obtain j where j: "unread s' = drop j (unread s @ [?m])" "length (st_entries s) < 1000 \<longrightarrow> j = 0"
    using unread_XAdd [OF assms(1,2)] s' by blast
  have pub: "map (message_payload parse) (unread s) @ step_published parse text op
      = map (message_payload parse) (unread s @ [?m])"
    using message_payload_published [of parse "next_id ms s" ty "text" data] by (simp add: Publish step_published_def)
  show ?thesis
  proof (rule that)
    show "broadcasts orgID [] h = Some h'" using s' by simp
    show "stream_ok s'" using XAdd_ok [OF assms(1)] s' by simp
    show "st_group s' = Some g" using assms(2) s' by (simp add: XAdd_def Let_def)
    show "length (st_entries s') \<le> length (st_entries s) + grows op"
      by (simp add: s' XAdd_def Let_def grows_def Publish)
    show "subseq (map payload_of [] @ map (message_payload parse) (unread s'))
      (map (message_payload parse) (unread s) @ step_published parse text op)"
      unfolding pub j(1) by (simp add: drop_map [symmetric] suffix_imp_subseq suffix_drop del: map_append drop_append)
    show "lossless op \<and> length (st_entries s) + grows op \<le> 1000 \<longrightarrow>
      map payload_of [] @ map (message_payload parse) (unread s') =
      map (message_payload parse) (unread s) @ step_published parse text op"
      unfolding pub using j by (simp add: grows_def Publish)
  qed
next
  case (Round dies)
  obtain ms s1 where x: "XReadGroup 10 s = (ms, s1)" by fastforce
  let ?ms = "case dies of None \<Rightarrow> ms | Some k \<Rightarrow> take k ms"
  have run: "project parse orgID ?ms s1 h = Some (s', h')"
    using assms(3) Round x by (simp add: Run_round_def)
  from XReadGroup_reads [OF assms(1,2) x] obtain g' where
    r: "ms = take 10 (unread s)" "unread s1 = drop 10 (unread s)" "stream_ok s1" "st_group s1 = Some g'"
      "st_entries s1 = st_entries s" by blast
  note p = project_broadcasts [OF run] project_unread [OF run]
  have us: "unread s = ms @ unread s'" using r p by simp
  have outs: "map payload_of (map (message_event parse) ?ms) = map (message_payload parse) ?ms"
    by (simp add: message_payload_def)
  have none: "step_published parse text op = []" by (simp add: step_published_def Round)
  show ?thesis
  proof (rule that)
    show "broadcasts orgID (map (message_event parse) ?ms) h = Some h'" using p by simp
    show "stream_ok s'" "st_group s' = Some g'" using p r by simp_all
    show "length (st_entries s') \<le> length (st_entries s) + grows op" using p r by simp
    have "subseq ?ms ms" by (auto split: option.split intro: prefix_imp_subseq take_is_prefix)
    then show "subseq (map payload_of (map (message_event parse) ?ms) @ map (message_payload parse) (unread s'))
      (map (message_payload parse) (unread s) @ step_published parse text op)"
      unfolding outs us none map_append append_Nil2
      by (intro list_emb_append_mono subseq_map) simp_all
    show "lossless op \<and> length (st_entries s) + grows op \<le> 1000 \<longrightarrow>
      map payload_of (map (message_event parse) ?ms) @ map (message_payload parse) (unread s') =
      map (message_payload parse) (unread s) @ step_published parse text op"
      unfolding outs us none by (simp add: lossless_def Round)
  qed
qed

lemma stream_run_order:
  assumes "stream_ok s" "st_group s = Some g" "stream_run parse text orgID ops (s, h) = Some (s', h')"
  shows "\<exists>outs. broadcasts orgID outs h = Some h' \<and> stream_ok s'
    \<and> subseq (map payload_of outs @ map (message_payload parse) (unread s'))
        (map (message_payload parse) (unread s) @ published parse text ops)
    \<and> (list_all lossless ops \<and> length (st_entries s) + sum_list (map grows ops) \<le> 1000 \<longrightarrow>
        map payload_of outs @ map (message_payload parse) (unread s') =
        map (message_payload parse) (unread s) @ published parse text ops)"
  using assms
proof (induction ops arbitrary: s g h)
  case Nil
  then show ?case by (intro exI [of _ "[]"]) simp
next
  case (Cons op ops)
  obtain s1 h1 where st: "stream_step parse text orgID op (s, h) = Some (s1, h1)"
    and rest: "stream_run parse text orgID ops (s1, h1) = Some (s', h')"
    using Cons.prems(3) by (auto split: option.splits)
  have pub: "published parse text (op # ops) = step_published parse text op @ published parse text ops"
    by (cases op) (simp_all add: step_published_def)
  obtain o1 g1 where o1: "broadcasts orgID o1 h = Some h1" "stream_ok s1" "st_group s1 = Some g1"
    and len: "length (st_entries s1) \<le> length (st_entries s) + grows op"
    and sub: "subseq (map payload_of o1 @ map (message_payload parse) (unread s1))
      (map (message_payload parse) (unread s) @ step_published parse text op)"
    and eq: "lossless op \<and> length (st_entries s) + grows op \<le> 1000 \<longrightarrow>
      map payload_of o1 @ map (message_payload parse) (unread s1) =
      map (message_payload parse) (unread s) @ step_published parse text op"
    by (rule stream_step_order [OF Cons.prems(1,2) st])
  from Cons.IH [OF o1(2,3) rest] obtain o2 where o2: "broadcasts orgID o2 h1 = Some h'" "stream_ok s'"
    and sub2: "subseq (map payload_of o2 @ map (message_payload parse) (unread s'))
      (map (message_payload parse) (unread s1) @ published parse text ops)"
    and eq2: "list_all lossless ops \<and> length (st_entries s1) + sum_list (map grows ops) \<le> 1000 \<longrightarrow>
      map payload_of o2 @ map (message_payload parse) (unread s') =
      map (message_payload parse) (unread s1) @ published parse text ops" by blast
  show ?case
  proof (intro exI [of _ "o1 @ o2"] conjI impI)
    show "broadcasts orgID (o1 @ o2) h = Some h'" using o1 o2 by (simp add: broadcasts_append)
    show "stream_ok s'" by (rule o2)
    have "subseq (map payload_of o1 @ (map payload_of o2 @ map (message_payload parse) (unread s')))
        (map payload_of o1 @ (map (message_payload parse) (unread s1) @ published parse text ops))"
      using sub2 by (simp add: subseq_append')
    also have "subseq \<dots> ((map (message_payload parse) (unread s) @ step_published parse text op) @ published parse text ops)"
      using list_emb_append_mono [OF sub subseq_order.refl] by simp
    finally show "subseq (map payload_of (o1 @ o2) @ map (message_payload parse) (unread s'))
        (map (message_payload parse) (unread s) @ published parse text (op # ops))"
      by (simp add: pub)
  next
    assume no: "list_all lossless (op # ops) \<and> length (st_entries s) + sum_list (map grows (op # ops)) \<le> 1000"
    have "map payload_of (o1 @ o2) @ map (message_payload parse) (unread s') =
        map payload_of o1 @ (map payload_of o2 @ map (message_payload parse) (unread s'))" by simp
    also have "\<dots> = (map payload_of o1 @ map (message_payload parse) (unread s1)) @ published parse text ops"
      using no eq2 len by simp
    also have "\<dots> = map (message_payload parse) (unread s) @ published parse text (op # ops)"
      using no eq by (simp add: pub)
    finally show "map payload_of (o1 @ o2) @ map (message_payload parse) (unread s') =
        map (message_payload parse) (unread s) @ published parse text (op # ops)" .
  qed
qed

text \<open>C28: Dashboard events reach the hub in the order they were published and at most once each,
  across restarts of the projector; and every one of them is broadcast or still unread as long as no
  projector died holding messages and the stream has not reached its cap of a thousand entries.\<close>

theorem projector_keeps_order:
  assumes "stream_ok s0" "st_group s0 = None"
    and "stream_run parse enc orgID ops (XGroupCreate s0, h) = Some (s, h')"
  shows "\<exists>outs. broadcasts orgID outs h = Some h'
    \<and> subseq (map payload_of outs @ map (message_payload parse) (unread s)) (published parse enc ops)
    \<and> (list_all lossless ops \<and> length (st_entries s0) + length ops \<le> 1000 \<longrightarrow>
        map payload_of outs @ map (message_payload parse) (unread s) = published parse enc ops)"
proof -
  let ?s = "XGroupCreate s0"
  have s: "st_group ?s = Some (st_last s0)" "st_entries ?s = st_entries s0" "stream_ok ?s"
    using assms(1,2) by (simp_all add: XGroupCreate_def stream_ok_def)
  have none: "unread ?s = []"
    using assms(1) s by (auto simp: unread_def stream_ok_def filter_empty_conv)
  have "sum_list (map grows ops) \<le> length ops"
    by (induction ops) (auto simp: grows_def split: stream_op.split)
  then show ?thesis
    using stream_run_order [OF s(3,1) assms(3)] by (auto simp: none s)
qed

definition plain_parse :: "string \<Rightarrow> string + json" where
  "plain_parse s = Inl ''syntax error''"

definition plain_text :: "json \<Rightarrow> string" where
  "plain_text j = (case j of JStr s \<Rightarrow> s | _ \<Rightarrow> ''null'')"

definition two_events :: "stream_op list" where
  "two_events = [Publish 5 0 ''task'' (JStr ''a''), Publish 5 0 ''task'' (JStr ''b''), Round None]"

theorem projector_keeps_order_witness:
  "\<exists>outs s h'. stream_run plain_parse plain_text 1 two_events (XGroupCreate empty_stream, NewHub 10) = Some (s, h')
    \<and> broadcasts 1 outs (NewHub 10) = Some h'
    \<and> map payload_of outs = [(''task'', JStr ''a''), (''task'', JStr ''b'')]"
proof -
  have run: "\<exists>s. stream_run plain_parse plain_text 1 two_events (XGroupCreate empty_stream, NewHub 10) = Some (s, NewHub 10)
      \<and> unread s = []"
    by (simp add: two_events_def PublishEvent_def XAdd_def next_id_def XGroupCreate_def empty_stream_def Run_round_def
        XReadGroup_def unread_def processMessage_def Broadcast_def clients_of_def NewHub_def XAck_def Let_def stream_cap_def)
  then obtain s where s: "stream_run plain_parse plain_text 1 two_events (XGroupCreate empty_stream, NewHub 10) = Some (s, NewHub 10)"
    "unread s = []" by blast
  have "stream_ok empty_stream" "st_group empty_stream = None" by (simp_all add: stream_ok_def empty_stream_def)
  from projector_keeps_order [OF this s(1)] s(2) show ?thesis
    using s(1) by (auto simp: two_events_def empty_stream_def plain_text_def plain_parse_def event_data_def lossless_def)
qed

end
