(* ===== verification/CP_Config.thy ===== *)
theory CP_Config
  imports Domain Go_Lib
begin

section \<open>Configuration of the control plane\<close>

text \<open>
  \<^verbatim>\<open>control-plane/internal/config/config.go\<close>: the settings, their defaults, loading and validation. The
  configuration library (\<^verbatim>\<open>spf13/viper\<close>) is a parameter, as for the worker.
\<close>

record CPServerConfig =
  csv_Host :: string
  csv_Port :: int
  csv_TLSCertFile :: string
  csv_TLSKeyFile :: string
  csv_ReadTimeoutSec :: int
  csv_WriteTimeoutSec :: int

record DatabaseConfig =
  dbc_DSN :: string
  dbc_MaxOpenConns :: int
  dbc_MaxIdleConns :: int
  dbc_ConnTimeoutSec :: int

record RedisConfig =
  rdc_Addr :: string
  rdc_Password :: string
  rdc_DB :: int

record CPSecurityConfig =
  csc_ArgonMemory :: "32 word"
  csc_ArgonIterations :: "32 word"
  csc_ArgonParallelism :: "8 word"
  csc_ArgonSaltLen :: int
  csc_ArgonKeyLen :: "32 word"
  csc_HMACSecret :: string

record SchedulerConfig =
  shc_TickIntervalSec :: int
  shc_ReaperIntervalSec :: int
  shc_HeartbeatTTLSec :: int

record DashboardConfig =
  dhc_SnapshotCacheTTLSec :: int
  dhc_MaxSSEClients :: int

record CPLoggingConfig =
  clc_Level :: string
  clc_Format :: string

record CPConfig =
  cpc_Server :: CPServerConfig
  cpc_Database :: DatabaseConfig
  cpc_Redis :: RedisConfig
  cpc_Security :: CPSecurityConfig
  cpc_Scheduler :: SchedulerConfig
  cpc_Dashboard :: DashboardConfig
  cpc_Logging :: CPLoggingConfig

datatype cp_setting = CSInt int | CSString string

definition cp_defaults :: "(string \<times> cp_setting) list" where
  "cp_defaults =
     [(''server.host'', CSString ''0.0.0.0''),
      (''server.port'', CSInt 8080),
      (''server.read_timeout_sec'', CSInt 30),
      (''server.write_timeout_sec'', CSInt 60),
      (''database.max_open_conns'', CSInt 20),
      (''database.max_idle_conns'', CSInt 5),
      (''database.conn_timeout_sec'', CSInt 10),
      (''redis.addr'', CSString ''localhost:6379''),
      (''redis.db'', CSInt 0),
      (''security.argon_memory'', CSInt 65536),
      (''security.argon_iterations'', CSInt 3),
      (''security.argon_parallelism'', CSInt 2),
      (''security.argon_salt_len'', CSInt 16),
      (''security.argon_key_len'', CSInt 32),
      (''scheduler.tick_interval_sec'', CSInt 5),
      (''scheduler.reaper_interval_sec'', CSInt 30),
      (''scheduler.heartbeat_ttl_sec'', CSInt 90),
      (''dashboard.snapshot_cache_ttl_sec'', CSInt 10),
      (''dashboard.max_sse_clients'', CSInt 500),
      (''logging.level'', CSString ''info''),
      (''logging.format'', CSString ''json'')]"

datatype 'c cp_read = CPRead 'c | CPNotFound | CPReadFailed string

record 'c cp_viper =
  cv_ReadExplicit :: "string \<Rightarrow> 'c cp_read"
  cv_ReadSearched :: "string \<Rightarrow> string list \<Rightarrow> 'c cp_read"
  cv_Unmarshal :: "(string \<times> cp_setting) list \<Rightarrow> 'c option \<Rightarrow> string + CPConfig"

definition cp_errors :: "CPConfig \<Rightarrow> string list" where
  "cp_errors cfg =
     (if dbc_DSN (cpc_Database cfg) = [] then [''database.dsn is required''] else [])
   @ (if csc_HMACSecret (cpc_Security cfg) = [] then [''security.hmac_secret is required''] else [])
   @ (if csv_Port (cpc_Server cfg) \<le> 0 \<or> csv_Port (cpc_Server cfg) > 65535
      then [''server.port must be between 1 and 65535''] else [])
   @ (if csc_ArgonMemory (cpc_Security cfg) < 8192 then [''security.argon_memory must be at least 8192 KiB''] else [])
   @ (if csc_ArgonIterations (cpc_Security cfg) < 1 then [''security.argon_iterations must be at least 1''] else [])
   @ (if shc_HeartbeatTTLSec (cpc_Scheduler cfg) < 10
      then [''scheduler.heartbeat_ttl_sec must be at least 10 seconds''] else [])"

definition CP_Validate :: "CPConfig \<Rightarrow> string + unit" where
  "CP_Validate cfg =
     (let errs = cp_errors cfg; sep = [CHR 0x0A] @ ''  - '' in
      if errs \<noteq> [] then Inl (''config validation failed:'' @ sep @ Join sep errs) else Inr ())"

definition CP_Load :: "'c cp_viper \<Rightarrow> string \<Rightarrow> string + CPConfig" where
  "CP_Load v cfgFile =
     (let unmarshal = (\<lambda>c. case cv_Unmarshal v cp_defaults c of
              Inl err \<Rightarrow> Inl (''config: unmarshal: '' @ err)
            | Inr cfg \<Rightarrow> (case CP_Validate cfg of Inl e \<Rightarrow> Inl e | Inr _ \<Rightarrow> Inr cfg)) in
      case (if cfgFile \<noteq> [] then cv_ReadExplicit v cfgFile
            else cv_ReadSearched v ''config'' [''.'', ''./config'', ''/etc/grid-control-plane'']) of
        CPReadFailed err \<Rightarrow> Inl (''config: read file: '' @ err)
      | CPNotFound \<Rightarrow> unmarshal None
      | CPRead c \<Rightarrow> unmarshal (Some c))"

text \<open>A configuration that loads is in bounds.\<close>

lemma CP_Load_bounds:
  assumes "CP_Load v f = Inr cfg"
  shows "0 < csv_Port (cpc_Server cfg) \<and> csv_Port (cpc_Server cfg) < 2 ^ 16
    \<and> 10 \<le> shc_HeartbeatTTLSec (cpc_Scheduler cfg)
    \<and> 8192 \<le> csc_ArgonMemory (cpc_Security cfg) \<and> csc_ArgonIterations (cpc_Security cfg) \<noteq> 0"
  using assms
  by (auto simp: CP_Load_def CP_Validate_def cp_errors_def Let_def not_less not_le
      split: cp_read.splits sum.splits if_splits)

end
