(* ===== verification/CP_Server.thy ===== *)
theory CP_Server
  imports CP_Config Router
begin

section \<open>Starting and stopping the control plane\<close>

text \<open>
  \<^verbatim>\<open>control-plane/cmd/server/main.go\<close>: \<^verbatim>\<open>run\<close> loads the configuration, opens the stores, starts the
  scheduler and the reaper, listens, and shuts down. What it opens and closes is recorded in order;
  its deferred calls are a stack that every return unwinds. The connections to the services and the
  listener are replies of the environment.
\<close>

subsection \<open>What happens\<close>

text \<open>A number of seconds as a \<^verbatim>\<open>time.Duration\<close> of 64 bits.\<close>

definition duration_of_sec :: "int \<Rightarrow> int" where
  "duration_of_sec s = sint (word_of_int (s * Second) :: 64 word)"

record PoolConfig =
  pc_DSN :: string
  pc_MaxConns :: "32 word"
  pc_MinConns :: "32 word"
  pc_ConnectTimeout :: int

record http_Server =
  hs_Addr :: string
  hs_ReadTimeout :: int
  hs_WriteTimeout :: int
  hs_IdleTimeout :: int
  hs_MinTLS13 :: bool
  hs_Cert :: "(string \<times> string) option"

datatype server_event =
    Pool_Opened PoolConfig
  | Pool_Closed
  | Redis_Opened RedisConfig
  | Redis_Closed
  | Scheduler_Started int
  | Scheduler_Stopped
  | Reaper_Started int
  | Reaper_Stopped
  | Listening http_Server
  | Listener_Closed
  | Context_Cancelled

datatype stop_reason = Signalled | Server_Closed | Serve_Failed string

record boot =
  bo_ParseDSN :: "string \<Rightarrow> string option"
  bo_NewPool :: "PoolConfig \<Rightarrow> string option"
  bo_PoolPing :: "string option"
  bo_RedisPing :: "string option"
  bo_Stop :: stop_reason

record server_run =
  sv_log :: "server_event list"
  sv_defers :: "server_event list"

definition happen :: "server_event \<Rightarrow> (server_run, unit) state" where
  "happen e = modify (\<lambda>s. s\<lparr>sv_log := sv_log s @ [e]\<rparr>)"

definition postpone :: "server_event \<Rightarrow> (server_run, unit) state" where
  "postpone e = modify (\<lambda>s. s\<lparr>sv_defers := e # sv_defers s\<rparr>)"

definition returning :: "'a \<Rightarrow> (server_run, 'a) state" where
  "returning r = do { modify (\<lambda>s. s\<lparr>sv_log := sv_log s @ sv_defers s, sv_defers := []\<rparr>); ret r }"

subsection \<open>The parts of the server\<close>

text \<open>\<^verbatim>\<open>postgres.New\<close>: a pool that does not answer is closed again.\<close>

definition pool_config :: "DatabaseConfig \<Rightarrow> PoolConfig" where
  "pool_config cfg = \<lparr>pc_DSN = dbc_DSN cfg, pc_MaxConns = word_of_int (dbc_MaxOpenConns cfg),
     pc_MinConns = word_of_int (dbc_MaxIdleConns cfg), pc_ConnectTimeout = duration_of_sec (dbc_ConnTimeoutSec cfg)\<rparr>"

definition postgres_New :: "boot \<Rightarrow> DatabaseConfig \<Rightarrow> (server_run, string + unit) state" where
  "postgres_New b cfg = (case bo_ParseDSN b (dbc_DSN cfg) of
     Some e \<Rightarrow> ret (Inl (''postgres: parse dsn: '' @ e))
   | None \<Rightarrow> (case bo_NewPool b (pool_config cfg) of
       Some e \<Rightarrow> ret (Inl (''postgres: create pool: '' @ e))
     | None \<Rightarrow> do {
         happen (Pool_Opened (pool_config cfg));
         case bo_PoolPing b of
           Some e \<Rightarrow> do { happen Pool_Closed; ret (Inl (''postgres: ping: '' @ e)) }
         | None \<Rightarrow> ret (Inr ())
       }))"

definition redis_Ping :: "boot \<Rightarrow> string + unit" where
  "redis_Ping b = (case bo_RedisPing b of Some e \<Rightarrow> Inl (''redis: ping: '' @ e) | None \<Rightarrow> Inr ())"

definition argon_of :: "CPSecurityConfig \<Rightarrow> ArgonParams" where
  "argon_of cfg = \<lparr>ap_Memory = csc_ArgonMemory cfg, ap_Iterations = csc_ArgonIterations cfg,
     ap_Parallelism = csc_ArgonParallelism cfg, ap_SaltLen = nat (csc_ArgonSaltLen cfg), ap_KeyLen = csc_ArgonKeyLen cfg\<rparr>"

text \<open>
  The dependencies of the router; the JSON encoder and the errors of the two pings are parameters. (A
  negative salt length, with which \<^verbatim>\<open>make\<close> panics when a key is created, counts as zero here.)
\<close>

definition deps_of :: "(json \<Rightarrow> string option) \<Rightarrow> string \<Rightarrow> string \<Rightarrow> CPConfig \<Rightarrow> RouterDeps" where
  "deps_of marshal pgErr redisErr cfg = \<lparr>rd_ConcreteStore = True, rd_BrownieEng = True, rd_Marshal = marshal,
     rd_Scanner = Some NewDefaultScanner, rd_ArgonParams = argon_of (cpc_Security cfg),
     rd_HeartbeatTTLSec = shc_HeartbeatTTLSec (cpc_Scheduler cfg), rd_RatePerMin = 300,
     rd_pgErr = pgErr, rd_redisErr = redisErr\<rparr>"

definition http_server_of :: "CPServerConfig \<Rightarrow> http_Server" where
  "http_server_of cfg = \<lparr>hs_Addr = csv_Host cfg @ '':'' @ Itoa (csv_Port cfg),
     hs_ReadTimeout = duration_of_sec (csv_ReadTimeoutSec cfg),
     hs_WriteTimeout = duration_of_sec (csv_WriteTimeoutSec cfg), hs_IdleTimeout = 120 * Second,
     hs_MinTLS13 = (csv_TLSCertFile cfg \<noteq> [] \<and> csv_TLSKeyFile cfg \<noteq> []),
     hs_Cert = (if csv_TLSCertFile cfg \<noteq> [] then Some (csv_TLSCertFile cfg, csv_TLSKeyFile cfg) else None)\<rparr>"

text \<open>
  Waiting for a signal or for the listener to fail, and the graceful shutdown, whose own failure is only
  logged.
\<close>

definition listen_until :: "boot \<Rightarrow> http_Server \<Rightarrow> (server_run, string + unit) state" where
  "listen_until b srv = (case bo_Stop b of
     Serve_Failed e \<Rightarrow> returning (Inl (''http server: '' @ e))
   | _ \<Rightarrow> do { happen (Listening srv); happen Listener_Closed; returning (Inr ()) })"

subsection \<open>run\<close>

definition server_main :: "'c cp_viper \<Rightarrow> (string \<Rightarrow> string) \<Rightarrow> boot \<Rightarrow> (server_run, string + unit) state" where
  "server_main v env b = (case CP_Load v (env ''GRID_CONFIG_FILE'') of
     Inl e \<Rightarrow> returning (Inl (''load config: '' @ e))
   | Inr cfg \<Rightarrow> do {
       postpone Context_Cancelled;
       pg \<leftarrow> postgres_New b (cpc_Database cfg);
       case pg of
         Inl e \<Rightarrow> returning (Inl (''postgres: '' @ e))
       | Inr _ \<Rightarrow> do {
           postpone Pool_Closed;
           happen (Redis_Opened (cpc_Redis cfg));
           postpone Redis_Closed;
           case redis_Ping b of
             Inl e \<Rightarrow> returning (Inl (''redis: ping: '' @ e))
           | Inr _ \<Rightarrow> do {
               happen (Scheduler_Started (duration_of_sec (shc_TickIntervalSec (cpc_Scheduler cfg))));
               postpone Scheduler_Stopped;
               happen (Reaper_Started (duration_of_sec (shc_ReaperIntervalSec (cpc_Scheduler cfg))));
               postpone Reaper_Stopped;
               listen_until b (http_server_of (cpc_Server cfg))
             }
         }
     })"

text \<open>
  The process: the goroutines of the scheduler and the reaper begin with \<^verbatim>\<open>time.NewTicker\<close>, which panics
  on an interval that is not positive; a panic of a goroutine ends the process, and no deferred call of \<^verbatim>\<open>run\<close> happens.
  \<open>k\<close> says how far \<^verbatim>\<open>run\<close> gets before; it waits for both goroutines before it returns.
\<close>

datatype process_end = Exits "string + unit" | Panics string

definition ticker_panics :: "server_event \<Rightarrow> bool" where
  "ticker_panics e = (case e of Scheduler_Started i \<Rightarrow> i \<le> 0 | Reaper_Started i \<Rightarrow> i \<le> 0 | _ \<Rightarrow> False)"

definition server_process :: "'c cp_viper \<Rightarrow> (string \<Rightarrow> string) \<Rightarrow> boot \<Rightarrow> nat \<Rightarrow> process_end \<times> server_event list" where
  "server_process v env b k =
     (let (r, s) = run_state (server_main v env b) \<lparr>sv_log = [], sv_defers = []\<rparr>; l = sv_log s in
      if list_ex ticker_panics l
      then (Panics ''non-positive interval for NewTicker'',
            takeWhile (\<lambda>e. \<not> ticker_panics e) l
              @ take (Suc k) (takeWhile (\<lambda>e. e \<noteq> Reaper_Stopped) (dropWhile (\<lambda>e. \<not> ticker_panics e) l)))
      else (Exits r, l))"

text \<open>\<^verbatim>\<open>setupLogging\<close>: an unknown level is info, any format but console is JSON with timestamps.\<close>

datatype log_output = Console_Writer | JSON_With_Timestamp

definition setupLogging :: "(string \<Rightarrow> 'l option) \<Rightarrow> 'l \<Rightarrow> CPLoggingConfig \<Rightarrow> 'l \<times> log_output" where
  "setupLogging parse_level info cfg =
     (case parse_level (clc_Level cfg) of Some l \<Rightarrow> l | None \<Rightarrow> info,
      if clc_Format cfg = ''console'' then Console_Writer else JSON_With_Timestamp)"

subsection \<open>What is opened is closed\<close>

text \<open>
  The record as nested brackets: an event that opens something is put on a stack, one that closes something must
  close what was opened last, and nothing is left open.
\<close>

definition opens :: "server_event \<Rightarrow> bool" where
  "opens e = (case e of Pool_Opened c \<Rightarrow> True | Redis_Opened c \<Rightarrow> True | Scheduler_Started i \<Rightarrow> True
     | Reaper_Started i \<Rightarrow> True | Listening srv \<Rightarrow> True | _ \<Rightarrow> False)"

definition closes :: "server_event \<Rightarrow> server_event \<Rightarrow> bool" where
  "closes e opened = (case opened of
     Pool_Opened c \<Rightarrow> e = Pool_Closed
   | Redis_Opened c \<Rightarrow> e = Redis_Closed
   | Scheduler_Started i \<Rightarrow> e = Scheduler_Stopped
   | Reaper_Started i \<Rightarrow> e = Reaper_Stopped
   | Listening srv \<Rightarrow> e = Listener_Closed
   | _ \<Rightarrow> False)"

fun nested :: "server_event list \<Rightarrow> server_event list \<Rightarrow> bool" where
  "nested st [] = (st = [])"
| "nested st (e # es) =
     (if opens e then nested (e # st) es
      else if e = Context_Cancelled then nested st es
      else (case st of [] \<Rightarrow> False | o1 # st' \<Rightarrow> closes e o1 \<and> nested st' es))"

lemma ticker_panics_simps [simp]:
  "ticker_panics (Scheduler_Started i) = (i \<le> 0)" "ticker_panics (Reaper_Started i) = (i \<le> 0)"
  by (simp_all add: ticker_panics_def)

lemmas server_steps = server_main_def happen_def postpone_def returning_def postgres_New_def listen_until_def redis_Ping_def

lemma nested_server_main:
  "nested [] (sv_log (exec (server_main v env b) \<lparr>sv_log = [], sv_defers = []\<rparr>))"
  by (cases "bo_Stop b")
    (auto simp: server_steps opens_def closes_def split: sum.split option.split)

lemma started_log:
  assumes "CP_Load v (env ''GRID_CONFIG_FILE'') = Inr cfg" "bo_ParseDSN b (dbc_DSN (cpc_Database cfg)) = None"
    "bo_NewPool b (pool_config (cpc_Database cfg)) = None" "bo_PoolPing b = None" "bo_RedisPing b = None"
  shows "Scheduler_Started (duration_of_sec (shc_TickIntervalSec (cpc_Scheduler cfg)))
      \<in> set (sv_log (exec (server_main v env b) \<lparr>sv_log = [], sv_defers = []\<rparr>))
    \<and> Reaper_Started (duration_of_sec (shc_ReaperIntervalSec (cpc_Scheduler cfg)))
      \<in> set (sv_log (exec (server_main v env b) \<lparr>sv_log = [], sv_defers = []\<rparr>))"
  using assms by (cases "bo_Stop b") (simp_all add: server_steps)

subsection \<open>Properties\<close>

text \<open>C36: The server leaves nothing open. Whatever fails at its start or while it serves, when \<^verbatim>\<open>run\<close> returns the
  pool, the Redis client, the scheduler, the reaper and the listener have been closed or stopped, each
  before what was opened earlier: no loop and no listener outlives the stores it uses. Only a panic of a loop ends the
  process without that.\<close>

theorem server_leaves_nothing_open:
  "case server_process v env b k of
     (Exits r, l) \<Rightarrow> nested [] l
   | (Panics msg, l) \<Rightarrow> list_ex ticker_panics l"
proof (cases "list_ex ticker_panics (sv_log (exec (server_main v env b) \<lparr>sv_log = [], sv_defers = []\<rparr>))")
  case False
  then show ?thesis using nested_server_main [of v env b] by (simp add: server_process_def Let_def split_beta)
next
  case True
  let ?l = "sv_log (exec (server_main v env b) \<lparr>sv_log = [], sv_defers = []\<rparr>)"
  from True have "dropWhile (\<lambda>e. \<not> ticker_panics e) ?l \<noteq> []" by (auto simp: list_ex_iff)
  then obtain e es where es: "dropWhile (\<lambda>e. \<not> ticker_panics e) ?l = e # es" by (cases "dropWhile (\<lambda>e. \<not> ticker_panics e) ?l") auto
  then have e: "ticker_panics e" by (metis dropWhile_eq_Cons_conv)
  then have "e \<noteq> Reaper_Stopped" by (auto simp: ticker_panics_def)
  with True es e show ?thesis by (simp add: server_process_def Let_def split_beta)
qed

text \<open>The intervals of the two loops are not validated. A configuration that loads, with a tick or
  reaper interval that is not positive, makes the server panic once its stores are reached, however far
  it gets before.\<close>

lemma bad_interval_kills_server:
  assumes "CP_Load v (env ''GRID_CONFIG_FILE'') = Inr cfg" "bo_ParseDSN b (dbc_DSN (cpc_Database cfg)) = None"
    and "bo_NewPool b (pool_config (cpc_Database cfg)) = None" "bo_PoolPing b = None" "bo_RedisPing b = None"
    and "duration_of_sec (shc_TickIntervalSec (cpc_Scheduler cfg)) \<le> 0
      \<or> duration_of_sec (shc_ReaperIntervalSec (cpc_Scheduler cfg)) \<le> 0"
  shows "fst (server_process v env b k) = Panics ''non-positive interval for NewTicker''"
proof -
  have "list_ex ticker_panics (sv_log (exec (server_main v env b) \<lparr>sv_log = [], sv_defers = []\<rparr>))"
    using started_log [of v env, OF assms(1-5)] assms(6) unfolding list_ex_iff by (metis ticker_panics_simps)
  then show ?thesis by (simp add: server_process_def Let_def split_beta)
qed

end
