(* ===== verification/Go_Loop.thy ===== *)
theory Go_Loop
  imports Main
begin

section \<open>Loops over events\<close>

text \<open>
  A Go loop \<^verbatim>\<open>for { select { ... } }\<close> or \<^verbatim>\<open>for { x, err := Accept() ... }\<close>: each iteration receives
  something (the \<open>k\<close>th of what the outside sends) and either returns or goes on. Such a loop need not end;
  \<^verbatim>\<open>None\<close> is a loop that runs for ever.
\<close>

partial_function (option) select_loop :: "(nat \<Rightarrow> 's \<Rightarrow> 'r + 's) \<Rightarrow> nat \<Rightarrow> 's \<Rightarrow> 'r option" where
  "select_loop body k s = (case body k s of Inl r \<Rightarrow> Some r | Inr s' \<Rightarrow> select_loop body (Suc k) s')"

text \<open>The state after \<open>m\<close> iterations, if the loop has not returned before.\<close>

primrec iterations :: "(nat \<Rightarrow> 's \<Rightarrow> 'r + 's) \<Rightarrow> nat \<Rightarrow> nat \<Rightarrow> 's \<Rightarrow> 's option" where
  "iterations body 0 k s = Some s"
| "iterations body (Suc m) k s = (case body k s of Inl r \<Rightarrow> None | Inr s' \<Rightarrow> iterations body m (Suc k) s')"

lemma select_loop_stops:
  assumes "iterations body m k s = Some s'" "body (k + m) s' = Inl r"
  shows "select_loop body k s = Some r"
  using assms
proof (induction m arbitrary: k s)
  case 0
  then show ?case by (subst select_loop.simps) simp
next
  case (Suc m)
  then show ?case by (subst select_loop.simps) (auto split: sum.splits)
qed

lemma select_loop_returned:
  assumes "select_loop body k s = Some r"
  shows "\<exists>m s'. iterations body m k s = Some s' \<and> body (k + m) s' = Inl r"
proof (rule select_loop.raw_induct [rotated, where P = "\<lambda>body k s r. \<exists>m s'. iterations body m k s = Some s' \<and> body (k + m) s' = Inl r",
      OF assms], goal_cases)
  case (1 loop body k s r)
  show ?case
  proof (cases "body k s")
    case (Inl x)
    with 1 have "iterations body 0 k s = Some s \<and> body (k + 0) s = Inl r" by simp
    then show ?thesis by blast
  next
    case (Inr s')
    with 1 obtain m s'' where "iterations body m (Suc k) s' = Some s''" "body (Suc k + m) s'' = Inl r" by fastforce
    with Inr have "iterations body (Suc m) k s = Some s'' \<and> body (k + Suc m) s'' = Inl r" by simp
    then show ?thesis by blast
  qed
qed

text \<open>The loop returns exactly when some iteration does.\<close>

lemma select_loop_iff:
  "select_loop body k s = Some r \<longleftrightarrow> (\<exists>m s'. iterations body m k s = Some s' \<and> body (k + m) s' = Inl r)"
  by (blast intro: select_loop_stops select_loop_returned)

text \<open>
  When only what is received decides whether the loop goes on, the first thing that does not let it go
  on is where it returns.
\<close>

lemma iterations_go_on:
  assumes "\<And>i s. i < m \<Longrightarrow> body (k + i) s = Inr (f (k + i) s)"
  shows "iterations body m k s = Some (fold f [k..<k + m] s)"
  using assms
proof (induction m arbitrary: k s)
  case (Suc m)
  have "body k s = Inr (f k s)" using Suc.prems [of 0] by simp
  moreover have "body (Suc k + i) s = Inr (f (Suc k + i) s)" if "i < m" for i s using Suc.prems [of "Suc i"] that by simp
  moreover have "[k..<k + Suc m] = k # [Suc k..<Suc k + m]" by (simp add: upt_conv_Cons)
  ultimately show ?case using Suc.IH [of "Suc k"] by simp
qed simp

lemma select_loop_events:
  assumes go: "\<And>i s. \<not> ends i \<Longrightarrow> body i s = Inr (f i s)" and stop: "\<And>i s. ends i \<Longrightarrow> body i s = Inl (g i s)"
  shows "select_loop body 0 s =
    (if \<exists>i. ends i then let m = LEAST i. ends i in Some (g m (fold f [0..<m] s)) else None)"
proof (cases "\<exists>i. ends i")
  case True
  define m where "m = (LEAST i. ends i)"
  have "ends m" unfolding m_def using True by (metis LeastI)
  moreover have "\<not> ends (0 + i)" if "i < m" for i using not_less_Least that unfolding m_def by auto
  ultimately have "select_loop body 0 s = Some (g m (fold f [0..<m] s))"
    using select_loop_stops [OF iterations_go_on [of m body 0 f]] go stop by simp
  with True show ?thesis by (simp add: m_def Let_def)
next
  case False
  have "iterations body m k s \<noteq> None \<longrightarrow> body (k + m) s' \<noteq> Inl r" for m k s s' r
    using False go by (metis sum.distinct(1))
  then have "select_loop body 0 s = None" by (metis (no_types) select_loop_returned option.exhaust option.distinct(1))
  with False show ?thesis by simp
qed

text \<open>What every iteration keeps, the loop keeps.\<close>

lemma select_loop_keeps:
  assumes "select_loop body k s = Some r"
    and "\<And>k s s'. I s \<Longrightarrow> body k s = Inr s' \<Longrightarrow> I s'" "\<And>k s r. I s \<Longrightarrow> body k s = Inl r \<Longrightarrow> J r" "I s"
  shows "J r"
proof -
  obtain m s' where m: "iterations body m k s = Some s'" "body (k + m) s' = Inl r"
    using select_loop_returned [OF assms(1)] by blast
  have "I s'" using m(1) assms(4)
    by (induction m arbitrary: k s) (auto split: sum.splits dest: assms(2))
  with assms(3) m(2) show ?thesis by blast
qed

end
