(* ===== verification/CP_Loops.thy ===== *)
theory CP_Loops
  imports Samples Go_Loop
begin

section \<open>The background goroutines of the control plane\<close>

text \<open>
  \<^verbatim>\<open>Scheduler.Start\<close> and \<^verbatim>\<open>Reaper.Start\<close> of \<^verbatim>\<open>control-plane/internal/scheduler\<close>: a ticker and a loop that
  runs one round per tick until the context is cancelled. While the loop waits for its \<open>k\<close>th event, the
  rest of the server acts as \<open>env k\<close> says; a round itself is atomic here, its statements are taken apart
  in the relation \<open>statement\<close>.
\<close>

datatype ticker_event = Cancelled | Ticked

definition ticker_step :: "unit effect \<Rightarrow> (nat \<Rightarrow> world \<Rightarrow> world) \<Rightarrow> (nat \<Rightarrow> ticker_event) \<Rightarrow> nat \<Rightarrow> world
    \<Rightarrow> world + world" where
  "ticker_step cycle env evs k w = (case evs k of
     Cancelled \<Rightarrow> Inl (env k w)
   | Ticked \<Rightarrow> Inr (exec cycle (env k w)))"

definition Scheduler_Start :: "(nat \<Rightarrow> world \<Rightarrow> world) \<Rightarrow> (nat \<Rightarrow> ticker_event) \<Rightarrow> world \<Rightarrow> world option" where
  "Scheduler_Start env evs = select_loop (ticker_step tick env evs) 0"

definition Reaper_Start :: "ext \<Rightarrow> bool \<Rightarrow> int \<Rightarrow> (nat \<Rightarrow> world \<Rightarrow> world) \<Rightarrow> (nat \<Rightarrow> ticker_event) \<Rightarrow> world \<Rightarrow> world option" where
  "Reaper_Start ex brownie heartbeatTTLSec env evs = select_loop (ticker_step (reap ex brownie heartbeatTTLSec) env evs) 0"

text \<open>Where a ticker loop ends, whatever its rounds do.\<close>

lemma ticker_loop_ends:
  "select_loop (ticker_step cycle env evs) 0 w =
    (if \<exists>k. evs k = Cancelled
     then let m = LEAST k. evs k = Cancelled in Some (env m (fold (\<lambda>k w. exec cycle (env k w)) [0..<m] w))
     else None)"
proof -
  have go: "ticker_step cycle env evs k w = Inr (exec cycle (env k w))" if "evs k \<noteq> Cancelled" for k w
    using that by (cases "evs k") (simp_all add: ticker_step_def)
  have stop: "ticker_step cycle env evs k w = Inl (env k w)" if "evs k = Cancelled" for k w
    using that by (simp add: ticker_step_def)
  show ?thesis by (rule select_loop_events [where g = env]) (fact go, fact stop)
qed

lemma ticker_loop_run:
  assumes "select_loop (ticker_step cycle env evs) k w = Some w'"
    and env: "\<And>k w. cp_run ex d dec w (env k w)" and cycle: "\<And>w. cp_step ex d dec w (exec cycle w)"
  shows "cp_run ex d dec w w'"
  using assms(1)
proof (rule select_loop_keeps [where I = "cp_run ex d dec w"])
  fix k v v'
  assume "cp_run ex d dec w v" "ticker_step cycle env evs k v = Inr v'"
  with env [of v k] cycle [of "env k v"] show "cp_run ex d dec w v'"
    by (auto simp: ticker_step_def split: ticker_event.splits)
next
  fix k v v'
  assume "cp_run ex d dec w v" "ticker_step cycle env evs k v = Inl v'"
  with env [of v k] show "cp_run ex d dec w v'" by (auto simp: ticker_step_def split: ticker_event.splits)
qed simp

text \<open>C35: The two background loops stay within the runs the other properties are about: when the rest of the
  server makes steps of a run between the ticks, so does the whole. Each loop ends exactly when its context is cancelled, so
  that \<^verbatim>\<open>Stop\<close>, which waits for it, returns.\<close>

theorem background_loops_are_runs:
  assumes "\<And>k w. cp_run ex d dec w (env k w)"
  shows "(case Scheduler_Start env evs w of
      None \<Rightarrow> \<forall>k. evs k = Ticked
    | Some w' \<Rightarrow> (\<exists>k. evs k = Cancelled) \<and> cp_run ex d dec w w')
  \<and> (case Reaper_Start ex brownie (rd_HeartbeatTTLSec d) env evs w of
      None \<Rightarrow> \<forall>k. evs k = Ticked
    | Some w' \<Rightarrow> (\<exists>k. evs k = Cancelled) \<and> cp_run ex d dec w w')"
proof -
  have all: "case select_loop (ticker_step cycle env evs) 0 w of
      None \<Rightarrow> (\<forall>k. evs k = Ticked)
    | Some w' \<Rightarrow> (\<exists>k. evs k = Cancelled) \<and> cp_run ex d dec w w'"
    if "\<And>w. cp_step ex d dec w (exec cycle w)" for cycle
  proof (cases "\<exists>k. evs k = Cancelled")
    case True
    then obtain w' where "select_loop (ticker_step cycle env evs) 0 w = Some w'" by (simp add: ticker_loop_ends Let_def)
    with ticker_loop_run [OF this assms that] True show ?thesis by simp
  next
    case False
    then have "evs k = Ticked" for k by (cases "evs k") auto
    with False show ?thesis by (simp add: ticker_loop_ends)
  qed
  show ?thesis
    unfolding Scheduler_Start_def Reaper_Start_def by (intro conjI all cp_step.Tick cp_step.Reap)
qed

text \<open>Two ticks while nothing else happens.\<close>

theorem background_loops_are_runs_witness:
  "\<exists>w'. Scheduler_Start (\<lambda>_ w. w) (\<lambda>k. if k < 2 then Ticked else Cancelled) sample_world = Some w'
    \<and> cp_run sample_ext sample_deps sample_decoders sample_world w'"
proof -
  let ?evs = "\<lambda>k::nat. if k < 2 then Ticked else Cancelled"
  have "?evs 2 = Cancelled" by simp
  then have not_all: "\<not> (\<forall>k. ?evs k = Ticked)" by (metis ticker_event.distinct(1))
  show ?thesis
    using background_loops_are_runs [of sample_ext sample_deps sample_decoders "\<lambda>_ w. w" ?evs sample_world True] not_all
    by (cases "Scheduler_Start (\<lambda>_ w. w) ?evs sample_world") (simp_all only: option.case rtranclp.rtrancl_refl, auto)
qed

end
