(* ===== verification/Snapshot.thy ===== *)
theory Snapshot
  imports World
begin

section \<open>The dashboard's snapshot builder\<close>

text \<open>
  \<^verbatim>\<open>control-plane/internal/dashboard/snapshot.go\<close>: seven queries in goroutines of their own, each of which
  fills its panel of a shared snapshot under a mutex, or leaves its error if it is the first. All but
  \<^verbatim>\<open>ListWorkers\<close> are methods the store of this repository does not have; the outcomes of the queries, a
  missed deadline included, are therefore parameters. The goroutines end in any order.
\<close>

record TokenUsageStat =
  tus_AIAgent :: string
  tus_TotalTokens :: int
  tus_InputTokens :: int
  tus_OutputTokens :: int
  tus_Period :: string

record SnapshotLeader =
  sl_WorkerID :: uuid
  sl_OrgUnitID :: uuid
  sl_TotalPoints :: int
  sl_EventCount :: int
  sl_LastEventAt :: "time option"

record SecurityEventSummary =
  ses_OccurredAt :: time
  ses_WorkerID :: string
  ses_Action :: string
  ses_Details :: jsonmap

record Snapshot =
  sn_Workers :: "Worker list"
  sn_QueuedTasks :: "Task list"
  sn_RunningTasks :: "Task list"
  sn_RecentCompleted :: "Task list"
  sn_TokenUsage :: "TokenUsageStat list"
  sn_Leaderboard :: "SnapshotLeader list"
  sn_SecurityEvents :: "SecurityEventSummary list"
  sn_GeneratedAt :: time

text \<open>The queries, with the arguments the builder gives them.\<close>

record 'e snapshot_source =
  ss_ListWorkers :: "uuid \<Rightarrow> 'e + Worker list"
  ss_ListTasksByOrgAndState :: "uuid \<Rightarrow> string \<Rightarrow> int \<Rightarrow> int \<Rightarrow> 'e + Task list"
  ss_ListRecentCompletedTasks :: "uuid \<Rightarrow> time \<Rightarrow> int \<Rightarrow> 'e + Task list"
  ss_GetTokenUsageByAgent :: "uuid \<Rightarrow> time \<Rightarrow> 'e + TokenUsageStat list"
  ss_GetLeaderboardFull :: "uuid \<Rightarrow> int \<Rightarrow> 'e + SnapshotLeader list"
  ss_GetSecurityEvents :: "uuid \<Rightarrow> time \<Rightarrow> int \<Rightarrow> 'e + SecurityEventSummary list"

datatype panel = Workers | Queued | Running | Completed | Tokens | Leaders | Security

definition panels :: "panel list" where
  "panels = [Workers, Queued, Running, Completed, Tokens, Leaders, Security]"

text \<open>The shared state of the goroutines: the snapshot and \<^verbatim>\<open>firstErr\<close>.\<close>

type_synonym 'e building = "Snapshot \<times> 'e option"

definition set_err :: "'e \<Rightarrow> 'e building \<Rightarrow> 'e building" where
  "set_err e = (\<lambda>(s, first). (s, case first of None \<Rightarrow> Some e | Some _ \<Rightarrow> first))"

definition fill :: "'e + 'a \<Rightarrow> ('a \<Rightarrow> Snapshot \<Rightarrow> Snapshot) \<Rightarrow> 'e building \<Rightarrow> 'e building" where
  "fill r put = (case r of Inl e \<Rightarrow> set_err e | Inr x \<Rightarrow> (\<lambda>(s, first). (put x s, first)))"

definition run_panel :: "'e snapshot_source \<Rightarrow> uuid \<Rightarrow> panel \<Rightarrow> 'e building \<Rightarrow> 'e building" where
  "run_panel src org p = (case p of
     Workers \<Rightarrow> fill (ss_ListWorkers src org) (\<lambda>x s. s\<lparr>sn_Workers := x\<rparr>)
   | Queued \<Rightarrow> fill (ss_ListTasksByOrgAndState src org ''queued'' 50 0) (\<lambda>x s. s\<lparr>sn_QueuedTasks := x\<rparr>)
   | Running \<Rightarrow> fill (ss_ListTasksByOrgAndState src org ''running'' 50 0) (\<lambda>x s. s\<lparr>sn_RunningTasks := x\<rparr>)
   | Completed \<Rightarrow> fill (ss_ListRecentCompletedTasks src org (24 * Hour) 50) (\<lambda>x s. s\<lparr>sn_RecentCompleted := x\<rparr>)
   | Tokens \<Rightarrow> fill (ss_GetTokenUsageByAgent src org (30 * 24 * Hour)) (\<lambda>x s. s\<lparr>sn_TokenUsage := x\<rparr>)
   | Leaders \<Rightarrow> fill (ss_GetLeaderboardFull src org 10) (\<lambda>x s. s\<lparr>sn_Leaderboard := x\<rparr>)
   | Security \<Rightarrow> fill (ss_GetSecurityEvents src org (24 * Hour) 20) (\<lambda>x s. s\<lparr>sn_SecurityEvents := x\<rparr>))"

definition new_snapshot :: "time \<Rightarrow> Snapshot" where
  "new_snapshot now = \<lparr>sn_Workers = [], sn_QueuedTasks = [], sn_RunningTasks = [], sn_RecentCompleted = [],
     sn_TokenUsage = [], sn_Leaderboard = [], sn_SecurityEvents = [], sn_GeneratedAt = now\<rparr>"

text \<open>
  \<^verbatim>\<open>Build\<close> for one order in which the goroutines take the mutex: the snapshot it returns, and the error it
  logs.
\<close>

definition Build :: "'e snapshot_source \<Rightarrow> uuid \<Rightarrow> time \<Rightarrow> panel list \<Rightarrow> 'e building" where
  "Build src org now order = fold (run_panel src org) order (new_snapshot now, None)"

subsection \<open>The order does not matter\<close>

definition panel_error :: "'e snapshot_source \<Rightarrow> uuid \<Rightarrow> panel \<Rightarrow> 'e option" where
  "panel_error src org p = snd (run_panel src org p (new_snapshot 0, None))"

definition or_nil :: "'e + 'a list \<Rightarrow> 'a list" where
  "or_nil r = (case r of Inl _ \<Rightarrow> [] | Inr xs \<Rightarrow> xs)"

text \<open>What the panels in \<open>P\<close> hold once their goroutines have ended; the others are still empty.\<close>

definition built :: "'e snapshot_source \<Rightarrow> uuid \<Rightarrow> time \<Rightarrow> panel set \<Rightarrow> Snapshot" where
  "built src org now P = \<lparr>
     sn_Workers = (if Workers \<in> P then or_nil (ss_ListWorkers src org) else []),
     sn_QueuedTasks = (if Queued \<in> P then or_nil (ss_ListTasksByOrgAndState src org ''queued'' 50 0) else []),
     sn_RunningTasks = (if Running \<in> P then or_nil (ss_ListTasksByOrgAndState src org ''running'' 50 0) else []),
     sn_RecentCompleted = (if Completed \<in> P then or_nil (ss_ListRecentCompletedTasks src org (24 * Hour) 50) else []),
     sn_TokenUsage = (if Tokens \<in> P then or_nil (ss_GetTokenUsageByAgent src org (30 * 24 * Hour)) else []),
     sn_Leaderboard = (if Leaders \<in> P then or_nil (ss_GetLeaderboardFull src org 10) else []),
     sn_SecurityEvents = (if Security \<in> P then or_nil (ss_GetSecurityEvents src org (24 * Hour) 20) else []),
     sn_GeneratedAt = now\<rparr>"

lemma run_panel_built:
  assumes "p \<notin> P"
  shows "run_panel src org p (built src org now P, first) =
    (built src org now (insert p P), case first of None \<Rightarrow> panel_error src org p | Some e \<Rightarrow> Some e)"
  using assms
  by (cases p; cases first) (auto simp: run_panel_def fill_def set_err_def panel_error_def built_def or_nil_def split: sum.split)

lemma fold_run_panel:
  assumes "distinct order" "set order \<inter> P = {}"
  shows "fold (run_panel src org) order (built src org now P, first) =
    (built src org now (P \<union> set order),
     case first of None \<Rightarrow> (case List.map_filter (panel_error src org) order of [] \<Rightarrow> None | e # _ \<Rightarrow> Some e)
       | Some e \<Rightarrow> Some e)"
  using assms
proof (induction order arbitrary: P first)
  case (Cons p order)
  then have "p \<notin> P" "set order \<inter> insert p P = {}" by auto
  with Cons run_panel_built [of p P src org now first] show ?case
    by (auto simp: List.map_filter_simps insert_commute split: option.split list.split)
qed (simp add: List.map_filter_simps split: option.split)

lemma built_empty: "built src org now {} = new_snapshot now"
  by (simp add: built_def new_snapshot_def)

text \<open>Whatever the order in which the seven goroutines end, the snapshot is the same: each panel holds what
  its query returned, and is empty when the query failed; a failure of some queries never loses the
  others. The error that is logged is that of the first goroutine that failed.\<close>

lemma snapshot_in_any_order:
  assumes "distinct order" "set order = UNIV"
  shows "Build src org now order = (built src org now UNIV,
    case List.map_filter (panel_error src org) order of [] \<Rightarrow> None | e # _ \<Rightarrow> Some e)"
  using fold_run_panel [OF assms(1), of "{}" src org now None] assms(2)
  by (simp add: Build_def built_empty)

end
