(* ===== verification/Worker_Service.thy ===== *)
theory Worker_Service
  imports Worker_CLI Worker_Samples Go_Loop
begin

section \<open>Starting and stopping the worker\<close>

text \<open>
  How a worker process begins and ends: the root command and \<^verbatim>\<open>run\<close> of \<^verbatim>\<open>grid-worker/internal/cli\<close>,
  the service commands of \<^verbatim>\<open>internal/service/install.go\<close>, the start of \<^verbatim>\<open>daemon.go\<close>, the signal
  handler of \<^verbatim>\<open>signals.go\<close>, the accept loop of \<^verbatim>\<open>control/server.go\<close> and its socket, and process priority.
  The libraries for configuration, logging and services are parameters.
\<close>

subsection \<open>The root command\<close>

definition zero_Config :: Config where
  "zero_Config =
     \<lparr>cfg_Server = \<lparr>srv_URL = [], srv_APIKey = [], srv_WorkerID = [], srv_HeartbeatSec = 0, srv_PollTimeoutSec = 0,
        srv_TLSSkipVerify = False, srv_RetryMax = 0\<rparr>,
      cfg_Workspace = \<lparr>wsp_BasePath = [], wsp_DiskQuotaGB = 0, wsp_MaxJobs = 0, wsp_CleanupAfter = False\<rparr>,
      cfg_Security = \<lparr>sec_HMACSecret = [], sec_ScanEnabled = False, sec_RulesetPath = [], sec_ScanConcurrency = 0\<rparr>,
      cfg_Execution = \<lparr>exe_TimeoutSec = 0, exe_MaxCPUPercent = 0, exe_MaxRAMMB = 0, exe_Agents = []\<rparr>,
      cfg_Policy = \<lparr>pol_Mode = [], pol_Windows = []\<rparr>,
      cfg_Logging = \<lparr>lgc_Level = [], lgc_Format = [], lgc_File = []\<rparr>\<rparr>"

text \<open>A logger: its level, whether it writes for a console, and its file; \<^verbatim>\<open>None\<close> is the error stream.\<close>

record logger =
  lg_Level :: string
  lg_Console :: bool
  lg_File :: "string option"

definition os_OpenAppend :: "string \<Rightarrow> (string + unit) node_effect" where
  "os_OpenAppend p = do {
     e \<leftarrow> oserr;
     case e of Some m \<Rightarrow> ret (Inl m)
     | None \<Rightarrow> do {
         found \<leftarrow> gets (\<lambda>n. n_fs n p);
         case found of
           Some Dir \<Rightarrow> ret (Inl (''open '' @ p @ '': is a directory''))
         | Some (File _) \<Rightarrow> ret (Inr ())
         | None \<Rightarrow> do { modify (\<lambda>n. n\<lparr>n_fs := (n_fs n)(p \<mapsto> File [])\<rparr>); ret (Inr ()) }
       }
   }"

definition buildLogger :: "(string \<Rightarrow> string option) \<Rightarrow> string \<Rightarrow> string \<Rightarrow> string \<Rightarrow> logger node_effect" where
  "buildLogger parse_level level format file = do {
     let lvl = (case parse_level level of None \<Rightarrow> ''info'' | Some l \<Rightarrow> l);
     w \<leftarrow> (if file \<noteq> [] then do { f \<leftarrow> os_OpenAppend file; ret (case f of Inl _ \<Rightarrow> None | Inr _ \<Rightarrow> Some file) }
        else ret None);
     ret \<lparr>lg_Level = lvl, lg_Console = (format = ''text''), lg_File = w\<rparr>
   }"

definition initConfig :: "'c viper \<Rightarrow> (string \<Rightarrow> string option) \<Rightarrow> string \<Rightarrow> bool \<Rightarrow> (Config \<times> logger) node_effect" where
  "initConfig v parse_level cfgFile verbose = do {
     env \<leftarrow> gets n_env;
     let cfg = (case Load v env cfgFile of Inl _ \<Rightarrow> zero_Config | Inr c \<Rightarrow> c);
     let level = (if verbose then ''debug'' else lgc_Level (cfg_Logging cfg));
     log \<leftarrow> buildLogger parse_level level (lgc_Format (cfg_Logging cfg)) (lgc_File (cfg_Logging cfg));
     ret (cfg, log)
   }"

text \<open>The hook that runs before each command; \<^verbatim>\<open>None\<close> leaves the configuration unset.\<close>

definition PersistentPreRunE :: "'c viper \<Rightarrow> (string \<Rightarrow> string option) \<Rightarrow> string \<Rightarrow> bool \<Rightarrow> string
    \<Rightarrow> (Config \<times> logger) option node_effect" where
  "PersistentPreRunE v parse_level cfgFile verbose name =
     (if name = ''completion'' \<or> name = ''help'' then ret None
      else do { r \<leftarrow> initConfig v parse_level cfgFile verbose; ret (Some r) })"

subsection \<open>The system service\<close>

datatype svc_value = SvcStr string | SvcBool bool

record ServiceConfig =
  sc_Name :: string
  sc_DisplayName :: string
  sc_Description :: string
  sc_Executable :: string
  sc_Arguments :: "string list"
  sc_Dependencies :: "string list"
  sc_Option :: "string \<rightharpoonup> svc_value"

definition buildServiceConfig :: "string \<Rightarrow> string \<Rightarrow> ServiceConfig" where
  "buildServiceConfig goos execPath =
     (let cfg = \<lparr>sc_Name = ''grid-worker'', sc_DisplayName = ''Grid Worker Daemon'',
            sc_Description = ''Grid Worker distributed AI coding agent daemon'', sc_Executable = execPath,
            sc_Arguments = [''run''], sc_Dependencies = [],
            sc_Option = [''OnFailure'' \<mapsto> SvcStr ''restart'', ''OnFailureDelay'' \<mapsto> SvcStr ''5'']\<rparr> in
      if goos = ''linux'' then
        cfg\<lparr>sc_Dependencies := [''After=network.target'', ''After=network-online.target'', ''Wants=network-online.target''],
          sc_Option := (sc_Option cfg)(''Restart'' \<mapsto> SvcStr ''on-failure'', ''RestartSec'' \<mapsto> SvcStr ''5'',
            ''Nice'' \<mapsto> SvcStr ''19'')\<rparr>
      else if goos = ''darwin'' then
        cfg\<lparr>sc_Option := (sc_Option cfg)(''KeepAlive'' \<mapsto> SvcBool True, ''RunAtLoad'' \<mapsto> SvcBool True)\<rparr>
      else if goos = ''windows'' then
        cfg\<lparr>sc_Option := (sc_Option cfg)(''StartType'' \<mapsto> SvcStr ''automatic'', ''OnFailure'' \<mapsto> SvcStr ''restart'',
          ''OnFailureDelay'' \<mapsto> SvcStr ''5'')\<rparr>
      else cfg)"

text \<open>
  The service library (\<^verbatim>\<open>kardianos/service\<close>) with the manager's state \<open>'m\<close>: creating a service object
  may fail; each operation on it changes the manager or fails. \<open>sl_Run\<close> is the error of running as a service.
\<close>

record 'm service_lib =
  sl_New :: "ServiceConfig \<Rightarrow> string option"
  sl_Install :: "ServiceConfig \<Rightarrow> 'm \<Rightarrow> (string + unit) \<times> 'm"
  sl_Uninstall :: "ServiceConfig \<Rightarrow> 'm \<Rightarrow> (string + unit) \<times> 'm"
  sl_Start :: "ServiceConfig \<Rightarrow> 'm \<Rightarrow> (string + unit) \<times> 'm"
  sl_Stop :: "ServiceConfig \<Rightarrow> 'm \<Rightarrow> (string + unit) \<times> 'm"
  sl_Interactive :: bool
  sl_Run :: "string option"

text \<open>What the four operations share: the service object, the call, and its error.\<close>

definition service_call :: "'m service_lib \<Rightarrow> (ServiceConfig \<Rightarrow> 'm \<Rightarrow> (string + unit) \<times> 'm) \<Rightarrow> string \<Rightarrow> ServiceConfig
    \<Rightarrow> 'm \<Rightarrow> (string + unit) \<times> 'm" where
  "service_call lib act verb svcCfg m = (case sl_New lib svcCfg of
     Some e \<Rightarrow> (Inl (''create service: '' @ e), m)
   | None \<Rightarrow> (case act svcCfg m of
       (Inl e, m') \<Rightarrow> (Inl (verb @ '' service: '' @ e), m')
     | (Inr _, m') \<Rightarrow> (Inr (), m')))"

text \<open>\<open>found\<close> is what looking up \<^verbatim>\<open>grid-worker\<close> on the path gives.\<close>

definition service_Install :: "'m service_lib \<Rightarrow> string \<Rightarrow> (string + string) \<Rightarrow> string \<Rightarrow> 'm \<Rightarrow> (string + unit) \<times> 'm" where
  "service_Install lib goos found execPath m =
     (case (if execPath = [] then found else Inr execPath) of
        Inl e \<Rightarrow> (Inl (''grid-worker binary not found: '' @ e), m)
      | Inr p \<Rightarrow> service_call lib (sl_Install lib) ''install'' (buildServiceConfig goos p) m)"

definition service_Uninstall :: "'m service_lib \<Rightarrow> string \<Rightarrow> 'm \<Rightarrow> (string + unit) \<times> 'm" where
  "service_Uninstall lib goos = service_call lib (sl_Uninstall lib) ''uninstall'' (buildServiceConfig goos [])"

definition service_Start :: "'m service_lib \<Rightarrow> string \<Rightarrow> 'm \<Rightarrow> (string + unit) \<times> 'm" where
  "service_Start lib goos = service_call lib (sl_Start lib) ''start'' (buildServiceConfig goos [])"

definition service_Stop :: "'m service_lib \<Rightarrow> string \<Rightarrow> 'm \<Rightarrow> (string + unit) \<times> 'm" where
  "service_Stop lib goos = service_call lib (sl_Stop lib) ''stop'' (buildServiceConfig goos [])"

text \<open>The two commands; on success, what they print. \<open>self\<close> is the path of the running program.\<close>

definition runInstall :: "'m service_lib \<Rightarrow> string \<Rightarrow> (string + string) \<Rightarrow> (string + string) \<Rightarrow> 'm
    \<Rightarrow> (string + string) \<times> 'm" where
  "runInstall lib goos found self m = (case self of
     Inl e \<Rightarrow> (Inl (''determine executable path: '' @ e), m)
   | Inr p \<Rightarrow> (case service_Install lib goos found p m of
       (Inl e, m') \<Rightarrow> (Inl (''install service: '' @ e), m')
     | (Inr _, m') \<Rightarrow> (Inr (''grid-worker installed as system service'' @ [CHR 0x0A]
         @ ''Start it with: grid-worker-ctl start  (or: systemctl start grid-worker)'' @ [CHR 0x0A]), m')))"

definition runUninstall :: "'m service_lib \<Rightarrow> string \<Rightarrow> 'm \<Rightarrow> (string + string) \<times> 'm" where
  "runUninstall lib goos m = (case service_Uninstall lib goos m of
     (Inl e, m') \<Rightarrow> (Inl (''uninstall service: '' @ e), m')
   | (Inr _, m') \<Rightarrow> (Inr (''grid-worker system service removed'' @ [CHR 0x0A]), m'))"

subsection \<open>The daemon process\<close>

text \<open>\<^verbatim>\<open>daemon.New\<close> on a machine: the directories and the executor are made once the configuration is valid.\<close>

definition create_daemon :: "wext \<Rightarrow> (string \<Rightarrow> string + rulesetYAML) \<Rightarrow> string \<Rightarrow> Config \<Rightarrow> (string + daemon) node_effect" where
  "create_daemon ex yaml embedded cfg = do {
     now \<leftarrow> node_Now;
     case Validate cfg of
       Inl _ \<Rightarrow> ret (Daemon_New now (Inr ()) (Inr ()) cfg)
     | Inr _ \<Rightarrow> do {
         dirs \<leftarrow> EnsureDirs;
         case dirs of
           Inl _ \<Rightarrow> ret (Daemon_New now dirs (Inr ()) cfg)
         | Inr _ \<Rightarrow> do {
             exec \<leftarrow> buildExecutor ex yaml embedded cfg (Client_New (cfg_Server cfg));
             ret (Daemon_New now dirs (case exec of Inl e \<Rightarrow> Inl (err_text e) | Inr _ \<Rightarrow> Inr ()) cfg)
           }
       }
   }"

text \<open>
  The goroutine \<^verbatim>\<open>run\<close> up to the loop: the checks, which may lower a limit in the shared configuration, then
  the two transitions. \<^verbatim>\<open>None\<close> is the exit of the process. A reload signal during the checks is left out.
\<close>

definition begin_run :: "wext \<Rightarrow> (string \<Rightarrow> string + rulesetYAML) \<Rightarrow> string \<Rightarrow> hardware \<Rightarrow> daemon
    \<Rightarrow> (CheckResult list \<times> daemon option) node_effect" where
  "begin_run ex yaml embedded hw d = do {
     (results, cfg) \<leftarrow> RunAll ex yaml embedded hw (Client_New (cfg_Server (own_config d))) (own_config d);
     ret (results, run_preflight (HasFailures results) (d\<lparr>d_heap := [cfg]\<rparr>))
   }"

text \<open>
  How the \<^verbatim>\<open>run\<close> command leaves the main goroutine: with an error, in front of the console (blocked for
  ever, the daemon beside it), or inside the service library, with the error it printed before it exits.
\<close>

datatype run_command = Run_Failed string | Run_Interactive daemon | Run_Service daemon "string option"

definition run_service_config :: ServiceConfig where
  "run_service_config = \<lparr>sc_Name = ''grid-worker'', sc_DisplayName = ''Grid Worker Daemon'',
     sc_Description = ''Grid Worker distributed AI coding agent daemon'', sc_Executable = [], sc_Arguments = [],
     sc_Dependencies = [], sc_Option = Map.empty\<rparr>"

definition runDaemon :: "'m service_lib \<Rightarrow> wext \<Rightarrow> (string \<Rightarrow> string + rulesetYAML) \<Rightarrow> string \<Rightarrow> Config option
    \<Rightarrow> run_command node_effect" where
  "runDaemon lib ex yaml embedded cfg = (case cfg of
     None \<Rightarrow> ret (Run_Failed ''configuration not loaded'')
   | Some c \<Rightarrow> do {
       d \<leftarrow> create_daemon ex yaml embedded c;
       ret (case d of
           Inl e \<Rightarrow> Run_Failed (''create daemon: '' @ e)
         | Inr d \<Rightarrow> (case sl_New lib run_service_config of
             Some e \<Rightarrow> Run_Failed (''create service: '' @ e)
           | None \<Rightarrow> if sl_Interactive lib then Run_Interactive d else Run_Service d (sl_Run lib)))
     })"

text \<open>\<^verbatim>\<open>grid-worker run\<close> from the hook on: what the command did, and the daemon once it is idle.\<close>

definition worker_process :: "'m service_lib \<Rightarrow> 'c viper \<Rightarrow> (string \<Rightarrow> string option) \<Rightarrow> wext
    \<Rightarrow> (string \<Rightarrow> string + rulesetYAML) \<Rightarrow> string \<Rightarrow> hardware \<Rightarrow> string \<Rightarrow> bool
    \<Rightarrow> (run_command \<times> (CheckResult list \<times> daemon option) option) node_effect" where
  "worker_process lib v parse_level ex yaml embedded hw cfgFile verbose = do {
     pre \<leftarrow> PersistentPreRunE v parse_level cfgFile verbose ''run'';
     r \<leftarrow> runDaemon lib ex yaml embedded (map_option fst pre);
     case r of
       Run_Failed e \<Rightarrow> ret (r, None)
     | Run_Interactive d \<Rightarrow> do { b \<leftarrow> begin_run ex yaml embedded hw d; ret (r, Some b) }
     | Run_Service d e \<Rightarrow> do { b \<leftarrow> begin_run ex yaml embedded hw d; ret (r, Some b) }
   }"

text \<open>\<^verbatim>\<open>main\<close>: the status of the process and its error stream for the error of the root command.\<close>

definition worker_main :: "string + unit \<Rightarrow> int \<times> string" where
  "worker_main executed = (case executed of Inl e \<Rightarrow> (1, ''error: '' @ e @ [CHR 0x0A]) | Inr _ \<Rightarrow> (0, []))"

subsection \<open>Signals\<close>

text \<open>
  \<^verbatim>\<open>HandleSignals\<close>: what its goroutine receives, one after the other; the two builds differ in the signals
  they register and in the handling of the others. The loop may never end, as when no signal comes that
  ends it; what a reload does to the state is a parameter here.
\<close>

datatype signal = SIGTERM | SIGINT | SIGHUP

datatype signal_event = Ctx_Done | Received signal

definition registered :: "bool \<Rightarrow> signal list" where
  "registered unix = (if unix then [SIGTERM, SIGINT, SIGHUP] else [SIGTERM, SIGINT])"

definition handlePlatformSignal :: "bool \<Rightarrow> ('s \<Rightarrow> 's) \<Rightarrow> signal \<Rightarrow> 's \<Rightarrow> 's" where
  "handlePlatformSignal unix onHUP sig = (if unix \<and> sig = SIGHUP then onHUP else id)"

definition signal_step :: "bool \<Rightarrow> ('s \<Rightarrow> 's) \<Rightarrow> (nat \<Rightarrow> signal_event) \<Rightarrow> nat \<Rightarrow> 's \<Rightarrow> 's \<times> bool + 's" where
  "signal_step unix onHUP evs k s = (case evs k of
     Ctx_Done \<Rightarrow> Inl (s, False)
   | Received sig \<Rightarrow>
       if sig = SIGTERM \<or> sig = SIGINT then Inl (s, True)
       else Inr (handlePlatformSignal unix onHUP sig s))"

definition HandleSignals :: "bool \<Rightarrow> ('s \<Rightarrow> 's) \<Rightarrow> (nat \<Rightarrow> signal_event) \<Rightarrow> 's \<Rightarrow> ('s \<times> bool) option" where
  "HandleSignals unix onHUP evs = select_loop (signal_step unix onHUP evs) 0"

subsection \<open>The control socket's listener\<close>

text \<open>
  \<^verbatim>\<open>Listen\<close> on Unix: a stale socket is removed (that it is not there is no error), and a socket whose
  permissions cannot be restricted is closed again. The replies are those of the operating system.
\<close>

datatype removed = Gone | Not_There | Remove_Failed string

definition control_Listen :: "string \<Rightarrow> removed \<Rightarrow> string option \<Rightarrow> string option \<Rightarrow> string + unit" where
  "control_Listen path rm bound chmod = (case rm of
     Remove_Failed e \<Rightarrow> Inl (''remove stale socket '' @ Quote path @ '': '' @ e)
   | _ \<Rightarrow> (case bound of
       Some e \<Rightarrow> Inl (''listen unix '' @ Quote path @ '': '' @ e)
     | None \<Rightarrow> (case chmod of
         Some e \<Rightarrow> Inl (''chmod socket '' @ Quote path @ '': '' @ e)
       | None \<Rightarrow> Inr ())))"

text \<open>
  \<^verbatim>\<open>Server.Start\<close> after listening: each call of \<^verbatim>\<open>Accept\<close> gives a connection, served by a goroutine of its
  own, or an error; \<open>stopped k\<close> says whether the context is done at the check after the \<open>k\<close>th call. The
  result is that of the loop with the connections it handed over.
\<close>

definition accept_step :: "(nat \<Rightarrow> string + 'conn) \<Rightarrow> (nat \<Rightarrow> bool) \<Rightarrow> nat \<Rightarrow> 'conn list
    \<Rightarrow> (string + unit) \<times> 'conn list + 'conn list" where
  "accept_step accept stopped k conns = (case accept k of
     Inl e \<Rightarrow> Inl (if stopped k then Inr () else Inl e, conns)
   | Inr c \<Rightarrow> Inr (conns @ [c]))"

definition control_Start :: "string \<Rightarrow> string + unit \<Rightarrow> (nat \<Rightarrow> string + 'conn) \<Rightarrow> (nat \<Rightarrow> bool)
    \<Rightarrow> ((string + unit) \<times> 'conn list) option" where
  "control_Start path listened accept stopped = (case listened of
     Inl e \<Rightarrow> Some (Inl (''listen on '' @ Quote path @ '': '' @ e), [])
   | Inr _ \<Rightarrow> select_loop (accept_step accept stopped) 0 [])"

subsection \<open>Battery and priority on other platforms\<close>

definition TrimSuffix :: "string \<Rightarrow> string \<Rightarrow> string" where
  "TrimSuffix s suf = (if HasSuffix s suf then take (length s - length suf) s else s)"

text \<open>
  On macOS, in the output of \<^verbatim>\<open>pmset\<close>: the first word of a line with a percent sign that is a number from 0 to
  100. The parser of numbers is a parameter; a value that is not a number counts as a failure.
\<close>

primrec percent_word :: "(string \<Rightarrow> float64 option) \<Rightarrow> string list \<Rightarrow> float64 option" where
  "percent_word parseFloat [] = None"
| "percent_word parseFloat (w # ws) = (case parseFloat (TrimSuffix (TrimSuffix w ''%;'') ''%'') of
     None \<Rightarrow> percent_word parseFloat ws
   | Some p \<Rightarrow> if 0 \<le> p \<and> p \<le> 100 then Some p else percent_word parseFloat ws)"

primrec percent_line :: "(string \<Rightarrow> float64 option) \<Rightarrow> string list \<Rightarrow> float64 option" where
  "percent_line parseFloat [] = None"
| "percent_line parseFloat (l # ls) =
     (case (if Contains l ''%'' then percent_word parseFloat (Fields l) else None) of
        None \<Rightarrow> percent_line parseFloat ls
      | Some p \<Rightarrow> Some p)"

definition readBattery_darwin :: "(string \<Rightarrow> float64 option) \<Rightarrow> string + string \<Rightarrow> float64 \<times> bool" where
  "readBattery_darwin parseFloat pmset = (case pmset of
     Inl _ \<Rightarrow> (0, False)
   | Inr out \<Rightarrow> (case percent_line parseFloat (Split (CHR 0x0A) out) of None \<Rightarrow> (0, False) | Some p \<Rightarrow> (p, True)))"

text \<open>On Windows nothing is read; on every system the host library must have answered before.\<close>

definition readBattery_windows :: "float64 \<times> bool" where
  "readBattery_windows = (0, False)"

definition BatteryPercent :: "string + unit \<Rightarrow> float64 \<times> bool \<Rightarrow> float64 \<times> bool" where
  "BatteryPercent host_Info fromSystem = (case host_Info of Inl _ \<Rightarrow> (0, False) | Inr _ \<Rightarrow> fromSystem)"

text \<open>
  On Linux, the system calls in order and their arguments. The second call of \<^verbatim>\<open>ioprioSet\<close> repeats the
  first, which has a null pointer for the value; only the second error counts, and the caller ignores it.
\<close>

datatype priority_call = Setpriority int int int | Ioprio_set int int "64 word" | SetPriorityClass int

definition ioprioValue :: "64 word" where
  "ioprioValue = or (push_bit 13 2) 7"

definition ioprioSet :: "int \<Rightarrow> int \<Rightarrow> 64 word \<Rightarrow> string option \<Rightarrow> (string + unit) \<times> priority_call list" where
  "ioprioSet which who ioprio errno =
     (case errno of Some e \<Rightarrow> Inl (''ioprio_set: '' @ e) | None \<Rightarrow> Inr (),
      [Ioprio_set which who 0, Ioprio_set which who ioprio])"

definition SetLowPriority :: "string option \<Rightarrow> string option \<Rightarrow> (string + unit) \<times> priority_call list" where
  "SetLowPriority failed errno = (case failed of
     Some e \<Rightarrow> (Inl (''setpriority failed: '' @ e), [Setpriority 0 0 19])
   | None \<Rightarrow> (Inr (), Setpriority 0 0 19 # snd (ioprioSet 1 0 ioprioValue errno)))"

definition SetLowPriority_darwin :: "string option \<Rightarrow> (string + unit) \<times> priority_call list" where
  "SetLowPriority_darwin failed =
     (case failed of Some e \<Rightarrow> Inl (''setpriority failed: '' @ e) | None \<Rightarrow> Inr (), [Setpriority 0 0 20])"

text \<open>On Windows the handle of the process comes first.\<close>

definition SetLowPriority_windows :: "string option \<Rightarrow> string option \<Rightarrow> (string + unit) \<times> priority_call list" where
  "SetLowPriority_windows no_handle failed = (case no_handle of
     Some e \<Rightarrow> (Inl (''GetCurrentProcess failed: '' @ e), [])
   | None \<Rightarrow> (case failed of Some e \<Rightarrow> Inl (''SetPriorityClass failed: '' @ e) | None \<Rightarrow> Inr (), [SetPriorityClass 64]))"

subsection \<open>Loops that end\<close>

lemma fold_same: "fold (\<lambda>i. f) [0..<m] s = (f ^^ m) s"
  by (induction m) simp_all

text \<open>The signal handler's loop returns exactly when the context is cancelled or SIGTERM or SIGINT arrives. Until
  then it has reloaded the configuration once per SIGHUP, in order, and only on Unix; and it cancels the
  context exactly when a signal ended it.\<close>

lemma signal_loop_terminates:
  "HandleSignals unix onHUP evs s =
    (if \<exists>m. evs m \<noteq> Received SIGHUP
     then let m = LEAST m. evs m \<noteq> Received SIGHUP in
       Some ((if unix then (onHUP ^^ m) s else s), evs m \<noteq> Ctx_Done)
     else None)"
proof -
  have go: "signal_step unix onHUP evs i s = Inr ((if unix then onHUP else id) s)" if "\<not> evs i \<noteq> Received SIGHUP" for i s
    using that by (simp add: signal_step_def handlePlatformSignal_def)
  have stop: "signal_step unix onHUP evs i s = Inl (s, evs i \<noteq> Ctx_Done)" if "evs i \<noteq> Received SIGHUP" for i s
    using that by (cases "evs i"; cases "case evs i of Received sig \<Rightarrow> sig | _ \<Rightarrow> SIGHUP")
      (simp_all add: signal_step_def)
  have pow: "((if unix then onHUP else id) ^^ m) s = (if unix then (onHUP ^^ m) s else s)" for m s by simp
  have "select_loop (signal_step unix onHUP evs) 0 s =
    (if \<exists>m. evs m \<noteq> Received SIGHUP
     then let m = LEAST m. evs m \<noteq> Received SIGHUP in
       Some (fold (\<lambda>_. if unix then onHUP else id) [0..<m] s, evs m \<noteq> Ctx_Done)
     else None)"
    by (rule select_loop_events [where g = "\<lambda>i s. (s, evs i \<noteq> Ctx_Done)"]) (fact go, fact stop)
  then show ?thesis by (simp only: HandleSignals_def fold_same pow)
qed

text \<open>
  The accept loop hands over the connections up to the first failing call, in order; the failure is an
  error unless the context is done. While connections keep coming it does not return.
\<close>

lemma fold_snoc: "fold (\<lambda>i cs. cs @ [f i]) xs cs = cs @ map f xs"
  by (induction xs arbitrary: cs) simp_all

lemma accept_loop_result:
  "select_loop (accept_step accept stopped) 0 [] =
    (if \<exists>i. isl (accept i)
     then let m = LEAST i. isl (accept i) in
       Some (if stopped m then Inr () else Inl (projl (accept m)), map (projr \<circ> accept) [0..<m])
     else None)"
proof -
  have go: "accept_step accept stopped i cs = Inr (cs @ [projr (accept i)])" if "\<not> isl (accept i)" for i cs
    using that by (cases "accept i") (simp_all add: accept_step_def)
  have stop: "accept_step accept stopped i cs = Inl (if stopped i then Inr () else Inl (projl (accept i)), cs)"
    if "isl (accept i)" for i cs
    using that by (cases "accept i") (simp_all add: accept_step_def)
  have "select_loop (accept_step accept stopped) 0 [] =
    (if \<exists>i. isl (accept i)
     then let m = LEAST i. isl (accept i) in
       Some (if stopped m then Inr () else Inl (projl (accept m)), fold (\<lambda>i cs. cs @ [projr (accept i)]) [0..<m] [])
     else None)"
    by (rule select_loop_events [where g = "\<lambda>i cs. (if stopped i then Inr () else Inl (projl (accept i)), cs)"])
      (fact go, fact stop)
  then show ?thesis by (simp only: fold_snoc append_Nil comp_def)
qed

subsection \<open>Starting\<close>

lemma config_errors_zero:
  "config_errors zero_Config =
     [''server.url is required'', ''server.api_key is required'', ''security.hmac_secret is required'',
      ''security.hmac_secret must be at least 32 characters'',
      ''policy.mode must be one of auto|manual|paused, got '' @ Quote [],
      ''logging.format must be json or text, got '' @ Quote []]"
  by (simp add: config_errors_def zero_Config_def)

lemma result_initConfig:
  "fst (result (initConfig v pl cfgFile verbose) n) =
     (case Load v (n_env n) cfgFile of Inl _ \<Rightarrow> zero_Config | Inr c \<Rightarrow> c)"
  by (simp add: initConfig_def Let_def split_beta)

text \<open>A daemon is made only from a valid configuration, in the state the model of its runs starts from.\<close>

lemma create_daemon_Inr:
  assumes "result (create_daemon ex yaml embedded cfg) n = Inr d"
  shows "config_ok cfg \<and> Daemon_New (n_now n) (Inr ()) (Inr ()) cfg = Inr d"
proof (cases "Validate cfg")
  case (Inr u)
  then have v: "Validate cfg = Inr ()" by simp
  then have "config_ok cfg" by (simp add: Validate_iff)
  then show ?thesis
    using assms by (auto simp: v create_daemon_def Daemon_New_def effect_simps split_beta split: sum.splits)
qed (use assms in \<open>simp add: create_daemon_def Daemon_New_def effect_simps\<close>)

lemma own_config_New: "Daemon_New now dirs ex cfg = Inr d \<Longrightarrow> own_config d = cfg \<and> d_heap d = [cfg]"
  by (auto simp: Daemon_New_def own_config_def split: sum.splits)

text \<open>The checks only ever lower the number of jobs, which is not validated.\<close>

lemma shortage_config_ok: "config_ok (snd (shortage b msg cfg)) = config_ok cfg"
  by (simp add: shortage_def config_ok_def)

lemma checkHardware_config_ok: "config_ok (snd (checkHardware hw cfg)) = config_ok cfg"
  by (auto simp: checkHardware_def Let_def shortage_config_ok split_beta split: sum.split)

lemma RunAll_config_ok:
  "config_ok (snd (result (RunAll ex yaml embedded hw c cfg) n)) = config_ok cfg"
  by (simp add: RunAll_def Let_def split_beta checkHardware_config_ok)

lemma begin_run_started:
  assumes "Daemon_New now (Inr ()) (Inr ()) cfg = Inr d" "config_ok cfg"
    and "result (begin_run ex yaml embedded hw d) n = (results, Some d')"
  shows "daemon_started d' \<and> \<not> HasFailures results
    \<and> results = fst (result (RunAll ex yaml embedded hw (Client_New (cfg_Server cfg)) cfg) n)"
proof -
  let ?r = "result (RunAll ex yaml embedded hw (Client_New (cfg_Server cfg)) cfg) n"
  have own: "own_config d = cfg" using own_config_New [OF assms(1)] by simp
  have run: "results = fst ?r" "run_preflight (HasFailures results) (d\<lparr>d_heap := [snd ?r]\<rparr>) = Some d'"
    using assms(3) by (auto simp: begin_run_def own split_beta)
  have "config_ok (snd ?r)" using assms(2) by (simp add: RunAll_config_ok)
  then have "Daemon_New now (Inr ()) (Inr ()) (snd ?r) = Inr (d\<lparr>d_heap := [snd ?r]\<rparr>)"
    using assms(1) by (auto simp: Daemon_New_def Validate_iff [symmetric] split: sum.splits)
  moreover have "\<not> HasFailures results" using run(2) by (auto simp: run_preflight_def split: sum.splits)
  ultimately show ?thesis using run unfolding daemon_started_def by auto
qed

text \<open>C34: A worker is only ever idle, waiting for tasks, when its configuration was read without an error
  and is valid and none of the ten checks failed with it; the daemon is then one of those whose runs
  the other properties are about.\<close>

theorem worker_starts_only_checked:
  assumes "result (worker_process lib v pl ex yaml embedded hw cfgFile verbose) n = (r, Some (results, Some d))"
  shows "(\<exists>cfg n'. Load v (n_env n) cfgFile = Inr cfg \<and> config_ok cfg
      \<and> results = fst (result (RunAll ex yaml embedded hw (Client_New (cfg_Server cfg)) cfg) n'))
    \<and> \<not> HasFailures results \<and> daemon_started d"
proof -
  define i where "i = run_state (initConfig v pl cfgFile verbose) n"
  define m where "m = run_state (create_daemon ex yaml embedded (fst (fst i))) (snd i)"
  have p: "run_state (PersistentPreRunE v pl cfgFile verbose ''run'') n = (Some (fst i), snd i)"
    by (simp add: PersistentPreRunE_def i_def split_beta)
  obtain d0 where d0: "fst m = Inr d0"
      "result (begin_run ex yaml embedded hw d0) (snd m) = (results, Some d)"
    using assms by (cases "fst m")
      (auto simp: worker_process_def p runDaemon_def m_def [symmetric] split_beta split: option.splits if_splits)
  have new: "config_ok (fst (fst i)) \<and> Daemon_New (n_now (snd i)) (Inr ()) (Inr ()) (fst (fst i)) = Inr d0"
    using create_daemon_Inr [of ex yaml embedded "fst (fst i)" "snd i" d0] d0(1) by (simp add: m_def)
  have "fst (fst i) = (case Load v (n_env n) cfgFile of Inl _ \<Rightarrow> zero_Config | Inr c \<Rightarrow> c)"
    using result_initConfig [of v pl cfgFile verbose n] by (simp add: i_def)
  moreover have "\<not> config_ok zero_Config" by (simp add: config_ok_def zero_Config_def)
  ultimately have "Load v (n_env n) cfgFile = Inr (fst (fst i))" using new by (auto split: sum.splits)
  with begin_run_started [OF _ _ d0(2), of "n_now (snd i)" "fst (fst i)"] new show ?thesis by blast
qed

text \<open>An error of reading the configuration is never reported. Whatever it was, the command goes on with a
  configuration of zero values instead of the defaults, fails, and complains of six fields, so that a file
  that cannot be parsed and one named on the command line that is missing look the same.\<close>

lemma unreadable_config_is_masked:
  assumes "Load v (n_env n) cfgFile = Inl err"
  shows "result (worker_process lib v pl ex yaml embedded hw cfgFile verbose) n =
    (Run_Failed (''create daemon: invalid config: config validation failed:'' @ [CHR 0x0A] @ ''  - ''
       @ Join ([CHR 0x0A] @ ''  - '')
          [''server.url is required'', ''server.api_key is required'', ''security.hmac_secret is required'',
           ''security.hmac_secret must be at least 32 characters'',
           ''policy.mode must be one of auto|manual|paused, got '' @ Quote [],
           ''logging.format must be json or text, got '' @ Quote []]), None)"
proof -
  define i where "i = run_state (initConfig v pl cfgFile verbose) n"
  have p: "run_state (PersistentPreRunE v pl cfgFile verbose ''run'') n = (Some (fst i), snd i)"
    by (simp add: PersistentPreRunE_def i_def split_beta)
  have z: "fst (fst i) = zero_Config" using result_initConfig [of v pl cfgFile verbose n] assms by (simp add: i_def)
  show ?thesis
    by (simp add: worker_process_def p z runDaemon_def create_daemon_def Validate_def config_errors_zero Let_def
        Daemon_New_def effect_simps split_beta)
qed

subsection \<open>Concrete starts\<close>

text \<open>A machine with the programs of one agent and of git, and a server that accepts the key.\<close>

definition checked_node :: node where
  "checked_node = sample_node\<lparr>n_env := (\<lambda>_. ''/h''), n_path := [''claude'' \<mapsto> ''/c'', ''git'' \<mapsto> ''/g''],
     n_replies := replicate 3 (Inr \<lparr>hp_Status = 200, hp_Header = (\<lambda>_. []), hp_Body = [], hp_ReadError = None\<rparr>),
     n_procs := [Exited 0 ''git version 2.39.1'' [] id]\<rparr>"

definition checked_hardware :: hardware where
  "checked_hardware = \<lparr>hw_DiskFree = (\<lambda>_. Inl ''unknown''), hw_CPUCounts = Inl ''unknown'', hw_MemTotal = Inl ''unknown''\<rparr>"

definition checked_viper :: "unit viper" where
  "checked_viper = \<lparr>v_ReadExplicit = (\<lambda>_. ReadFailed ''no such file''), v_ReadSearched = (\<lambda>_ _. FileNotFound),
     v_Unmarshal = (\<lambda>_ _. Inr sample_Config)\<rparr>"

definition checked_services :: "unit service_lib" where
  "checked_services = \<lparr>sl_New = (\<lambda>_. None), sl_Install = (\<lambda>_ m. (Inr (), m)), sl_Uninstall = (\<lambda>_ m. (Inr (), m)),
     sl_Start = (\<lambda>_ m. (Inr (), m)), sl_Stop = (\<lambda>_ m. (Inr (), m)), sl_Interactive = True, sl_Run = None\<rparr>"

text \<open>The worker started on that machine with a configuration file, or \<open>[]\<close> for the one that is searched.\<close>

definition checked_start :: "string \<Rightarrow> run_command \<times> (CheckResult list \<times> daemon option) option" where
  "checked_start cfgFile = result (worker_process checked_services checked_viper Some sample_wext
     (\<lambda>_. Inr \<lparr>rsy_Version = ''1'', rsy_Rules = [], rsy_Paths = [], rsy_Patterns = []\<rparr>) ''rules''
     checked_hardware cfgFile False) checked_node"

theorem worker_starts_only_checked_witness:
  "case snd (checked_start []) of Some (results, Some d) \<Rightarrow> \<not> HasFailures results \<and> daemon_started d | _ \<Rightarrow> False"
proof -
  have started: "case snd (checked_start []) of Some (rs, Some d) \<Rightarrow> True | _ \<Rightarrow> False" by code_simp
  show ?thesis
  proof (cases "snd (checked_start [])")
    case (Some b)
    then obtain rs d where b: "snd (checked_start []) = Some (rs, Some d)"
      using started by (cases b, cases "snd b") simp_all
    then have "checked_start [] = (fst (checked_start []), Some (rs, Some d))" by (simp only: b [symmetric] prod.collapse)
    then have "\<not> HasFailures rs \<and> daemon_started d"
      using worker_starts_only_checked [OF checked_start_def [symmetric, THEN trans]] by blast
    with b show ?thesis by simp
  qed (use started in simp)
qed

end
