(* ===== verification/Spec2Isabelle.thy ===== *)
theory Spec2Isabelle
  imports Grid_System Responses Registrations Policies Tenancy Audit_Trail Failed_Requests Migrations Projector CP_Server CP_Loops Snapshot Worker_Service
begin

text \<open>
  \<^bold>\<open>The grid.\<close> The repository holds two Go programs. The control plane
  (\<^verbatim>\<open>src/control-plane\<close>) keeps organisations, workers, tasks, API keys, outputs, points and an
  audit log in PostgreSQL and heartbeats, rate counters and a task queue in Redis; it answers an HTTP
  API, assigns queued tasks to idle workers in scheduling rounds, takes tasks back from workers that
  went silent, and streams events to dashboards. The worker (\<^verbatim>\<open>src/grid-worker\<close>) registers with it,
  sends heartbeats, gets a task in the reply to one, decides by its policy whether to run it, clones the
  repository, scans it for secrets, runs an AI agent on it, scans the result, packs, signs and submits
  it. A control socket and a command line pause, resume and inspect the daemon.

  \<^bold>\<open>How effects are modelled.\<close> The control plane's code runs in the state monad over
  \<open>world\<close> (World.thy): the tables as lists of rows, the Redis keys, the clock, sources of fresh
  identifiers and random bytes, the rows other sessions have locked, the hub, and a script of faults of
  which every statement sent to a service consumes one entry. The worker's code runs over \<open>node\<close>
  (Worker\_Node.thy): files, environment, programs, clock, a script of replies of the outside and a
  log of what the worker did to it. A theorem about every world or node is one about every pattern of
  failures and replies. Errors are values of sum types with the code's texts; concurrency is a step
  relation (of the statements of the control plane, of the hub and of the daemon). Third-party code is a
  parameter, collected in the records \<open>ext\<close> and \<open>wext\<close> of arguments: the UUID parser, Argon2id, the JSON
  and YAML readers, the configuration library, the hardware library, the service library, the time zone
  data.

  \<^bold>\<open>Theories and sources.\<close>
  \<^item> Prelude: state monad, loops, row updates, ordering with limit, and the locale \<open>kept_relation\<close> of
    relations that effectful code keeps. Go\_Loop: loops over events, which may run for ever.
  \<^item> Go\_Lib, Go\_Text, Go\_Time, Go\_Zone, Go\_Path, Regex, Regex\_Syntax, Crypto: what the code uses of Go's
    standard library (strings, numbers, hexadecimal and base64, line scanner, RFC 3339, zones, paths,
    regular expressions, SHA-256 and HMAC).
  \<^item> Domain: \<^verbatim>\<open>domain/types.go\<close>. World: the services. Store\_Tasks, Store\_Workers, Store\_Keys,
    Store\_Records: \<^verbatim>\<open>store/postgres\<close>, one definition per query, and \<open>WithTx\<close>. Redis\_Store:
    \<^verbatim>\<open>store/redis\<close> and \<^verbatim>\<open>queue/redis_queue.go\<close>, with the locale \<open>scored_queue\<close> of a priority queue.
  \<^item> Security, Secret\_Scan: \<^verbatim>\<open>security\<close>. Http: \<^verbatim>\<open>api/middleware\<close>. Handlers: \<^verbatim>\<open>api/handlers\<close>.
    Router: \<^verbatim>\<open>api/router.go\<close>. Scheduler: \<^verbatim>\<open>scheduler\<close> and \<^verbatim>\<open>brownie\<close>. Hub: \<^verbatim>\<open>dashboard/hub.go\<close>.
    Projector: \<^verbatim>\<open>dashboard/projector.go\<close>. Snapshot: \<^verbatim>\<open>dashboard/snapshot.go\<close>. CP\_Config: \<^verbatim>\<open>config\<close>.
    CP\_Loops: the goroutines of \<^verbatim>\<open>scheduler\<close>. CP\_Server: \<^verbatim>\<open>cmd/server\<close> and the opening of the stores.
    Migrations: \<^verbatim>\<open>cmd/migrate\<close>.
  \<^item> Worker\_Config: \<^verbatim>\<open>config\<close> and \<^verbatim>\<open>pkg/platform/paths.go\<close>. Worker\_Client, Worker\_Heartbeat:
    \<^verbatim>\<open>controlplane\<close>. Worker\_Policy: \<^verbatim>\<open>policy\<close>. Worker\_Workspace: \<^verbatim>\<open>workspace\<close>. Worker\_Scanner:
    \<^verbatim>\<open>scanner\<close>. Worker\_Reporter: \<^verbatim>\<open>reporter\<close>. Worker\_Adapters: \<^verbatim>\<open>adapters\<close>. Worker\_Executor:
    \<^verbatim>\<open>executor\<close>. Worker\_Daemon, Worker\_Lifecycle: \<^verbatim>\<open>daemon\<close>. Worker\_Control: \<^verbatim>\<open>control/server.go\<close>.
    Worker\_Preflight: \<^verbatim>\<open>preflight\<close>. Worker\_CLI: \<^verbatim>\<open>cli\<close>, the directories and the Linux battery.
    Worker\_Service: the root command, \<^verbatim>\<open>run\<close>, \<^verbatim>\<open>service/install.go\<close>, \<^verbatim>\<open>daemon/signals.go\<close>, the accept
    loop of \<^verbatim>\<open>control\<close>, and the rest of \<^verbatim>\<open>pkg/platform\<close>.
  \<^item> Frame, Control\_Plane, Access, Requests, Scheduling, Worker\_Execution: the lemmas. Responses: the
    contract of each endpoint and that every answer of the server has its type. Samples and
    Worker\_Samples: the data the properties are applied to. Grid\_System: the two programs as one transition
    system. Control\_Plane\_Properties, Worker\_Properties, System\_Properties, Grid\_System (and the ends of
    Responses, Registrations, Policies, Tenancy, Audit\_Trail, Failed\_Requests,
    Migrations, Projector, CP\_Loops, CP\_Server and Worker\_Service): the properties.

  Definitions keep the names of the Go functions; a method carries the name of its type in front where
  the bare name is taken (\<open>TaskHandler_CreateTask\<close>, \<open>Client_Heartbeat\<close>), and a definition that is a part
  of a function stands just before it.

  \<^bold>\<open>What is proved.\<close> For the control plane, the locale \<open>control_plane_safety\<close> (Frame.thy) states
  which store operations the code above the stores relies on (in layers, \<open>request_frame\<close>,
  \<open>middleware_frame\<close> and \<open>handler_frame\<close>, for relations that only a part of the code keeps); that every
  handler, request, round and cycle keeps a relation follows once, and five interpretations give: the integrity of the tables and
  the life cycle of tasks, that the content of tasks never changes, that ledger and audit log only grow,
  that nothing leaves the queue, and that all this code does nothing but send the statements of a fixed
  list. A run may also take single statements of that list, so the properties of runs hold for every
  interleaving of the statements of concurrent handlers; properties of one request are those of a
  request that no other one overtakes. Access.thy gives that only a key with the route's scope changes the
  business tables, that a created key authenticates, and where rate limiting starts; Tenancy.thy that a request
  changes no row of another organisation than its key's, Failed\_Requests.thy that one answered with an
  error changes none at all, and Audit\_Trail.thy that one that changes anything ends with the statement that
  records it. Scheduling.thy
  gives which tasks are assigned, to whom, that a quiet round serves every idle worker, and which tasks the
  reaper takes back. Registrations.thy gives that only a registration makes a worker idle again,
  Policies.thy that two worlds which differ in the policies of organisations behave alike (a relation between
  two runs, with the locale \<open>two_runs\<close>), Responses.thy, for every endpoint, which status goes with which
  body. For the worker, the locale
  \<open>event_safety\<close> (Worker\_Node.thy) does the same for what is done to the outside; its interpretations
  show what an execution may send, start and write, and that nothing starts after a critical finding.
  The daemon's step relation keeps an invariant and refines an abstract machine of four phases.
  System\_Properties.thy joins the two programs: the assignment the control plane sends is the one the
  worker reads, and its report is accepted. Grid\_System.thy goes on to whole grids: in every run of the
  server with any number of workers, whose replies may be late, repeated or lost, a worker only runs what
  the table once assigned to it. Of the processes themselves: a worker is idle only after a
  valid configuration passed the checks, a server that returns has closed what it opened, its background
  loops stay within the runs, and the event loops end exactly when they are told to. Some properties
  and lemmas state how the code fails, among them that a
  long line ends the scan of an output, that manual mode never runs a task, that a resume forgets the
  mode, that a shutdown can be lost on the state machine,
  that a report overtaken by the reaper takes its task back,
  that a worker which was given a task is not given another until it is registered again, that the policies of
  organisations have no effect, that an interval of zero kills the server, and
  that an unreadable configuration is reported as an incomplete one.

  \<^bold>\<open>Bounds.\<close> Integers of fixed width that can wrap are words (the advisory lock key, frame lengths,
  SHA-256); times and durations are integers of nanoseconds, columns of type \<open>int4\<close> are checked where
  they are written. No definition runs on fuel: loops of the code are structural recursion or have a
  decreasing measure; loops over what the outside sends are partial functions with the value \<open>None\<close> for a
  loop that never ends, or, where a property is about single turns, a list of their turns.

  \<^bold>\<open>Not modelled.\<close> Six of the seven queries of \<^verbatim>\<open>dashboard/snapshot.go\<close> are methods the store does not
  have, so the file does not compile; its goroutines are modelled over the queries as parameters. Parsing of
  flags, usage texts, log lines, the request logger, and the named pipe of Windows are calls of libraries. The dashboard's user interface, the tests
  and the deployment files are not Go code of the program. Goroutine scheduling inside a directory scan
  only reorders the findings, which are listed in the order of the files.
\<close>

end
